(* ===== verification/Prelude.thy ===== *)
theory Prelude
  imports "HOL-Library.Word"
begin

text \<open>
  Shared vocabulary of the development.

  A C++ call either returns, throws, or runs into undefined behaviour. The type
  \<open>'a cpp\<close> keeps the three apart, so that reading an empty \<open>Optional\<close>, the wrong member
  of a union or an element past the end of a vector is a value of the model and not an
  unspecified term. \<open>cbind\<close> sequences calls. The rest of the theory holds lemmas on
  \<open>cbind\<close>, on lists and on association lists that the component theories share, and the
  collections \<open>cpp_simps\<close> and \<open>lifetime_simps\<close>.
\<close>

named_theorems cpp_simps \<open>unfolding rules for sequenced calls\<close>
named_theorems lifetime_simps \<open>unfolding rules for object lifetimes\<close>

subsection \<open>Calls that return, throw or are undefined\<close>

text \<open>
  The exceptions the modelled code can raise or let through; a failing \<open>assert\<close>, which ends
  the program, is kept with them.
\<close>

datatype exn =
    Logic_error string
  | Runtime_error string
  | Out_of_range
  | Json_type_error
  | Json_parse_error
  | Bad_lexical_cast
  | Format_error
  | Assertion_failed

datatype 'a cpp =
    Ret 'a
  | Throw exn
  | UB

fun cbind :: "'a cpp \<Rightarrow> ('a \<Rightarrow> 'b cpp) \<Rightarrow> 'b cpp" where
  "cbind (Ret x) f = f x"
| "cbind (Throw e) f = Throw e"
| "cbind UB f = UB"

definition cmap :: "('a \<Rightarrow> 'b) \<Rightarrow> 'a cpp \<Rightarrow> 'b cpp" where
  "cmap f m = cbind m (\<lambda>x. Ret (f x))"

text \<open>Dereferencing a possibly absent object: absent is undefined behaviour.\<close>

definition deref :: "'a option \<Rightarrow> 'a cpp" where
  "deref x = (case x of None \<Rightarrow> UB | Some v \<Rightarrow> Ret v)"

definition returns :: "'a cpp \<Rightarrow> bool" where
  "returns m \<longleftrightarrow> (case m of Ret _ \<Rightarrow> True | _ \<Rightarrow> False)"

lemma cbind_eq_Ret:
  "cbind m f = Ret y \<longleftrightarrow> (\<exists>x. m = Ret x \<and> f x = Ret y)"
  by (cases m) auto

lemma cbind_eq_UB:
  "cbind m f = UB \<longleftrightarrow> m = UB \<or> (\<exists>x. m = Ret x \<and> f x = UB)"
  by (cases m) auto

lemma cbind_eq_Throw:
  "cbind m f = Throw e \<longleftrightarrow> m = Throw e \<or> (\<exists>x. m = Ret x \<and> f x = Throw e)"
  by (cases m) auto

lemma cbind_assoc [simp]: "cbind (cbind m f) g = cbind m (\<lambda>x. cbind (f x) g)"
  by (cases m) auto

lemma cbind_Ret_right [simp]: "cbind m Ret = m"
  by (cases m) auto

lemma deref_simps [simp, cpp_simps]: "deref None = UB" "deref (Some v) = Ret v"
  by (simp_all add: deref_def)

lemma deref_eq_Ret [simp]: "deref x = Ret v \<longleftrightarrow> x = Some v"
  by (cases x) auto

lemma deref_eq_UB [simp]: "deref x = UB \<longleftrightarrow> x = None"
  by (cases x) auto

lemma returns_simps [simp]: "returns (Ret x)" "\<not> returns (Throw e)" "\<not> returns UB"
  by (simp_all add: returns_def)

lemma returnsE:
  assumes "returns m"
  obtains x where "m = Ret x"
  using assms by (cases m) auto

lemma returns_iff: "returns m \<longleftrightarrow> (\<exists>x. m = Ret x)"
  by (cases m) auto

declare cbind_eq_Ret [cpp_simps] cbind_eq_UB [cpp_simps] cbind_eq_Throw [cpp_simps]

subsection \<open>Traversals\<close>

text \<open>A range-based for loop whose body is a call.\<close>

fun cfold :: "('a \<Rightarrow> 's \<Rightarrow> 's cpp) \<Rightarrow> 'a list \<Rightarrow> 's \<Rightarrow> 's cpp" where
  "cfold f [] s = Ret s"
| "cfold f (x # xs) s = cbind (f x s) (cfold f xs)"

fun cmapM :: "('a \<Rightarrow> 'b cpp) \<Rightarrow> 'a list \<Rightarrow> 'b list cpp" where
  "cmapM f [] = Ret []"
| "cmapM f (x # xs) = cbind (f x) (\<lambda>y. cbind (cmapM f xs) (\<lambda>ys. Ret (y # ys)))"

lemma cmapM_map_Ret: "(\<And>x. x \<in> set xs \<Longrightarrow> f (g x) = Ret (h x)) \<Longrightarrow> cmapM f (map g xs) = Ret (map h xs)"
  by (induction xs) auto

lemma cmapM_length: "cmapM f xs = Ret ys \<Longrightarrow> length ys = length xs"
  by (induction xs arbitrary: ys) (auto simp: cbind_eq_Ret)

lemma cfold_append: "cfold f (xs @ ys) s = cbind (cfold f xs s) (cfold f ys)"
proof (induction xs arbitrary: s)
  case (Cons x xs)
  then show ?case by (cases "f x s") auto
qed simp

text \<open>An invariant of the loop body is an invariant of the loop.\<close>

lemma cfold_invariant:
  assumes "\<And>x s. x \<in> set xs \<Longrightarrow> I s \<Longrightarrow> \<exists>s'. f x s = Ret s' \<and> I s'"
    and "I s"
  shows "\<exists>s'. cfold f xs s = Ret s' \<and> I s'"
  using assms
proof (induction xs arbitrary: s)
  case (Cons x xs)
  then obtain s1 where "f x s = Ret s1" "I s1" by fastforce
  moreover from Cons.IH [OF _ \<open>I s1\<close>] Cons.prems(1)
  have "\<exists>s'. cfold f xs s1 = Ret s' \<and> I s'" by simp
  ultimately show ?case by simp
qed simp

subsection \<open>Erasing the first match\<close>

text \<open>\<open>std::find_if\<close> followed by \<open>vector::erase\<close> when something was found.\<close>

fun erase_first :: "('a \<Rightarrow> bool) \<Rightarrow> 'a list \<Rightarrow> 'a list" where
  "erase_first p [] = []"
| "erase_first p (x # xs) = (if p x then xs else x # erase_first p xs)"

lemma set_erase_first: "set (erase_first p xs) \<subseteq> set xs"
  by (induction xs) auto

lemma length_erase_first: "length (erase_first p xs) \<le> length xs"
  by (induction xs) auto

lemma length_erase_first_match:
  "x \<in> set xs \<Longrightarrow> p x \<Longrightarrow> Suc (length (erase_first p xs)) = length xs"
  by (induction xs) auto

lemma erase_first_id: "(\<And>x. x \<in> set xs \<Longrightarrow> \<not> p x) \<Longrightarrow> erase_first p xs = xs"
  by (induction xs) auto

subsection \<open>Association lists with unique keys\<close>

text \<open>
  Ordered and unordered maps of the source are association lists; \<open>put\<close> is
  \<open>m[k] = v\<close> (overwrite in place or append), \<open>del\<close> is \<open>m.erase(k)\<close>.
\<close>

fun put :: "'k \<Rightarrow> 'v \<Rightarrow> ('k \<times> 'v) list \<Rightarrow> ('k \<times> 'v) list" where
  "put k v [] = [(k, v)]"
| "put k v ((k', v') # m) = (if k' = k then (k, v) # m else (k', v') # put k v m)"

definition del :: "'k \<Rightarrow> ('k \<times> 'v) list \<Rightarrow> ('k \<times> 'v) list" where
  "del k m = filter (\<lambda>e. fst e \<noteq> k) m"

lemma map_of_put [simp]: "map_of (put k v m) = (map_of m)(k \<mapsto> v)"
  by (induction m rule: put.induct) (auto simp: fun_eq_iff)

lemma keys_put: "fst ` set (put k v m) = insert k (fst ` set m)"
  by (induction m rule: put.induct) auto

lemma distinct_put [simp]: "distinct (map fst m) \<Longrightarrow> distinct (map fst (put k v m))"
proof (induction k v m rule: put.induct)
  case (2 k v k' v' m)
  then show ?case using keys_put [of k v m] by (auto simp: image_iff)
qed simp

lemma map_of_del [simp]: "map_of (del k m) = (map_of m)(k := None)"
  unfolding del_def by (induction m) (auto simp: fun_eq_iff)

lemma distinct_del [simp]: "distinct (map fst m) \<Longrightarrow> distinct (map fst (del k m))"
  by (induction m) (auto simp: del_def)

lemma keys_del: "fst ` set (del k m) = fst ` set m - {k}"
  by (auto simp: del_def)

end
