(* ===== verification/Float64.thy ===== *)
theory Float64
  imports Prelude
begin

text \<open>
  The floating point numbers of the source, kept as the IEEE-754 bit patterns the target
  stores: \<open>double\<close> is a 64-bit and \<open>float32\<close> a 32-bit word.
  Comparison follows IEEE (no NaN compares equal to or below anything, the two zeros are
  equal), and the only arithmetic the modelled code performs (an integer divided by a power
  of ten, conversions between the two widths) rounds to nearest, ties to even.
\<close>

type_synonym double = "64 word"
type_synonym float32 = "32 word"

subsection \<open>Comparison\<close>

definition dbl_mag :: "double \<Rightarrow> nat" where
  "dbl_mag x = unat x mod 2 ^ 63"

definition dbl_neg :: "double \<Rightarrow> bool" where
  "dbl_neg x \<longleftrightarrow> 2 ^ 63 \<le> unat x"

definition dbl_nan :: "double \<Rightarrow> bool" where
  "dbl_nan x \<longleftrightarrow> 2047 * 2 ^ 52 < dbl_mag x"

definition dbl_key :: "double \<Rightarrow> int" where
  "dbl_key x = (if dbl_neg x then - int (dbl_mag x) else int (dbl_mag x))"

definition dbl_less :: "double \<Rightarrow> double \<Rightarrow> bool" where
  "dbl_less x y \<longleftrightarrow> \<not> dbl_nan x \<and> \<not> dbl_nan y \<and> dbl_key x < dbl_key y"

definition dbl_eq :: "double \<Rightarrow> double \<Rightarrow> bool" where
  "dbl_eq x y \<longleftrightarrow> \<not> dbl_nan x \<and> \<not> dbl_nan y \<and> dbl_key x = dbl_key y"

lemma dbl_less_irrefl [simp]: "\<not> dbl_less x x"
  by (simp add: dbl_less_def)

lemma dbl_less_trans: "dbl_less x y \<Longrightarrow> dbl_less y z \<Longrightarrow> dbl_less x z"
  by (auto simp: dbl_less_def)

lemma dbl_less_asym: "dbl_less x y \<Longrightarrow> \<not> dbl_less y x"
  by (auto simp: dbl_less_def)

lemma dbl_trichotomy:
  "\<not> dbl_nan x \<Longrightarrow> \<not> dbl_nan y \<Longrightarrow> dbl_less x y \<or> dbl_eq x y \<or> dbl_less y x"
  by (auto simp: dbl_less_def dbl_eq_def)

lemma dbl_eq_refl_iff: "dbl_eq x x \<longleftrightarrow> \<not> dbl_nan x"
  by (simp add: dbl_eq_def)

lemma dbl_eq_sym: "dbl_eq x y \<Longrightarrow> dbl_eq y x"
  by (simp add: dbl_eq_def)

lemma dbl_eq_trans: "dbl_eq x y \<Longrightarrow> dbl_eq y z \<Longrightarrow> dbl_eq x z"
  by (simp add: dbl_eq_def)

subsection \<open>Rounding\<close>

fun bitlen :: "nat \<Rightarrow> nat" where
  "bitlen n = (if n = 0 then 0 else Suc (bitlen (n div 2)))"

declare bitlen.simps [simp del]

text \<open>Round \<open>n / d\<close> to an integer, ties to even.\<close>

definition round_even :: "nat \<Rightarrow> nat \<Rightarrow> nat" where
  "round_even n d =
     (let q = n div d; r = n mod d
      in if 2 * r < d then q
         else if 2 * r > d then q + 1
         else if even q then q else q + 1)"

text \<open>The exponent \<open>e\<close> with \<open>2 ^ e \<le> n / d < 2 ^ (e + 1)\<close>, for positive \<open>n\<close> and \<open>d\<close>.\<close>

definition exponent_of :: "nat \<Rightarrow> nat \<Rightarrow> int" where
  "exponent_of n d =
     (let e = int (bitlen n) - int (bitlen d)
      in if d * 2 ^ nat e \<le> n * 2 ^ nat (- e) then e else e - 1)"

text \<open>
  The magnitude bits of \<open>n / d\<close> in a binary format with \<open>p\<close> significant bits, smallest
  quantum \<open>2 ^ qmin\<close> and infinity encoded as \<open>infb\<close>. Subnormal, normal and carried
  mantissas share one encoding: \<open>m + (q - qmin) * 2 ^ (p - 1)\<close>.
\<close>

definition round_bits :: "nat \<Rightarrow> int \<Rightarrow> nat \<Rightarrow> nat \<Rightarrow> nat \<Rightarrow> nat" where
  "round_bits p qmin infb n d =
     (if n = 0 then 0
      else let q = max qmin (exponent_of n d - int p + 1);
               m = round_even (n * 2 ^ nat (- q)) (d * 2 ^ nat q);
               b = m + nat (q - qmin) * 2 ^ (p - 1)
           in if infb \<le> b then infb else b)"

definition dbl_of_ratio :: "bool \<Rightarrow> nat \<Rightarrow> nat \<Rightarrow> double" where
  "dbl_of_ratio neg n d =
     word_of_nat ((if neg then 2 ^ 63 else 0) + round_bits 53 (-1074) (2047 * 2 ^ 52) n d)"

definition flt_of_ratio :: "bool \<Rightarrow> nat \<Rightarrow> nat \<Rightarrow> float32" where
  "flt_of_ratio neg n d =
     word_of_nat ((if neg then 2 ^ 31 else 0) + round_bits 24 (-149) (255 * 2 ^ 23) n d)"

text \<open>
  \<open>i / 1E7\<close> and its kin: the integer fits a double exactly, so IEEE division is the
  correctly rounded quotient.
\<close>

definition int_div_dbl :: "int \<Rightarrow> nat \<Rightarrow> double" where
  "int_div_dbl i d = dbl_of_ratio (i < 0) (nat \<bar>i\<bar>) d"

definition dbl_of_int :: "int \<Rightarrow> double" where
  "dbl_of_int i = int_div_dbl i 1"

text \<open>
  The conversion of a \<open>double\<close> to a \<open>float\<close>. C++ leaves the payload of a converted NaN
  open; the model uses the quiet NaN.
\<close>

definition float_of_dbl :: "double \<Rightarrow> float32" where
  "float_of_dbl x =
     (let s = (if dbl_neg x then 2 ^ 31 else 0 :: nat); u = dbl_mag x; e = u div 2 ^ 52
      in if dbl_nan x then word_of_nat (s + 255 * 2 ^ 23 + 2 ^ 22)
         else if e = 2047 then word_of_nat (s + 255 * 2 ^ 23)
         else if e = 0 then flt_of_ratio (dbl_neg x) u (2 ^ 1074)
         else flt_of_ratio (dbl_neg x) ((u mod 2 ^ 52 + 2 ^ 52) * 2 ^ (e - 1075)) (2 ^ (1075 - e)))"

definition dbl_of_float :: "float32 \<Rightarrow> double" where
  "dbl_of_float x =
     (let neg = 2 ^ 31 \<le> unat x; u = unat x mod 2 ^ 31; e = u div 2 ^ 23; m = u mod 2 ^ 23
      in if e = 255 then word_of_nat ((if neg then 2 ^ 63 else 0) + 2047 * 2 ^ 52 + m * 2 ^ 29)
         else if e = 0 then dbl_of_ratio neg m (2 ^ 149)
         else dbl_of_ratio neg ((m + 2 ^ 23) * 2 ^ (e - 150)) (2 ^ (150 - e)))"

lemmas rounding_defs =
  int_div_dbl_def dbl_of_int_def dbl_of_ratio_def flt_of_ratio_def round_bits_def exponent_of_def
  round_even_def float_of_dbl_def dbl_of_float_def dbl_neg_def dbl_mag_def dbl_nan_def Let_def

text \<open>Known bit patterns: 0.1, 1.0, -2.5 and the float nearest to 0.1.\<close>

lemma dbl_tenth: "int_div_dbl 1 10 = 0x3FB999999999999A"
  by (simp add: rounding_defs bitlen.simps)

lemma dbl_one: "dbl_of_int 1 = 0x3FF0000000000000"
  by (simp add: rounding_defs bitlen.simps)

lemma dbl_minus_two_half: "int_div_dbl (-25) 10 = 0xC004000000000000"
  by (simp add: rounding_defs bitlen.simps)

lemma float_of_tenth: "float_of_dbl (int_div_dbl 1 10) = 0x3DCCCCCD"
  unfolding dbl_tenth by (simp add: rounding_defs bitlen.simps)

end
