(* ===== verification/Variant.thy ===== *)
theory Variant
  imports Prelude
begin

text \<open>
  Hand-written discriminated unions.

  \<open>Geometry\<close>, \<open>Token\<close>, \<open>RuleSet::Feature::Value\<close>, \<open>Error::Value\<close> and \<open>Airspace\<close> all keep a
  type tag next to a raw union, create members with placement new and end them with explicit
  destructor calls. \<open>uobj\<close> is such an object: the tag, the union member that is alive
  (\<open>None\<close> is raw storage), and a ghost list of the members whose storage was reused or
  abandoned without running their destructor. \<open>place\<close> is placement new, \<open>destroy_as\<close> an
  explicit destructor call on one member, \<open>read_as\<close> an access to one member; the last two are
  undefined unless exactly that member is alive.

  The locale \<open>tagged_union\<close> is the contract of the copy operations of such a class. Its
  lemmas treat assignment between the objects of a store, so that self-assignment is covered.
\<close>

record ('t, 'p) uobj =
  utag :: 't
  ucont :: "'p option"
  uleak :: "'p list"

text \<open>An object whose constructor has set the tag and not yet created a member.\<close>

definition raw :: "'t \<Rightarrow> ('t, 'p) uobj" where
  "raw t = \<lparr>utag = t, ucont = None, uleak = []\<rparr>"

definition place :: "('p \<Rightarrow> bool) \<Rightarrow> 'p \<Rightarrow> ('t, 'p) uobj \<Rightarrow> ('t, 'p) uobj" where
  "place trivial p ob =
     ob\<lparr>ucont := Some p,
        uleak := (case ucont ob of
                    None \<Rightarrow> uleak ob
                  | Some q \<Rightarrow> if trivial q then uleak ob else q # uleak ob)\<rparr>"

definition destroy_as :: "('p \<Rightarrow> 't) \<Rightarrow> 't \<Rightarrow> ('t, 'p) uobj \<Rightarrow> ('t, 'p) uobj cpp" where
  "destroy_as kind t ob =
     (case ucont ob of
        None \<Rightarrow> UB
      | Some p \<Rightarrow> if kind p = t then Ret (ob\<lparr>ucont := None\<rparr>) else UB)"

definition read_as :: "('p \<Rightarrow> 't) \<Rightarrow> 't \<Rightarrow> ('t, 'p) uobj \<Rightarrow> 'p cpp" where
  "read_as kind t ob =
     (case ucont ob of
        None \<Rightarrow> UB
      | Some p \<Rightarrow> if kind p = t then Ret p else UB)"

text \<open>The value an object denotes: nothing when the tag says so, else the live member.\<close>

definition uval :: "'t \<Rightarrow> ('t, 'p) uobj \<Rightarrow> 'p option" where
  "uval none ob = (if utag ob = none then None else ucont ob)"

definition uwf :: "'t \<Rightarrow> ('p \<Rightarrow> 't) \<Rightarrow> ('p \<Rightarrow> bool) \<Rightarrow> ('t, 'p) uobj \<Rightarrow> bool" where
  "uwf none kind trivial ob \<longleftrightarrow>
     (if utag ob = none then (case ucont ob of None \<Rightarrow> True | Some p \<Rightarrow> trivial p)
      else (case ucont ob of None \<Rightarrow> False | Some p \<Rightarrow> kind p = utag ob))"

lemmas uobj_defs [lifetime_simps] = raw_def place_def destroy_as_def read_as_def uval_def uwf_def

lemma uwf_raw [simp]: "uwf none kind trivial (raw none)"
  by (simp add: uwf_def raw_def)

lemma uval_raw [simp]: "uval none (raw none) = None"
  by (simp add: uval_def raw_def)

lemma uleak_raw [simp]: "uleak (raw t) = []"
  by (simp add: raw_def)

lemma utag_raw [simp]: "utag (raw t) = t"
  by (simp add: raw_def)

text \<open>One case each for destroying, reading and placing on a well-formed object.\<close>

lemma uwf_destroy:
  "uwf none kind trivial ob \<Longrightarrow> utag ob \<noteq> none \<Longrightarrow>
   destroy_as kind (utag ob) ob = Ret (ob\<lparr>ucont := None\<rparr>)"
  by (auto simp: uwf_def destroy_as_def split: option.splits)

lemma uwf_read:
  assumes "uwf none kind trivial ob" "utag ob \<noteq> none"
  obtains p where "read_as kind (utag ob) ob = Ret p" "kind p = utag ob" "uval none ob = Some p"
  using assms by (auto simp: uwf_def read_as_def uval_def split: option.splits)

lemma uwf_place:
  assumes "uwf none kind trivial ob" "utag ob = none" "kind p \<noteq> none"
  shows "uwf none kind trivial (place trivial p (ob\<lparr>utag := kind p\<rparr>)) \<and>
         uval none (place trivial p (ob\<lparr>utag := kind p\<rparr>)) = Some p \<and>
         uleak (place trivial p (ob\<lparr>utag := kind p\<rparr>)) = uleak ob"
  using assms by (auto simp: uwf_def place_def uval_def split: option.splits)

subsection \<open>Assignment in a store of objects\<close>

text \<open>
  \<open>operator=\<close> in these classes is \<open>return destruct().construct(other)\<close>: the destination is
  destroyed before the source is read, and both may be the same object.
\<close>

type_synonym ('t, 'p) store = "nat \<Rightarrow> ('t, 'p) uobj"

definition assign_op ::
  "(('t, 'p) uobj \<Rightarrow> ('t, 'p) uobj cpp) \<Rightarrow>
   (('t, 'p) uobj \<Rightarrow> ('t, 'p) uobj \<Rightarrow> ('t, 'p) uobj cpp) \<Rightarrow>
   ('t, 'p) store \<Rightarrow> nat \<Rightarrow> nat \<Rightarrow> ('t, 'p) store cpp" where
  "assign_op destruct construct st dst src =
     cbind (destruct (st dst)) (\<lambda>ob.
       let st1 = st(dst := ob)
       in cbind (construct (st1 dst) (st1 src)) (\<lambda>ob'. Ret (st1(dst := ob'))))"

fun assign_all ::
  "(('t, 'p) uobj \<Rightarrow> ('t, 'p) uobj cpp) \<Rightarrow>
   (('t, 'p) uobj \<Rightarrow> ('t, 'p) uobj \<Rightarrow> ('t, 'p) uobj cpp) \<Rightarrow>
   (nat \<times> nat) list \<Rightarrow> ('t, 'p) store \<Rightarrow> ('t, 'p) store cpp" where
  "assign_all destruct construct [] st = Ret st"
| "assign_all destruct construct ((dst, src) # as) st =
     cbind (assign_op destruct construct st dst src) (assign_all destruct construct as)"

text \<open>What the assignments amount to on the denoted values.\<close>

fun assign_values :: "(nat \<times> nat) list \<Rightarrow> (nat \<Rightarrow> 'p option) \<Rightarrow> (nat \<Rightarrow> 'p option)" where
  "assign_values [] v = v"
| "assign_values ((dst, src) # as) v = assign_values as (v(dst := v src))"

locale tagged_union =
  fixes none :: 't
    and kind :: "'p \<Rightarrow> 't"
    and trivial :: "'p \<Rightarrow> bool"
    and destruct :: "('t, 'p) uobj \<Rightarrow> ('t, 'p) uobj cpp"
    and construct :: "('t, 'p) uobj \<Rightarrow> ('t, 'p) uobj \<Rightarrow> ('t, 'p) uobj cpp"
  assumes destruct_ok:
    "uwf none kind trivial ob \<Longrightarrow>
       \<exists>ob'. destruct ob = Ret ob' \<and> utag ob' = none \<and> uwf none kind trivial ob' \<and>
             uleak ob' = uleak ob"
    and construct_ok:
    "uwf none kind trivial ob \<Longrightarrow> utag ob = none \<Longrightarrow> uwf none kind trivial other \<Longrightarrow>
       \<exists>ob'. construct ob other = Ret ob' \<and> uwf none kind trivial ob' \<and>
             uval none ob' = uval none other \<and> uleak ob' = uleak ob"
begin

lemma copy_construct:
  assumes "uwf none kind trivial other"
  shows "\<exists>ob. construct (raw none) other = Ret ob \<and> uwf none kind trivial ob \<and>
              uval none ob = uval none other \<and> uleak ob = []"
  using construct_ok [of "raw none" other] assms by simp

lemma assign_distinct:
  assumes wf: "\<And>i. uwf none kind trivial (st i)" and "dst \<noteq> src"
  shows "\<exists>st'. assign_op destruct construct st dst src = Ret st' \<and>
               (\<forall>i. uwf none kind trivial (st' i)) \<and>
               (\<forall>i. uval none (st' i) = ((\<lambda>i. uval none (st i))(dst := uval none (st src))) i) \<and>
               (\<forall>i. uleak (st' i) = uleak (st i))"
proof -
  from destruct_ok [OF wf [of dst]] obtain d where d:
    "destruct (st dst) = Ret d" "utag d = none" "uwf none kind trivial d" "uleak d = uleak (st dst)"
    by blast
  from construct_ok [OF d(3) d(2) wf [of src]] obtain c where c:
    "construct d (st src) = Ret c" "uwf none kind trivial c" "uval none c = uval none (st src)"
    "uleak c = uleak d" by blast
  have "assign_op destruct construct st dst src = Ret (st(dst := c))"
    using d c \<open>dst \<noteq> src\<close> by (simp add: assign_op_def)
  moreover have "\<forall>i. uwf none kind trivial ((st(dst := c)) i)" using wf c by simp
  ultimately show ?thesis using c d by (intro exI [of _ "st(dst := c)"]) simp
qed

text \<open>Assigning an object to itself destroys it first and then copies nothing.\<close>

lemma assign_self_forgets:
  assumes "uwf none kind trivial (st i)"
  shows "\<exists>st'. assign_op destruct construct st i i = Ret st' \<and> uval none (st' i) = None \<and>
               uwf none kind trivial (st' i) \<and> uleak (st' i) = uleak (st i)"
proof -
  from destruct_ok [OF assms] obtain d where d:
    "destruct (st i) = Ret d" "utag d = none" "uwf none kind trivial d" "uleak d = uleak (st i)"
    by blast
  from construct_ok [OF d(3,2,3)] obtain c where c:
    "construct d d = Ret c" "uwf none kind trivial c" "uval none c = uval none d"
    "uleak c = uleak d" by blast
  have "assign_op destruct construct st i i = Ret (st(i := c))"
    using d c by (simp add: assign_op_def)
  then show ?thesis using c d by (intro exI [of _ "st(i := c)"]) (simp add: uval_def)
qed

text \<open>Any sequence of assignments between distinct objects acts on the values alone.\<close>

lemma assign_all_refines:
  assumes "\<And>i. uwf none kind trivial (st i)" and "\<forall>(d, s) \<in> set as. d \<noteq> s"
  shows "\<exists>st'. assign_all destruct construct as st = Ret st' \<and>
               (\<forall>i. uwf none kind trivial (st' i)) \<and>
               (\<lambda>i. uval none (st' i)) = assign_values as (\<lambda>i. uval none (st i)) \<and>
               (\<forall>i. uleak (st' i) = uleak (st i))"
  using assms
proof (induction as arbitrary: st)
  case (Cons a as)
  obtain d s where a: "a = (d, s)" by (cases a)
  with Cons.prems(2) have "d \<noteq> s" by simp
  from assign_distinct [of st d s] Cons.prems(1) this obtain st1 where st1:
    "assign_op destruct construct st d s = Ret st1"
    "\<forall>i. uwf none kind trivial (st1 i)"
    "\<forall>i. uval none (st1 i) = ((\<lambda>i. uval none (st i))(d := uval none (st s))) i"
    "\<forall>i. uleak (st1 i) = uleak (st i)" by blast
  from Cons.IH [of st1] st1(2) Cons.prems(2) obtain st2 where st2:
    "assign_all destruct construct as st1 = Ret st2"
    "\<forall>i. uwf none kind trivial (st2 i)"
    "(\<lambda>i. uval none (st2 i)) = assign_values as (\<lambda>i. uval none (st1 i))"
    "\<forall>i. uleak (st2 i) = uleak (st1 i)" by auto
  from st1(3) have "(\<lambda>i. uval none (st1 i)) = (\<lambda>i. uval none (st i))(d := uval none (st s))"
    by (simp add: fun_eq_iff)
  with st1 st2 a show ?case by simp
qed simp

end

end
