(* ===== verification/Optional_Outcome.thy ===== *)
theory Optional_Outcome
  imports Variant
begin

text \<open>
  \<open>Optional<T>\<close> (include/airmap/optional.h) and \<open>Outcome<Value, Error>\<close>
  (include/airmap/outcome.h): a flag or tag next to a raw union, modelled on the lifetimes of
  theory Variant. The element type's destructor may be trivial (parameter \<open>triv\<close>).
  \<open>opt_value\<close> and \<open>outcome_value\<close> are the abstract values; the lemmas show which operations
  implement \<open>'a option\<close> and \<open>'e + 'v\<close>, and where they do not (self-assignment, equality of
  two empty optionals, the default value every constructor of \<open>Outcome\<close> abandons).
\<close>

subsection \<open>Optional\<close>

type_synonym 'a optional_obj = "(bool, 'a) uobj"

definition opt_default :: "'a optional_obj" where
  "opt_default = raw False"

definition opt_of_value :: "('a \<Rightarrow> bool) \<Rightarrow> 'a \<Rightarrow> 'a optional_obj" where
  "opt_of_value triv v = place triv v (raw True)"

text \<open>\<open>get\<close> returns \<open>storage.value\<close> without looking at \<open>has_value\<close>.\<close>

definition opt_get :: "'a optional_obj \<Rightarrow> 'a cpp" where
  "opt_get ob = read_as (\<lambda>_. True) True ob"

definition opt_copy :: "('a \<Rightarrow> bool) \<Rightarrow> 'a optional_obj \<Rightarrow> 'a optional_obj cpp" where
  "opt_copy triv other =
     (if utag other then cbind (opt_get other) (\<lambda>v. Ret (place triv v (raw True)))
      else Ret (raw False))"

definition opt_reset :: "'a optional_obj \<Rightarrow> 'a optional_obj cpp" where
  "opt_reset ob =
     cbind (if utag ob then destroy_as (\<lambda>_. True) True ob else Ret ob)
       (\<lambda>ob1. Ret (ob1\<lparr>utag := False\<rparr>))"

text \<open>\<open>set(value)\<close> takes a reference: \<open>look\<close> is the read through it, after \<open>reset\<close>.\<close>

definition opt_set :: "('a \<Rightarrow> bool) \<Rightarrow> ('a optional_obj \<Rightarrow> 'a cpp) \<Rightarrow> 'a optional_obj \<Rightarrow> 'a optional_obj cpp" where
  "opt_set triv look ob =
     cbind (opt_reset ob) (\<lambda>ob1.
       let ob2 = ob1\<lparr>utag := True\<rparr>
       in cbind (look ob2) (\<lambda>v. Ret (place triv v ob2)))"

definition opt_assign ::
  "('a \<Rightarrow> bool) \<Rightarrow> (bool, 'a) store \<Rightarrow> nat \<Rightarrow> nat \<Rightarrow> (bool, 'a) store cpp" where
  "opt_assign triv st dst src =
     cbind (if utag (st src)
            then opt_set triv (\<lambda>self. opt_get (if src = dst then self else st src)) (st dst)
            else opt_reset (st dst))
       (\<lambda>ob. Ret (st(dst := ob)))"

definition opt_bool :: "'a optional_obj \<Rightarrow> bool" where
  "opt_bool ob = utag ob"

definition opt_eq :: "('a \<Rightarrow> 'a \<Rightarrow> bool) \<Rightarrow> 'a optional_obj \<Rightarrow> 'a optional_obj \<Rightarrow> bool cpp" where
  "opt_eq eq a b =
     (if utag a \<noteq> utag b then Ret False
      else if \<not> utag a then Ret False
      else cbind (opt_get a) (\<lambda>x. cbind (opt_get b) (\<lambda>y. Ret (eq x y))))"

lemmas optional_defs [lifetime_simps] =
  opt_default_def opt_of_value_def opt_get_def opt_copy_def opt_reset_def opt_set_def
  opt_assign_def opt_bool_def opt_eq_def

abbreviation opt_wf :: "('a \<Rightarrow> bool) \<Rightarrow> 'a optional_obj \<Rightarrow> bool" where
  "opt_wf triv \<equiv> uwf False (\<lambda>_. True) triv"

abbreviation opt_value :: "'a optional_obj \<Rightarrow> 'a option" where
  "opt_value \<equiv> uval False"

lemma opt_wf_cases:
  assumes "opt_wf triv ob"
  obtains (empty) "utag ob = False" "opt_value ob = None"
    | (full) v where "utag ob = True" "ucont ob = Some v" "opt_value ob = Some v"
  using assms by (auto simp: lifetime_simps split: option.splits if_splits)

lemma opt_bool_iff: "opt_wf triv ob \<Longrightarrow> opt_bool ob \<longleftrightarrow> opt_value ob \<noteq> None"
  by (auto elim!: opt_wf_cases simp: opt_bool_def)

lemma opt_get_value: "opt_wf triv ob \<Longrightarrow> opt_value ob = Some v \<Longrightarrow> opt_get ob = Ret v"
  by (auto simp: lifetime_simps split: option.splits if_splits)

lemma opt_of_value_ok:
  "opt_wf triv (opt_of_value triv v) \<and> opt_value (opt_of_value triv v) = Some v \<and>
   uleak (opt_of_value triv v) = []"
  by (simp add: lifetime_simps)

lemma opt_reset_eq:
  "opt_wf triv ob \<Longrightarrow>
   opt_reset ob = Ret (ob\<lparr>utag := False, ucont := (if utag ob then None else ucont ob)\<rparr>)"
  by (cases ob) (auto simp: lifetime_simps split: option.splits if_splits)

lemma opt_reset_ok:
  assumes "opt_wf triv ob"
  shows "\<exists>ob'. opt_reset ob = Ret ob' \<and> opt_wf triv ob' \<and> opt_value ob' = None \<and>
               uleak ob' = uleak ob"
  using assms by (auto simp: opt_reset_eq uwf_def uval_def split: option.splits if_splits)

text \<open>The value an assignment of any wording (copy, move or from a \<open>T\<close>) leaves behind.\<close>

lemma opt_set_ok:
  assumes wf: "opt_wf triv ob" and look: "\<And>ob2. look ob2 = Ret v"
  shows "\<exists>ob'. opt_set triv look ob = Ret ob' \<and> opt_wf triv ob' \<and> opt_value ob' = Some v \<and>
               uleak ob' = uleak ob"
proof -
  have "opt_set triv look ob =
      Ret (place triv v (ob\<lparr>ucont := (if utag ob then None else ucont ob), utag := True\<rparr>))"
    by (simp add: opt_set_def opt_reset_eq [OF wf] look Let_def)
  then show ?thesis
    using wf by (auto simp: place_def uwf_def uval_def split: option.splits if_splits)
qed

lemma opt_assign_distinct:
  assumes "opt_wf triv (st dst)" "opt_wf triv (st src)" "dst \<noteq> src"
  shows "\<exists>ob. opt_assign triv st dst src = Ret (st(dst := ob)) \<and> opt_wf triv ob \<and>
              opt_value ob = opt_value (st src) \<and> uleak ob = uleak (st dst)"
proof (cases "opt_value (st src)")
  case None
  with assms(2) have "\<not> utag (st src)" by (auto elim: opt_wf_cases)
  with opt_reset_ok [OF assms(1)] None show ?thesis by (auto simp: opt_assign_def)
next
  case (Some v)
  with assms(2) have "utag (st src)" by (auto elim: opt_wf_cases)
  moreover from opt_get_value [OF assms(2) Some] assms(3)
  have "\<And>self. opt_get (if src = dst then self else st src) = Ret v" by simp
  from opt_set_ok [OF assms(1), of "\<lambda>self. opt_get (if src = dst then self else st src)", OF this]
  have "\<exists>ob'. opt_set triv (\<lambda>self. opt_get (if src = dst then self else st src)) (st dst) = Ret ob' \<and>
      opt_wf triv ob' \<and> opt_value ob' = Some v \<and> uleak ob' = uleak (st dst)" .
  ultimately show ?thesis using Some by (auto simp: opt_assign_def)
qed

text \<open>\<open>o = o\<close> on an engaged optional copies from the value it has just destroyed.\<close>

lemma opt_assign_self_engaged:
  "opt_wf triv (st i) \<Longrightarrow> opt_value (st i) \<noteq> None \<Longrightarrow> opt_assign triv st i i = UB"
  by (auto simp: lifetime_simps split: option.splits if_splits)

text \<open>Equality at the level of values: two absent values do not compare equal.\<close>

fun cpp_opt_eq :: "('a \<Rightarrow> 'a \<Rightarrow> bool) \<Rightarrow> 'a option \<Rightarrow> 'a option \<Rightarrow> bool" where
  "cpp_opt_eq eq (Some x) (Some y) = eq x y"
| "cpp_opt_eq eq _ _ = False"

lemma opt_eq_value:
  "opt_wf triv a \<Longrightarrow> opt_wf triv b \<Longrightarrow>
   opt_eq eq a b = Ret (cpp_opt_eq eq (opt_value a) (opt_value b))"
  by (auto simp: opt_eq_def opt_get_def read_as_def uwf_def uval_def split: option.splits if_splits)

subsection \<open>Outcome\<close>

datatype outcome_type = O_value | O_error

datatype ('v, 'e) outcome_data = OValue 'v | OError 'e

fun outcome_kind :: "('v, 'e) outcome_data \<Rightarrow> outcome_type" where
  "outcome_kind (OValue _) = O_value"
| "outcome_kind (OError _) = O_error"

type_synonym ('v, 'e) outcome_obj = "(outcome_type, ('v, 'e) outcome_data) uobj"

text \<open>\<open>Data() : value{}\<close>: every constructor first creates a default \<open>Value\<close> (\<open>dflt\<close>).\<close>

definition outcome_raw :: "'v \<Rightarrow> outcome_type \<Rightarrow> ('v, 'e) outcome_obj" where
  "outcome_raw dflt t = (raw t)\<lparr>ucont := Some (OValue dflt)\<rparr>"

definition outcome_of_value :: "(('v, 'e) outcome_data \<Rightarrow> bool) \<Rightarrow> 'v \<Rightarrow> 'v \<Rightarrow> ('v, 'e) outcome_obj" where
  "outcome_of_value triv dflt v = place triv (OValue v) (outcome_raw dflt O_value)"

definition outcome_of_error :: "(('v, 'e) outcome_data \<Rightarrow> bool) \<Rightarrow> 'v \<Rightarrow> 'e \<Rightarrow> ('v, 'e) outcome_obj" where
  "outcome_of_error triv dflt e = place triv (OError e) (outcome_raw dflt O_error)"

definition outcome_copy ::
  "(('v, 'e) outcome_data \<Rightarrow> bool) \<Rightarrow> 'v \<Rightarrow> ('v, 'e) outcome_obj \<Rightarrow> ('v, 'e) outcome_obj cpp" where
  "outcome_copy triv dflt other =
     cbind (read_as outcome_kind (utag other) other)
       (\<lambda>p. Ret (place triv p (outcome_raw dflt (utag other))))"

definition outcome_assign ::
  "(('v, 'e) outcome_data \<Rightarrow> bool) \<Rightarrow> (outcome_type, ('v, 'e) outcome_data) store \<Rightarrow> nat \<Rightarrow> nat \<Rightarrow>
   (outcome_type, ('v, 'e) outcome_data) store cpp" where
  "outcome_assign triv st dst src =
     cbind (destroy_as outcome_kind (utag (st dst)) (st dst)) (\<lambda>ob.
       let st1 = st(dst := ob);
           st2 = st1(dst := (st1 dst)\<lparr>utag := utag (st1 src)\<rparr>)
       in cbind (read_as outcome_kind (utag (st2 dst)) (st2 src))
            (\<lambda>p. Ret (st2(dst := place triv p (st2 dst)))))"

definition outcome_has_error :: "('v, 'e) outcome_obj \<Rightarrow> bool" where
  "outcome_has_error ob \<longleftrightarrow> utag ob = O_error"

definition outcome_has_value :: "('v, 'e) outcome_obj \<Rightarrow> bool" where
  "outcome_has_value ob \<longleftrightarrow> utag ob = O_value"

definition outcome_error :: "('v, 'e) outcome_obj \<Rightarrow> 'e cpp" where
  "outcome_error ob =
     (case ucont ob of Some (OError e) \<Rightarrow> Ret e | _ \<Rightarrow> UB)"

definition outcome_get :: "('v, 'e) outcome_obj \<Rightarrow> 'v cpp" where
  "outcome_get ob =
     (case ucont ob of Some (OValue v) \<Rightarrow> Ret v | _ \<Rightarrow> UB)"

lemmas outcome_defs [lifetime_simps] =
  outcome_raw_def outcome_of_value_def outcome_of_error_def outcome_copy_def outcome_assign_def
  outcome_has_error_def outcome_has_value_def outcome_error_def outcome_get_def

definition outcome_wf :: "('v, 'e) outcome_obj \<Rightarrow> bool" where
  "outcome_wf ob \<longleftrightarrow> (\<exists>p. ucont ob = Some p \<and> outcome_kind p = utag ob)"

definition outcome_abs :: "('v, 'e) outcome_obj \<Rightarrow> ('e + 'v) option" where
  "outcome_abs ob =
     (case ucont ob of Some (OValue v) \<Rightarrow> Some (Inr v) | Some (OError e) \<Rightarrow> Some (Inl e) | None \<Rightarrow> None)"

lemma outcome_of_value_ok:
  "outcome_wf (outcome_of_value triv d v) \<and> outcome_abs (outcome_of_value triv d v) = Some (Inr v)"
  by (simp add: lifetime_simps outcome_wf_def outcome_abs_def)

lemma outcome_of_error_ok:
  "outcome_wf (outcome_of_error triv d e) \<and> outcome_abs (outcome_of_error triv d e) = Some (Inl e)"
  by (simp add: lifetime_simps outcome_wf_def outcome_abs_def)

lemma outcome_copy_ok:
  "outcome_wf ob \<Longrightarrow>
   \<exists>ob'. outcome_copy triv d ob = Ret ob' \<and> outcome_wf ob' \<and> outcome_abs ob' = outcome_abs ob \<and>
         uleak ob' = (if triv (OValue d) then [] else [OValue d])"
  by (auto simp: lifetime_simps outcome_wf_def outcome_abs_def)

lemma outcome_assign_ok:
  assumes "outcome_wf (st dst)" "outcome_wf (st src)" "dst \<noteq> src"
  shows "\<exists>ob. outcome_assign triv st dst src = Ret (st(dst := ob)) \<and> outcome_wf ob \<and>
              outcome_abs ob = outcome_abs (st src) \<and> uleak ob = uleak (st dst)"
  using assms by (auto simp: lifetime_simps outcome_wf_def outcome_abs_def Let_def)

lemma outcome_assign_self:
  "outcome_wf (st i) \<Longrightarrow> outcome_assign triv st i i = UB"
  by (auto simp: lifetime_simps outcome_wf_def Let_def)

lemma outcome_observers:
  assumes "outcome_wf ob"
  shows "outcome_has_value ob \<longleftrightarrow> (\<exists>v. outcome_abs ob = Some (Inr v) \<and> outcome_get ob = Ret v)"
    and "outcome_has_error ob \<longleftrightarrow> (\<exists>e. outcome_abs ob = Some (Inl e) \<and> outcome_error ob = Ret e)"
    and "outcome_has_error ob \<longleftrightarrow> \<not> outcome_has_value ob"
proof -
  from assms obtain p where p: "ucont ob = Some p" "utag ob = outcome_kind p"
    by (auto simp: outcome_wf_def)
  show "outcome_has_value ob \<longleftrightarrow> (\<exists>v. outcome_abs ob = Some (Inr v) \<and> outcome_get ob = Ret v)"
    and "outcome_has_error ob \<longleftrightarrow> (\<exists>e. outcome_abs ob = Some (Inl e) \<and> outcome_error ob = Ret e)"
    and "outcome_has_error ob \<longleftrightarrow> \<not> outcome_has_value ob"
    using p
    by (cases p; simp add: outcome_has_value_def outcome_has_error_def outcome_abs_def
        outcome_get_def outcome_error_def)+
qed

end
