(* ===== verification/Geometry.thy ===== *)
theory Geometry
  imports Float64 Optional_Outcome
begin

text \<open>
  \<open>airmap::Geometry\<close> (include/airmap/geometry.h, src/airmap/geometry.cpp): a discriminated
  union over seven GeoJSON shapes. \<open>geometry\<close> is the value a Geometry denotes and doubles as
  the payload of the union object; elements of a collection are copied by the class's own copy
  constructor and are kept as values. \<open>geometry_reset\<close> and \<open>set_geometry\<close> follow the
  source's switches, \<open>geometry_assign\<close> is \<open>operator=\<close>, and the interpretation \<open>geo\<close> shows
  that they meet the contract \<open>tagged_union\<close>.
\<close>

subsection \<open>Shapes\<close>

record coordinate =
  latitude :: double
  longitude :: double
  altitude :: "double option"
  elevation :: "double option"

record polygon_shape =
  outer_ring :: "coordinate list"
  inner_rings :: "coordinate list list"

datatype geometry_type =
    GT_invalid
  | GT_point
  | GT_multi_point
  | GT_line_string
  | GT_multi_line_string
  | GT_polygon
  | GT_multi_polygon
  | GT_geometry_collection

datatype geometry =
    G_invalid
  | G_point coordinate
  | G_multi_point "coordinate list"
  | G_line_string "coordinate list"
  | G_multi_line_string "coordinate list list"
  | G_polygon polygon_shape
  | G_multi_polygon "polygon_shape list"
  | G_collection "geometry list"

fun geometry_kind :: "geometry \<Rightarrow> geometry_type" where
  "geometry_kind G_invalid = GT_invalid"
| "geometry_kind (G_point _) = GT_point"
| "geometry_kind (G_multi_point _) = GT_multi_point"
| "geometry_kind (G_line_string _) = GT_line_string"
| "geometry_kind (G_multi_line_string _) = GT_multi_line_string"
| "geometry_kind (G_polygon _) = GT_polygon"
| "geometry_kind (G_multi_polygon _) = GT_multi_polygon"
| "geometry_kind (G_collection _) = GT_geometry_collection"

subsection \<open>The union object\<close>

text \<open>\<open>struct Invalid {}\<close> is the only member with a trivial destructor.\<close>

definition geometry_trivial :: "geometry \<Rightarrow> bool" where
  "geometry_trivial g \<longleftrightarrow> g = G_invalid"

type_synonym geometry_obj = "(geometry_type, geometry) uobj"

text \<open>\<open>Geometry() : type_{Type::invalid}\<close> with \<open>Data() : invalid{}\<close>.\<close>

definition geometry_default :: geometry_obj where
  "geometry_default = (raw GT_invalid)\<lparr>ucont := Some G_invalid\<rparr>"

text \<open>
  \<open>set_point\<close> to \<open>set_geometry_collection\<close>: the tag first, then placement new of the member;
  the payload's constructor says which of the seven setters runs.
\<close>

definition geometry_set :: "geometry \<Rightarrow> geometry_obj \<Rightarrow> geometry_obj" where
  "geometry_set p ob = place geometry_trivial p (ob\<lparr>utag := geometry_kind p\<rparr>)"

definition geometry_construct_from :: "geometry \<Rightarrow> geometry_obj" where
  "geometry_construct_from p = geometry_set p geometry_default"

text \<open>The observers \<open>details_for_...\<close> read the named member of the union.\<close>

definition details_for :: "geometry_type \<Rightarrow> geometry_obj \<Rightarrow> geometry cpp" where
  "details_for t ob = read_as geometry_kind t ob"

definition geometry_reset :: "geometry_obj \<Rightarrow> geometry_obj cpp" where
  "geometry_reset ob =
     cbind
       (case utag ob of
          GT_point \<Rightarrow> destroy_as geometry_kind GT_point ob
        | GT_multi_point \<Rightarrow> destroy_as geometry_kind GT_multi_point ob
        | GT_line_string \<Rightarrow> destroy_as geometry_kind GT_line_string ob
        | GT_multi_line_string \<Rightarrow> destroy_as geometry_kind GT_multi_line_string ob
        | GT_polygon \<Rightarrow> destroy_as geometry_kind GT_polygon ob
        | GT_multi_polygon \<Rightarrow> destroy_as geometry_kind GT_multi_polygon ob
        | GT_geometry_collection \<Rightarrow> destroy_as geometry_kind GT_geometry_collection ob
        | GT_invalid \<Rightarrow> Ret ob)
       (\<lambda>ob1. Ret (ob1\<lparr>utag := GT_invalid\<rparr>))"

definition set_geometry :: "geometry_obj \<Rightarrow> geometry_obj \<Rightarrow> geometry_obj cpp" where
  "set_geometry ob other =
     (let ob1 = ob\<lparr>utag := utag other\<rparr>
      in case utag ob1 of
           GT_invalid \<Rightarrow> Ret ob1
         | GT_point \<Rightarrow> cbind (details_for GT_point other) (\<lambda>p. Ret (geometry_set p ob1))
         | GT_multi_point \<Rightarrow> cbind (details_for GT_multi_point other) (\<lambda>p. Ret (geometry_set p ob1))
         | GT_line_string \<Rightarrow> cbind (details_for GT_line_string other) (\<lambda>p. Ret (geometry_set p ob1))
         | GT_multi_line_string \<Rightarrow>
             cbind (details_for GT_multi_line_string other) (\<lambda>p. Ret (geometry_set p ob1))
         | GT_polygon \<Rightarrow> cbind (details_for GT_polygon other) (\<lambda>p. Ret (geometry_set p ob1))
         | GT_multi_polygon \<Rightarrow> cbind (details_for GT_multi_polygon other) (\<lambda>p. Ret (geometry_set p ob1))
         | GT_geometry_collection \<Rightarrow>
             cbind (details_for GT_geometry_collection other) (\<lambda>p. Ret (geometry_set p ob1)))"

definition geometry_copy :: "geometry_obj \<Rightarrow> geometry_obj cpp" where
  "geometry_copy other = set_geometry geometry_default other"

definition geometry_assign ::
  "(geometry_type, geometry) store \<Rightarrow> nat \<Rightarrow> nat \<Rightarrow> (geometry_type, geometry) store cpp" where
  "geometry_assign = assign_op geometry_reset set_geometry"

abbreviation geometry_wf :: "geometry_obj \<Rightarrow> bool" where
  "geometry_wf \<equiv> uwf GT_invalid geometry_kind geometry_trivial"

definition geometry_of :: "geometry_obj \<Rightarrow> geometry" where
  "geometry_of ob = (case uval GT_invalid ob of None \<Rightarrow> G_invalid | Some g \<Rightarrow> g)"

lemma geometry_kind_invalid [simp]: "geometry_kind g = GT_invalid \<longleftrightarrow> g = G_invalid"
  by (cases g) auto

lemma geometry_reset_ok:
  assumes "geometry_wf ob"
  shows "\<exists>ob'. geometry_reset ob = Ret ob' \<and> utag ob' = GT_invalid \<and> geometry_wf ob' \<and>
               uleak ob' = uleak ob"
  using assms
  by (cases "utag ob")
     (auto simp: geometry_reset_def destroy_as_def uwf_def geometry_trivial_def split: option.splits)

lemma set_geometry_eq:
  "set_geometry ob other =
     (if utag other = GT_invalid then Ret (ob\<lparr>utag := GT_invalid\<rparr>)
      else cbind (details_for (utag other) other)
             (\<lambda>p. Ret (geometry_set p (ob\<lparr>utag := utag other\<rparr>))))"
  by (cases "utag other") (simp_all add: set_geometry_def)

lemma set_geometry_ok:
  assumes "geometry_wf ob" "utag ob = GT_invalid" "geometry_wf other"
  shows "\<exists>ob'. set_geometry ob other = Ret ob' \<and> geometry_wf ob' \<and>
               uval GT_invalid ob' = uval GT_invalid other \<and> uleak ob' = uleak ob"
proof (cases "utag other = GT_invalid")
  case True
  with assms(1,2) show ?thesis by (simp add: set_geometry_eq uval_def uwf_def)
next
  case False
  from assms(3) False obtain p where p:
    "details_for (utag other) other = Ret p" "geometry_kind p = utag other"
    "uval GT_invalid other = Some p"
    unfolding details_for_def by (rule uwf_read)
  from uwf_place [OF assms(1,2), of p] p(2) False p show ?thesis
    by (simp add: set_geometry_eq geometry_set_def)
qed

interpretation geo: tagged_union GT_invalid geometry_kind geometry_trivial geometry_reset set_geometry
  by unfold_locales (auto intro: geometry_reset_ok set_geometry_ok)

lemma geometry_default_ok [simp]:
  "geometry_wf geometry_default" "geometry_of geometry_default = G_invalid"
  by (simp_all add: geometry_default_def uwf_def geometry_of_def uval_def raw_def geometry_trivial_def)

lemma geometry_construct_from_ok:
  "geometry_wf (geometry_construct_from g) \<and> geometry_of (geometry_construct_from g) = g \<and>
   uleak (geometry_construct_from g) = []"
  by (cases g)
     (simp_all add: geometry_construct_from_def geometry_set_def geometry_default_def place_def
        raw_def uwf_def geometry_of_def uval_def geometry_trivial_def)

subsection \<open>Comparison\<close>

definition coordinate_eq :: "coordinate \<Rightarrow> coordinate \<Rightarrow> bool" where
  "coordinate_eq l r \<longleftrightarrow>
     dbl_eq (latitude l) (latitude r) \<and> dbl_eq (longitude l) (longitude r) \<and>
     cpp_opt_eq dbl_eq (altitude l) (altitude r)"

text \<open>\<open>std::vector\<close>'s \<open>operator==\<close>.\<close>

definition vector_eq :: "('a \<Rightarrow> 'a \<Rightarrow> bool) \<Rightarrow> 'a list \<Rightarrow> 'a list \<Rightarrow> bool" where
  "vector_eq eq xs ys \<longleftrightarrow> length xs = length ys \<and> list_all (\<lambda>(x, y). eq x y) (zip xs ys)"

definition polygon_eq :: "polygon_shape \<Rightarrow> polygon_shape \<Rightarrow> bool" where
  "polygon_eq l r \<longleftrightarrow>
     vector_eq coordinate_eq (outer_ring l) (outer_ring r) \<and>
     vector_eq (vector_eq coordinate_eq) (inner_rings l) (inner_rings r)"

function geometry_eq :: "geometry \<Rightarrow> geometry \<Rightarrow> bool" where
  "geometry_eq l r =
     (if geometry_kind l \<noteq> geometry_kind r then False
      else case (l, r) of
        (G_invalid, G_invalid) \<Rightarrow> True
      | (G_point a, G_point b) \<Rightarrow> coordinate_eq a b
      | (G_multi_point a, G_multi_point b) \<Rightarrow> vector_eq coordinate_eq a b
      | (G_line_string a, G_line_string b) \<Rightarrow> vector_eq coordinate_eq a b
      | (G_multi_line_string a, G_multi_line_string b) \<Rightarrow> vector_eq (vector_eq coordinate_eq) a b
      | (G_polygon a, G_polygon b) \<Rightarrow> polygon_eq a b
      | (G_multi_polygon a, G_multi_polygon b) \<Rightarrow> vector_eq polygon_eq a b
      | (G_collection a, G_collection b) \<Rightarrow>
          length a = length b \<and> list_all (\<lambda>(x, y). geometry_eq x y) (zip a b)
      | _ \<Rightarrow> False)"
  by pat_completeness auto
termination
  by (relation "measure (\<lambda>(l, r). size l)")
     (auto dest!: set_zip_leftD intro!: le_imp_less_Suc size_list_estimation')

declare geometry_eq.simps [simp del]

text \<open>\<open>operator==\<close> on the union objects.\<close>

definition geometry_obj_eq :: "geometry_obj \<Rightarrow> geometry_obj \<Rightarrow> bool cpp" where
  "geometry_obj_eq a b =
     (if utag a \<noteq> utag b then Ret False
      else if utag a = GT_invalid then Ret True
      else cbind (details_for (utag a) a) (\<lambda>p. cbind (details_for (utag a) b) (\<lambda>q. Ret (geometry_eq p q))))"

lemma geometry_obj_eq_value:
  assumes "geometry_wf a" "geometry_wf b"
  shows "geometry_obj_eq a b = Ret (geometry_eq (geometry_of a) (geometry_of b))"
proof -
  have k: "geometry_kind (geometry_of ob) = utag ob" if "geometry_wf ob" for ob
    using that by (auto simp: geometry_of_def uval_def uwf_def split: option.splits if_splits)
  have v: "details_for (utag ob) ob = Ret (geometry_of ob)"
    if "geometry_wf ob" "utag ob \<noteq> GT_invalid" for ob
    using that by (auto simp: geometry_of_def uval_def uwf_def details_for_def read_as_def split: option.splits)
  show ?thesis
  proof (cases "utag a = utag b")
    case False
    with k assms show ?thesis by (auto simp: geometry_obj_eq_def geometry_eq.simps)
  next
    case same: True
    show ?thesis
    proof (cases "utag a = GT_invalid")
      case True
      with same have "geometry_of a = G_invalid" "geometry_of b = G_invalid"
        by (simp_all add: geometry_of_def uval_def)
      with True same show ?thesis by (simp add: geometry_obj_eq_def geometry_eq.simps)
    next
      case False
      with v [OF assms(1)] v [OF assms(2)] same show ?thesis by (simp add: geometry_obj_eq_def)
    qed
  qed
qed

subsection \<open>Factories\<close>

definition geometry_point :: "double \<Rightarrow> double \<Rightarrow> geometry_obj" where
  "geometry_point lat lon =
     geometry_construct_from
       (G_point \<lparr>latitude = lat, longitude = lon, altitude = None, elevation = None\<rparr>)"

definition geometry_polygon :: "coordinate list \<Rightarrow> geometry_obj" where
  "geometry_polygon cs =
     geometry_construct_from (G_polygon \<lparr>outer_ring = cs, inner_rings = []\<rparr>)"

text \<open>A position without altitude is not even equal to itself.\<close>

lemma coordinate_eq_needs_altitude: "altitude c = None \<Longrightarrow> \<not> coordinate_eq c d"
  by (simp add: coordinate_eq_def)

lemma geometry_point_not_equal_to_itself:
  "geometry_obj_eq (geometry_point lat lon) (geometry_point lat lon) = Ret False"
  using geometry_construct_from_ok [of "G_point \<lparr>latitude = lat, longitude = lon, altitude = None, elevation = None\<rparr>"]
  by (simp add: geometry_obj_eq_value geometry_point_def geometry_eq.simps coordinate_eq_def)

end
