(* ===== verification/Text_Enum.thy ===== *)
theory Text_Enum
  imports Prelude
begin

text \<open>
  Enumerations with a textual form. The source gives each one an \<open>operator<<\<close> that writes a
  word and an \<open>operator>>\<close> that extracts the next word of a stream and selects an enumerator
  from it, leaving the target alone on a word it does not know. \<open>next_word\<close> is the
  extraction; the locale \<open>text_enum\<close> is the contract of such a pair, interpreted in the theory
  of every enumeration.
\<close>

text \<open>The characters \<open>std::isspace\<close> accepts in the C locale.\<close>

definition is_space_char :: "char \<Rightarrow> bool" where
  "is_space_char c \<longleftrightarrow>
     c = CHR '' '' \<or> c = CHR 0x09 \<or> c = CHR 0x0A \<or> c = CHR 0x0B \<or> c = CHR 0x0C \<or> c = CHR 0x0D"

definition next_word :: "string \<Rightarrow> string" where
  "next_word s = takeWhile (\<lambda>c. \<not> is_space_char c) (dropWhile is_space_char s)"

definition is_word :: "string \<Rightarrow> bool" where
  "is_word s \<longleftrightarrow> s \<noteq> [] \<and> list_all (\<lambda>c. \<not> is_space_char c) s"

lemma next_word_word: "is_word s \<Longrightarrow> next_word s = s"
  by (cases s) (auto simp: is_word_def next_word_def list_all_iff)

lemma next_word_word_then_space:
  assumes "is_word s" "is_space_char c" "list_all is_space_char sp"
  shows "next_word (sp @ s @ c # rest) = s"
proof -
  have "dropWhile is_space_char (sp @ s @ c # rest) = s @ c # rest"
    using assms(1,3) by (cases s) (auto simp: is_word_def list_all_iff dropWhile_append2)
  then show ?thesis
    using assms(1,2) by (simp add: next_word_def is_word_def list_all_iff takeWhile_append2)
qed

text \<open>\<open>text_of\<close> is the word written for an enumerator, \<open>select\<close> the choice made from a word.\<close>

definition stream_read :: "(string \<Rightarrow> 'e \<Rightarrow> 'e) \<Rightarrow> string \<Rightarrow> 'e \<Rightarrow> 'e" where
  "stream_read select inp e0 = select (next_word inp) e0"

locale text_enum =
  fixes text_of :: "'e \<Rightarrow> string"
    and select :: "string \<Rightarrow> 'e \<Rightarrow> 'e"
  assumes text_word: "is_word (text_of e)"
    and select_text: "select (text_of e) e0 = e"
begin

lemma read_text: "stream_read select (text_of e) e0 = e"
  by (simp add: stream_read_def next_word_word text_word select_text)

text \<open>A written enumerator is read back from the middle of a stream of words.\<close>

lemma read_text_in_stream:
  "is_space_char c \<Longrightarrow> list_all is_space_char sp \<Longrightarrow>
   stream_read select (sp @ text_of e @ c # rest) e0 = e"
  by (simp add: stream_read_def next_word_word_then_space text_word select_text)

lemma text_inj: "text_of e = text_of e' \<Longrightarrow> e = e'"
  using select_text by metis

end

end
