(* ===== verification/Token.thy ===== *)
theory Token
  imports Optional_Outcome Text_Enum
begin

text \<open>
  \<open>airmap::Token\<close> (include/airmap/token.h, src/airmap/token.cpp): the authentication token,
  a discriminated union of an anonymous, an OAuth and a refreshed token, with the textual form
  of its type. \<open>Token::pilot_id\<close> decodes a JWT with a third-party library and is not modelled.
  The interpretation \<open>tok\<close> shows that copying and destroying meet \<open>tagged_union\<close>.
\<close>

subsection \<open>The tokens\<close>

datatype token_type = TT_unknown | TT_anonymous | TT_oauth | TT_refreshed

datatype oauth_type = Bearer

record anonymous_token =
  anon_id :: string

record oauth_token =
  oauth_kind :: oauth_type
  oauth_refresh :: string
  oauth_id :: string
  oauth_access :: string

record refreshed_token =
  refreshed_kind :: oauth_type
  expires_in :: "64 word"
  refreshed_id :: string
  original_token :: "oauth_token option"

datatype token =
    Tok_anonymous anonymous_token
  | Tok_oauth oauth_token
  | Tok_refreshed refreshed_token

fun token_kind :: "token \<Rightarrow> token_type" where
  "token_kind (Tok_anonymous _) = TT_anonymous"
| "token_kind (Tok_oauth _) = TT_oauth"
| "token_kind (Tok_refreshed _) = TT_refreshed"

type_synonym token_obj = "(token_type, token) uobj"

definition token_trivial :: "token \<Rightarrow> bool" where
  "token_trivial t \<longleftrightarrow> False"

subsection \<open>Copying and destroying\<close>

definition token_default :: token_obj where
  "token_default = raw TT_unknown"

text \<open>\<open>construct(const Anonymous&)\<close>, \<open>construct(const OAuth&)\<close>, \<open>construct(const Refreshed&)\<close>.\<close>

definition token_construct_member :: "token \<Rightarrow> token_obj \<Rightarrow> token_obj" where
  "token_construct_member t ob = place token_trivial t (ob\<lparr>utag := token_kind t\<rparr>)"

definition token_construct :: "token_obj \<Rightarrow> token_obj \<Rightarrow> token_obj cpp" where
  "token_construct ob other =
     (let ob1 = ob\<lparr>utag := utag other\<rparr>
      in case utag ob1 of
           TT_anonymous \<Rightarrow>
             cbind (read_as token_kind TT_anonymous other) (\<lambda>t. Ret (place token_trivial t ob1))
         | TT_oauth \<Rightarrow>
             cbind (read_as token_kind TT_oauth other) (\<lambda>t. Ret (place token_trivial t ob1))
         | TT_refreshed \<Rightarrow>
             cbind (read_as token_kind TT_refreshed other) (\<lambda>t. Ret (place token_trivial t ob1))
         | TT_unknown \<Rightarrow> Ret ob1)"

definition token_destruct :: "token_obj \<Rightarrow> token_obj cpp" where
  "token_destruct ob =
     cbind
       (case utag ob of
          TT_anonymous \<Rightarrow> destroy_as token_kind TT_anonymous ob
        | TT_oauth \<Rightarrow> destroy_as token_kind TT_oauth ob
        | TT_refreshed \<Rightarrow> destroy_as token_kind TT_refreshed ob
        | TT_unknown \<Rightarrow> Ret ob)
       (\<lambda>ob1. Ret (ob1\<lparr>utag := TT_unknown\<rparr>))"

definition token_copy :: "token_obj \<Rightarrow> token_obj cpp" where
  "token_copy other = token_construct token_default other"

definition token_assign :: "(token_type, token) store \<Rightarrow> nat \<Rightarrow> nat \<Rightarrow> (token_type, token) store cpp" where
  "token_assign = assign_op token_destruct token_construct"

definition token_of_member :: "token \<Rightarrow> token_obj" where
  "token_of_member t = token_construct_member t token_default"

abbreviation token_wf :: "token_obj \<Rightarrow> bool" where
  "token_wf \<equiv> uwf TT_unknown token_kind token_trivial"

lemma token_kind_known [simp]: "token_kind t \<noteq> TT_unknown"
  by (cases t) auto

lemma token_destruct_ok:
  assumes "token_wf ob"
  shows "\<exists>ob'. token_destruct ob = Ret ob' \<and> utag ob' = TT_unknown \<and> token_wf ob' \<and>
               uleak ob' = uleak ob"
  using assms
  by (cases "utag ob")
     (auto simp: token_destruct_def destroy_as_def uwf_def split: option.splits)

lemma token_construct_eq:
  "token_construct ob other =
     (if utag other = TT_unknown then Ret (ob\<lparr>utag := TT_unknown\<rparr>)
      else cbind (read_as token_kind (utag other) other)
             (\<lambda>t. Ret (place token_trivial t (ob\<lparr>utag := utag other\<rparr>))))"
  by (cases "utag other") (simp_all add: token_construct_def)

lemma token_construct_ok:
  assumes "token_wf ob" "utag ob = TT_unknown" "token_wf other"
  shows "\<exists>ob'. token_construct ob other = Ret ob' \<and> token_wf ob' \<and>
               uval TT_unknown ob' = uval TT_unknown other \<and> uleak ob' = uleak ob"
proof (cases "utag other = TT_unknown")
  case True
  with assms(1,2) show ?thesis by (simp add: token_construct_eq uval_def uwf_def)
next
  case False
  from assms(3) False obtain p where p:
    "read_as token_kind (utag other) other = Ret p" "token_kind p = utag other"
    "uval TT_unknown other = Some p" by (rule uwf_read)
  from uwf_place [OF assms(1,2), of p] False p show ?thesis by (simp add: token_construct_eq)
qed

interpretation tok: tagged_union TT_unknown token_kind token_trivial token_destruct token_construct
  by unfold_locales (auto intro: token_destruct_ok token_construct_ok)

lemma token_of_member_ok:
  "token_wf (token_of_member t) \<and> uval TT_unknown (token_of_member t) = Some t \<and>
   uleak (token_of_member t) = []"
  by (simp add: token_of_member_def token_construct_member_def token_default_def place_def raw_def
      uwf_def uval_def)

subsection \<open>Observers\<close>

definition token_id :: "token_obj \<Rightarrow> string cpp" where
  "token_id ob =
     (case utag ob of
        TT_anonymous \<Rightarrow> cbind (read_as token_kind TT_anonymous ob)
          (\<lambda>t. case t of Tok_anonymous a \<Rightarrow> Ret (anon_id a) | _ \<Rightarrow> UB)
      | TT_oauth \<Rightarrow> cbind (read_as token_kind TT_oauth ob)
          (\<lambda>t. case t of Tok_oauth a \<Rightarrow> Ret (oauth_id a) | _ \<Rightarrow> UB)
      | TT_refreshed \<Rightarrow> cbind (read_as token_kind TT_refreshed ob)
          (\<lambda>t. case t of Tok_refreshed a \<Rightarrow> Ret (refreshed_id a) | _ \<Rightarrow> UB)
      | TT_unknown \<Rightarrow> Throw (Logic_error ''should not reach here''))"

fun token_value_id :: "token \<Rightarrow> string" where
  "token_value_id (Tok_anonymous a) = anon_id a"
| "token_value_id (Tok_oauth a) = oauth_id a"
| "token_value_id (Tok_refreshed a) = refreshed_id a"

lemma token_id_value:
  assumes "token_wf ob"
  shows "token_id ob = (case uval TT_unknown ob of
           None \<Rightarrow> Throw (Logic_error ''should not reach here'') | Some t \<Rightarrow> Ret (token_value_id t))"
proof (cases "ucont ob")
  case None
  with assms show ?thesis by (simp add: uwf_def uval_def token_id_def split: if_splits)
next
  case (Some t)
  with assms show ?thesis
    by (cases t) (auto simp: uwf_def uval_def token_id_def read_as_def token_trivial_def split: if_splits)
qed

definition oauth_eq :: "oauth_token \<Rightarrow> oauth_token \<Rightarrow> bool" where
  "oauth_eq l r \<longleftrightarrow> oauth_kind l = oauth_kind r \<and> oauth_refresh l = oauth_refresh r \<and>
     oauth_id l = oauth_id r \<and> oauth_access l = oauth_access r"

definition refreshed_eq :: "refreshed_token \<Rightarrow> refreshed_token \<Rightarrow> bool" where
  "refreshed_eq l r \<longleftrightarrow> refreshed_kind l = refreshed_kind r \<and> expires_in l = expires_in r \<and>
     refreshed_id l = refreshed_id r"

lemma oauth_eq_iff [simp]: "oauth_eq l r \<longleftrightarrow> l = r"
  by (cases l; cases r) (auto simp: oauth_eq_def)

text \<open>Two refreshed tokens that differ in the token they renew compare equal.\<close>

lemma refreshed_eq_ignores_original: "refreshed_eq r (r\<lparr>original_token := x\<rparr>)"
  by (simp add: refreshed_eq_def)

subsection \<open>The type as text\<close>

fun token_type_text :: "token_type \<Rightarrow> string" where
  "token_type_text TT_anonymous = ''anonymous''"
| "token_type_text TT_oauth = ''oauth''"
| "token_type_text TT_refreshed = ''refreshed''"
| "token_type_text TT_unknown = ''unknown''"

text \<open>The choice \<open>operator>>\<close> makes from the extracted word.\<close>

definition token_type_select :: "string \<Rightarrow> token_type \<Rightarrow> token_type" where
  "token_type_select s t =
     (if s = ''anonymous'' then TT_anonymous
      else if s = ''oauth'' then TT_oauth
      else if s = ''refreshed'' then TT_refreshed
      else if s = ''unknown'' then TT_unknown
      else t)"

interpretation token_type_io: text_enum token_type_text token_type_select
proof
  show "is_word (token_type_text e)" for e
    by (cases e) (simp_all add: is_word_def is_space_char_def)
  show "token_type_select (token_type_text e) e0 = e" for e e0
    by (cases e) (simp_all add: token_type_select_def)
qed

end
