(* ===== verification/Ruleset.thy ===== *)
theory Ruleset
  imports Float64 Optional_Outcome Text_Enum
begin

text \<open>
  \<open>airmap::RuleSet\<close> (include/airmap/ruleset.h, src/airmap/ruleset.cpp): the description of a
  ruleset, the enumerations of its parts with their textual forms, and the discriminated union
  \<open>RuleSet::Feature::Value\<close>. The interpretation \<open>fval\<close> shows that copying and destroying a
  value meets \<open>tagged_union\<close>; the \<open>_io\<close> interpretations are the enumerations' round trips.
\<close>

subsection \<open>Enumerations\<close>

datatype feature_type = FT_unknown | FT_boolean | FT_floating_point | FT_string

datatype measurement = ME_unknown | ME_speed | ME_weight | ME_distance

datatype feature_unit = FU_unknown | FU_kilograms | FU_meters | FU_meters_per_sec

datatype region = RG_national | RG_state | RG_county | RG_city | RG_local

datatype selection_type = ST_pickone | ST_required | ST_optional

datatype rule_status = RS_unknown | RS_conflicting | RS_not_conflicting | RS_missing_info | RS_informational

fun feature_type_text :: "feature_type \<Rightarrow> string" where
  "feature_type_text FT_unknown = ''unknown''"
| "feature_type_text FT_boolean = ''bool''"
| "feature_type_text FT_floating_point = ''float''"
| "feature_type_text FT_string = ''string''"

definition feature_type_select :: "string \<Rightarrow> feature_type \<Rightarrow> feature_type" where
  "feature_type_select s e =
     (if s = ''bool'' then FT_boolean
      else if s = ''float'' then FT_floating_point
      else if s = ''string'' then FT_string
      else if s = ''unknown'' then FT_unknown
      else e)"

interpretation feature_type_io: text_enum feature_type_text feature_type_select
proof
  show "is_word (feature_type_text e)" for e
    by (cases e) (simp_all add: is_word_def is_space_char_def)
  show "feature_type_select (feature_type_text e) e0 = e" for e e0
    by (cases e) (simp_all add: feature_type_select_def)
qed

fun measurement_text :: "measurement \<Rightarrow> string" where
  "measurement_text ME_unknown = ''unknown''"
| "measurement_text ME_speed = ''speed''"
| "measurement_text ME_weight = ''weight''"
| "measurement_text ME_distance = ''distance''"

definition measurement_select :: "string \<Rightarrow> measurement \<Rightarrow> measurement" where
  "measurement_select s e =
     (if s = ''distance'' then ME_distance
      else if s = ''speed'' then ME_speed
      else if s = ''weight'' then ME_weight
      else if s = ''unknown'' then ME_unknown
      else e)"

interpretation measurement_io: text_enum measurement_text measurement_select
proof
  show "is_word (measurement_text e)" for e
    by (cases e) (simp_all add: is_word_def is_space_char_def)
  show "measurement_select (measurement_text e) e0 = e" for e e0
    by (cases e) (simp_all add: measurement_select_def)
qed

fun feature_unit_text :: "feature_unit \<Rightarrow> string" where
  "feature_unit_text FU_unknown = ''unknown''"
| "feature_unit_text FU_kilograms = ''kilograms''"
| "feature_unit_text FU_meters = ''meters''"
| "feature_unit_text FU_meters_per_sec = ''meters_per_sec''"

definition feature_unit_select :: "string \<Rightarrow> feature_unit \<Rightarrow> feature_unit" where
  "feature_unit_select s e =
     (if s = ''kilograms'' then FU_kilograms
      else if s = ''meters'' then FU_meters
      else if s = ''meters_per_sec'' then FU_meters_per_sec
      else if s = ''unknown'' then FU_unknown
      else e)"

interpretation feature_unit_io: text_enum feature_unit_text feature_unit_select
proof
  show "is_word (feature_unit_text e)" for e
    by (cases e) (simp_all add: is_word_def is_space_char_def)
  show "feature_unit_select (feature_unit_text e) e0 = e" for e e0
    by (cases e) (simp_all add: feature_unit_select_def)
qed

fun region_text :: "region \<Rightarrow> string" where
  "region_text RG_national = ''national''"
| "region_text RG_state = ''state''"
| "region_text RG_county = ''county''"
| "region_text RG_city = ''city''"
| "region_text RG_local = ''local''"

definition region_select :: "string \<Rightarrow> region \<Rightarrow> region" where
  "region_select s e =
     (if s = ''national'' \<or> s = ''federal'' then RG_national
      else if s = ''state'' then RG_state
      else if s = ''county'' then RG_county
      else if s = ''city'' then RG_city
      else if s = ''local'' then RG_local
      else e)"

interpretation region_io: text_enum region_text region_select
proof
  show "is_word (region_text e)" for e
    by (cases e) (simp_all add: is_word_def is_space_char_def)
  show "region_select (region_text e) e0 = e" for e e0
    by (cases e) (simp_all add: region_select_def)
qed

fun selection_type_text :: "selection_type \<Rightarrow> string" where
  "selection_type_text ST_pickone = ''pickone''"
| "selection_type_text ST_required = ''required''"
| "selection_type_text ST_optional = ''optional''"

definition selection_type_select :: "string \<Rightarrow> selection_type \<Rightarrow> selection_type" where
  "selection_type_select s e =
     (if s = ''optional'' then ST_optional
      else if s = ''required'' then ST_required
      else if s = ''pickone'' then ST_pickone
      else if s = ''pick1'' then ST_pickone
      else e)"

interpretation selection_type_io: text_enum selection_type_text selection_type_select
proof
  show "is_word (selection_type_text e)" for e
    by (cases e) (simp_all add: is_word_def is_space_char_def)
  show "selection_type_select (selection_type_text e) e0 = e" for e e0
    by (cases e) (simp_all add: selection_type_select_def)
qed

fun rule_status_text :: "rule_status \<Rightarrow> string" where
  "rule_status_text RS_unknown = ''unknown''"
| "rule_status_text RS_conflicting = ''conflicting''"
| "rule_status_text RS_not_conflicting = ''not_conflicting''"
| "rule_status_text RS_missing_info = ''missing_info''"
| "rule_status_text RS_informational = ''informational''"

definition rule_status_select :: "string \<Rightarrow> rule_status \<Rightarrow> rule_status" where
  "rule_status_select s e =
     (if s = ''conflicting'' then RS_conflicting
      else if s = ''not_conflicting'' then RS_not_conflicting
      else if s = ''missing_info'' then RS_missing_info
      else if s = ''informational'' \<or> s = ''informational_rules'' then RS_informational
      else RS_unknown)"

interpretation rule_status_io: text_enum rule_status_text rule_status_select
proof
  show "is_word (rule_status_text e)" for e
    by (cases e) (simp_all add: is_word_def is_space_char_def)
  show "rule_status_select (rule_status_text e) e0 = e" for e e0
    by (cases e) (simp_all add: rule_status_select_def)
qed

subsection \<open>Feature values\<close>

datatype feature_value = FV_bool bool | FV_double double | FV_string string

fun feature_value_kind :: "feature_value \<Rightarrow> feature_type" where
  "feature_value_kind (FV_bool _) = FT_boolean"
| "feature_value_kind (FV_double _) = FT_floating_point"
| "feature_value_kind (FV_string _) = FT_string"

text \<open>Only the string member has a destructor that does something.\<close>

fun feature_value_trivial :: "feature_value \<Rightarrow> bool" where
  "feature_value_trivial (FV_string _) = False"
| "feature_value_trivial _ = True"

type_synonym feature_value_obj = "(feature_type, feature_value) uobj"

text \<open>\<open>Value() : type_{Type::unknown}\<close> with \<open>Detail() : b{false}\<close>.\<close>

definition fval_default :: feature_value_obj where
  "fval_default = (raw FT_unknown)\<lparr>ucont := Some (FV_bool False)\<rparr>"

text \<open>\<open>construct(bool)\<close>, \<open>construct(double)\<close>, \<open>construct(const std::string&)\<close>.\<close>

definition fval_construct_member :: "feature_value \<Rightarrow> feature_value_obj \<Rightarrow> feature_value_obj" where
  "fval_construct_member v ob =
     place feature_value_trivial v (ob\<lparr>utag := feature_value_kind v\<rparr>)"

definition fval_destruct :: "feature_value_obj \<Rightarrow> feature_value_obj cpp" where
  "fval_destruct ob =
     cbind
       (case utag ob of
          FT_boolean \<Rightarrow> Ret ob
        | FT_floating_point \<Rightarrow> Ret ob
        | FT_string \<Rightarrow> destroy_as feature_value_kind FT_string ob
        | FT_unknown \<Rightarrow> Ret ob)
       (\<lambda>ob1. Ret (ob1\<lparr>utag := FT_unknown\<rparr>))"

text \<open>\<open>construct(const Value&)\<close> and \<open>construct(Value&&)\<close> have the same body.\<close>

definition fval_construct :: "feature_value_obj \<Rightarrow> feature_value_obj \<Rightarrow> feature_value_obj cpp" where
  "fval_construct ob other =
     cbind
       (case utag other of
          FT_boolean \<Rightarrow> cbind (read_as feature_value_kind FT_boolean other)
            (\<lambda>v. Ret (fval_construct_member v ob))
        | FT_floating_point \<Rightarrow> cbind (read_as feature_value_kind FT_floating_point other)
            (\<lambda>v. Ret (fval_construct_member v ob))
        | FT_string \<Rightarrow> cbind (read_as feature_value_kind FT_string other)
            (\<lambda>v. Ret (fval_construct_member v ob))
        | FT_unknown \<Rightarrow> fval_destruct ob)
       (\<lambda>ob1. Ret (ob1\<lparr>utag := utag other\<rparr>))"

definition fval_of_member :: "feature_value \<Rightarrow> feature_value_obj" where
  "fval_of_member v = fval_construct_member v fval_default"

definition fval_copy :: "feature_value_obj \<Rightarrow> feature_value_obj cpp" where
  "fval_copy other = fval_construct fval_default other"

definition fval_assign ::
  "(feature_type, feature_value) store \<Rightarrow> nat \<Rightarrow> nat \<Rightarrow> (feature_type, feature_value) store cpp" where
  "fval_assign = assign_op fval_destruct fval_construct"

abbreviation fval_wf :: "feature_value_obj \<Rightarrow> bool" where
  "fval_wf \<equiv> uwf FT_unknown feature_value_kind feature_value_trivial"

lemma feature_value_kind_known [simp]: "feature_value_kind v \<noteq> FT_unknown"
  by (cases v) auto

lemma feature_value_trivial_iff: "feature_value_trivial v \<longleftrightarrow> feature_value_kind v \<noteq> FT_string"
  by (cases v) auto

lemma fval_destruct_ok:
  assumes "fval_wf ob"
  shows "\<exists>ob'. fval_destruct ob = Ret ob' \<and> utag ob' = FT_unknown \<and> fval_wf ob' \<and>
               uleak ob' = uleak ob"
  using assms
  by (cases "utag ob")
     (auto simp: fval_destruct_def destroy_as_def uwf_def feature_value_trivial_iff
        split: option.splits)

lemma fval_construct_eq:
  "fval_construct ob other =
     (if utag other = FT_unknown then fval_destruct ob
      else cbind (read_as feature_value_kind (utag other) other)
             (\<lambda>v. Ret (fval_construct_member v ob)))"
proof -
  have d: "cbind (fval_destruct ob) (\<lambda>ob1. Ret (ob1\<lparr>utag := FT_unknown\<rparr>)) = fval_destruct ob"
    by (simp add: fval_destruct_def)
  have m: "cbind (read_as feature_value_kind t other) (\<lambda>v. Ret ((fval_construct_member v ob)\<lparr>utag := t\<rparr>)) =
        cbind (read_as feature_value_kind t other) (\<lambda>v. Ret (fval_construct_member v ob))" for t
    by (auto simp: read_as_def fval_construct_member_def place_def split: option.splits)
  show ?thesis using d m by (cases "utag other") (simp_all add: fval_construct_def)
qed

lemma fval_construct_ok:
  assumes "fval_wf ob" "utag ob = FT_unknown" "fval_wf other"
  shows "\<exists>ob'. fval_construct ob other = Ret ob' \<and> fval_wf ob' \<and>
               uval FT_unknown ob' = uval FT_unknown other \<and> uleak ob' = uleak ob"
proof (cases "utag other = FT_unknown")
  case True
  with fval_destruct_ok [OF assms(1)] show ?thesis by (auto simp: fval_construct_eq uval_def)
next
  case False
  from assms(3) False obtain v where v:
    "read_as feature_value_kind (utag other) other = Ret v" "feature_value_kind v = utag other"
    "uval FT_unknown other = Some v" by (rule uwf_read)
  from uwf_place [OF assms(1,2), of v] False v show ?thesis
    by (simp add: fval_construct_eq fval_construct_member_def)
qed

interpretation fval: tagged_union FT_unknown feature_value_kind feature_value_trivial
  fval_destruct fval_construct
  by unfold_locales (auto intro: fval_destruct_ok fval_construct_ok)

lemma fval_of_member_ok:
  "fval_wf (fval_of_member v) \<and> uval FT_unknown (fval_of_member v) = Some v \<and>
   uleak (fval_of_member v) = []"
  by (simp add: fval_of_member_def fval_construct_member_def fval_default_def place_def raw_def
      uwf_def uval_def)

subsection \<open>Rulesets\<close>

record feature =
  feat_id :: "32 word"
  feat_name :: string
  feat_code :: "string option"
  feat_description :: string
  feat_status :: rule_status
  feat_type :: feature_type
  feat_measurement :: measurement
  feat_unit :: feature_unit
  feat_is_calculated :: bool

record rule =
  rule_status_of :: rule_status
  rule_short_text :: string
  rule_description :: string
  rule_display_order :: "32 word"
  rule_features :: "feature list"

record jurisdiction =
  jur_id :: "64 word"
  jur_name :: string
  jur_region :: region

record ruleset =
  rs_id :: string
  rs_selection_type :: selection_type
  rs_name :: string
  rs_short_name :: string
  rs_description :: string
  rs_is_default :: bool
  rs_jurisdiction :: jurisdiction
  rs_airspace_types :: "string list"
  rs_rules :: "rule list"

text \<open>The three overloads of \<open>Feature::value\<close>: a value of the feature, if the types agree.\<close>

definition feature_value_of_bool :: "feature \<Rightarrow> bool \<Rightarrow> feature_value option" where
  "feature_value_of_bool f b = (if feat_type f \<noteq> FT_boolean then None else Some (FV_bool b))"

definition feature_value_of_double :: "feature \<Rightarrow> double \<Rightarrow> feature_value option" where
  "feature_value_of_double f d = (if feat_type f \<noteq> FT_floating_point then None else Some (FV_double d))"

definition feature_value_of_string :: "feature \<Rightarrow> string \<Rightarrow> feature_value option" where
  "feature_value_of_string f s = (if feat_type f \<noteq> FT_boolean then None else Some (FV_string s))"

lemma feature_value_typed:
  "feature_value_of_bool f b = Some v \<Longrightarrow> feature_value_kind v = feat_type f"
  "feature_value_of_double f d = Some v \<Longrightarrow> feature_value_kind v = feat_type f"
  by (auto simp: feature_value_of_bool_def feature_value_of_double_def split: if_splits)

text \<open>The string overload tests for the wrong type: it never succeeds with a matching value.\<close>

lemma feature_value_of_string_mistyped:
  "feature_value_of_string f s = Some v \<Longrightarrow> feature_value_kind v \<noteq> feat_type f"
  by (auto simp: feature_value_of_string_def split: if_splits)

lemma feature_value_of_string_rejected:
  "feat_type f = FT_string \<Longrightarrow> feature_value_of_string f s = None"
  by (simp add: feature_value_of_string_def)

end
