(* ===== verification/Stream_Output.thy ===== *)
theory Stream_Output
  imports Float64
begin

text \<open>
  What the source relies on of formatted output: integers in decimal and hexadecimal, and
  floating point numbers with the default six significant digits of \<open>std::ostream\<close> and
  \<open>%g\<close>. The decimal form is read back by \<open>read_nat\<close>, so distinct numbers have distinct
  texts.
\<close>

subsection \<open>Integers\<close>

definition digit_char :: "nat \<Rightarrow> char" where
  "digit_char d = ''0123456789abcdef'' ! d"

fun base_digits :: "nat \<Rightarrow> nat \<Rightarrow> string" where
  "base_digits b n =
     (if b < 2 \<or> n < b then [digit_char n] else base_digits b (n div b) @ [digit_char (n mod b)])"

declare base_digits.simps [simp del]

definition show_nat :: "nat \<Rightarrow> string" where
  "show_nat n = base_digits 10 n"

definition show_hex :: "nat \<Rightarrow> string" where
  "show_hex n = base_digits 16 n"

definition show_int :: "int \<Rightarrow> string" where
  "show_int i = (if i < 0 then ''-'' @ show_nat (nat (- i)) else show_nat (nat i))"

definition read_nat :: "string \<Rightarrow> nat" where
  "read_nat s = foldl (\<lambda>n c. 10 * n + (of_char c - 48)) 0 s"

lemma of_digit_char: "d < 10 \<Longrightarrow> of_char (digit_char d) = 48 + d"
proof -
  assume "d < 10"
  then have "d \<in> {0, 1, 2, 3, 4, 5, 6, 7, 8, 9}" by auto
  then show ?thesis by (auto simp: digit_char_def)
qed

lemma digit_char_range: "d < 10 \<Longrightarrow> (of_char (digit_char d) :: nat) \<in> {48..57}"
  by (simp add: of_digit_char)

lemma read_nat_show_nat [simp]: "read_nat (show_nat n) = n"
proof (induction n rule: less_induct)
  case (less n)
  show ?case
  proof (cases "n < 10")
    case False
    then have "show_nat n = show_nat (n div 10) @ [digit_char (n mod 10)]"
      by (simp add: show_nat_def base_digits.simps [of 10 n])
    with less False show ?thesis by (simp add: read_nat_def of_digit_char)
  qed (simp add: show_nat_def base_digits.simps [of 10 n] read_nat_def of_digit_char)
qed

lemma show_nat_inj: "show_nat m = show_nat n \<longleftrightarrow> m = n"
  by (metis read_nat_show_nat)

lemma base_digits_not_Nil [simp]: "base_digits b n \<noteq> []"
  by (simp add: base_digits.simps [of b n])

lemma show_nat_digits: "list_all (\<lambda>c. (of_char c :: nat) \<in> {48..57}) (show_nat n)"
proof (induction n rule: less_induct)
  case (less n)
  show ?case
  proof (cases "n < 10")
    case False
    then have "show_nat n = show_nat (n div 10) @ [digit_char (n mod 10)]"
      by (simp add: show_nat_def base_digits.simps [of 10 n])
    with less False show ?thesis by (simp add: of_digit_char)
  qed (simp add: show_nat_def base_digits.simps [of 10 n] of_digit_char)
qed

lemma show_nat_no_char: "(of_char c :: nat) \<notin> {48..57} \<Longrightarrow> c \<notin> set (show_nat n)"
  using show_nat_digits [of n] by (auto simp: list_all_iff)

lemma show_int_inj: "show_int i = show_int j \<longleftrightarrow> i = j"
proof -
  have "CHR ''-'' \<notin> set (show_nat n)" for n by (rule show_nat_no_char) simp
  then have "show_nat n \<noteq> CHR ''-'' # show_nat m" for m n by (metis list.set_intros(1))
  then show ?thesis
    by (auto simp: show_int_def show_nat_inj) (metis)+
qed

subsection \<open>Floating point numbers\<close>

text \<open>The least \<open>k\<close> with \<open>n * 10 ^ k \<ge> d\<close>.\<close>

function scale_up :: "nat \<Rightarrow> nat \<Rightarrow> nat" where
  "scale_up n d = (if n = 0 \<or> d \<le> n then 0 else Suc (scale_up (10 * n) d))"
  by auto
termination by (relation "measure (\<lambda>(n, d). d - n)") auto

declare scale_up.simps [simp del]

definition decimal_exponent :: "nat \<Rightarrow> nat \<Rightarrow> int" where
  "decimal_exponent n d =
     (if d \<le> n then int (size (show_nat (n div d))) - 1 else - int (scale_up n d))"

definition strip_zeros :: "string \<Rightarrow> string" where
  "strip_zeros s = rev (dropWhile (\<lambda>c. c = CHR ''0'') (rev s))"

definition with_fraction :: "string \<Rightarrow> string \<Rightarrow> string" where
  "with_fraction whole fraction =
     (let f = strip_zeros fraction in if f = [] then whole else whole @ ''.'' @ f)"

text \<open>\<open>n / d\<close> with six significant digits, scientific from \<open>1e+06\<close> up and below \<open>0.0001\<close>.\<close>

definition show_ratio :: "nat \<Rightarrow> nat \<Rightarrow> string" where
  "show_ratio n d =
     (if n = 0 then ''0''
      else let e0 = decimal_exponent n d;
               m0 = round_even (n * 10 ^ nat (5 - e0)) (d * 10 ^ nat (e0 - 5));
               e = (if m0 = 10 ^ 6 then e0 + 1 else e0);
               m = (if m0 = 10 ^ 6 then 10 ^ 5 else m0);
               ds = show_nat m
           in if -4 \<le> e \<and> e < 0 then with_fraction ''0'' (replicate (nat (- e - 1)) CHR ''0'' @ ds)
              else if 0 \<le> e \<and> e < 6 then with_fraction (take (nat e + 1) ds) (drop (nat e + 1) ds)
              else with_fraction (take 1 ds) (drop 1 ds) @ ''e'' @ (if e < 0 then ''-'' else ''+'') @
                   (let x = show_nat (nat \<bar>e\<bar>) in if size x < 2 then ''0'' @ x else x))"

definition show_double :: "double \<Rightarrow> string" where
  "show_double x =
     (let s = (if dbl_neg x then ''-'' else ''''); u = dbl_mag x; e = u div 2 ^ 52
      in if dbl_nan x then s @ ''nan''
         else if e = 2047 then s @ ''inf''
         else if e = 0 then s @ show_ratio u (2 ^ 1074)
         else s @ show_ratio ((u mod 2 ^ 52 + 2 ^ 52) * 2 ^ (e - 1075)) (2 ^ (1075 - e)))"

lemmas printing_defs =
  show_double_def show_ratio_def with_fraction_def strip_zeros_def decimal_exponent_def
  show_nat_def show_hex_def show_int_def digit_char_def base_digits.simps scale_up.simps
  round_even_def dbl_neg_def dbl_mag_def dbl_nan_def Let_def

end
