(* ===== verification/Std_Map.thy ===== *)
theory Std_Map
  imports Prelude
begin

text \<open>
  \<open>std::map\<close> with a user-supplied comparison: an association list kept in the order of the
  comparison. \<open>smap_put\<close> is \<open>m[k] = v\<close> (a present key is kept and its value replaced),
  \<open>smap_get\<close> is \<open>find\<close>. The locale \<open>map_order\<close> is what the container asks of the comparison
  on the keys it is used with: a strict weak order. Theory Error interprets it on
  \<open>Error::Value\<close>.
\<close>

fun smap_put :: "('k \<Rightarrow> 'k \<Rightarrow> bool) \<Rightarrow> 'k \<Rightarrow> 'v \<Rightarrow> ('k \<times> 'v) list \<Rightarrow> ('k \<times> 'v) list" where
  "smap_put lt k v [] = [(k, v)]"
| "smap_put lt k v ((k', v') # m) =
     (if lt k' k then (k', v') # smap_put lt k v m
      else if lt k k' then (k, v) # (k', v') # m
      else (k', v) # m)"

fun smap_get :: "('k \<Rightarrow> 'k \<Rightarrow> bool) \<Rightarrow> 'k \<Rightarrow> ('k \<times> 'v) list \<Rightarrow> 'v option" where
  "smap_get lt k [] = None"
| "smap_get lt k ((k', v') # m) =
     (if lt k' k then smap_get lt k m else if lt k k' then None else Some v')"

definition smap_sorted :: "('k \<Rightarrow> 'k \<Rightarrow> bool) \<Rightarrow> ('k \<times> 'v) list \<Rightarrow> bool" where
  "smap_sorted lt m \<longleftrightarrow> sorted_wrt (\<lambda>a b. lt (fst a) (fst b)) m"

definition smap_from :: "('k \<Rightarrow> 'k \<Rightarrow> bool) \<Rightarrow> ('k \<times> 'v) list \<Rightarrow> ('k \<times> 'v) list" where
  "smap_from lt kvs = fold (\<lambda>(k, v). smap_put lt k v) kvs []"

lemma smap_sorted_Nil [simp]: "smap_sorted lt []"
  by (simp add: smap_sorted_def)

lemma smap_sorted_Cons [simp]:
  "smap_sorted lt (e # m) \<longleftrightarrow> (\<forall>x \<in> set m. lt (fst e) (fst x)) \<and> smap_sorted lt m"
  by (simp add: smap_sorted_def)

lemma smap_put_keys: "x \<in> set (smap_put lt k v m) \<Longrightarrow> fst x = k \<or> fst x \<in> fst ` set m"
  by (induction m) (auto simp: image_iff split: if_splits)

text \<open>\<open>std::lexicographical_compare\<close>: the order of strings, vectors and tuples.\<close>

fun lex_less :: "('a \<Rightarrow> 'a \<Rightarrow> bool) \<Rightarrow> 'a list \<Rightarrow> 'a list \<Rightarrow> bool" where
  "lex_less lt xs [] = False"
| "lex_less lt [] (y # ys) = True"
| "lex_less lt (x # xs) (y # ys) =
     (if lt x y then True else if lt y x then False else lex_less lt xs ys)"

locale map_order =
  fixes ok :: "'k \<Rightarrow> bool"
    and lt :: "'k \<Rightarrow> 'k \<Rightarrow> bool"
  assumes irrefl: "ok a \<Longrightarrow> \<not> lt a a"
    and trans: "ok a \<Longrightarrow> ok b \<Longrightarrow> ok c \<Longrightarrow> lt a b \<Longrightarrow> lt b c \<Longrightarrow> lt a c"
    and weak: "ok a \<Longrightarrow> ok b \<Longrightarrow> ok c \<Longrightarrow> lt a c \<Longrightarrow> lt a b \<or> lt b c"
begin

lemma asym: "ok a \<Longrightarrow> ok b \<Longrightarrow> lt a b \<Longrightarrow> \<not> lt b a"
  using irrefl trans by blast

lemma put_ok:
  "ok k \<Longrightarrow> \<forall>x \<in> set m. ok (fst x) \<Longrightarrow> \<forall>x \<in> set (smap_put lt k v m). ok (fst x)"
  using smap_put_keys [of _ lt k v m] by fastforce

lemma put_sorted:
  assumes "ok k" and "\<forall>x \<in> set m. ok (fst x)" and "smap_sorted lt m"
  shows "smap_sorted lt (smap_put lt k v m)"
  using assms(2,3)
proof (induction m)
  case (Cons e m)
  obtain k' v' where e: "e = (k', v')" by (cases e)
  from Cons.prems e have ok': "ok k'" "\<forall>x \<in> set m. ok (fst x)"
    and below: "\<forall>x \<in> set m. lt k' (fst x)" and srt: "smap_sorted lt m" by auto
  have IH: "smap_sorted lt (smap_put lt k v m)" using Cons.IH ok'(2) srt by blast
  consider "lt k' k" | "\<not> lt k' k" "lt k k'" | "\<not> lt k' k" "\<not> lt k k'" by blast
  then show ?case
  proof cases
    case 1
    then show ?thesis using IH below smap_put_keys [of _ lt k v m] e by fastforce
  next
    case 2
    then have "\<forall>x \<in> set m. lt k (fst x)"
      using below trans [OF assms(1) ok'(1)] ok'(2) by blast
    with 2 below srt e show ?thesis by simp
  next
    case 3
    with below srt e show ?thesis by simp
  qed
qed simp

lemma get_put_same: "ok k \<Longrightarrow> smap_get lt k (smap_put lt k v m) = Some v"
  by (induction m) (auto simp: irrefl)

lemma get_put_other:
  assumes "ok j" "ok k" "lt j k \<or> lt k j" and "\<forall>x \<in> set m. ok (fst x)"
  shows "smap_get lt j (smap_put lt k v m) = smap_get lt j m"
  using assms(4)
proof (induction m)
  case Nil
  then show ?case using assms(3) by auto
next
  case (Cons e m)
  obtain k' v' where e: "e = (k', v')" by (cases e)
  with Cons.prems have ok': "ok k'" by simp
  consider "lt k' k" | "\<not> lt k' k" "lt k k'" | "\<not> lt k' k" "\<not> lt k k'" by blast
  then show ?case
  proof cases
    case 1
    with Cons e show ?thesis by simp
  next
    case 2
    have "lt j k'" "\<not> lt k' j" if "\<not> lt k j"
      using that assms 2 trans [OF assms(1,2) ok'] asym [OF assms(1) ok'] by blast+
    with 2 e show ?thesis using assms(3) by auto
  next
    case 3
    then have "lt k' j \<or> lt j k'"
      using assms(3) weak [OF assms(1) ok' assms(2)] weak [OF assms(2) ok' assms(1)] by blast
    with 3 e show ?thesis by auto
  qed
qed

lemma from_ok_sorted:
  assumes "\<forall>x \<in> set kvs. ok (fst x)"
  shows "(\<forall>x \<in> set (smap_from lt kvs). ok (fst x)) \<and> smap_sorted lt (smap_from lt kvs)"
proof -
  have "(\<forall>x \<in> set (fold (\<lambda>(k, v). smap_put lt k v) kvs m). ok (fst x)) \<and>
        smap_sorted lt (fold (\<lambda>(k, v). smap_put lt k v) kvs m)"
    if "\<forall>x \<in> set m. ok (fst x)" "smap_sorted lt m" for m
    using assms that
  proof (induction kvs arbitrary: m)
    case (Cons e kvs)
    obtain k v where e: "e = (k, v)" by (cases e)
    with Cons.prems have "ok k" by simp
    with Cons.prems have "\<forall>x \<in> set (smap_put lt k v m). ok (fst x)"
      and "smap_sorted lt (smap_put lt k v m)"
      using put_ok [of k m v] put_sorted [of k m v] by simp_all
    with Cons.IH Cons.prems(1) e show ?case by simp
  qed simp
  from this [of "[]"] show ?thesis by (simp add: smap_from_def)
qed

text \<open>Lexicographic comparison is again a strict weak order.\<close>

lemma lex_irrefl: "list_all ok xs \<Longrightarrow> \<not> lex_less lt xs xs"
  by (induction xs) (auto simp: irrefl)

lemma lex_trans:
  "list_all ok xs \<Longrightarrow> list_all ok ys \<Longrightarrow> list_all ok zs \<Longrightarrow>
   lex_less lt xs ys \<Longrightarrow> lex_less lt ys zs \<Longrightarrow> lex_less lt xs zs"
proof (induction xs arbitrary: ys zs)
  case Nil
  then show ?case by (cases ys; cases zs) auto
next
  case (Cons x xs)
  from Cons.prems(4,5) obtain y ys' z zs' where zs: "ys = y # ys'" "zs = z # zs'"
    by (cases ys; cases zs) simp_all
  with Cons.prems have "ok x" "ok y" "ok z" by auto
  note o = this
  have "lt x y \<Longrightarrow> lt y z \<Longrightarrow> lt x z" by (rule trans [OF o(1,2,3)])
  moreover have "lt x y \<Longrightarrow> lt x z \<or> lt z y" by (rule weak [OF o(1,3,2)])
  moreover have "lt y z \<Longrightarrow> lt y x \<or> lt x z" by (rule weak [OF o(2,1,3)])
  moreover have "lt z x \<Longrightarrow> lt z y \<or> lt y x" by (rule weak [OF o(3,2,1)])
  moreover have "lt x z \<Longrightarrow> lt x y \<or> lt y z" by (rule weak [OF o(1,2,3)])
  moreover have "lt x z \<Longrightarrow> \<not> lt z x" by (rule asym [OF o(1,3)])
  moreover have "lex_less lt xs ys' \<Longrightarrow> lex_less lt ys' zs' \<Longrightarrow> lex_less lt xs zs'"
    using Cons.IH [of ys' zs'] Cons.prems(1,2,3) zs by simp
  ultimately show ?case using Cons.prems(4,5) unfolding zs
    by (cases "lt x y"; cases "lt y x"; cases "lt y z"; cases "lt z y"; cases "lt x z"; cases "lt z x"; simp)
qed

lemma lex_weak:
  "list_all ok xs \<Longrightarrow> list_all ok ys \<Longrightarrow> list_all ok zs \<Longrightarrow>
   lex_less lt xs zs \<Longrightarrow> lex_less lt xs ys \<or> lex_less lt ys zs"
proof (induction xs arbitrary: ys zs)
  case Nil
  then show ?case by (cases ys; cases zs) auto
next
  case hyp: (Cons x xs)
  from hyp.prems(4) obtain z zs' where zs: "zs = z # zs'" by (cases zs) simp_all
  show ?case
  proof (cases ys)
    case (Cons y ys')
    with hyp.prems zs have "ok x" "ok y" "ok z" by auto
    note o = this
    have "lt x z \<Longrightarrow> lt x y \<or> lt y z" by (rule weak [OF o(1,2,3)])
    moreover have "lt y x \<Longrightarrow> lt y z \<or> lt z x" by (rule weak [OF o(2,3,1)])
    moreover have "lt z y \<Longrightarrow> lt z x \<or> lt x y" by (rule weak [OF o(3,1,2)])
    moreover have "lt x y \<Longrightarrow> \<not> lt y x" by (rule asym [OF o(1,2)])
    moreover have "lt y z \<Longrightarrow> \<not> lt z y" by (rule asym [OF o(2,3)])
    moreover have "lt x z \<Longrightarrow> \<not> lt z x" by (rule asym [OF o(1,3)])
    moreover have "lex_less lt xs zs' \<Longrightarrow> lex_less lt xs ys' \<or> lex_less lt ys' zs'"
      using hyp.IH [of ys' zs'] hyp.prems(1,2,3) zs Cons by simp
    ultimately show ?thesis using hyp.prems(4) unfolding zs Cons
      by (cases "lt x y"; cases "lt y x"; cases "lt y z"; cases "lt z y"; cases "lt x z"; cases "lt z x"; simp)
  next
    case Nil
    with zs show ?thesis by simp
  qed
qed

end

end
