(* ===== verification/Error.thy ===== *)
theory Error
  imports Stream_Output Optional_Outcome Std_Map
begin

text \<open>
  \<open>airmap::Error\<close> and \<open>airmap::Error::Value\<close> (include/airmap/error.h, src/airmap/error.cpp):
  the error object every callback can carry, with a dictionary of additional values keyed by a
  discriminated union of eight types. The groups below are the union object and its (leaking)
  destructor, the ordering that the dictionary uses, the dictionary itself as an instance of
  \<open>map_order\<close>, the builder operations of \<open>Error\<close>, and the textual form.
\<close>

subsection \<open>Values\<close>

datatype err_type =
    EV_undefined | EV_boolean | EV_integer | EV_floating_point | EV_string | EV_blob
  | EV_dictionary | EV_vector

datatype err_value =
    Undefined
  | Boolean bool
  | Integer "64 word"
  | Floating double
  | String string
  | Blob "8 word list"
  | Dictionary "(err_value \<times> err_value) list"
  | Vector "err_value list"

fun err_kind :: "err_value \<Rightarrow> err_type" where
  "err_kind Undefined = EV_undefined"
| "err_kind (Boolean _) = EV_boolean"
| "err_kind (Integer _) = EV_integer"
| "err_kind (Floating _) = EV_floating_point"
| "err_kind (String _) = EV_string"
| "err_kind (Blob _) = EV_blob"
| "err_kind (Dictionary _) = EV_dictionary"
| "err_kind (Vector _) = EV_vector"

fun err_trivial :: "err_value \<Rightarrow> bool" where
  "err_trivial (String _) = False"
| "err_trivial (Blob _) = False"
| "err_trivial (Dictionary _) = False"
| "err_trivial (Vector _) = False"
| "err_trivial _ = True"

text \<open>The enumerators' underlying values.\<close>

fun err_type_rank :: "err_type \<Rightarrow> nat" where
  "err_type_rank EV_undefined = 0"
| "err_type_rank EV_boolean = 1"
| "err_type_rank EV_integer = 2"
| "err_type_rank EV_floating_point = 3"
| "err_type_rank EV_string = 4"
| "err_type_rank EV_blob = 5"
| "err_type_rank EV_dictionary = 6"
| "err_type_rank EV_vector = 7"

definition err_is_basic :: "err_value \<Rightarrow> bool" where
  "err_is_basic v =
     (case err_kind v of EV_dictionary \<Rightarrow> False | EV_vector \<Rightarrow> False | _ \<Rightarrow> True)"

subsection \<open>The union object\<close>

type_synonym err_obj = "(err_type, err_value) uobj"

definition err_default :: err_obj where
  "err_default = raw EV_undefined"

text \<open>\<open>construct\<close> of a member: placement new, then the tag.\<close>

definition err_construct_member :: "err_value \<Rightarrow> err_obj \<Rightarrow> err_obj" where
  "err_construct_member v ob = (place err_trivial v ob)\<lparr>utag := err_kind v\<rparr>"

text \<open>
  \<open>construct(const Value&)\<close> and \<open>construct(Value&&)\<close>. For an undefined source the switch falls
  through to \<open>assert("...")\<close>, which is always satisfied, and nothing happens.
\<close>

definition err_construct :: "err_obj \<Rightarrow> err_obj \<Rightarrow> err_obj cpp" where
  "err_construct ob other =
     (case utag other of
        EV_boolean \<Rightarrow> cbind (read_as err_kind EV_boolean other) (\<lambda>v. Ret (err_construct_member v ob))
      | EV_integer \<Rightarrow> cbind (read_as err_kind EV_integer other) (\<lambda>v. Ret (err_construct_member v ob))
      | EV_floating_point \<Rightarrow>
          cbind (read_as err_kind EV_floating_point other) (\<lambda>v. Ret (err_construct_member v ob))
      | EV_string \<Rightarrow> cbind (read_as err_kind EV_string other) (\<lambda>v. Ret (err_construct_member v ob))
      | EV_blob \<Rightarrow> cbind (read_as err_kind EV_blob other) (\<lambda>v. Ret (err_construct_member v ob))
      | EV_dictionary \<Rightarrow>
          cbind (read_as err_kind EV_dictionary other) (\<lambda>v. Ret (err_construct_member v ob))
      | EV_vector \<Rightarrow> cbind (read_as err_kind EV_vector other) (\<lambda>v. Ret (err_construct_member v ob))
      | EV_undefined \<Rightarrow> Ret ob)"

text \<open>\<open>destruct\<close> overwrites the tag before it switches on it.\<close>

definition err_destruct :: "err_obj \<Rightarrow> err_obj cpp" where
  "err_destruct ob =
     (let ob1 = ob\<lparr>utag := EV_undefined\<rparr>
      in case utag ob1 of
           EV_undefined \<Rightarrow> Ret ob1
         | EV_boolean \<Rightarrow> Ret ob1
         | EV_integer \<Rightarrow> Ret ob1
         | EV_floating_point \<Rightarrow> Ret ob1
         | EV_string \<Rightarrow> destroy_as err_kind EV_string ob1
         | EV_blob \<Rightarrow> destroy_as err_kind EV_blob ob1
         | EV_dictionary \<Rightarrow> destroy_as err_kind EV_dictionary ob1
         | EV_vector \<Rightarrow> destroy_as err_kind EV_vector ob1)"

definition err_of_member :: "err_value \<Rightarrow> err_obj" where
  "err_of_member v = err_construct_member v err_default"

definition err_copy :: "err_obj \<Rightarrow> err_obj cpp" where
  "err_copy other = err_construct err_default other"

definition err_assign :: "(err_type, err_value) store \<Rightarrow> nat \<Rightarrow> nat \<Rightarrow> (err_type, err_value) store cpp" where
  "err_assign = assign_op err_destruct err_construct"

text \<open>A live member agrees with the tag; an undefined object may still hold an abandoned one.\<close>

definition err_wf :: "err_obj \<Rightarrow> bool" where
  "err_wf ob \<longleftrightarrow> (utag ob \<noteq> EV_undefined \<longrightarrow> (\<exists>v. ucont ob = Some v \<and> err_kind v = utag ob))"

definition err_value_of :: "err_obj \<Rightarrow> err_value" where
  "err_value_of ob = (case uval EV_undefined ob of None \<Rightarrow> Undefined | Some v \<Rightarrow> v)"

lemma err_destruct_skips_destructor: "err_destruct ob = Ret (ob\<lparr>utag := EV_undefined\<rparr>)"
  by (simp add: err_destruct_def)

lemma err_construct_eq:
  assumes "err_wf other"
  shows "err_construct ob other =
           Ret (if utag other = EV_undefined then ob else err_construct_member (err_value_of other) ob)"
  using assms
  by (cases "utag other")
     (auto simp: err_construct_def err_wf_def err_value_of_def uval_def read_as_def)

lemma err_construct_member_value:
  "err_kind v \<noteq> EV_undefined \<Longrightarrow>
   err_wf (err_construct_member v ob) \<and> err_value_of (err_construct_member v ob) = v"
  by (simp add: err_construct_member_def place_def err_wf_def err_value_of_def uval_def)

lemma err_value_of_kind:
  "err_wf ob \<Longrightarrow> utag ob \<noteq> EV_undefined \<Longrightarrow> err_kind (err_value_of ob) = utag ob"
  by (auto simp: err_wf_def err_value_of_def uval_def)

text \<open>
  Assignment copies the value, but the member it replaces is abandoned: a string, blob,
  dictionary or vector is leaked on every assignment to a value that holds one.
\<close>

lemma err_assign_leaks:
  assumes "err_wf (st src)" "dst \<noteq> src" "utag (st src) \<noteq> EV_undefined"
  shows "\<exists>ob. err_assign st dst src = Ret (st(dst := ob)) \<and> err_wf ob \<and>
              err_value_of ob = err_value_of (st src) \<and>
              uleak ob = (case ucont (st dst) of
                            None \<Rightarrow> uleak (st dst)
                          | Some q \<Rightarrow> if err_trivial q then uleak (st dst) else q # uleak (st dst))"
proof -
  let ?d = "(st dst)\<lparr>utag := EV_undefined\<rparr>" and ?v = "err_value_of (st src)"
  have "err_assign st dst src = Ret (st(dst := err_construct_member ?v ?d))"
    using assms by (simp add: err_assign_def assign_op_def err_destruct_skips_destructor
        err_construct_eq Let_def)
  moreover have "err_kind ?v \<noteq> EV_undefined" using assms by (simp add: err_value_of_kind)
  ultimately show ?thesis
    using err_construct_member_value [of ?v ?d]
    by (auto simp: err_construct_member_def place_def split: option.splits)
qed

text \<open>\<open>v = v\<close> turns any value into an undefined one.\<close>

lemma err_assign_self: "\<exists>ob. err_assign st i i = Ret (st(i := ob)) \<and> err_value_of ob = Undefined"
  by (intro exI [of _ "(st i)\<lparr>utag := EV_undefined\<rparr>"])
     (simp add: err_assign_def assign_op_def err_destruct_skips_destructor err_construct_def
        err_value_of_def uval_def Let_def)

subsection \<open>Ordering and equality\<close>

definition char_less :: "char \<Rightarrow> char \<Rightarrow> bool" where
  "char_less a b \<longleftrightarrow> (of_char a :: nat) < of_char b"

definition err_less :: "err_value \<Rightarrow> err_value \<Rightarrow> bool cpp" where
  "err_less l r =
     (if \<not> err_is_basic l \<or> \<not> err_is_basic r then Throw (Logic_error ''cannot compare non-basic types'')
      else if err_kind l \<noteq> err_kind r then Ret (err_type_rank (err_kind l) < err_type_rank (err_kind r))
      else case (l, r) of
        (Boolean a, Boolean b) \<Rightarrow> Ret (\<not> a \<and> b)
      | (Integer a, Integer b) \<Rightarrow> Ret (sint a < sint b)
      | (Floating a, Floating b) \<Rightarrow> Ret (dbl_less a b)
      | (String a, String b) \<Rightarrow> Ret (lex_less char_less a b)
      | (Blob a, Blob b) \<Rightarrow> Ret (lex_less (<) a b)
      | _ \<Rightarrow> Ret False)"

primrec err_eq :: "err_value \<Rightarrow> err_value \<Rightarrow> bool"
  and err_eq_pairs :: "(err_value \<times> err_value) list \<Rightarrow> (err_value \<times> err_value) list \<Rightarrow> bool"
  and err_eq_pair :: "err_value \<times> err_value \<Rightarrow> err_value \<times> err_value \<Rightarrow> bool"
  and err_eq_list :: "err_value list \<Rightarrow> err_value list \<Rightarrow> bool" where
  "err_eq Undefined r = False"
| "err_eq (Boolean a) r = (case r of Boolean b \<Rightarrow> a = b | _ \<Rightarrow> False)"
| "err_eq (Integer a) r = (case r of Integer b \<Rightarrow> a = b | _ \<Rightarrow> False)"
| "err_eq (Floating a) r = (case r of Floating b \<Rightarrow> dbl_eq a b | _ \<Rightarrow> False)"
| "err_eq (String a) r = (case r of String b \<Rightarrow> a = b | _ \<Rightarrow> False)"
| "err_eq (Blob a) r = (case r of Blob b \<Rightarrow> a = b | _ \<Rightarrow> False)"
| "err_eq (Dictionary a) r = (case r of Dictionary b \<Rightarrow> err_eq_pairs a b | _ \<Rightarrow> False)"
| "err_eq (Vector a) r = (case r of Vector b \<Rightarrow> err_eq_list a b | _ \<Rightarrow> False)"
| "err_eq_pairs [] b = (b = [])"
| "err_eq_pairs (x # a) b = (case b of [] \<Rightarrow> False | y # b' \<Rightarrow> err_eq_pair x y \<and> err_eq_pairs a b')"
| "err_eq_pair (k, v) y = (err_eq k (fst y) \<and> err_eq v (snd y))"
| "err_eq_list [] b = (b = [])"
| "err_eq_list (x # a) b = (case b of [] \<Rightarrow> False | y # b' \<Rightarrow> err_eq x y \<and> err_eq_list a b')"

text \<open>
  Values that compare equal have the same type; the converse direction fails for undefined
  values and NaN, and everything else compares equal to itself.
\<close>

lemma err_eq_same_kind: "err_eq l r \<Longrightarrow> err_kind l = err_kind r"
  by (cases l; cases r) auto

lemma err_eq_undefined [simp]: "\<not> err_eq Undefined v" "\<not> err_eq v Undefined"
  by (cases v; simp)+

subsection \<open>The dictionary\<close>

text \<open>The keys \<open>operator<\<close> orders strictly: basic types, and no NaN.\<close>

definition err_key_ok :: "err_value \<Rightarrow> bool" where
  "err_key_ok v \<longleftrightarrow> err_is_basic v \<and> (case v of Floating d \<Rightarrow> \<not> dbl_nan d | _ \<Rightarrow> True)"

definition err_lt :: "err_value \<Rightarrow> err_value \<Rightarrow> bool" where
  "err_lt l r \<longleftrightarrow> err_less l r = Ret True"

text \<open>\<open>values_[key] = value\<close>; the comparison may throw while the position is searched.\<close>

fun err_dict_put ::
  "err_value \<Rightarrow> err_value \<Rightarrow> (err_value \<times> err_value) list \<Rightarrow> (err_value \<times> err_value) list cpp" where
  "err_dict_put k v [] = Ret [(k, v)]"
| "err_dict_put k v ((k', v') # m) =
     cbind (err_less k' k) (\<lambda>before.
       if before then cbind (err_dict_put k v m) (\<lambda>m'. Ret ((k', v') # m'))
       else cbind (err_less k k') (\<lambda>after.
         if after then Ret ((k, v) # (k', v') # m) else Ret ((k', v) # m)))"

interpretation char_order: map_order "\<lambda>_. True" char_less
  by unfold_locales (auto simp: char_less_def)

interpretation byte_order: map_order "\<lambda>_. True" "(<) :: 8 word \<Rightarrow> 8 word \<Rightarrow> bool"
  by unfold_locales auto

lemma err_lt_simps:
  "err_lt l r \<longleftrightarrow>
     err_is_basic l \<and> err_is_basic r \<and>
     (if err_kind l \<noteq> err_kind r then err_type_rank (err_kind l) < err_type_rank (err_kind r)
      else case (l, r) of
        (Boolean a, Boolean b) \<Rightarrow> \<not> a \<and> b
      | (Integer a, Integer b) \<Rightarrow> sint a < sint b
      | (Floating a, Floating b) \<Rightarrow> dbl_less a b
      | (String a, String b) \<Rightarrow> lex_less char_less a b
      | (Blob a, Blob b) \<Rightarrow> lex_less (<) a b
      | _ \<Rightarrow> False)"
  by (cases l; cases r) (auto simp: err_lt_def err_less_def)

lemma err_key_kinds:
  "err_key_ok v \<Longrightarrow> err_kind v \<noteq> EV_dictionary \<and> err_kind v \<noteq> EV_vector"
  by (cases v) (auto simp: err_key_ok_def err_is_basic_def)

lemma err_lt_irrefl: "\<not> err_lt v v"
  using char_order.lex_irrefl byte_order.lex_irrefl
  by (cases v) (auto simp: err_lt_simps list_all_iff)

lemma err_lt_rank: "err_lt l r \<Longrightarrow> err_type_rank (err_kind l) \<le> err_type_rank (err_kind r)"
  by (auto simp: err_lt_simps split: if_splits)

lemma err_type_rank_inj: "err_type_rank s = err_type_rank t \<Longrightarrow> s = t"
  by (cases s; cases t) simp_all

lemma err_kind_iff:
  "err_kind v = EV_undefined \<longleftrightarrow> v = Undefined"
  "err_kind v = EV_boolean \<longleftrightarrow> (\<exists>b. v = Boolean b)"
  "err_kind v = EV_integer \<longleftrightarrow> (\<exists>i. v = Integer i)"
  "err_kind v = EV_floating_point \<longleftrightarrow> (\<exists>d. v = Floating d)"
  "err_kind v = EV_string \<longleftrightarrow> (\<exists>s. v = String s)"
  "err_kind v = EV_blob \<longleftrightarrow> (\<exists>bs. v = Blob bs)"
  "err_kind v = EV_dictionary \<longleftrightarrow> (\<exists>m. v = Dictionary m)"
  "err_kind v = EV_vector \<longleftrightarrow> (\<exists>vs. v = Vector vs)"
  by (cases v; simp)+

text \<open>The order among keys of one type.\<close>

lemma err_lt_same_kind [simp]:
  "err_lt Undefined Undefined \<longleftrightarrow> False"
  "err_lt (Boolean a) (Boolean b) \<longleftrightarrow> \<not> a \<and> b"
  "err_lt (Integer i) (Integer j) \<longleftrightarrow> sint i < sint j"
  "err_lt (Floating x) (Floating y) \<longleftrightarrow> dbl_less x y"
  "err_lt (String s) (String t) \<longleftrightarrow> lex_less char_less s t"
  "err_lt (Blob bs) (Blob cs) \<longleftrightarrow> lex_less (<) bs cs"
  "err_lt (Dictionary m) (Dictionary m') \<longleftrightarrow> False"
  "err_lt (Vector vs) (Vector ws) \<longleftrightarrow> False"
  by (simp_all add: err_lt_simps err_is_basic_def)

lemma list_all_True: "list_all (\<lambda>_. True) xs"
  by (simp add: list_all_iff)

lemmas lex_key_facts =
  char_order.lex_trans [OF list_all_True list_all_True list_all_True]
  byte_order.lex_trans [OF list_all_True list_all_True list_all_True]

lemma err_lt_key_trans:
  assumes "err_key_ok a" "err_key_ok b" "err_key_ok c" "err_lt a b" "err_lt b c"
  shows "err_lt a c"
proof (cases "err_kind a = err_kind b \<and> err_kind b = err_kind c")
  case True
  then have "err_kind b = err_kind a" "err_kind c = err_kind a" by simp_all
  with assms(4,5) show ?thesis
    by (cases a) (auto simp: err_kind_iff intro: lex_key_facts dbl_less_trans)
next
  case False
  moreover have "err_type_rank (err_kind a) \<le> err_type_rank (err_kind b)"
    and "err_type_rank (err_kind b) \<le> err_type_rank (err_kind c)"
    using assms(4,5) by (simp_all add: err_lt_rank)
  ultimately have "err_type_rank (err_kind a) < err_type_rank (err_kind c)"
    using err_type_rank_inj by (metis dual_order.antisym order.trans le_neq_implies_less)
  with assms(1,3) show ?thesis by (auto simp: err_lt_simps err_key_ok_def)
qed

lemma err_lt_key_weak:
  assumes "err_key_ok a" "err_key_ok b" "err_key_ok c" "err_lt a c"
  shows "err_lt a b \<or> err_lt b c"
proof (cases "err_kind a = err_kind b \<and> err_kind b = err_kind c")
  case True
  then have k: "err_kind b = err_kind a" "err_kind c = err_kind a" by simp_all
  note weak = char_order.lex_weak [OF list_all_True list_all_True list_all_True]
    byte_order.lex_weak [OF list_all_True list_all_True list_all_True]
  from k assms(2,4) show ?thesis
    by (cases a) (auto simp: err_kind_iff dbl_less_def err_key_ok_def dest: weak)
next
  case False
  let ?r = "\<lambda>v. err_type_rank (err_kind v)"
  have "?r a \<le> ?r c" using assms(4) by (rule err_lt_rank)
  with False have "?r a < ?r b \<or> ?r b < ?r c"
    using err_type_rank_inj by (metis linorder_neqE_nat order.trans le_antisym nat_less_le not_less)
  with assms(1-3) show ?thesis by (auto simp: err_lt_simps err_key_ok_def)
qed

text \<open>\<open>operator<\<close> on the keys the dictionary accepts is what \<open>std::map\<close> asks for.\<close>

interpretation err_order: map_order err_key_ok err_lt
  by unfold_locales (auto simp: err_lt_irrefl intro: err_lt_key_trans dest: err_lt_key_weak)

lemma err_less_key: "err_key_ok a \<Longrightarrow> err_key_ok b \<Longrightarrow> err_less a b = Ret (err_lt a b)"
  by (auto simp: err_lt_def err_less_def err_key_ok_def split: err_value.splits)

text \<open>With such keys an insertion never throws and is the insertion of theory Std_Map.\<close>

lemma err_dict_put_eq:
  "err_key_ok k \<Longrightarrow> \<forall>x \<in> set m. err_key_ok (fst x) \<Longrightarrow>
   err_dict_put k v m = Ret (smap_put err_lt k v m)"
  by (induction m) (auto simp: err_less_key)

lemma err_dict_put_non_basic:
  "\<not> err_is_basic k \<Longrightarrow> m \<noteq> [] \<Longrightarrow>
   err_dict_put k v m = Throw (Logic_error ''cannot compare non-basic types'')"
  by (cases m) (auto simp: err_less_def)

subsection \<open>The error object\<close>

record err =
  err_message :: string
  err_description :: "string option"
  err_values :: "(err_value \<times> err_value) list"

definition error_default :: err where
  "error_default = \<lparr>err_message = [], err_description = None, err_values = []\<rparr>"

definition error_of_message :: "string \<Rightarrow> err" where
  "error_of_message m = error_default\<lparr>err_message := m\<rparr>"

definition error_set_message :: "string \<Rightarrow> err \<Rightarrow> err" where
  "error_set_message m e = e\<lparr>err_message := m\<rparr>"

definition error_clear_description :: "err \<Rightarrow> err" where
  "error_clear_description e = e\<lparr>err_description := None\<rparr>"

definition error_set_description :: "string \<Rightarrow> err \<Rightarrow> err" where
  "error_set_description d e = e\<lparr>err_description := Some d\<rparr>"

definition error_clear_values :: "err \<Rightarrow> err" where
  "error_clear_values e = e\<lparr>err_values := []\<rparr>"

definition error_value :: "err_value \<Rightarrow> err_value \<Rightarrow> err \<Rightarrow> err cpp" where
  "error_value k v e = cbind (err_dict_put k v (err_values e)) (\<lambda>m. Ret (e\<lparr>err_values := m\<rparr>))"

text \<open>The dictionary of an error built through \<open>value\<close> with proper keys.\<close>

definition error_values_ok :: "err \<Rightarrow> bool" where
  "error_values_ok e \<longleftrightarrow>
     list_all (\<lambda>x. err_key_ok (fst x)) (err_values e) \<and> smap_sorted err_lt (err_values e)"

definition error_lookup :: "err_value \<Rightarrow> err \<Rightarrow> err_value option" where
  "error_lookup k e = smap_get err_lt k (err_values e)"

lemma error_values_ok_default [simp]: "error_values_ok (error_of_message m)"
  by (simp add: error_values_ok_def error_of_message_def error_default_def)

lemma error_value_simps:
  assumes "error_values_ok e" "err_key_ok k"
  shows "error_value k v e = Ret (e\<lparr>err_values := smap_put err_lt k v (err_values e)\<rparr>)"
  using assms by (simp add: error_value_def err_dict_put_eq error_values_ok_def list_all_iff)

lemma error_value_keeps_ok:
  assumes "error_values_ok e" "err_key_ok k" "error_value k v e = Ret e'"
  shows "error_values_ok e'"
  using assms err_order.put_ok [of k "err_values e" v] err_order.put_sorted [of k "err_values e" v]
  by (auto simp: error_value_simps error_values_ok_def list_all_iff)

subsection \<open>Textual form\<close>

definition show_bool :: "bool \<Rightarrow> string" where
  "show_bool b = (if b then ''true'' else ''false'')"

primrec show_err_value :: "err_value \<Rightarrow> string"
  and show_err_pairs :: "(err_value \<times> err_value) list \<Rightarrow> string"
  and show_err_pair :: "err_value \<times> err_value \<Rightarrow> string"
  and show_err_list :: "err_value list \<Rightarrow> string" where
  "show_err_value Undefined = ''undefined''"
| "show_err_value (Boolean b) = show_bool b"
| "show_err_value (Integer i) = show_int (sint i)"
| "show_err_value (Floating d) = show_double d"
| "show_err_value (String s) = s"
| "show_err_value (Blob bs) = concat (map (\<lambda>b. ''0x'' @ show_hex (unat b) @ '' '') bs)"
| "show_err_value (Dictionary m) = ''['' @ show_err_pairs m @ '']''"
| "show_err_value (Vector vs) = ''['' @ show_err_list vs @ '']''"
| "show_err_pairs [] = []"
| "show_err_pairs (x # m) = show_err_pair x @ show_err_pairs m"
| "show_err_pair (k, v) = ''('' @ show_err_value k @ '','' @ show_err_value v @ '')''"
| "show_err_list [] = []"
| "show_err_list (x # vs) = ''('' @ show_err_value x @ '')'' @ show_err_list vs"

definition show_err :: "err \<Rightarrow> string" where
  "show_err e =
     err_message e @
     (case err_description e of None \<Rightarrow> [] | Some d \<Rightarrow> CHR 0x0A # d) @
     concat (map (\<lambda>(k, v). CHR 0x0A # ''  '' @ show_err_value k @ '': '' @ show_err_value v)
              (err_values e))"

end
