(* ===== verification/Domain.thy ===== *)
theory Domain
  imports "HOL-Library.Signed_Division" Geometry Ruleset
begin

text \<open>
  The values the services exchange: points in time (include/airmap/date_time.h,
  src/airmap/date_time.cpp), pilots and aircraft, flights, flight plans, telemetry updates,
  traffic updates and credentials (the headers under include/airmap/), each as a record or
  datatype with the source's fields. An \<open>Optional\<close> is an \<open>option\<close>; the lifetimes behind
  it are the subject of theory Optional_Outcome.
\<close>

subsection \<open>Points in time\<close>

text \<open>
  A \<open>boost::posix_time::ptime\<close> is its count of microseconds since the UNIX epoch, or the
  special value a default-constructed one has; a \<open>time_duration\<close> is its count of
  microseconds. Conversions to coarser units truncate, as Boost documents them.
\<close>

datatype date_time = Not_a_date_time | At int

type_synonym duration = int

definition hours :: "64 word \<Rightarrow> duration" where
  "hours n = sint n * 3600000000"

definition minutes :: "64 word \<Rightarrow> duration" where
  "minutes n = sint n * 60000000"

definition seconds :: "64 word \<Rightarrow> duration" where
  "seconds n = sint n * 1000000"

definition milliseconds :: "64 word \<Rightarrow> duration" where
  "milliseconds n = sint n * 1000"

definition microseconds :: "64 word \<Rightarrow> duration" where
  "microseconds n = sint n"

definition dur_total_seconds :: "duration \<Rightarrow> 64 word" where
  "dur_total_seconds d = word_of_int (d sdiv 1000000)"

definition dur_total_milliseconds :: "duration \<Rightarrow> 64 word" where
  "dur_total_milliseconds d = word_of_int (d sdiv 1000)"

definition dur_total_microseconds :: "duration \<Rightarrow> 64 word" where
  "dur_total_microseconds d = word_of_int d"

definition dur_hours :: "duration \<Rightarrow> 64 word" where
  "dur_hours d = word_of_int (d sdiv 3600000000)"

fun dt_plus :: "date_time \<Rightarrow> duration \<Rightarrow> date_time" where
  "dt_plus (At t) d = At (t + d)"
| "dt_plus Not_a_date_time d = Not_a_date_time"

text \<open>A difference with the special value is a special duration, here \<open>None\<close>.\<close>

fun dt_minus :: "date_time \<Rightarrow> date_time \<Rightarrow> duration option" where
  "dt_minus (At t) (At u) = Some (t - u)"
| "dt_minus _ _ = None"

fun dt_time_of_day :: "date_time \<Rightarrow> duration option" where
  "dt_time_of_day (At t) = Some (t mod 86400000000)"
| "dt_time_of_day Not_a_date_time = None"

fun dt_date :: "date_time \<Rightarrow> date_time" where
  "dt_date (At t) = At (t - t mod 86400000000)"
| "dt_date Not_a_date_time = Not_a_date_time"

definition epoch :: date_time where
  "epoch = At 0"

definition milliseconds_since_epoch :: "date_time \<Rightarrow> 64 word option" where
  "milliseconds_since_epoch dt = map_option dur_total_milliseconds (dt_minus dt epoch)"

definition microseconds_since_epoch :: "date_time \<Rightarrow> 64 word option" where
  "microseconds_since_epoch dt = map_option dur_total_microseconds (dt_minus dt epoch)"

definition from_seconds_since_epoch :: "duration \<Rightarrow> date_time" where
  "from_seconds_since_epoch s = dt_plus epoch s"

definition from_milliseconds_since_epoch :: "duration \<Rightarrow> date_time" where
  "from_milliseconds_since_epoch ms = dt_plus epoch ms"

definition from_microseconds_since_epoch :: "duration \<Rightarrow> date_time" where
  "from_microseconds_since_epoch us = dt_plus epoch us"

definition move_to_hour :: "date_time \<Rightarrow> 64 word \<Rightarrow> date_time option" where
  "move_to_hour dt hour =
     map_option
       (\<lambda>tod. let h = dur_hours tod
               in dt_plus dt (hours ((if hour > h then 0 else 24) + hour - h)))
       (dt_time_of_day dt)"

lemma sdiv_nonneg: "0 \<le> a \<Longrightarrow> 0 < b \<Longrightarrow> a sdiv b = a div (b :: int)"
  by (simp add: signed_divide_int_def sgn_if)

lemma sint_word_of_int_small: "0 \<le> i \<Longrightarrow> i < 2 ^ 63 \<Longrightarrow> sint (word_of_int i :: 64 word) = i"
  by (subst sint_uint) (simp add: signed_take_bit_int_eq_self uint_word_of_int take_bit_int_eq_self)

lemma milliseconds_round_trip:
  assumes "0 \<le> sint ms"
  shows "milliseconds_since_epoch (from_milliseconds_since_epoch (milliseconds ms)) = Some ms"
  using assms
  by (simp add: milliseconds_since_epoch_def from_milliseconds_since_epoch_def milliseconds_def
      epoch_def dur_total_milliseconds_def sdiv_nonneg)

subsection \<open>Pilots and aircraft\<close>

record aircraft_model =
  am_id :: string
  am_name :: string
  am_manufacturer_id :: string
  am_manufacturer_name :: string

record aircraft =
  ac_id :: string
  ac_nick_name :: string
  ac_model :: aircraft_model
  ac_created_at :: date_time

record pilot =
  pi_id :: string
  pi_first_name :: string
  pi_last_name :: string
  pi_user_name :: string
  pi_picture_url :: "string option"
  pi_verified_email :: bool
  pi_verified_phone :: bool
  pi_flights_total :: "64 word"
  pi_last_flight_time :: date_time
  pi_aircraft_total :: "64 word"
  pi_metadata_app :: "(string \<times> string) list"
  pi_metadata_user :: "(string \<times> string) list"
  pi_created_at :: date_time

text \<open>\<open>Pilot::Aircraft{id}\<close> and \<open>Pilot{id}\<close>: the other members are value-initialized.\<close>

definition aircraft_of_id :: "string \<Rightarrow> aircraft" where
  "aircraft_of_id i =
     \<lparr>ac_id = i, ac_nick_name = [],
      ac_model = \<lparr>am_id = [], am_name = [], am_manufacturer_id = [], am_manufacturer_name = []\<rparr>,
      ac_created_at = Not_a_date_time\<rparr>"

definition pilot_of_id :: "string \<Rightarrow> pilot" where
  "pilot_of_id i =
     \<lparr>pi_id = i, pi_first_name = [], pi_last_name = [], pi_user_name = [], pi_picture_url = None,
      pi_verified_email = False, pi_verified_phone = False, pi_flights_total = 0,
      pi_last_flight_time = Not_a_date_time, pi_aircraft_total = 0,
      pi_metadata_app = [], pi_metadata_user = [], pi_created_at = Not_a_date_time\<rparr>"

subsection \<open>Flights and flight plans\<close>

record flight =
  fl_id :: string
  fl_flight_plan_id :: "string option"
  fl_pilot :: pilot
  fl_aircraft :: aircraft
  fl_latitude :: float32
  fl_longitude :: float32
  fl_max_altitude :: float32
  fl_geometry :: geometry
  fl_created_at :: date_time
  fl_start_time :: date_time
  fl_end_time :: date_time

record flight_plan =
  fp_id :: string
  fp_flight_id :: "string option"
  fp_pilot :: pilot
  fp_aircraft :: aircraft
  fp_takeoff_latitude :: float32
  fp_takeoff_longitude :: float32
  fp_altitude_max :: float32
  fp_altitude_min :: float32
  fp_buffer :: float32
  fp_geometry :: geometry
  fp_start_time :: date_time
  fp_end_time :: date_time
  fp_rulesets :: "string list"
  fp_features :: "(string \<times> feature_value option) list"

subsection \<open>Credentials\<close>

record oauth_credentials =
  oc_username :: string
  oc_password :: string
  oc_client_id :: string
  oc_device_id :: string

record credentials =
  cr_api_key :: string
  cr_oauth :: "oauth_credentials option"
  cr_anonymous :: "string option"

subsection \<open>Telemetry\<close>

record telemetry_position =
  tp_timestamp :: "64 word"
  tp_latitude :: double
  tp_longitude :: double
  tp_altitude_msl :: double
  tp_altitude_gl :: double
  tp_horizontal_accuracy :: double

record telemetry_speed =
  ts_timestamp :: "64 word"
  ts_velocity_x :: float32
  ts_velocity_y :: float32
  ts_velocity_z :: float32

record telemetry_attitude =
  ta_timestamp :: "64 word"
  ta_yaw :: float32
  ta_pitch :: float32
  ta_roll :: float32

record telemetry_barometer =
  tb_timestamp :: "64 word"
  tb_pressure :: float32

datatype telemetry_update =
    Update_position telemetry_position
  | Update_speed telemetry_speed
  | Update_attitude telemetry_attitude
  | Update_barometer telemetry_barometer

fun telemetry_update_type :: "telemetry_update \<Rightarrow> 8 word" where
  "telemetry_update_type (Update_position _) = 1"
| "telemetry_update_type (Update_speed _) = 2"
| "telemetry_update_type (Update_attitude _) = 3"
| "telemetry_update_type (Update_barometer _) = 4"

subsection \<open>Traffic\<close>

datatype traffic_type = Traffic_unknown | Traffic_situational_awareness | Traffic_alert

record traffic_update =
  tu_id :: string
  tu_aircraft_id :: string
  tu_latitude :: double
  tu_longitude :: double
  tu_altitude :: double
  tu_ground_speed :: double
  tu_heading :: double
  tu_direction :: double
  tu_recorded :: date_time
  tu_timestamp :: date_time

subsection \<open>Moving to an hour of the day\<close>

lemma move_to_hour_eq:
  assumes "0 \<le> h" "h < 24"
  shows "\<exists>k. move_to_hour (At t) (word_of_int h) = Some (At (t + k * 3600000000)) \<and>
             1 \<le> k \<and> k \<le> 24 \<and> (t mod 86400000000) div 3600000000 + k = (if t mod 86400000000 div 3600000000 < h then h else h + 24)"
proof -
  define c where "c = (t mod 86400000000) div 3600000000"
  have c: "0 \<le> c" "c < 24" by (simp_all add: c_def div_less_dividend)
  have dh: "dur_hours (t mod 86400000000) = word_of_int c"
    by (simp add: dur_hours_def sdiv_nonneg c_def)
  have less: "(word_of_int c :: 64 word) < word_of_int h \<longleftrightarrow> c < h"
    using c assms by (simp add: word_less_def uint_word_of_int take_bit_int_eq_self)
  define k where "k = (if c < h then h - c else 24 + h - c)"
  have k: "1 \<le> k" "k \<le> 24" using c assms by (auto simp: k_def)
  have "(if word_of_int h > (word_of_int c :: 64 word) then 0 else 24) + word_of_int h - word_of_int c
        = (word_of_int k :: 64 word)"
    by (simp add: less k_def)
  moreover have "sint (word_of_int k :: 64 word) = k"
    using k by (intro sint_word_of_int_small) simp_all
  ultimately have "move_to_hour (At t) (word_of_int h) = Some (At (t + k * 3600000000))"
    by (simp add: move_to_hour_def dh hours_def Let_def)
  then show ?thesis using k c by (intro exI [of _ k]) (auto simp: k_def c_def)
qed

end
