(* ===== verification/Mavlink.thy ===== *)
theory Mavlink
  imports Domain "HOL-Library.Sublist"
begin

text \<open>
  The vehicle side (src/airmap/mavlink): messages as the MAVLink library decodes them, the
  upload of a mission (mission.cpp), a vehicle and the notifications it sends to its monitors
  (vehicle.cpp), the tracker that finds the vehicle a message belongs to (vehicle_tracker.cpp),
  and the channels and routes that carry messages (channel.cpp, router.cpp). The framing
  function and the numeric values of the MAVLink headers are parameters.
\<close>

subsection \<open>Messages\<close>

datatype mav_state =
    MS_uninit | MS_boot | MS_calibrating | MS_standby | MS_active | MS_critical | MS_emergency
  | MS_poweroff | MS_other "8 word"

fun mav_state_text :: "mav_state \<Rightarrow> string" where
  "mav_state_text MS_uninit = ''uninit''"
| "mav_state_text MS_boot = ''boot''"
| "mav_state_text MS_calibrating = ''calibrating''"
| "mav_state_text MS_standby = ''standby''"
| "mav_state_text MS_active = ''active''"
| "mav_state_text MS_critical = ''critical''"
| "mav_state_text MS_emergency = ''emergency''"
| "mav_state_text MS_poweroff = ''poweroff''"
| "mav_state_text (MS_other _) = []"

record global_position =
  gp_time_boot_ms :: "32 word"
  gp_lat :: "32 word"
  gp_lon :: "32 word"
  gp_alt :: "32 word"
  gp_relative_alt :: "32 word"
  gp_vx :: "16 word"
  gp_vy :: "16 word"
  gp_vz :: "16 word"
  gp_hdg :: "16 word"

record mission_item =
  mi_seq :: "16 word"
  mi_command :: "16 word"
  mi_x :: float32
  mi_y :: float32
  mi_z :: float32
  mi_mission_type :: "8 word"

datatype mav_payload =
    Heartbeat mav_state
  | Global_position_int global_position
  | Mission_clear_all
  | Mission_count "16 word"
  | Mission_item mission_item
  | Other_message "32 word"

record mav_message =
  mm_sysid :: "8 word"
  mm_payload :: mav_payload

subsection \<open>Missions\<close>

text \<open>
  \<open>counter_\<close> is a \<open>size_t\<close> that only counts items whose 16-bit sequence number equals
  it, so it never passes 65536 and is kept as a natural number.
\<close>

record mission =
  mn_coordinates :: "coordinate list"
  mn_counter :: nat
  mn_size :: nat

definition mission_empty :: mission where
  "mission_empty = \<lparr>mn_coordinates = [], mn_counter = 0, mn_size = 0\<rparr>"

definition mission_clear_all :: "mission \<Rightarrow> mission" where
  "mission_clear_all m = m\<lparr>mn_coordinates := [], mn_counter := 0, mn_size := 0\<rparr>"

definition mission_count :: "16 word \<Rightarrow> mission \<Rightarrow> mission" where
  "mission_count n m = m\<lparr>mn_coordinates := [], mn_counter := 0, mn_size := unat n\<rparr>"

text \<open>\<open>nav_waypoint\<close> is \<open>MAV_CMD_NAV_WAYPOINT\<close>.\<close>

definition mission_item_step :: "int \<Rightarrow> mission_item \<Rightarrow> mission \<Rightarrow> bool \<times> mission" where
  "mission_item_step nav_waypoint mi m =
     (if unat (mi_seq mi) = mn_counter m then
        let m1 = m\<lparr>mn_counter := mn_counter m + 1\<rparr>;
            m2 = (if uint (mi_mission_type mi) = nav_waypoint
                  then m1\<lparr>mn_coordinates := mn_coordinates m1 @
                          [\<lparr>latitude = dbl_of_float (mi_x mi), longitude = dbl_of_float (mi_y mi),
                            altitude = Some (dbl_of_float (mi_z mi)), elevation = None\<rparr>]\<rparr>
                  else m1)
        in (mn_counter m2 = mn_size m2, m2)
      else (False, m))"

fun mission_update :: "int \<Rightarrow> mav_payload \<Rightarrow> mission \<Rightarrow> bool \<times> mission" where
  "mission_update nav Mission_clear_all m = (False, mission_clear_all m)"
| "mission_update nav (Mission_count n) m = (False, mission_count n m)"
| "mission_update nav (Mission_item mi) m = mission_item_step nav mi m"
| "mission_update nav _ m = (False, m)"

text \<open>A run of items, with the answer of every update.\<close>

fun mission_items :: "int \<Rightarrow> mission_item list \<Rightarrow> mission \<Rightarrow> bool list \<times> mission" where
  "mission_items nav [] m = ([], m)"
| "mission_items nav (mi # mis) m =
     (let (b, m1) = mission_item_step nav mi m; (bs, m2) = mission_items nav mis m1 in (b # bs, m2))"

text \<open>Only sequence numbers matter to the counter: it walks through \<open>0, 1, 2, ...\<close>.\<close>

fun seq_count :: "nat \<Rightarrow> nat list \<Rightarrow> nat" where
  "seq_count c [] = c"
| "seq_count c (s # ss) = seq_count (if s = c then c + 1 else c) ss"

lemma seq_count_mono: "c \<le> seq_count c ss"
  by (induction ss arbitrary: c) (auto intro: order_trans [of _ "Suc _"] le_SucI Suc_leD)

lemma seq_count_subseq: "n \<le> seq_count c ss \<longleftrightarrow> n \<le> c \<or> subseq [c..<n] ss"
proof (induction ss arbitrary: c)
  case (Cons s ss)
  show ?case
  proof (cases "n \<le> c")
    case True
    then show ?thesis using seq_count_mono [of c "s # ss"] by simp
  next
    case False
    then have "[c..<n] = c # [Suc c..<n]" by (simp add: upt_conv_Cons)
    with False Cons.IH [of "Suc c"] Cons.IH [of c] show ?thesis
      by (cases "s = c") (auto simp: not_le less_eq_Suc_le [symmetric] le_Suc_eq)
  qed
qed (auto dest: list_emb_length)

lemma mission_item_step_simps [simp]:
  "mn_counter (snd (mission_item_step nav mi m)) =
     (if unat (mi_seq mi) = mn_counter m then mn_counter m + 1 else mn_counter m)"
  "mn_size (snd (mission_item_step nav mi m)) = mn_size m"
  "fst (mission_item_step nav mi m) \<longleftrightarrow>
     unat (mi_seq mi) = mn_counter m \<and> mn_counter m + 1 = mn_size m"
  by (auto simp: mission_item_step_def Let_def)

lemma mission_items_counter:
  "mn_size (snd (mission_items nav mis m)) = mn_size m \<and>
   mn_counter (snd (mission_items nav mis m)) =
     seq_count (mn_counter m) (map (\<lambda>mi. unat (mi_seq mi)) mis)"
proof (induction mis arbitrary: m)
  case (Cons mi mis)
  obtain b m1 where s: "mission_item_step nav mi m = (b, m1)" by fastforce
  with Cons [of m1] mission_item_step_simps [of nav mi m] show ?case
    by (auto simp: split_beta Let_def)
qed simp

text \<open>The number of completions: one when the counter crosses the size, else none.\<close>

lemma mission_items_completions:
  "length (filter id (fst (mission_items nav mis m))) =
     (if mn_counter m < mn_size m \<and>
         mn_size m \<le> seq_count (mn_counter m) (map (\<lambda>mi. unat (mi_seq mi)) mis) then 1 else 0)"
proof (induction mis arbitrary: m)
  case (Cons mi mis)
  obtain b m1 where s: "mission_item_step nav mi m = (b, m1)" by fastforce
  have m1: "mn_size m1 = mn_size m"
    "mn_counter m1 = (if unat (mi_seq mi) = mn_counter m then mn_counter m + 1 else mn_counter m)"
    "b \<longleftrightarrow> unat (mi_seq mi) = mn_counter m \<and> mn_counter m + 1 = mn_size m"
    using mission_item_step_simps [of nav mi m] s by simp_all
  show ?case
    using Cons [of m1] m1 s seq_count_mono [of "Suc (mn_counter m)" "map (\<lambda>mi. unat (mi_seq mi)) mis"]
    by (auto simp: split_beta Let_def)
qed simp

text \<open>What the model keeps of the items: nothing unless their mission type is the command.\<close>

lemma mission_items_coordinates:
  "list_all (\<lambda>mi. uint (mi_mission_type mi) \<noteq> nav) mis \<Longrightarrow>
   mn_coordinates (snd (mission_items nav mis m)) = mn_coordinates m"
proof (induction mis arbitrary: m)
  case (Cons mi mis)
  then have "mn_coordinates (snd (mission_item_step nav mi m)) = mn_coordinates m"
    by (simp add: mission_item_step_def Let_def)
  with Cons.IH [of "snd (mission_item_step nav mi m)"] Cons.prems show ?case
    by (simp add: split_beta Let_def)
qed simp

subsection \<open>Vehicles\<close>

record 'm vehicle =
  ve_system_id :: "8 word"
  ve_monitors :: "'m list"
  ve_status :: mav_state
  ve_position :: "global_position option"
  ve_mission :: mission

datatype vehicle_event =
    Status_changed "mav_state option" mav_state
  | Position_changed "global_position option" global_position
  | Mission_received geometry

definition vehicle_init :: "8 word \<Rightarrow> 'm vehicle" where
  "vehicle_init i =
     \<lparr>ve_system_id = i, ve_monitors = [], ve_status = MS_uninit, ve_position = None,
      ve_mission = mission_empty\<rparr>"

text \<open>
  The monitors are an unordered set; the list holds them in the order a traversal visits
  them. An update yields the calls it makes, in order.
\<close>

definition register_monitor :: "'m \<Rightarrow> 'm vehicle \<Rightarrow> 'm vehicle" where
  "register_monitor m v =
     (if m \<in> set (ve_monitors v) then v else v\<lparr>ve_monitors := ve_monitors v @ [m]\<rparr>)"

definition unregister_monitor :: "'m \<Rightarrow> 'm vehicle \<Rightarrow> 'm vehicle" where
  "unregister_monitor m v = v\<lparr>ve_monitors := filter (\<lambda>m'. m' \<noteq> m) (ve_monitors v)\<rparr>"

definition notify :: "'m vehicle \<Rightarrow> vehicle_event \<Rightarrow> ('m \<times> vehicle_event) list" where
  "notify v e = map (\<lambda>m. (m, e)) (ve_monitors v)"

definition vehicle_heartbeat ::
  "mav_state \<Rightarrow> 'm vehicle \<Rightarrow> ('m \<times> vehicle_event) list \<times> 'm vehicle" where
  "vehicle_heartbeat s v =
     (if ve_status v \<noteq> s
      then (notify v (Status_changed (Some (ve_status v)) s), v\<lparr>ve_status := s\<rparr>)
      else ([], v))"

definition vehicle_position ::
  "global_position \<Rightarrow> 'm vehicle \<Rightarrow> ('m \<times> vehicle_event) list \<times> 'm vehicle" where
  "vehicle_position p v =
     (notify v (Position_changed (ve_position v) p), v\<lparr>ve_position := Some p\<rparr>)"

definition vehicle_mission ::
  "int \<Rightarrow> mav_payload \<Rightarrow> 'm vehicle \<Rightarrow> ('m \<times> vehicle_event) list \<times> 'm vehicle" where
  "vehicle_mission nav p v =
     (let (finished, m) = mission_update nav p (ve_mission v); v1 = v\<lparr>ve_mission := m\<rparr>
      in (if finished then notify v1 (Mission_received (G_line_string (mn_coordinates m))) else [], v1))"

definition vehicle_update ::
  "int \<Rightarrow> mav_message \<Rightarrow> 'm vehicle \<Rightarrow> (('m \<times> vehicle_event) list \<times> 'm vehicle) cpp" where
  "vehicle_update nav msg v =
     (if ve_system_id v \<noteq> mm_sysid msg then Throw Assertion_failed
      else Ret (case mm_payload msg of
             Heartbeat s \<Rightarrow> vehicle_heartbeat s v
           | Global_position_int p \<Rightarrow> vehicle_position p v
           | Mission_clear_all \<Rightarrow> vehicle_mission nav (mm_payload msg) v
           | Mission_count _ \<Rightarrow> vehicle_mission nav (mm_payload msg) v
           | Mission_item _ \<Rightarrow> vehicle_mission nav (mm_payload msg) v
           | Other_message _ \<Rightarrow> ([], v)))"

lemmas vehicle_defs = vehicle_update_def vehicle_heartbeat_def vehicle_position_def vehicle_mission_def

lemma vehicle_update_frame:
  "vehicle_update nav msg v = Ret (es, v') \<Longrightarrow>
   ve_system_id v' = ve_system_id v \<and> ve_monitors v' = ve_monitors v"
  by (auto simp: vehicle_defs Let_def split_beta split: mav_payload.splits if_splits)

lemma vehicle_update_total:
  "ve_system_id v = mm_sysid msg \<Longrightarrow> \<exists>es v'. vehicle_update nav msg v = Ret (es, v')"
  by (simp add: vehicle_update_def)

text \<open>A stream of messages for one vehicle.\<close>

fun vehicle_run ::
  "int \<Rightarrow> mav_message list \<Rightarrow> 'm vehicle \<Rightarrow> (('m \<times> vehicle_event) list \<times> 'm vehicle) cpp" where
  "vehicle_run nav [] v = Ret ([], v)"
| "vehicle_run nav (msg # msgs) v =
     cbind (vehicle_update nav msg v) (\<lambda>(es, v1).
       cbind (vehicle_run nav msgs v1) (\<lambda>(es', v2). Ret (es @ es', v2)))"

subsection \<open>The tracker\<close>

record 'm tracker =
  tr_monitors :: "'m list"
  tr_vehicles :: "(8 word \<times> 'm vehicle) list"

definition tracker_init :: "'m tracker" where
  "tracker_init = \<lparr>tr_monitors = [], tr_vehicles = []\<rparr>"

text \<open>
  \<open>added\<close> is \<open>on_vehicle_added\<close>: a monitor may register with the vehicle and change its
  own state \<open>'w\<close>.
\<close>

definition tracker_register :: "'m \<Rightarrow> 'm tracker \<Rightarrow> 'm tracker" where
  "tracker_register m tr =
     (if m \<in> set (tr_monitors tr) then tr else tr\<lparr>tr_monitors := tr_monitors tr @ [m]\<rparr>)"

definition tracker_unregister :: "'m \<Rightarrow> 'm tracker \<Rightarrow> 'm tracker" where
  "tracker_unregister m tr = tr\<lparr>tr_monitors := filter (\<lambda>m'. m' \<noteq> m) (tr_monitors tr)\<rparr>"

definition tracker_find ::
  "('m \<Rightarrow> 'm vehicle \<Rightarrow> 'w \<Rightarrow> 'm vehicle \<times> 'w) \<Rightarrow> 8 word \<Rightarrow> 'm tracker \<Rightarrow> 'w \<Rightarrow> 'm vehicle \<times> 'w" where
  "tracker_find added i tr w =
     (case map_of (tr_vehicles tr) i of
        Some v \<Rightarrow> (v, w)
      | None \<Rightarrow> fold (\<lambda>m (v, w). added m v w) (tr_monitors tr) (vehicle_init i, w))"

definition tracker_update ::
  "int \<Rightarrow> ('m \<Rightarrow> 'm vehicle \<Rightarrow> 'w \<Rightarrow> 'm vehicle \<times> 'w) \<Rightarrow> mav_message \<Rightarrow> 'm tracker \<Rightarrow> 'w \<Rightarrow>
   (('m \<times> vehicle_event) list \<times> 'm tracker \<times> 'w) cpp" where
  "tracker_update nav added msg tr w =
     (let (v, w1) = tracker_find added (mm_sysid msg) tr w
      in cbind (vehicle_update nav msg v) (\<lambda>(es, v').
           Ret (es, tr\<lparr>tr_vehicles := put (mm_sysid msg) v' (tr_vehicles tr)\<rparr>, w1)))"

datatype tracker_event = Vehicle_added "8 word" | Vehicle_removed "8 word"

text \<open>What \<open>LoggingVehicleTrackerMonitor\<close> hands to the monitor it wraps.\<close>

fun logging_tracker_forward :: "tracker_event \<Rightarrow> tracker_event" where
  "logging_tracker_forward (Vehicle_added v) = Vehicle_added v"
| "logging_tracker_forward (Vehicle_removed v) = Vehicle_added v"

text \<open>Every vehicle is filed under its own system id, once.\<close>

definition tracker_wf :: "'m tracker \<Rightarrow> bool" where
  "tracker_wf tr \<longleftrightarrow>
     distinct (map fst (tr_vehicles tr)) \<and> list_all (\<lambda>(i, v). ve_system_id v = i) (tr_vehicles tr)"

text \<open>Monitors that register themselves but leave the vehicle's identity alone.\<close>

definition added_ok :: "('m \<Rightarrow> 'm vehicle \<Rightarrow> 'w \<Rightarrow> 'm vehicle \<times> 'w) \<Rightarrow> bool" where
  "added_ok added \<longleftrightarrow> (\<forall>m v w. ve_system_id (fst (added m v w)) = ve_system_id v)"

lemma tracker_wf_init [simp]: "tracker_wf tracker_init"
  by (simp add: tracker_wf_def tracker_init_def)

lemma tracker_find_id:
  assumes "tracker_wf tr" "added_ok added"
  shows "ve_system_id (fst (tracker_find added i tr w)) = i"
proof (cases "map_of (tr_vehicles tr) i")
  case None
  have "ve_system_id (fst (fold (\<lambda>m (v, w). added m v w) ms (v, w))) = ve_system_id v" for ms v w
    using assms(2)
  proof (induction ms arbitrary: v w)
    case (Cons m ms)
    obtain v1 w1 where "added m v w = (v1, w1)" by fastforce
    with Cons.IH [of v1 w1] Cons.prems show ?case by (metis added_ok_def fold_simps(2) fst_conv split_conv)
  qed simp
  with None show ?thesis by (simp add: tracker_find_def vehicle_init_def)
next
  case (Some v)
  then have "(i, v) \<in> set (tr_vehicles tr)" by (rule map_of_SomeD)
  with Some assms(1) show ?thesis by (auto simp: tracker_find_def tracker_wf_def list_all_iff)
qed

lemma put_in_set: "x \<in> set (put k v m) \<Longrightarrow> x = (k, v) \<or> x \<in> set m"
  by (induction k v m rule: put.induct) (auto split: if_splits)

lemma tracker_update_ok:
  assumes "tracker_wf tr" "added_ok added"
  obtains es v w1 v' where "tracker_find added (mm_sysid msg) tr w = (v, w1)"
    "vehicle_update nav msg v = Ret (es, v')"
    "tracker_update nav added msg tr w =
       Ret (es, tr\<lparr>tr_vehicles := put (mm_sysid msg) v' (tr_vehicles tr)\<rparr>, w1)"
    "tracker_wf (tr\<lparr>tr_vehicles := put (mm_sysid msg) v' (tr_vehicles tr)\<rparr>)"
proof -
  obtain v w1 where f: "tracker_find added (mm_sysid msg) tr w = (v, w1)" by fastforce
  have id: "ve_system_id v = mm_sysid msg"
    using tracker_find_id [OF assms, of "mm_sysid msg" w] f by simp
  obtain es v' where u: "vehicle_update nav msg v = Ret (es, v')"
    using vehicle_update_total [OF id] by blast
  have "ve_system_id v' = mm_sysid msg" using vehicle_update_frame [OF u] id by simp
  then have "tracker_wf (tr\<lparr>tr_vehicles := put (mm_sysid msg) v' (tr_vehicles tr)\<rparr>)"
    using assms(1) put_in_set [of _ "mm_sysid msg" v' "tr_vehicles tr"]
    by (fastforce simp: tracker_wf_def list_all_iff)
  with that f u show ?thesis by (simp add: tracker_update_def)
qed

fun tracker_run ::
  "int \<Rightarrow> ('m \<Rightarrow> 'm vehicle \<Rightarrow> 'w \<Rightarrow> 'm vehicle \<times> 'w) \<Rightarrow> mav_message list \<Rightarrow> 'm tracker \<Rightarrow> 'w \<Rightarrow>
   (('m \<times> vehicle_event) list \<times> 'm tracker \<times> 'w) cpp" where
  "tracker_run nav added [] tr w = Ret ([], tr, w)"
| "tracker_run nav added (msg # msgs) tr w =
     cbind (tracker_update nav added msg tr w) (\<lambda>(es, tr1, w1).
       cbind (tracker_run nav added msgs tr1 w1) (\<lambda>(es', tr2, w2). Ret (es @ es', tr2, w2)))"

text \<open>
  Once a vehicle is known, the others do not touch it: its state is that of a vehicle that
  saw its own messages only.
\<close>

lemma tracker_run_known:
  assumes "tracker_wf tr" "added_ok added" "map_of (tr_vehicles tr) i = Some v"
  shows "\<exists>es tr' w' es' v'. tracker_run nav added msgs tr w = Ret (es, tr', w') \<and> tracker_wf tr' \<and>
           vehicle_run nav (filter (\<lambda>msg. mm_sysid msg = i) msgs) v = Ret (es', v') \<and>
           map_of (tr_vehicles tr') i = Some v'"
  using assms(1,3)
proof (induction msgs arbitrary: tr v w)
  case (Cons msg msgs)
  obtain es u w1 u' where f: "tracker_find added (mm_sysid msg) tr w = (u, w1)"
    and u: "vehicle_update nav msg u = Ret (es, u')"
    and t: "tracker_update nav added msg tr w =
       Ret (es, tr\<lparr>tr_vehicles := put (mm_sysid msg) u' (tr_vehicles tr)\<rparr>, w1)"
    and wf: "tracker_wf (tr\<lparr>tr_vehicles := put (mm_sysid msg) u' (tr_vehicles tr)\<rparr>)"
    using Cons.prems(1) assms(2) by (rule tracker_update_ok)
  let ?tr1 = "tr\<lparr>tr_vehicles := put (mm_sysid msg) u' (tr_vehicles tr)\<rparr>"
  show ?case
  proof (cases "mm_sysid msg = i")
    case True
    with f Cons.prems(2) have "u = v" by (simp add: tracker_find_def)
    moreover have "map_of (tr_vehicles ?tr1) i = Some u'" using True by simp
    note Cons.IH [OF wf this, of w1]
    ultimately show ?thesis using t u True by fastforce
  next
    case False
    have "map_of (tr_vehicles ?tr1) i = Some v" using False Cons.prems(2) by simp
    from Cons.IH [OF wf this, of w1] show ?thesis using t False by fastforce
  qed
qed simp

subsection \<open>Properties\<close>

text \<open>
  C11. After an announcement of \<open>n\<close> items, the mission completes exactly when the sequence
  numbers \<open>0\<close> to \<open>n - 1\<close> have arrived in this order among the items received, whatever is
  repeated, lost or reordered in between, and it then completes once.
\<close>

theorem mission_completes_once:
  "length (filter id (fst (mission_items nav mis (mission_count n m)))) =
     (if n \<noteq> 0 \<and> subseq [0..<unat n] (map (\<lambda>mi. unat (mi_seq mi)) mis) then 1 else 0)"
  by (simp add: mission_items_completions mission_count_def seq_count_subseq unat_gt_0)

text \<open>
  C12. The state the tracker keeps for a known vehicle is that of a vehicle that has seen its
  own messages only, in their order, whatever messages of other systems come between; no
  message fails the vehicle's check of its system id.
\<close>

theorem tracker_separates_systems:
  assumes "tracker_wf tr" "added_ok added" "map_of (tr_vehicles tr) i = Some v"
  shows "\<exists>es tr' w' es' v'. tracker_run nav added msgs tr w = Ret (es, tr', w') \<and>
           vehicle_run nav (filter (\<lambda>msg. mm_sysid msg = i) msgs) v = Ret (es', v') \<and>
           map_of (tr_vehicles tr') i = Some v'"
  using tracker_run_known [OF assms] by blast

definition tracker0 :: "nat tracker" where
  "tracker0 = \<lparr>tr_monitors = [0], tr_vehicles = [(1, vehicle_init 1)]\<rparr>"

theorem tracker_separates_systems_witness:
  "\<exists>es tr' w' es' v'.
     tracker_run 16 (\<lambda>m v w. (register_monitor m v, w))
       [\<lparr>mm_sysid = 2, mm_payload = Heartbeat MS_boot\<rparr>, \<lparr>mm_sysid = 1, mm_payload = Heartbeat MS_active\<rparr>]
       tracker0 () = Ret (es, tr', w') \<and>
     vehicle_run 16 [\<lparr>mm_sysid = 1, mm_payload = Heartbeat MS_active\<rparr>] (vehicle_init 1 :: nat vehicle) =
       Ret (es', v') \<and>
     map_of (tr_vehicles tr') 1 = Some v'"
proof -
  have wf: "tracker_wf tracker0"
    by (simp add: tracker_wf_def tracker0_def vehicle_init_def)
  have ok: "added_ok (\<lambda>m v w. (register_monitor m v, w))"
    by (simp add: added_ok_def register_monitor_def)
  have v: "map_of (tr_vehicles tracker0) 1 = Some (vehicle_init 1)" by (simp add: tracker0_def)
  from tracker_separates_systems [OF wf ok v, of 16
      "[\<lparr>mm_sysid = 2, mm_payload = Heartbeat MS_boot\<rparr>, \<lparr>mm_sysid = 1, mm_payload = Heartbeat MS_active\<rparr>]" "()"]
  show ?thesis by simp
qed

end
