(* ===== verification/Telemetry_Submitter.thy ===== *)
theory Telemetry_Submitter
  imports Mavlink Error
begin

text \<open>
  \<open>monitor::TelemetrySubmitter\<close> (src/airmap/monitor/telemetry_submitter.h and .cpp): the state
  machine that authorizes, creates a flight, starts flight communications and then submits
  telemetry. A handler is a function on the submitter's state; the calls it makes on the
  client are appended to \<open>sb_out\<close>, and the answer to a call arrives later as a
  \<open>completion\<close>, whose handler is the callback the source passes along. \<open>Optional::get\<close> on
  an empty optional is undefined behaviour (\<open>deref\<close>). Log lines are left out.
\<close>

subsection \<open>Calls on the client and their answers\<close>

record create_plan_params =
  cp_authorization :: string
  cp_pilot :: pilot
  cp_aircraft :: "aircraft option"
  cp_latitude :: float32
  cp_longitude :: float32
  cp_max_altitude :: float32
  cp_min_altitude :: "float32 option"
  cp_buffer :: float32
  cp_geometry :: geometry
  cp_start_time :: date_time
  cp_end_time :: date_time
  cp_rulesets :: "string list"
  cp_features :: "(string \<times> feature_value option) list"

record create_flight_params =
  cf_authorization :: string
  cf_latitude :: "float32 option"
  cf_longitude :: "float32 option"
  cf_max_altitude :: float32
  cf_aircraft_id :: string
  cf_start_time :: date_time
  cf_end_time :: date_time
  cf_is_public :: bool
  cf_give_digital_notice :: bool
  cf_buffer :: float32
  cf_geometry :: "geometry option"

text \<open>
  In \<open>cp_min_altitude\<close>, \<open>None\<close> is the indeterminate value of a member that was never
  assigned. A search names the two instants and the pilot; its other parameters stay unset.
\<close>

datatype request =
    Authenticate_with_password oauth_credentials
  | Authenticate_anonymously string
  | Pilots_authenticated string
  | Flights_search date_time date_time "string option"
  | End_active_flight string string
  | End_flight string string
  | Create_by_polygon create_plan_params
  | Create_by_point create_flight_params
  | Submit_plan string string
  | Monitor_traffic string string
  | Start_comms string string

datatype effect =
    Send request
  | Send_telemetry flight string "telemetry_update list"
  | Subscribe_traffic nat

text \<open>The callbacks, with the outcome they are invoked with.\<close>

datatype completion =
    Done_authentication "err + string"
  | Done_pilot "err + pilot"
  | Done_search "err + flight list"
  | Done_end_active string "err + unit"
  | Done_end "err + unit"
  | Done_create_plan "err + flight_plan"
  | Done_create_flight "err + flight"
  | Done_submit "err + flight_plan"
  | Done_monitor "err + nat"
  | Done_comms "err + string"

text \<open>Which callback a call registers, and which one a completion runs.\<close>

datatype callback =
    CB_authentication | CB_pilot | CB_search | CB_end_active string | CB_end | CB_create_plan
  | CB_create_flight | CB_submit | CB_monitor | CB_comms

fun request_callback :: "request \<Rightarrow> callback" where
  "request_callback (Authenticate_with_password _) = CB_authentication"
| "request_callback (Authenticate_anonymously _) = CB_authentication"
| "request_callback (Pilots_authenticated _) = CB_pilot"
| "request_callback (Flights_search _ _ _) = CB_search"
| "request_callback (End_active_flight _ i) = CB_end_active i"
| "request_callback (End_flight _ _) = CB_end"
| "request_callback (Create_by_polygon _) = CB_create_plan"
| "request_callback (Create_by_point _) = CB_create_flight"
| "request_callback (Submit_plan _ _) = CB_submit"
| "request_callback (Monitor_traffic _ _) = CB_monitor"
| "request_callback (Start_comms _ _) = CB_comms"

fun completion_callback :: "completion \<Rightarrow> callback" where
  "completion_callback (Done_authentication _) = CB_authentication"
| "completion_callback (Done_pilot _) = CB_pilot"
| "completion_callback (Done_search _) = CB_search"
| "completion_callback (Done_end_active i _) = CB_end_active i"
| "completion_callback (Done_end _) = CB_end"
| "completion_callback (Done_create_plan _) = CB_create_plan"
| "completion_callback (Done_create_flight _) = CB_create_flight"
| "completion_callback (Done_submit _) = CB_submit"
| "completion_callback (Done_monitor _) = CB_monitor"
| "completion_callback (Done_comms _) = CB_comms"

definition answers :: "request \<Rightarrow> completion \<Rightarrow> bool" where
  "answers r c \<longleftrightarrow> request_callback r = completion_callback c"

subsection \<open>State\<close>

datatype submitter_state = SS_active | SS_inactive

record submitter =
  sb_state :: submitter_state
  sb_authorization_requested :: bool
  sb_pilot_id_requested :: bool
  sb_active_flights_requested :: bool
  sb_end_active_flights_requested :: bool
  sb_create_flight_plan_requested :: bool
  sb_submit_flight_plan_requested :: bool
  sb_traffic_monitoring_requested :: bool
  sb_start_flight_comms_requested :: bool
  sb_credentials :: credentials
  sb_aircraft_id :: string
  sb_current_position :: "global_position option"
  sb_active_flights :: "flight list option"
  sb_flight_plan :: "flight_plan option"
  sb_flight :: "flight option"
  sb_authorization :: "string option"
  sb_traffic_monitor :: "nat option"
  sb_encryption_key :: "string option"
  sb_mission_geometry :: "geometry option"
  sb_pilot_id :: "string option"
  sb_out :: "effect list"

definition submitter_create :: "credentials \<Rightarrow> string \<Rightarrow> submitter" where
  "submitter_create cr aircraft =
     \<lparr>sb_state = SS_inactive,
      sb_authorization_requested = False, sb_pilot_id_requested = False,
      sb_active_flights_requested = False, sb_end_active_flights_requested = False,
      sb_create_flight_plan_requested = False, sb_submit_flight_plan_requested = False,
      sb_traffic_monitoring_requested = False, sb_start_flight_comms_requested = False,
      sb_credentials = cr, sb_aircraft_id = aircraft,
      sb_current_position = None, sb_active_flights = None, sb_flight_plan = None,
      sb_flight = None, sb_authorization = None, sb_traffic_monitor = None,
      sb_encryption_key = None, sb_mission_geometry = None, sb_pilot_id = None, sb_out = []\<rparr>"

definition emit :: "effect \<Rightarrow> submitter \<Rightarrow> submitter" where
  "emit e s = s\<lparr>sb_out := sb_out s @ [e]\<rparr>"

text \<open>
  The environment of one handler run: the successive readings of the clock (a run takes at
  most two) and the random UUID.
\<close>

record env =
  en_clock :: "nat \<Rightarrow> date_time"
  en_uuid :: string

subsection \<open>Handlers, last stage first\<close>

definition handle_start_flight_comms_finished :: "string \<Rightarrow> submitter \<Rightarrow> submitter" where
  "handle_start_flight_comms_finished key s = s\<lparr>sb_encryption_key := Some key\<rparr>"

definition request_start_flight_comms :: "submitter \<Rightarrow> submitter cpp" where
  "request_start_flight_comms s =
     (case sb_encryption_key s of
        Some key \<Rightarrow> Ret (handle_start_flight_comms_finished key s)
      | None \<Rightarrow>
          if sb_start_flight_comms_requested s then Ret s
          else let s1 = s\<lparr>sb_start_flight_comms_requested := True\<rparr>
               in cbind (deref (sb_authorization s1)) (\<lambda>a.
                  cbind (deref (sb_flight s1)) (\<lambda>f.
                  Ret (emit (Send (Start_comms a (fl_id f))) s1))))"

definition handle_monitor_traffic_finished :: "nat \<Rightarrow> submitter \<Rightarrow> submitter" where
  "handle_monitor_traffic_finished m s = emit (Subscribe_traffic m) (s\<lparr>sb_traffic_monitor := Some m\<rparr>)"

definition request_monitor_traffic :: "submitter \<Rightarrow> submitter cpp" where
  "request_monitor_traffic s =
     (case sb_traffic_monitor s of
        Some m \<Rightarrow> Ret (handle_monitor_traffic_finished m s)
      | None \<Rightarrow>
          if sb_traffic_monitoring_requested s then Ret s
          else let s1 = s\<lparr>sb_traffic_monitoring_requested := True\<rparr>
               in cbind (deref (sb_flight s1)) (\<lambda>f.
                  cbind (deref (sb_authorization s1)) (\<lambda>a.
                  Ret (emit (Send (Monitor_traffic (fl_id f) a)) s1))))"

definition handle_submit_flight_plan_finished :: "flight \<Rightarrow> submitter \<Rightarrow> submitter cpp" where
  "handle_submit_flight_plan_finished f s =
     cbind (request_monitor_traffic (s\<lparr>sb_flight := Some f\<rparr>)) request_start_flight_comms"

definition request_submit_flight_plan :: "submitter \<Rightarrow> submitter cpp" where
  "request_submit_flight_plan s =
     (case sb_flight s of
        Some f \<Rightarrow> handle_submit_flight_plan_finished f s
      | None \<Rightarrow>
          if sb_submit_flight_plan_requested s then Ret s
          else let s1 = s\<lparr>sb_submit_flight_plan_requested := True\<rparr>
               in cbind (deref (sb_authorization s1)) (\<lambda>a.
                  cbind (deref (sb_flight_plan s1)) (\<lambda>p.
                  Ret (emit (Send (Submit_plan a (fp_id p))) s1))))"

definition handle_create_flight_plan_finished :: "flight_plan \<Rightarrow> submitter \<Rightarrow> submitter cpp" where
  "handle_create_flight_plan_finished p s = request_submit_flight_plan (s\<lparr>sb_flight_plan := Some p\<rparr>)"

text \<open>
  \<open>std::max_element\<close> with a comparison that reads both altitudes; the end iterator it
  returns for an empty range is dereferenced.
\<close>

fun max_altitude_from :: "double option \<Rightarrow> coordinate list \<Rightarrow> double option cpp" where
  "max_altitude_from largest [] = Ret largest"
| "max_altitude_from largest (c # cs) =
     cbind (deref largest) (\<lambda>l. cbind (deref (altitude c)) (\<lambda>a.
       max_altitude_from (if dbl_less l a then altitude c else largest) cs))"

definition max_altitude :: "coordinate list \<Rightarrow> double cpp" where
  "max_altitude cs =
     (case cs of [] \<Rightarrow> UB | c # cs' \<Rightarrow> cbind (max_altitude_from (altitude c) cs') deref)"

text \<open>\<open>details_for_polygon().outer_ring.coordinates\<close> of the mission's geometry.\<close>

definition mission_ring :: "geometry \<Rightarrow> coordinate list cpp" where
  "mission_ring g =
     cbind (details_for GT_polygon (geometry_construct_from g))
       (\<lambda>p. case p of G_polygon shape \<Rightarrow> Ret (outer_ring shape) | _ \<Rightarrow> UB)"

definition degrees_e7 :: "32 word \<Rightarrow> double" where
  "degrees_e7 w = int_div_dbl (sint w) (10 ^ 7)"

definition plan_params ::
  "env \<Rightarrow> submitter \<Rightarrow> global_position \<Rightarrow> geometry \<Rightarrow> create_plan_params cpp" where
  "plan_params e s pos g =
     cbind (deref (sb_authorization s)) (\<lambda>a.
     cbind (deref (sb_pilot_id s)) (\<lambda>p.
     cbind (mission_ring g) (\<lambda>ring.
     cbind (max_altitude ring) (\<lambda>highest.
     Ret \<lparr>cp_authorization = a, cp_pilot = pilot_of_id p,
          cp_aircraft = (if sb_aircraft_id s \<noteq> [] then Some (aircraft_of_id (sb_aircraft_id s)) else None),
          cp_latitude = float_of_dbl (degrees_e7 (gp_lat pos)),
          cp_longitude = float_of_dbl (degrees_e7 (gp_lon pos)),
          cp_max_altitude = float_of_dbl highest, cp_min_altitude = None,
          cp_buffer = flt_of_ratio False 100 1, cp_geometry = g,
          cp_start_time = en_clock e 0, cp_end_time = dt_plus (en_clock e 0) (hours 1),
          cp_rulesets = [], cp_features = []\<rparr>))))"

definition flight_params :: "env \<Rightarrow> submitter \<Rightarrow> global_position \<Rightarrow> create_flight_params cpp" where
  "flight_params e s pos =
     cbind (deref (sb_authorization s)) (\<lambda>a.
     Ret \<lparr>cf_authorization = a,
          cf_latitude = Some (float_of_dbl (degrees_e7 (gp_lat pos))),
          cf_longitude = Some (float_of_dbl (degrees_e7 (gp_lon pos))),
          cf_max_altitude = flt_of_ratio False 121 1, cf_aircraft_id = sb_aircraft_id s,
          cf_start_time = en_clock e 0, cf_end_time = dt_plus (en_clock e 0) (hours 1),
          cf_is_public = True, cf_give_digital_notice = True,
          cf_buffer = flt_of_ratio False 100 1, cf_geometry = None\<rparr>)"

definition request_create_flight_plan :: "env \<Rightarrow> submitter \<Rightarrow> submitter cpp" where
  "request_create_flight_plan e s =
     (case sb_flight_plan s of
        Some p \<Rightarrow> handle_create_flight_plan_finished p s
      | None \<Rightarrow>
          if sb_create_flight_plan_requested s then Ret s
          else let s1 = s\<lparr>sb_create_flight_plan_requested := True\<rparr>
               in case sb_current_position s1 of
                    None \<Rightarrow> Ret s1
                  | Some pos \<Rightarrow>
                      (case sb_mission_geometry s1 of
                         Some g \<Rightarrow> cbind (plan_params e s1 pos g) (\<lambda>ps.
                           Ret (emit (Send (Create_by_polygon ps)) s1))
                       | None \<Rightarrow> cbind (flight_params e s1 pos) (\<lambda>ps.
                           Ret (emit (Send (Create_by_point ps)) s1))))"

definition handle_end_active_flights_finished :: "env \<Rightarrow> submitter \<Rightarrow> submitter cpp" where
  "handle_end_active_flights_finished e s = request_create_flight_plan e s"

definition handle_end_active_flight_finished :: "env \<Rightarrow> string \<Rightarrow> submitter \<Rightarrow> submitter cpp" where
  "handle_end_active_flight_finished e i s =
     cbind (deref (sb_active_flights s)) (\<lambda>fs.
       let fs1 = erase_first (\<lambda>f. fl_id f = i) fs; s1 = s\<lparr>sb_active_flights := Some fs1\<rparr>
       in if fs1 = [] then handle_end_active_flights_finished e s1 else Ret s1)"

definition request_end_active_flights :: "env \<Rightarrow> submitter \<Rightarrow> submitter cpp" where
  "request_end_active_flights e s =
     (if sb_active_flights s = Some [] then handle_end_active_flights_finished e s
      else if sb_end_active_flights_requested s then Ret s
      else let s1 = s\<lparr>sb_end_active_flights_requested := True\<rparr>
           in cbind (deref (sb_active_flights s1)) (\<lambda>fs.
                cfold (\<lambda>f st. cbind (deref (sb_authorization st)) (\<lambda>a.
                         Ret (emit (Send (End_active_flight a (fl_id f))) st))) fs s1))"

definition handle_active_flights_finished :: "env \<Rightarrow> flight list \<Rightarrow> submitter \<Rightarrow> submitter cpp" where
  "handle_active_flights_finished e fs s = request_end_active_flights e (s\<lparr>sb_active_flights := Some fs\<rparr>)"

definition request_active_flights :: "env \<Rightarrow> submitter \<Rightarrow> submitter cpp" where
  "request_active_flights e s =
     (case sb_active_flights s of
        Some fs \<Rightarrow> handle_active_flights_finished e fs s
      | None \<Rightarrow>
          if sb_active_flights_requested s then Ret s
          else let s1 = s\<lparr>sb_active_flights_requested := True\<rparr>
               in Ret (emit (Send (Flights_search (en_clock e 0) (en_clock e 1) (sb_pilot_id s1))) s1))"

definition handle_pilot_id_finished :: "env \<Rightarrow> string \<Rightarrow> submitter \<Rightarrow> submitter cpp" where
  "handle_pilot_id_finished e p s = request_active_flights e (s\<lparr>sb_pilot_id := Some p\<rparr>)"

definition request_pilot_id :: "env \<Rightarrow> submitter \<Rightarrow> submitter cpp" where
  "request_pilot_id e s =
     (case sb_pilot_id s of
        Some p \<Rightarrow> handle_pilot_id_finished e p s
      | None \<Rightarrow>
          if sb_pilot_id_requested s then Ret s
          else let s1 = s\<lparr>sb_pilot_id_requested := True\<rparr>
               in case sb_authorization s1 of
                    None \<Rightarrow> Ret s1
                  | Some a \<Rightarrow> Ret (emit (Send (Pilots_authenticated a)) s1))"

definition handle_authorization_finished :: "env \<Rightarrow> string \<Rightarrow> submitter \<Rightarrow> submitter cpp" where
  "handle_authorization_finished e a s = request_pilot_id e (s\<lparr>sb_authorization := Some a\<rparr>)"

definition request_authorization :: "env \<Rightarrow> submitter \<Rightarrow> submitter cpp" where
  "request_authorization e s =
     (case sb_authorization s of
        Some a \<Rightarrow> handle_authorization_finished e a s
      | None \<Rightarrow>
          if sb_authorization_requested s then Ret s
          else let s1 = s\<lparr>sb_authorization_requested := True\<rparr>
               in case cr_oauth (sb_credentials s1) of
                    Some oauth \<Rightarrow> Ret (emit (Send (Authenticate_with_password oauth)) s1)
                  | None \<Rightarrow> Ret (emit (Send (Authenticate_anonymously (en_uuid e))) s1))"

subsection \<open>The four public operations\<close>

definition activate :: "env \<Rightarrow> submitter \<Rightarrow> submitter cpp" where
  "activate e s = request_authorization e (s\<lparr>sb_state := SS_active\<rparr>)"

definition set_mission_geometry :: "geometry \<Rightarrow> submitter \<Rightarrow> submitter" where
  "set_mission_geometry g s = s\<lparr>sb_mission_geometry := Some g\<rparr>"

definition deactivate :: "submitter \<Rightarrow> submitter" where
  "deactivate s =
     (if sb_state s = SS_inactive then s
      else let s1 = s\<lparr>sb_state := SS_inactive\<rparr>;
               s2 = (case (sb_authorization s1, sb_flight s1) of
                       (Some a, Some f) \<Rightarrow> emit (Send (End_flight a (fl_id f))) s1
                     | _ \<Rightarrow> s1)
           in s2\<lparr>sb_authorization_requested := False, sb_pilot_id_requested := False,
                 sb_active_flights_requested := False, sb_end_active_flights_requested := False,
                 sb_create_flight_plan_requested := False, sb_submit_flight_plan_requested := False,
                 sb_traffic_monitoring_requested := False, sb_start_flight_comms_requested := False,
                 sb_authorization := None, sb_pilot_id := None, sb_flight_plan := None,
                 sb_flight := None, sb_traffic_monitor := None, sb_encryption_key := None\<rparr>)"

text \<open>\<open>milliseconds_since_epoch\<close> of a clock reading; the clock never reads the special value.\<close>

definition position_update :: "date_time \<Rightarrow> global_position \<Rightarrow> telemetry_update cpp" where
  "position_update now pos =
     cbind (deref (milliseconds_since_epoch now)) (\<lambda>ms.
     Ret (Update_position
       \<lparr>tp_timestamp = ms,
        tp_latitude = degrees_e7 (gp_lat pos), tp_longitude = degrees_e7 (gp_lon pos),
        tp_altitude_msl = int_div_dbl (sint (gp_alt pos)) (10 ^ 3),
        tp_altitude_gl = int_div_dbl (sint (gp_relative_alt pos)) (10 ^ 3),
        tp_horizontal_accuracy = dbl_of_int 2\<rparr>))"

definition submit :: "env \<Rightarrow> global_position \<Rightarrow> submitter \<Rightarrow> submitter cpp" where
  "submit e pos s =
     (let s1 = s\<lparr>sb_current_position := Some pos\<rparr>
      in if sb_state s1 = SS_inactive then Ret s1
         else case (sb_authorization s1, sb_flight s1, sb_encryption_key s1) of
                (Some _, Some f, Some key) \<Rightarrow>
                  cbind (position_update (en_clock e 0) pos) (\<lambda>u.
                    Ret (emit (Send_telemetry f key [u]) s1))
              | _ \<Rightarrow> request_authorization e s1)"

subsection \<open>Callbacks\<close>

text \<open>The flight the callback of \<open>submit\<close> builds; \<open>plan.flight_id.get()\<close> is unchecked.\<close>

definition flight_of_plan :: "env \<Rightarrow> flight_plan \<Rightarrow> flight cpp" where
  "flight_of_plan e p =
     cbind (deref (fp_flight_id p)) (\<lambda>i.
       Ret \<lparr>fl_id = i, fl_flight_plan_id = Some (fp_id p), fl_pilot = fp_pilot p,
            fl_aircraft = fp_aircraft p, fl_latitude = fp_takeoff_latitude p,
            fl_longitude = fp_takeoff_longitude p, fl_max_altitude = fp_altitude_max p,
            fl_geometry = fp_geometry p, fl_created_at = en_clock e 0,
            fl_start_time = fp_start_time p, fl_end_time = fp_end_time p\<rparr>)"

fun complete :: "env \<Rightarrow> completion \<Rightarrow> submitter \<Rightarrow> submitter cpp" where
  "complete e (Done_authentication (Inr token)) s = handle_authorization_finished e token s"
| "complete e (Done_authentication (Inl _)) s = Ret (s\<lparr>sb_authorization_requested := False\<rparr>)"
| "complete e (Done_pilot (Inr p)) s = handle_pilot_id_finished e (pi_id p) s"
| "complete e (Done_pilot (Inl _)) s = Ret (s\<lparr>sb_pilot_id_requested := False\<rparr>)"
| "complete e (Done_search (Inr fs)) s = handle_active_flights_finished e fs s"
| "complete e (Done_search (Inl _)) s = Ret (s\<lparr>sb_active_flights_requested := False\<rparr>)"
| "complete e (Done_end_active i (Inr _)) s = handle_end_active_flight_finished e i s"
| "complete e (Done_end_active i (Inl _)) s = Ret (s\<lparr>sb_end_active_flights_requested := False\<rparr>)"
| "complete e (Done_end _) s = Ret s"
| "complete e (Done_create_plan (Inr p)) s = handle_create_flight_plan_finished p s"
| "complete e (Done_create_plan (Inl _)) s = Ret (s\<lparr>sb_create_flight_plan_requested := False\<rparr>)"
| "complete e (Done_create_flight (Inr f)) s = handle_submit_flight_plan_finished f s"
| "complete e (Done_create_flight (Inl _)) s = Ret (s\<lparr>sb_create_flight_plan_requested := False\<rparr>)"
| "complete e (Done_submit (Inr p)) s =
     cbind (flight_of_plan e p) (\<lambda>f. handle_submit_flight_plan_finished f s)"
| "complete e (Done_submit (Inl _)) s = Ret (s\<lparr>sb_submit_flight_plan_requested := False\<rparr>)"
| "complete e (Done_monitor (Inr m)) s = Ret (handle_monitor_traffic_finished m s)"
| "complete e (Done_monitor (Inl _)) s = Ret (s\<lparr>sb_traffic_monitoring_requested := False\<rparr>)"
| "complete e (Done_comms (Inr key)) s = Ret (handle_start_flight_comms_finished key s)"
| "complete e (Done_comms (Inl _)) s = Ret (s\<lparr>sb_start_flight_comms_requested := False\<rparr>)"

lemmas submitter_stage_defs =
  request_authorization_def handle_authorization_finished_def request_pilot_id_def
  handle_pilot_id_finished_def request_active_flights_def handle_active_flights_finished_def
  request_end_active_flights_def handle_end_active_flight_finished_def
  handle_end_active_flights_finished_def request_create_flight_plan_def
  handle_create_flight_plan_finished_def request_submit_flight_plan_def
  handle_submit_flight_plan_finished_def request_monitor_traffic_def
  handle_monitor_traffic_finished_def request_start_flight_comms_def
  handle_start_flight_comms_finished_def emit_def

end
