(* ===== verification/Submitter_System.thy ===== *)
theory Submitter_System
  imports Telemetry_Submitter
begin

text \<open>
  The submitter together with the calls it has in flight. A step is one of the four public
  operations or the completion of a pending call, in any order; a run ends when a step is
  undefined. The theory has the invariant that makes runs without \<open>deactivate\<close> safe (every
  value a handler reads unchecked has been set by the stage before it, and no stage is
  requested twice), kept by each handler in turn.
\<close>

subsection \<open>Steps\<close>

fun sends :: "effect list \<Rightarrow> request list" where
  "sends [] = []"
| "sends (Send r # es) = r # sends es"
| "sends (_ # es) = sends es"

lemma sends_append [simp]: "sends (es @ es') = sends es @ sends es'"
  by (induction es rule: sends.induct) auto

datatype input =
    In_activate
  | In_deactivate
  | In_submit global_position
  | In_mission geometry
  | In_complete nat completion

type_synonym sys = "submitter \<times> request list"

definition run_handler :: "(submitter \<Rightarrow> submitter cpp) \<Rightarrow> sys \<Rightarrow> sys cpp" where
  "run_handler h x =
     cbind (h ((fst x)\<lparr>sb_out := []\<rparr>)) (\<lambda>s'. Ret (s', snd x @ sends (sb_out s')))"

definition remove_nth :: "nat \<Rightarrow> 'a list \<Rightarrow> 'a list" where
  "remove_nth n xs = take n xs @ drop (Suc n) xs"

text \<open>\<open>None\<close>: the input cannot happen, because no such call is pending.\<close>

fun sys_step :: "env \<Rightarrow> input \<Rightarrow> sys \<Rightarrow> sys cpp option" where
  "sys_step e In_activate x = Some (run_handler (activate e) x)"
| "sys_step e In_deactivate x = Some (run_handler (\<lambda>s. Ret (deactivate s)) x)"
| "sys_step e (In_submit pos) x = Some (run_handler (submit e pos) x)"
| "sys_step e (In_mission g) x = Some (run_handler (\<lambda>s. Ret (set_mission_geometry g s)) x)"
| "sys_step e (In_complete n c) x =
     (if n < length (snd x) \<and> answers (snd x ! n) c
      then Some (run_handler (complete e c) (fst x, remove_nth n (snd x))) else None)"

inductive sub_reach :: "(env \<Rightarrow> input \<Rightarrow> bool) \<Rightarrow> sys \<Rightarrow> sys cpp \<Rightarrow> bool"
  for allowed :: "env \<Rightarrow> input \<Rightarrow> bool" and start :: sys where
  sub_start: "sub_reach allowed start (Ret start)"
| sub_step: "sub_reach allowed start (Ret x) \<Longrightarrow> allowed e i \<Longrightarrow> sys_step e i x = Some y \<Longrightarrow>
             sub_reach allowed start y"

inductive_cases sub_reach_UB: "sub_reach allowed start UB"

text \<open>A scripted run, for concrete executions.\<close>

fun sys_run :: "(env \<times> input) list \<Rightarrow> sys \<Rightarrow> sys cpp option" where
  "sys_run [] x = Some (Ret x)"
| "sys_run ((e, i) # is) x =
     (case sys_step e i x of
        None \<Rightarrow> None
      | Some (Ret y) \<Rightarrow> sys_run is y
      | Some m \<Rightarrow> if is = [] then Some m else None)"

lemma sys_run_reach_aux:
  assumes "sys_run is x = Some y" "\<forall>(e, i) \<in> set is. allowed e i" "sub_reach allowed start (Ret x)"
  shows "sub_reach allowed start y"
  using assms
proof (induction "is" arbitrary: x)
  case (Cons ei "is")
  obtain e i where ei: "ei = (e, i)" by (cases ei)
  with Cons.prems obtain m where m: "sys_step e i x = Some m" by (auto split: option.splits)
  have r: "sub_reach allowed start m"
    using Cons.prems(2,3) ei m by (auto intro: sub_step)
  show ?case
  proof (cases m)
    case (Ret y')
    with Cons.IH [of y'] Cons.prems ei m r show ?thesis by simp
  qed (use Cons.prems(1) ei m r in \<open>auto split: if_splits\<close>)
qed simp

lemma sys_run_reach:
  "sys_run is x = Some y \<Longrightarrow> \<forall>(e, i) \<in> set is. allowed e i \<Longrightarrow> sub_reach allowed x y"
  using sys_run_reach_aux [of "is" x y allowed x] sub_start by blast

subsection \<open>The invariant\<close>

datatype stage =
    St_authorization | St_pilot | St_search | St_end_active | St_create | St_submit | St_monitor
  | St_comms | St_end

fun request_stage :: "request \<Rightarrow> stage" where
  "request_stage (Authenticate_with_password _) = St_authorization"
| "request_stage (Authenticate_anonymously _) = St_authorization"
| "request_stage (Pilots_authenticated _) = St_pilot"
| "request_stage (Flights_search _ _ _) = St_search"
| "request_stage (End_active_flight _ _) = St_end_active"
| "request_stage (End_flight _ _) = St_end"
| "request_stage (Create_by_polygon _) = St_create"
| "request_stage (Create_by_point _) = St_create"
| "request_stage (Submit_plan _ _) = St_submit"
| "request_stage (Monitor_traffic _ _) = St_monitor"
| "request_stage (Start_comms _ _) = St_comms"

definition in_flight :: "stage \<Rightarrow> request list \<Rightarrow> nat" where
  "in_flight st p = length (filter (\<lambda>r. request_stage r = st) p)"

text \<open>What the callback of a stage, and everything it goes on to call, reads unchecked.\<close>

fun needs :: "stage \<Rightarrow> submitter \<Rightarrow> bool" where
  "needs St_pilot s = (sb_authorization s \<noteq> None)"
| "needs St_search s = (sb_pilot_id s \<noteq> None)"
| "needs St_end_active s = (sb_active_flights s \<noteq> None)"
| "needs St_create s = (sb_active_flights s \<noteq> None)"
| "needs St_submit s = (sb_flight_plan s \<noteq> None)"
| "needs St_monitor s = (sb_flight s \<noteq> None)"
| "needs St_comms s = (sb_flight s \<noteq> None)"
| "needs _ s = True"

definition stages_in_order :: "submitter \<Rightarrow> bool" where
  "stages_in_order s \<longleftrightarrow>
     (sb_pilot_id s \<noteq> None \<longrightarrow> sb_authorization s \<noteq> None) \<and>
     (sb_active_flights s \<noteq> None \<longrightarrow> sb_pilot_id s \<noteq> None) \<and>
     (sb_flight_plan s \<noteq> None \<longrightarrow> sb_active_flights s \<noteq> None) \<and>
     (sb_flight s \<noteq> None \<longrightarrow> sb_active_flights s \<noteq> None) \<and>
     (sb_traffic_monitor s \<noteq> None \<longrightarrow> sb_flight s \<noteq> None) \<and>
     (sb_encryption_key s \<noteq> None \<longrightarrow> sb_flight s \<noteq> None)"

text \<open>
  A stage with its flag, whether its value is there, and the number of its calls in flight:
  never two of the latter two, and none without the flag.
\<close>

definition slot :: "bool \<Rightarrow> bool \<Rightarrow> nat \<Rightarrow> bool" where
  "slot flag present n \<longleftrightarrow> (if flag then n + of_bool present \<le> 1 else n = 0 \<and> \<not> present)"

definition slots_ok :: "request list \<Rightarrow> submitter \<Rightarrow> bool" where
  "slots_ok p s \<longleftrightarrow>
     slot (sb_authorization_requested s) (sb_authorization s \<noteq> None) (in_flight St_authorization p) \<and>
     slot (sb_pilot_id_requested s) (sb_pilot_id s \<noteq> None) (in_flight St_pilot p) \<and>
     slot (sb_active_flights_requested s) (sb_active_flights s \<noteq> None) (in_flight St_search p) \<and>
     slot (sb_create_flight_plan_requested s) (sb_flight_plan s \<noteq> None \<or> sb_flight s \<noteq> None)
       (in_flight St_create p) \<and>
     slot (sb_submit_flight_plan_requested s) (sb_submit_flight_plan_requested s \<and> sb_flight s \<noteq> None)
       (in_flight St_submit p) \<and>
     slot (sb_traffic_monitoring_requested s) (sb_traffic_monitor s \<noteq> None) (in_flight St_monitor p) \<and>
     slot (sb_start_flight_comms_requested s) (sb_encryption_key s \<noteq> None) (in_flight St_comms p)"

fun suitable_geometry :: "geometry \<Rightarrow> bool" where
  "suitable_geometry (G_polygon shape) \<longleftrightarrow>
     outer_ring shape \<noteq> [] \<and> list_all (\<lambda>c. altitude c \<noteq> None) (outer_ring shape)"
| "suitable_geometry _ \<longleftrightarrow> False"

definition calls :: "request list \<Rightarrow> submitter \<Rightarrow> request list" where
  "calls p s = p @ sends (sb_out s)"

definition sub_inv :: "request list \<Rightarrow> submitter \<Rightarrow> bool" where
  "sub_inv p s \<longleftrightarrow>
     stages_in_order s \<and> list_all (\<lambda>r. needs (request_stage r) s) (calls p s) \<and>
     slots_ok (calls p s) s \<and>
     (case sb_mission_geometry s of None \<Rightarrow> True | Some g \<Rightarrow> suitable_geometry g)"

text \<open>A handler never takes a value back, and leaves what the owner sets alone.\<close>

definition extends :: "submitter \<Rightarrow> submitter \<Rightarrow> bool" where
  "extends s s' \<longleftrightarrow>
     sb_state s' = sb_state s \<and> sb_current_position s' = sb_current_position s \<and>
     sb_mission_geometry s' = sb_mission_geometry s \<and>
     (sb_authorization s \<noteq> None \<longrightarrow> sb_authorization s' \<noteq> None) \<and>
     (sb_pilot_id s \<noteq> None \<longrightarrow> sb_pilot_id s' \<noteq> None) \<and>
     (sb_active_flights s \<noteq> None \<longrightarrow> sb_active_flights s' \<noteq> None) \<and>
     (sb_flight_plan s \<noteq> None \<longrightarrow> sb_flight_plan s' \<noteq> None) \<and>
     (sb_flight s \<noteq> None \<longrightarrow> sb_flight s' \<noteq> None)"

definition keeps :: "request list \<Rightarrow> submitter \<Rightarrow> submitter cpp \<Rightarrow> bool" where
  "keeps p s m \<longleftrightarrow> (\<exists>s'. m = Ret s' \<and> sub_inv p s' \<and> extends s s')"

lemmas inv_defs = sub_inv_def stages_in_order_def slots_ok_def

lemma in_flight_simps [simp]:
  "in_flight st [] = 0"
  "in_flight st (r # rs) = (if request_stage r = st then Suc (in_flight st rs) else in_flight st rs)"
  "in_flight st (rs @ rs') = in_flight st rs + in_flight st rs'"
  by (simp_all add: in_flight_def)

lemma calls_simps [simp]:
  "calls p (s\<lparr>sb_authorization_requested := b\<rparr>) = calls p s"
  "calls p (s\<lparr>sb_pilot_id_requested := b\<rparr>) = calls p s"
  "calls p (s\<lparr>sb_active_flights_requested := b\<rparr>) = calls p s"
  "calls p (s\<lparr>sb_end_active_flights_requested := b\<rparr>) = calls p s"
  "calls p (s\<lparr>sb_create_flight_plan_requested := b\<rparr>) = calls p s"
  "calls p (s\<lparr>sb_submit_flight_plan_requested := b\<rparr>) = calls p s"
  "calls p (s\<lparr>sb_traffic_monitoring_requested := b\<rparr>) = calls p s"
  "calls p (s\<lparr>sb_start_flight_comms_requested := b\<rparr>) = calls p s"
  "calls p (s\<lparr>sb_authorization := a\<rparr>) = calls p s"
  "calls p (s\<lparr>sb_pilot_id := q\<rparr>) = calls p s"
  "calls p (s\<lparr>sb_active_flights := fs\<rparr>) = calls p s"
  "calls p (s\<lparr>sb_flight_plan := pl\<rparr>) = calls p s"
  "calls p (s\<lparr>sb_flight := f\<rparr>) = calls p s"
  "calls p (s\<lparr>sb_traffic_monitor := m\<rparr>) = calls p s"
  "calls p (s\<lparr>sb_encryption_key := k\<rparr>) = calls p s"
  "calls p (s\<lparr>sb_current_position := pos\<rparr>) = calls p s"
  "calls p (s\<lparr>sb_mission_geometry := g\<rparr>) = calls p s"
  "calls p (s\<lparr>sb_state := st\<rparr>) = calls p s"
  by (simp_all add: calls_def)

lemma emit_simps [simp]:
  "sb_state (emit e s) = sb_state s"
  "sb_authorization_requested (emit e s) = sb_authorization_requested s"
  "sb_pilot_id_requested (emit e s) = sb_pilot_id_requested s"
  "sb_active_flights_requested (emit e s) = sb_active_flights_requested s"
  "sb_end_active_flights_requested (emit e s) = sb_end_active_flights_requested s"
  "sb_create_flight_plan_requested (emit e s) = sb_create_flight_plan_requested s"
  "sb_submit_flight_plan_requested (emit e s) = sb_submit_flight_plan_requested s"
  "sb_traffic_monitoring_requested (emit e s) = sb_traffic_monitoring_requested s"
  "sb_start_flight_comms_requested (emit e s) = sb_start_flight_comms_requested s"
  "sb_credentials (emit e s) = sb_credentials s"
  "sb_aircraft_id (emit e s) = sb_aircraft_id s"
  "sb_current_position (emit e s) = sb_current_position s"
  "sb_active_flights (emit e s) = sb_active_flights s"
  "sb_flight_plan (emit e s) = sb_flight_plan s"
  "sb_flight (emit e s) = sb_flight s"
  "sb_authorization (emit e s) = sb_authorization s"
  "sb_traffic_monitor (emit e s) = sb_traffic_monitor s"
  "sb_encryption_key (emit e s) = sb_encryption_key s"
  "sb_mission_geometry (emit e s) = sb_mission_geometry s"
  "sb_pilot_id (emit e s) = sb_pilot_id s"
  "sb_out (emit e s) = sb_out s @ [e]"
  "calls p (emit e s) = calls p s @ sends [e]"
  by (simp_all add: emit_def calls_def)

lemma extends_needs:
  "extends s s' \<Longrightarrow> needs st s \<Longrightarrow> needs st s'"
  by (cases st) (simp_all add: extends_def)

lemma extends_list_all:
  "extends s s' \<Longrightarrow> list_all (\<lambda>r. needs (request_stage r) s) rs \<Longrightarrow>
   list_all (\<lambda>r. needs (request_stage r) s') rs"
  by (auto simp: list_all_iff dest: extends_needs)

text \<open>The invariant of a state follows from that of one it extends, up to the slots.\<close>

lemma sub_inv_extend:
  assumes "sub_inv p s" "extends s s'" "calls p s' = calls p s @ rs"
    and "stages_in_order s'" "list_all (\<lambda>r. needs (request_stage r) s') rs"
    and "slots_ok (calls p s @ rs) s'"
  shows "sub_inv p s'"
  using assms extends_list_all [OF assms(2)] by (simp add: sub_inv_def extends_def)

lemma keepsI:
  "m = Ret s' \<Longrightarrow> extends s s' \<Longrightarrow> sub_inv p s' \<Longrightarrow> keeps p s m"
  by (simp add: keeps_def)

lemma slot_simps [simp]:
  "slot False b n \<longleftrightarrow> n = 0 \<and> \<not> b"
  "slot True False n \<longleftrightarrow> n \<le> 1"
  "slot f True n \<longleftrightarrow> f \<and> n = 0"
  "slot f b 0 \<longleftrightarrow> (b \<longrightarrow> f)"
  "slot f b (Suc n) \<longleftrightarrow> f \<and> \<not> b \<and> n = 0"
  by (auto simp: slot_def)

lemma extends_refl [simp]: "extends s s"
  by (simp add: extends_def)

lemma extends_trans: "extends s s' \<Longrightarrow> extends s' s'' \<Longrightarrow> extends s s''"
  by (simp add: extends_def)

lemma keeps_same [intro]: "sub_inv p s \<Longrightarrow> keeps p s (Ret s)"
  by (simp add: keeps_def)

lemma keeps_bind:
  assumes "keeps p s m" "\<And>s'. sub_inv p s' \<Longrightarrow> extends s s' \<Longrightarrow> keeps p s' (f s')"
  shows "keeps p s (cbind m f)"
  using assms unfolding keeps_def by (metis cbind.simps(1) extends_trans)

lemma keeps_extends: "keeps p s' m \<Longrightarrow> extends s s' \<Longrightarrow> keeps p s m"
  unfolding keeps_def by (blast intro: extends_trans)

text \<open>Storing the value that is already there.\<close>

lemma store_same:
  "sb_authorization s = Some a \<Longrightarrow> s\<lparr>sb_authorization := Some a\<rparr> = s"
  "sb_pilot_id s = Some q \<Longrightarrow> s\<lparr>sb_pilot_id := Some q\<rparr> = s"
  "sb_active_flights s = Some fs \<Longrightarrow> s\<lparr>sb_active_flights := Some fs\<rparr> = s"
  "sb_flight_plan s = Some pl \<Longrightarrow> s\<lparr>sb_flight_plan := Some pl\<rparr> = s"
  "sb_flight s = Some f \<Longrightarrow> s\<lparr>sb_flight := Some f\<rparr> = s"
  "sb_traffic_monitor s = Some m \<Longrightarrow> s\<lparr>sb_traffic_monitor := Some m\<rparr> = s"
  "sb_encryption_key s = Some k \<Longrightarrow> s\<lparr>sb_encryption_key := Some k\<rparr> = s"
  by (cases s; simp)+

subsection \<open>Every handler keeps it\<close>

lemma keeps_send:
  assumes "sub_inv p s" "extends s s1" "calls p s1 = calls p s" "stages_in_order s1"
    and "needs (request_stage r) s1" "slots_ok (calls p s @ [r]) s1"
  shows "keeps p s (Ret (emit (Send r) s1))"
proof (rule keepsI [OF refl])
  show e: "extends s (emit (Send r) s1)" using assms(2) by (simp add: extends_def)
  have "needs (request_stage r) (emit (Send r) s1)"
    by (rule extends_needs [OF _ assms(5)]) (simp add: extends_def)
  then show "sub_inv p (emit (Send r) s1)"
    using assms(4,6)
    by (intro sub_inv_extend [OF assms(1) e, of "[r]"]) (simp_all add: assms(3) inv_defs)
qed

lemma comms_keeps:
  assumes "sub_inv p s" "sb_flight s \<noteq> None"
  shows "keeps p s (request_start_flight_comms s)"
proof (cases "sb_encryption_key s = None \<and> \<not> sb_start_flight_comms_requested s")
  case True
  from assms obtain a f where af: "sb_authorization s = Some a" "sb_flight s = Some f"
    by (auto simp: inv_defs)
  have "keeps p s (Ret (emit (Send (Start_comms a (fl_id f)))
          (s\<lparr>sb_start_flight_comms_requested := True\<rparr>)))"
    using assms True
    by (intro keeps_send) (auto simp: inv_defs extends_def)
  with True af show ?thesis by (simp add: request_start_flight_comms_def)
next
  case False
  with assms(1) show ?thesis
    by (auto simp: request_start_flight_comms_def handle_start_flight_comms_finished_def store_same
        split: option.splits)
qed

lemma monitor_finished_keeps:
  assumes "sub_inv p (s\<lparr>sb_traffic_monitor := Some m\<rparr>)"
  shows "keeps p s (Ret (handle_monitor_traffic_finished m s))"
proof (rule keepsI [OF refl])
  let ?s = "s\<lparr>sb_traffic_monitor := Some m\<rparr>"
  have e: "extends ?s (handle_monitor_traffic_finished m s)"
    by (simp add: handle_monitor_traffic_finished_def extends_def)
  show "sub_inv p (handle_monitor_traffic_finished m s)"
    using assms
    by (intro sub_inv_extend [OF assms e, of "[]"])
       (auto simp: inv_defs handle_monitor_traffic_finished_def)
qed (simp add: handle_monitor_traffic_finished_def extends_def)

lemma monitor_keeps:
  assumes "sub_inv p s" "sb_flight s \<noteq> None"
  shows "keeps p s (request_monitor_traffic s)"
proof (cases "sb_traffic_monitor s = None \<and> \<not> sb_traffic_monitoring_requested s")
  case True
  from assms obtain a f where af: "sb_authorization s = Some a" "sb_flight s = Some f"
    by (auto simp: inv_defs)
  have "keeps p s (Ret (emit (Send (Monitor_traffic (fl_id f) a))
          (s\<lparr>sb_traffic_monitoring_requested := True\<rparr>)))"
    using assms True
    by (intro keeps_send) (auto simp: inv_defs extends_def)
  with True af show ?thesis by (simp add: request_monitor_traffic_def)
next
  case False
  with assms(1) show ?thesis
    by (auto simp: request_monitor_traffic_def store_same intro!: monitor_finished_keeps
        split: option.splits)
qed

lemma extends_store [simp]:
  "extends s (s\<lparr>sb_authorization := Some a\<rparr>)"
  "extends s (s\<lparr>sb_pilot_id := Some q\<rparr>)"
  "extends s (s\<lparr>sb_active_flights := Some fs\<rparr>)"
  "extends s (s\<lparr>sb_flight_plan := Some pl\<rparr>)"
  "extends s (s\<lparr>sb_flight := Some f\<rparr>)"
  by (simp_all add: extends_def)

lemma submit_finished_keeps:
  assumes "sub_inv p (s\<lparr>sb_flight := Some f\<rparr>)"
  shows "keeps p s (handle_submit_flight_plan_finished f s)"
proof -
  let ?s = "s\<lparr>sb_flight := Some f\<rparr>"
  have "keeps p ?s (cbind (request_monitor_traffic ?s) request_start_flight_comms)"
    by (rule keeps_bind) (auto intro!: monitor_keeps comms_keeps assms simp: extends_def)
  then show ?thesis
    by (auto simp: handle_submit_flight_plan_finished_def intro: keeps_extends)
qed

lemma submit_plan_keeps:
  assumes "sub_inv p s" "sb_flight_plan s \<noteq> None"
  shows "keeps p s (request_submit_flight_plan s)"
proof (cases "sb_flight s = None \<and> \<not> sb_submit_flight_plan_requested s")
  case True
  from assms obtain a pl where af: "sb_authorization s = Some a" "sb_flight_plan s = Some pl"
    by (auto simp: inv_defs)
  have "keeps p s (Ret (emit (Send (Submit_plan a (fp_id pl)))
          (s\<lparr>sb_submit_flight_plan_requested := True\<rparr>)))"
    using assms True
    by (intro keeps_send) (auto simp: inv_defs extends_def)
  with True af show ?thesis by (simp add: request_submit_flight_plan_def)
next
  case False
  with assms(1) show ?thesis
    by (auto simp: request_submit_flight_plan_def store_same intro!: submit_finished_keeps
        split: option.splits)
qed

lemma create_finished_keeps:
  "sub_inv p (s\<lparr>sb_flight_plan := Some pl\<rparr>) \<Longrightarrow> keeps p s (handle_create_flight_plan_finished pl s)"
  by (auto simp: handle_create_flight_plan_finished_def intro!: submit_plan_keeps
      intro: keeps_extends [of p "s\<lparr>sb_flight_plan := Some pl\<rparr>"])

text \<open>A suitable polygon has a highest altitude.\<close>

lemma max_altitude_from_some:
  "list_all (\<lambda>c. altitude c \<noteq> None) cs \<Longrightarrow> \<exists>a. max_altitude_from (Some l) cs = Ret (Some a)"
  by (induction cs arbitrary: l) auto

lemma plan_params_defined:
  assumes "sb_authorization s = Some a" "sb_pilot_id s = Some q" "suitable_geometry g"
  shows "\<exists>ps. plan_params e s pos g = Ret ps"
proof -
  from assms(3) obtain shape where g: "g = G_polygon shape"
    by (cases g) auto
  have "mission_ring g = Ret (outer_ring shape)"
    by (simp add: g mission_ring_def details_for_def read_as_def geometry_construct_from_def
        geometry_set_def place_def)
  moreover from assms(3) g obtain c cs where "outer_ring shape = c # cs"
    and c: "altitude c \<noteq> None" "list_all (\<lambda>c. altitude c \<noteq> None) cs"
    by (cases "outer_ring shape") auto
  moreover from c have "\<exists>h. max_altitude (c # cs) = Ret h"
    using max_altitude_from_some [of cs "the (altitude c)"] by (auto simp: max_altitude_def)
  ultimately show ?thesis using assms(1,2) by (auto simp: plan_params_def)
qed

lemma create_keeps:
  assumes "sub_inv p s" "sb_active_flights s \<noteq> None"
  shows "keeps p s (request_create_flight_plan e s)"
proof (cases "sb_flight_plan s = None \<and> \<not> sb_create_flight_plan_requested s")
  case True
  let ?s = "s\<lparr>sb_create_flight_plan_requested := True\<rparr>"
  from assms obtain a q where aq: "sb_authorization s = Some a" "sb_pilot_id s = Some q"
    by (auto simp: inv_defs)
  have send: "keeps p s (Ret (emit (Send r) ?s))" if "request_stage r = St_create" for r
    using assms True that by (intro keeps_send) (auto simp: inv_defs extends_def)
  have none: "keeps p s (Ret ?s)"
  proof (rule keepsI [OF refl])
    show e: "extends s ?s" by (simp add: extends_def)
    show "sub_inv p ?s"
      by (rule sub_inv_extend [OF assms(1) e, of "[]"]) (use assms True in \<open>auto simp: inv_defs\<close>)
  qed
  show ?thesis
  proof (cases "sb_current_position s")
    case None
    with True none show ?thesis by (simp add: request_create_flight_plan_def)
  next
    case pos: (Some pos)
    show ?thesis
    proof (cases "sb_mission_geometry s")
      case None
      with True pos aq send show ?thesis
        by (simp add: request_create_flight_plan_def flight_params_def Let_def)
    next
      case (Some g)
      with assms(1) have "suitable_geometry g" by (simp add: sub_inv_def)
      then obtain ps where "plan_params e ?s pos g = Ret ps"
        using plan_params_defined [of ?s a q g e pos] aq by auto
      with True pos Some send show ?thesis
        by (simp add: request_create_flight_plan_def Let_def)
    qed
  qed
next
  case False
  with assms(1) show ?thesis
    by (auto simp: request_create_flight_plan_def store_same intro!: create_finished_keeps
        split: option.splits)
qed

lemma end_active_finished_keeps:
  assumes "sub_inv p s" "sb_active_flights s \<noteq> None"
  shows "keeps p s (handle_end_active_flight_finished e i s)"
proof -
  from assms(2) obtain fs where fs: "sb_active_flights s = Some fs" by blast
  let ?s = "s\<lparr>sb_active_flights := Some (erase_first (\<lambda>f. fl_id f = i) fs)\<rparr>"
  have "sub_inv p ?s"
    by (rule sub_inv_extend [OF assms(1), of _ "[]"]) (use assms in \<open>auto simp: inv_defs\<close>)
  then have "keeps p ?s (if erase_first (\<lambda>f. fl_id f = i) fs = []
      then handle_end_active_flights_finished e ?s else Ret ?s)"
    by (auto simp: handle_end_active_flights_finished_def intro: create_keeps)
  with fs show ?thesis
    by (auto simp: handle_end_active_flight_finished_def Let_def intro: keeps_extends)
qed

lemma end_active_keeps:
  assumes "sub_inv p s" "sb_active_flights s \<noteq> None"
  shows "keeps p s (request_end_active_flights e s)"
proof (cases "sb_active_flights s = Some [] \<or> sb_end_active_flights_requested s")
  case True
  with assms show ?thesis
    by (auto simp: request_end_active_flights_def handle_end_active_flights_finished_def
        intro!: create_keeps)
next
  case False
  let ?s = "s\<lparr>sb_end_active_flights_requested := True\<rparr>"
  let ?body = "\<lambda>f st. cbind (deref (sb_authorization st)) (\<lambda>a.
                 Ret (emit (Send (End_active_flight a (fl_id f))) st))"
  from assms(2) obtain fs where fs: "sb_active_flights s = Some fs" by blast
  have start: "sub_inv p ?s"
    by (rule sub_inv_extend [OF assms(1), of _ "[]"]) (use assms in \<open>auto simp: inv_defs extends_def\<close>)
  have "\<exists>s'. ?body f st = Ret s' \<and> sub_inv p s' \<and> extends ?s s'"
    if st: "sub_inv p st \<and> extends ?s st" for f st
  proof -
    have "sb_active_flights st \<noteq> None" using st assms(2) by (simp add: extends_def)
    with st obtain a where a: "sb_authorization st = Some a"
      by (auto simp: sub_inv_def stages_in_order_def)
    from st \<open>sb_active_flights st \<noteq> None\<close>
    have "keeps p st (Ret (emit (Send (End_active_flight a (fl_id f))) st))"
      by (intro keeps_send) (simp_all add: sub_inv_def slots_ok_def)
    with a st show ?thesis by (auto simp: keeps_def intro: extends_trans)
  qed
  then have "\<exists>s'. cfold ?body fs ?s = Ret s' \<and> sub_inv p s' \<and> extends ?s s'"
    by (intro cfold_invariant) (simp_all add: start)
  then have "keeps p s (cfold ?body fs ?s)"
    by (auto simp: keeps_def extends_def)
  with False fs show ?thesis by (auto simp: request_end_active_flights_def Let_def)
qed

lemma search_finished_keeps:
  "sub_inv p (s\<lparr>sb_active_flights := Some fs\<rparr>) \<Longrightarrow> keeps p s (handle_active_flights_finished e fs s)"
  by (auto simp: handle_active_flights_finished_def intro!: end_active_keeps
      intro: keeps_extends [of p "s\<lparr>sb_active_flights := Some fs\<rparr>"])

lemma search_keeps:
  assumes "sub_inv p s" "sb_pilot_id s \<noteq> None"
  shows "keeps p s (request_active_flights e s)"
proof (cases "sb_active_flights s = None \<and> \<not> sb_active_flights_requested s")
  case True
  have "keeps p s (Ret (emit (Send (Flights_search (en_clock e 0) (en_clock e 1) (sb_pilot_id s)))
          (s\<lparr>sb_active_flights_requested := True\<rparr>)))"
    using assms True by (intro keeps_send) (auto simp: inv_defs extends_def)
  with True show ?thesis by (simp add: request_active_flights_def Let_def)
next
  case False
  with assms(1) show ?thesis
    by (auto simp: request_active_flights_def store_same intro!: search_finished_keeps
        split: option.splits)
qed

lemma pilot_finished_keeps:
  "sub_inv p (s\<lparr>sb_pilot_id := Some q\<rparr>) \<Longrightarrow> keeps p s (handle_pilot_id_finished e q s)"
  by (auto simp: handle_pilot_id_finished_def intro!: search_keeps
      intro: keeps_extends [of p "s\<lparr>sb_pilot_id := Some q\<rparr>"])

lemma pilot_keeps:
  assumes "sub_inv p s" "sb_authorization s \<noteq> None"
  shows "keeps p s (request_pilot_id e s)"
proof (cases "sb_pilot_id s = None \<and> \<not> sb_pilot_id_requested s")
  case True
  from assms(2) obtain a where a: "sb_authorization s = Some a" by blast
  have "keeps p s (Ret (emit (Send (Pilots_authenticated a)) (s\<lparr>sb_pilot_id_requested := True\<rparr>)))"
    using assms True by (intro keeps_send) (auto simp: inv_defs extends_def)
  with True a show ?thesis by (simp add: request_pilot_id_def Let_def)
next
  case False
  with assms(1) show ?thesis
    by (auto simp: request_pilot_id_def store_same intro!: pilot_finished_keeps split: option.splits)
qed

lemma authorization_finished_keeps:
  "sub_inv p (s\<lparr>sb_authorization := Some a\<rparr>) \<Longrightarrow> keeps p s (handle_authorization_finished e a s)"
  by (auto simp: handle_authorization_finished_def intro!: pilot_keeps
      intro: keeps_extends [of p "s\<lparr>sb_authorization := Some a\<rparr>"])

lemma authorization_keeps:
  assumes "sub_inv p s"
  shows "keeps p s (request_authorization e s)"
proof (cases "sb_authorization s = None \<and> \<not> sb_authorization_requested s")
  case True
  have "keeps p s (Ret (emit (Send r) (s\<lparr>sb_authorization_requested := True\<rparr>)))"
    if "request_stage r = St_authorization" for r
    using assms True that by (intro keeps_send) (auto simp: inv_defs extends_def)
  with True show ?thesis
    by (simp add: request_authorization_def Let_def split: option.split)
next
  case False
  with assms show ?thesis
    by (auto simp: request_authorization_def store_same intro!: authorization_finished_keeps
        split: option.splits)
qed

subsection \<open>Every step keeps it\<close>

text \<open>
  What the environment grants: the clock reads proper instants, mission geometries are
  polygons whose vertices all have an altitude, and a submitted plan names its flight.
\<close>

definition well_behaved :: "env \<Rightarrow> input \<Rightarrow> bool" where
  "well_behaved e i \<longleftrightarrow>
     (case en_clock e 0 of At _ \<Rightarrow> True | Not_a_date_time \<Rightarrow> False) \<and>
     (case i of
        In_mission g \<Rightarrow> suitable_geometry g
      | In_complete _ (Done_submit (Inr p)) \<Rightarrow> fp_flight_id p \<noteq> None
      | _ \<Rightarrow> True)"

definition no_deactivation :: "env \<Rightarrow> input \<Rightarrow> bool" where
  "no_deactivation e i \<longleftrightarrow> well_behaved e i \<and> i \<noteq> In_deactivate"

definition sys_inv :: "sys \<Rightarrow> bool" where
  "sys_inv x \<longleftrightarrow> sub_inv (snd x) ((fst x)\<lparr>sb_out := []\<rparr>)"

lemma sub_inv_answered:
  assumes "sub_inv (p1 @ r # p2) s" "sb_out s = []" "extends s s'" "sb_out s' = []"
    and "stages_in_order s'" "slots_ok (p1 @ p2) s'"
  shows "sub_inv (p1 @ p2) s'"
proof -
  have "list_all (\<lambda>r. needs (request_stage r) s) (p1 @ p2)"
    using assms(1,2) by (simp add: sub_inv_def calls_def)
  from extends_list_all [OF assms(3) this] show ?thesis
    using assms by (simp add: sub_inv_def calls_def extends_def)
qed

text \<open>No plan, no pending submission.\<close>

lemma no_submission:
  "list_all (\<lambda>r. needs (request_stage r) s) p \<Longrightarrow> sb_flight_plan s = None \<Longrightarrow> in_flight St_submit p = 0"
  by (induction p) auto

lemma keeps_answered:
  assumes "sub_inv (p1 @ r # p2) s" "sb_out s = []" "answers r c"
    and "well_behaved e (In_complete n c)"
  shows "keeps (p1 @ p2) s (complete e c s)"
proof -
  note ans = sub_inv_answered [OF assms(1,2)]
  have s: "stages_in_order s" "needs (request_stage r) s" "slots_ok (p1 @ r # p2) s"
    using assms(1,2) by (simp_all add: sub_inv_def calls_def)
  have failed: "keeps (p1 @ p2) s (Ret s')"
    if "extends s s'" "sb_out s' = []" "stages_in_order s'" "slots_ok (p1 @ p2) s'" for s'
    using ans [OF that] that(1) by (simp add: keeps_def)
  show ?thesis
  proof (cases c)
    case c: (Done_authentication out)
    with assms(3) have r: "request_stage r = St_authorization" by (cases r) (auto simp: answers_def)
    have "keeps (p1 @ p2) s (Ret (s\<lparr>sb_authorization_requested := False\<rparr>))"
      by (rule failed) (use r s assms(2) in \<open>auto simp: inv_defs extends_def\<close>)
    moreover have "sub_inv (p1 @ p2) (s\<lparr>sb_authorization := Some v\<rparr>)" for v
      by (rule ans) (use r s assms(2) in \<open>auto simp: inv_defs extends_def\<close>)
    ultimately show ?thesis
      by (cases out) (simp_all add: c authorization_finished_keeps)
  next
    case c: (Done_pilot out)
    with assms(3) have r: "request_stage r = St_pilot" by (cases r) (auto simp: answers_def)
    have "keeps (p1 @ p2) s (Ret (s\<lparr>sb_pilot_id_requested := False\<rparr>))"
      by (rule failed) (use r s assms(2) in \<open>auto simp: inv_defs extends_def\<close>)
    moreover have "sub_inv (p1 @ p2) (s\<lparr>sb_pilot_id := Some v\<rparr>)" for v
      by (rule ans) (use r s assms(2) in \<open>auto simp: inv_defs extends_def\<close>)
    ultimately show ?thesis
      by (cases out) (simp_all add: c pilot_finished_keeps)
  next
    case c: (Done_search out)
    with assms(3) have r: "request_stage r = St_search" by (cases r) (auto simp: answers_def)
    have "keeps (p1 @ p2) s (Ret (s\<lparr>sb_active_flights_requested := False\<rparr>))"
      by (rule failed) (use r s assms(2) in \<open>auto simp: inv_defs extends_def\<close>)
    moreover have "sub_inv (p1 @ p2) (s\<lparr>sb_active_flights := Some v\<rparr>)" for v
      by (rule ans) (use r s assms(2) in \<open>auto simp: inv_defs extends_def\<close>)
    ultimately show ?thesis
      by (cases out) (simp_all add: c search_finished_keeps)
  next
    case c: (Done_end_active i out)
    with assms(3) have r: "request_stage r = St_end_active" by (cases r) (auto simp: answers_def)
    have "keeps (p1 @ p2) s (Ret (s\<lparr>sb_end_active_flights_requested := False\<rparr>))"
      by (rule failed) (use r s assms(2) in \<open>auto simp: inv_defs extends_def\<close>)
    moreover have "sub_inv (p1 @ p2) s"
      by (rule ans) (use r s assms(2) in \<open>auto simp: inv_defs\<close>)
    ultimately show ?thesis
      using r s(2) by (cases out) (simp_all add: c end_active_finished_keeps)
  next
    case c: (Done_end out)
    with assms(3) have r: "request_stage r = St_end" by (cases r) (auto simp: answers_def)
    have "keeps (p1 @ p2) s (Ret s)"
      by (rule failed) (use r s assms(2) in \<open>auto simp: inv_defs extends_def\<close>)
    then show ?thesis by (simp add: c)
  next
    case c: (Done_create_plan out)
    with assms(3) have r: "request_stage r = St_create" by (cases r) (auto simp: answers_def)
    have "keeps (p1 @ p2) s (Ret (s\<lparr>sb_create_flight_plan_requested := False\<rparr>))"
      by (rule failed) (use r s assms(2) in \<open>auto simp: inv_defs extends_def\<close>)
    moreover have "sub_inv (p1 @ p2) (s\<lparr>sb_flight_plan := Some v\<rparr>)" for v
      by (rule ans) (use r s assms(2) in \<open>auto simp: inv_defs extends_def\<close>)
    ultimately show ?thesis
      by (cases out) (simp_all add: c create_finished_keeps)
  next
    case c: (Done_create_flight out)
    with assms(3) have r: "request_stage r = St_create" by (cases r) (auto simp: answers_def)
    have "keeps (p1 @ p2) s (Ret (s\<lparr>sb_create_flight_plan_requested := False\<rparr>))"
      by (rule failed) (use r s assms(2) in \<open>auto simp: inv_defs extends_def\<close>)
    moreover have "sb_flight_plan s = None" using s(3) r by (simp add: slots_ok_def)
    then have "in_flight St_submit (p1 @ p2) = 0"
      using assms(1,2) by (intro no_submission [of s]) (simp_all add: sub_inv_def calls_def)
    then have "sub_inv (p1 @ p2) (s\<lparr>sb_flight := Some v\<rparr>)" for v
      by (intro ans) (use r s assms(2) in \<open>auto simp: inv_defs extends_def\<close>)
    ultimately show ?thesis
      by (cases out) (simp_all add: c submit_finished_keeps)
  next
    case c: (Done_submit out)
    with assms(3) have r: "request_stage r = St_submit" by (cases r) (auto simp: answers_def)
    have "keeps (p1 @ p2) s (Ret (s\<lparr>sb_submit_flight_plan_requested := False\<rparr>))"
      by (rule failed) (use r s assms(2) in \<open>auto simp: inv_defs extends_def\<close>)
    moreover have "sub_inv (p1 @ p2) (s\<lparr>sb_flight := Some v\<rparr>)" for v
      by (rule ans) (use r s assms(2) in \<open>auto simp: inv_defs extends_def\<close>)
    moreover have "\<exists>f. flight_of_plan e pl = Ret f" if "out = Inr pl" for pl
      using assms(4) c that by (auto simp: flight_of_plan_def well_behaved_def)
    ultimately show ?thesis
      by (cases out) (auto simp add: c submit_finished_keeps)
  next
    case c: (Done_monitor out)
    with assms(3) have r: "request_stage r = St_monitor" by (cases r) (auto simp: answers_def)
    have "keeps (p1 @ p2) s (Ret (s\<lparr>sb_traffic_monitoring_requested := False\<rparr>))"
      by (rule failed) (use r s assms(2) in \<open>auto simp: inv_defs extends_def\<close>)
    moreover have "sub_inv (p1 @ p2) (s\<lparr>sb_traffic_monitor := Some v\<rparr>)" for v
      by (rule ans) (use r s assms(2) in \<open>auto simp: inv_defs extends_def\<close>)
    ultimately show ?thesis
      by (cases out) (simp_all add: c monitor_finished_keeps)
  next
    case c: (Done_comms out)
    with assms(3) have r: "request_stage r = St_comms" by (cases r) (auto simp: answers_def)
    have "keeps (p1 @ p2) s (Ret (s\<lparr>sb_start_flight_comms_requested := False\<rparr>))"
      by (rule failed) (use r s assms(2) in \<open>auto simp: inv_defs extends_def\<close>)
    moreover have "sub_inv (p1 @ p2) (s\<lparr>sb_encryption_key := Some v\<rparr>)" for v
      by (rule ans) (use r s assms(2) in \<open>auto simp: inv_defs extends_def\<close>)
    moreover have "extends s (s\<lparr>sb_encryption_key := Some v\<rparr>)" for v
      by (simp add: extends_def)
    ultimately show ?thesis
      by (cases out) (simp_all add: c keeps_def handle_start_flight_comms_finished_def)
  qed
qed

lemma sub_inv_reset_out:
  "sub_inv p s \<Longrightarrow> sub_inv (p @ sends (sb_out s)) (s\<lparr>sb_out := []\<rparr>)"
proof -
  assume inv: "sub_inv p s"
  have "needs st (s\<lparr>sb_out := []\<rparr>) = needs st s" for st by (cases st) simp_all
  with inv show ?thesis by (simp add: inv_defs calls_def)
qed

lemma run_handler_keeps:
  assumes "keeps (snd x) ((fst x)\<lparr>sb_out := []\<rparr>) (h ((fst x)\<lparr>sb_out := []\<rparr>))"
  shows "\<exists>x'. run_handler h x = Ret x' \<and> sys_inv x'"
  using assms sub_inv_reset_out by (fastforce simp: keeps_def run_handler_def sys_inv_def)

lemma sys_step_keeps:
  assumes "sys_inv x" "no_deactivation e i" "sys_step e i x = Some y"
  shows "\<exists>x'. y = Ret x' \<and> sys_inv x'"
proof -
  let ?s = "(fst x)\<lparr>sb_out := []\<rparr>"
  have inv: "sub_inv (snd x) ?s" using assms(1) by (simp add: sys_inv_def)
  show ?thesis
  proof (cases i)
    case In_activate
    have e: "extends ?s (?s\<lparr>sb_state := SS_active\<rparr>) \<or> True" by simp
    have "sub_inv (snd x) (?s\<lparr>sb_state := SS_active\<rparr>)"
    proof -
      have "needs st (?s\<lparr>sb_state := SS_active\<rparr>) = needs st ?s" for st by (cases st) simp_all
      with inv show ?thesis by (simp add: inv_defs calls_def)
    qed
    from authorization_keeps [OF this, of e]
    have "\<exists>s'. activate e ?s = Ret s' \<and> sub_inv (snd x) s'"
      by (auto simp: keeps_def activate_def)
    then show ?thesis
      using assms(3) In_activate sub_inv_reset_out by (fastforce simp: run_handler_def sys_inv_def)
  next
    case In_deactivate
    with assms(2) show ?thesis by (simp add: no_deactivation_def)
  next
    case (In_submit pos)
    let ?s1 = "?s\<lparr>sb_current_position := Some pos\<rparr>"
    have "needs st ?s1 = needs st ?s" for st by (cases st) simp_all
    with inv have inv1: "sub_inv (snd x) ?s1" by (simp add: inv_defs calls_def)
    from assms(2) In_submit obtain t where "en_clock e 0 = At t"
      by (auto simp: no_deactivation_def well_behaved_def split: date_time.splits)
    then obtain u where u: "position_update (en_clock e 0) pos = Ret u"
      by (simp add: position_update_def milliseconds_since_epoch_def epoch_def)
    have "keeps (snd x) ?s1 (Ret (emit (Send_telemetry f key [u]) ?s1))" for f key
      by (rule keepsI [OF refl _ sub_inv_extend [OF inv1, of _ "[]"]])
         (use inv1 in \<open>simp_all add: extends_def inv_defs\<close>)
    with u authorization_keeps [OF inv1, of e]
    have "\<exists>s'. submit e pos ?s = Ret s' \<and> sub_inv (snd x) s'"
      using inv1 by (auto simp: submit_def Let_def keeps_def split: option.splits)
    then show ?thesis
      using assms(3) In_submit sub_inv_reset_out by (fastforce simp: run_handler_def sys_inv_def)
  next
    case (In_mission g)
    let ?s1 = "?s\<lparr>sb_mission_geometry := Some g\<rparr>"
    have "needs st ?s1 = needs st ?s" for st by (cases st) simp_all
    with inv assms(2) In_mission have "sub_inv (snd x) ?s1"
      by (simp add: inv_defs calls_def no_deactivation_def well_behaved_def)
    then show ?thesis
      using assms(3) In_mission sub_inv_reset_out
      by (fastforce simp: run_handler_def sys_inv_def set_mission_geometry_def)
  next
    case (In_complete n c)
    with assms(3) have n: "n < length (snd x)" "answers (snd x ! n) c"
      and y: "y = run_handler (complete e c) (fst x, remove_nth n (snd x))"
      by (auto split: if_splits)
    have "snd x = take n (snd x) @ snd x ! n # drop (Suc n) (snd x)"
      using n(1) by (rule id_take_nth_drop)
    with inv have "sub_inv (take n (snd x) @ snd x ! n # drop (Suc n) (snd x)) ?s" by simp
    then have "keeps (remove_nth n (snd x)) ?s (complete e c ?s)"
      unfolding remove_nth_def
      by (rule keeps_answered) (use n assms(2) In_complete in \<open>simp_all add: no_deactivation_def\<close>)
    then show ?thesis unfolding y by (intro run_handler_keeps) simp
  qed
qed

lemma sub_reach_inv:
  assumes "sub_reach no_deactivation start y" "sys_inv start"
  shows "\<exists>x. y = Ret x \<and> sys_inv x"
  using assms by (induction rule: sub_reach.induct) (auto dest: sys_step_keeps)

lemma sys_inv_init: "sys_inv (submitter_create cr aircraft, [])"
  by (simp add: sys_inv_def inv_defs calls_def submitter_create_def)

subsection \<open>Telemetry\<close>

definition telemetry_of :: "effect list \<Rightarrow> effect list" where
  "telemetry_of es = filter (\<lambda>x. case x of Send_telemetry _ _ _ \<Rightarrow> True | _ \<Rightarrow> False) es"

lemma telemetry_of_simps [simp]:
  "telemetry_of [] = []"
  "telemetry_of (es @ es') = telemetry_of es @ telemetry_of es'"
  "telemetry_of (Send r # es) = telemetry_of es"
  "telemetry_of (Subscribe_traffic m # es) = telemetry_of es"
  "telemetry_of (Send_telemetry f k us # es) = Send_telemetry f k us # telemetry_of es"
  by (simp_all add: telemetry_of_def)

text \<open>No handler but \<open>submit\<close> sends telemetry.\<close>

definition quiet :: "submitter \<Rightarrow> submitter cpp \<Rightarrow> bool" where
  "quiet s m \<longleftrightarrow> (\<forall>s'. m = Ret s' \<longrightarrow> telemetry_of (sb_out s') = telemetry_of (sb_out s))"

lemma quiet_simps [simp]:
  "quiet s UB" "quiet s (Throw x)"
  "quiet s (Ret s') \<longleftrightarrow> telemetry_of (sb_out s') = telemetry_of (sb_out s)"
  by (simp_all add: quiet_def)

lemma quiet_bind: "quiet s m \<Longrightarrow> (\<And>s'. quiet s' (f s')) \<Longrightarrow> quiet s (cbind m f)"
  by (cases m) (auto simp: quiet_def)

lemma quiet_deref [simp]: "(\<And>v. quiet s (f v)) \<Longrightarrow> quiet s (cbind (deref x) f)"
  by (cases x) auto

lemma quiet_update:
  "quiet s' m \<Longrightarrow> sb_out s' = sb_out s \<Longrightarrow> quiet s m"
  by (simp add: quiet_def)

lemma quiet_from:
  "quiet s' m \<Longrightarrow> telemetry_of (sb_out s') = telemetry_of (sb_out s) \<Longrightarrow> quiet s m"
  by (simp add: quiet_def)

lemma quiet_comms [simp]: "quiet s (request_start_flight_comms s)"
  by (simp add: request_start_flight_comms_def handle_start_flight_comms_finished_def Let_def
      split: option.split)

lemma quiet_monitor [simp]: "quiet s (request_monitor_traffic s)"
  by (simp add: request_monitor_traffic_def handle_monitor_traffic_finished_def Let_def
      split: option.split)

lemma quiet_submit_finished [simp]: "quiet s (handle_submit_flight_plan_finished f s)"
  by (rule quiet_update [of "s\<lparr>sb_flight := Some f\<rparr>"])
     (simp_all add: handle_submit_flight_plan_finished_def quiet_bind)

lemma quiet_submit [simp]: "quiet s (request_submit_flight_plan s)"
  by (simp add: request_submit_flight_plan_def Let_def split: option.split)

lemma quiet_create_finished [simp]: "quiet s (handle_create_flight_plan_finished p s)"
  by (rule quiet_update [of "s\<lparr>sb_flight_plan := Some p\<rparr>"])
     (simp_all add: handle_create_flight_plan_finished_def)

lemma quiet_any: "(\<And>v. quiet s (f v)) \<Longrightarrow> quiet s (cbind m f)"
  by (cases m) auto

lemma quiet_create [simp]: "quiet s (request_create_flight_plan e s)"
  by (simp add: request_create_flight_plan_def Let_def quiet_any split: option.split)

lemma quiet_end_active_finished [simp]: "quiet s (handle_end_active_flight_finished e i s)"
  by (auto simp: handle_end_active_flight_finished_def handle_end_active_flights_finished_def Let_def
      intro!: quiet_any quiet_update [OF quiet_create])

lemma quiet_end_active [simp]: "quiet s (request_end_active_flights e s)"
proof -
  have "quiet st (cfold (\<lambda>f st. cbind (deref (sb_authorization st)) (\<lambda>a.
                         Ret (emit (Send (End_active_flight a (fl_id f))) st))) fs st)" for fs st
  proof (induction fs arbitrary: st)
    case (Cons f fs)
    have "quiet st (cfold (\<lambda>f st. cbind (deref (sb_authorization st)) (\<lambda>a.
            Ret (emit (Send (End_active_flight a (fl_id f))) st))) fs
            (emit (Send (End_active_flight a (fl_id f))) st))" for a
      by (rule quiet_from [OF Cons.IH]) simp
    then show ?case by simp
  qed simp
  note loop = quiet_update [OF this]
  show ?thesis
    by (auto simp: request_end_active_flights_def handle_end_active_flights_finished_def Let_def
        intro!: quiet_deref loop)
qed

lemma quiet_search_finished [simp]: "quiet s (handle_active_flights_finished e fs s)"
  by (rule quiet_update [of "s\<lparr>sb_active_flights := Some fs\<rparr>"])
     (simp_all add: handle_active_flights_finished_def)

lemma quiet_search [simp]: "quiet s (request_active_flights e s)"
  by (simp add: request_active_flights_def Let_def split: option.split)

lemma quiet_pilot_finished [simp]: "quiet s (handle_pilot_id_finished e p s)"
  by (rule quiet_update [of "s\<lparr>sb_pilot_id := Some p\<rparr>"]) (simp_all add: handle_pilot_id_finished_def)

lemma quiet_pilot [simp]: "quiet s (request_pilot_id e s)"
  by (simp add: request_pilot_id_def Let_def split: option.split)

lemma quiet_authorization_finished [simp]: "quiet s (handle_authorization_finished e a s)"
  by (rule quiet_update [of "s\<lparr>sb_authorization := Some a\<rparr>"])
     (simp_all add: handle_authorization_finished_def)

lemma quiet_authorization [simp]: "quiet s (request_authorization e s)"
  by (simp add: request_authorization_def Let_def split: option.split)

lemma quiet_complete [simp]: "quiet s (complete e c s)"
  by (cases "(e, c, s)" rule: complete.cases)
     (simp_all add: handle_monitor_traffic_finished_def handle_start_flight_comms_finished_def quiet_any)

lemma quiet_activate [simp]: "quiet s (activate e s)"
  by (rule quiet_update [of "s\<lparr>sb_state := SS_active\<rparr>"]) (simp_all add: activate_def)

lemma quiet_deactivate [simp]: "telemetry_of (sb_out (deactivate s)) = telemetry_of (sb_out s)"
  by (simp add: deactivate_def Let_def split: option.split)

end
