(* ===== verification/Submitter_Properties.thy ===== *)
theory Submitter_Properties
  imports Submitter_System
begin

text \<open>
  What the submitter guarantees, and where it does not: safety and uniqueness of the flight
  without deactivation, the conditions under which telemetry leaves the machine, the run
  that gets there, the effects of \<open>deactivate\<close>, and the three situations the code does not
  recover from (answers that arrive after deactivation, activation before a first position,
  a mission that is not a polygon).
\<close>

subsection \<open>A concrete environment\<close>

definition env0 :: env where
  "env0 = \<lparr>en_clock = (\<lambda>_. At 0), en_uuid = ''uuid''\<rparr>"

definition anonymous_credentials :: credentials where
  "anonymous_credentials = \<lparr>cr_api_key = ''key'', cr_oauth = None, cr_anonymous = None\<rparr>"

definition submitter0 :: sys where
  "submitter0 = (submitter_create anonymous_credentials [], [])"

definition position0 :: global_position where
  "position0 =
     \<lparr>gp_time_boot_ms = 0, gp_lat = 0, gp_lon = 0, gp_alt = 0, gp_relative_alt = 0,
      gp_vx = 0, gp_vy = 0, gp_vz = 0, gp_hdg = 0\<rparr>"

definition flight0 :: flight where
  "flight0 =
     \<lparr>fl_id = ''flight'', fl_flight_plan_id = None, fl_pilot = pilot_of_id ''pilot'',
      fl_aircraft = aircraft_of_id [], fl_latitude = 0, fl_longitude = 0, fl_max_altitude = 0,
      fl_geometry = G_invalid, fl_created_at = At 0, fl_start_time = At 0, fl_end_time = At 0\<rparr>"

definition plan0 :: flight_plan where
  "plan0 =
     \<lparr>fp_id = ''plan'', fp_flight_id = Some ''flight'', fp_pilot = pilot_of_id ''pilot'',
      fp_aircraft = aircraft_of_id [], fp_takeoff_latitude = 0, fp_takeoff_longitude = 0,
      fp_altitude_max = 0, fp_altitude_min = 0, fp_buffer = 0, fp_geometry = G_invalid,
      fp_start_time = At 0, fp_end_time = At 0, fp_rulesets = [], fp_features = []\<rparr>"

definition to_authorized :: "(env \<times> input) list" where
  "to_authorized =
     [(env0, In_activate), (env0, In_complete 0 (Done_authentication (Inr ''token'')))]"

lemmas run_defs =
  run_handler_def answers_def remove_nth_def submitter_stage_defs activate_def submit_def
  deactivate_def submitter_create_def position_update_def flight_params_def
  set_mission_geometry_def

lemmas concrete_defs =
  env0_def anonymous_credentials_def submitter0_def position0_def flight0_def to_authorized_def

text \<open>A first stretch of a run: activation and authorization.\<close>

lemma authorized_run:
  obtains s p where "sys_run to_authorized submitter0 = Some (Ret (s, p))"
    "sub_reach no_deactivation (submitter_create anonymous_credentials [], []) (Ret (s, p))"
proof -
  obtain y where y: "sys_run to_authorized submitter0 = Some y"
    by (simp add: run_defs concrete_defs)
  have r: "sub_reach no_deactivation (submitter_create anonymous_credentials [], []) y"
    unfolding submitter0_def [symmetric]
    by (rule sys_run_reach [OF y])
       (simp add: to_authorized_def no_deactivation_def well_behaved_def env0_def)
  then obtain s p where "y = Ret (s, p)"
    using sub_reach_inv [OF r sys_inv_init] by auto
  with y r that show ?thesis by simp
qed

lemma slot_at_most_one: "slot f b n \<Longrightarrow> n + of_bool b \<le> 1"
  by (auto simp: slot_def split: if_splits)

lemma slot_submit_at_most_one: "slot f (f \<and> b) n \<Longrightarrow> n + of_bool b \<le> 1"
  by (cases b) (auto simp: slot_def split: if_splits)





text \<open>
  C3. In every state and for every input, telemetry leaves the submitter only on a position
  report while it is active and authorized and has a flight and its encryption key; it is one
  update, for that flight and key, with the reported position scaled to degrees and metres.
\<close>

theorem telemetry_only_when_ready:
  assumes "sys_step e i (s, p) = Some (Ret (s', p'))"
    and "Send_telemetry f key us \<in> set (sb_out s')"
  shows "\<exists>pos u. i = In_submit pos \<and> sb_state s = SS_active \<and> sb_authorization s \<noteq> None \<and>
           sb_flight s = Some f \<and> sb_encryption_key s = Some key \<and>
           us = [u] \<and> position_update (en_clock e 0) pos = Ret u \<and> sb_out s' = [Send_telemetry f key us]"
proof -
  have no: False if "quiet (t\<lparr>sb_out := []\<rparr>) (Ret s')" for t
    using that assms(2) by (auto simp: telemetry_of_def filter_empty_conv)
  obtain pos where i: "i = In_submit pos"
  proof (cases i)
    case In_activate
    with assms(1) have "activate e (s\<lparr>sb_out := []\<rparr>) = Ret s'"
      by (auto simp: run_handler_def cbind_eq_Ret)
    with no [of s] quiet_activate [of "s\<lparr>sb_out := []\<rparr>" e] show ?thesis by simp
  next
    case In_deactivate
    with assms(1) no [of s] quiet_deactivate [of "s\<lparr>sb_out := []\<rparr>"] show ?thesis
      by (auto simp: run_handler_def)
  next
    case (In_mission g)
    with assms(1) no [of s] show ?thesis by (auto simp: run_handler_def set_mission_geometry_def)
  next
    case (In_complete n c)
    with assms(1) have "complete e c (s\<lparr>sb_out := []\<rparr>) = Ret s'"
      by (auto simp: run_handler_def cbind_eq_Ret split: if_splits)
    with no [of s] quiet_complete [of "s\<lparr>sb_out := []\<rparr>" e c] show ?thesis by simp
  qed
  have sub: "submit e pos (s\<lparr>sb_out := []\<rparr>) = Ret s'"
    using assms(1) by (auto simp: i run_handler_def cbind_eq_Ret)
  let ?s1 = "s\<lparr>sb_out := [], sb_current_position := Some pos\<rparr>"
  have "\<not> quiet (s\<lparr>sb_out := []\<rparr>) (Ret s')" using no by blast
  then have "request_authorization e ?s1 \<noteq> Ret s'"
    using quiet_authorization [of ?s1 e] by (auto simp: quiet_def)
  with sub i assms(2) show ?thesis
    by (cases "sb_state s") (auto simp: submit_def Let_def cbind_eq_Ret split: option.splits)
qed

definition ready0 :: submitter where
  "ready0 = (fst submitter0)\<lparr>sb_state := SS_active, sb_current_position := Some position0,
     sb_authorization := Some ''token'', sb_flight := Some flight0, sb_encryption_key := Some ''secret''\<rparr>"

theorem telemetry_only_when_ready_witness:
  "\<exists>s' p' u. sys_step env0 (In_submit position0) (ready0, []) = Some (Ret (s', p')) \<and>
     position_update (At 0) position0 = Ret u \<and> sb_out s' = [Send_telemetry flight0 ''secret'' [u]]"
proof -
  obtain s' p' us where step: "sys_step env0 (In_submit position0) (ready0, []) = Some (Ret (s', p'))"
    and sent: "Send_telemetry flight0 ''secret'' us \<in> set (sb_out s')"
    by (simp add: ready0_def run_defs concrete_defs milliseconds_since_epoch_def epoch_def)
  from telemetry_only_when_ready [OF step sent] step show ?thesis
    by (auto simp: env0_def)
qed

subsection \<open>A run that reaches telemetry\<close>

lemma sys_run_append: "sys_run xs x = Some (Ret y) \<Longrightarrow> sys_run (xs @ ys) x = sys_run ys y"
proof (induction xs arbitrary: x)
  case (Cons ei xs)
  then show ?case by (cases ei) (auto split: option.splits cpp.splits if_splits)
qed simp

definition script_to_search ::
  "env \<Rightarrow> global_position \<Rightarrow> string \<Rightarrow> pilot \<Rightarrow> (env \<times> input) list" where
  "script_to_search e pos token pl =
     map (\<lambda>i. (e, i))
       [In_submit pos, In_activate, In_complete 0 (Done_authentication (Inr token)),
        In_complete 0 (Done_pilot (Inr pl))]"

definition script_end_flights :: "env \<Rightarrow> flight list \<Rightarrow> (env \<times> input) list" where
  "script_end_flights e fs =
     map (\<lambda>f. (e, In_complete 0 (Done_end_active (fl_id f) (Inr ())))) fs"

definition script_from_flight ::
  "env \<Rightarrow> flight \<Rightarrow> nat \<Rightarrow> string \<Rightarrow> global_position \<Rightarrow> (env \<times> input) list" where
  "script_from_flight e f m key pos =
     map (\<lambda>i. (e, i))
       [In_complete 0 (Done_create_flight (Inr f)), In_complete 0 (Done_monitor (Inr m)),
        In_complete 0 (Done_comms (Inr key)), In_submit pos]"

definition flight_script ::
  "env \<Rightarrow> global_position \<Rightarrow> string \<Rightarrow> pilot \<Rightarrow> flight list \<Rightarrow> flight \<Rightarrow> nat \<Rightarrow> string \<Rightarrow>
   global_position \<Rightarrow> (env \<times> input) list" where
  "flight_script e pos token pl fs f m key pos' =
     script_to_search e pos token pl @ [(e, In_complete 0 (Done_search (Inr fs)))] @
     script_end_flights e fs @ script_from_flight e f m key pos'"

text \<open>A state on the way to a flight by point: everything before it is there.\<close>

definition ready_to_create :: "global_position \<Rightarrow> submitter \<Rightarrow> bool" where
  "ready_to_create pos s \<longleftrightarrow>
     sb_state s = SS_active \<and> sb_current_position s = Some pos \<and> sb_mission_geometry s = None \<and>
     sb_authorization s \<noteq> None \<and> sb_pilot_id s \<noteq> None \<and> sb_flight_plan s = None \<and>
     sb_flight s = None \<and> sb_traffic_monitor s = None \<and> sb_encryption_key s = None \<and>
     \<not> sb_create_flight_plan_requested s \<and> \<not> sb_traffic_monitoring_requested s \<and>
     \<not> sb_start_flight_comms_requested s"

lemma run_to_search:
  "\<exists>s. sys_run (script_to_search e pos token pl) (submitter_create cr aircraft, []) =
         Some (Ret (s, [Flights_search (en_clock e 0) (en_clock e 1) (Some (pi_id pl))])) \<and>
       ready_to_create pos s \<and> sb_active_flights s = None \<and> \<not> sb_end_active_flights_requested s"
  by (cases "cr_oauth cr")
     (simp_all add: script_to_search_def run_defs Let_def ready_to_create_def)

definition creates_flight :: "global_position \<Rightarrow> sys cpp \<Rightarrow> bool" where
  "creates_flight pos m \<longleftrightarrow>
     (\<exists>s ps. m = Ret (s, [Create_by_point ps]) \<and>
             ready_to_create pos (s\<lparr>sb_create_flight_plan_requested := False\<rparr>))"

lemma create_by_point_run:
  assumes "ready_to_create pos s"
  shows "creates_flight pos (run_handler (\<lambda>s. request_create_flight_plan e (s\<lparr>sb_active_flights := fs\<rparr>)) (s, []))"
  using assms
  by (auto simp: creates_flight_def run_handler_def request_create_flight_plan_def flight_params_def
      ready_to_create_def Let_def)

lemma end_flights_run:
  assumes "ready_to_create pos s" "sb_active_flights s = Some fs" "fs \<noteq> []"
  shows "\<exists>m. sys_run (script_end_flights e fs)
               (s, map (\<lambda>f. End_active_flight a (fl_id f)) fs) = Some m \<and> creates_flight pos m"
  using assms
proof (induction fs arbitrary: s)
  case (Cons f fs)
  let ?s = "s\<lparr>sb_out := [], sb_active_flights := Some fs\<rparr>"
  show ?case
  proof (cases "fs = []")
    case True
    have "sys_step e (In_complete 0 (Done_end_active (fl_id f) (Inr ())))
            (s, map (\<lambda>f. End_active_flight a (fl_id f)) [f]) =
          Some (run_handler (\<lambda>s. request_create_flight_plan e (s\<lparr>sb_active_flights := Some []\<rparr>)) (s, []))"
      using Cons.prems True
      by (simp add: run_handler_def answers_def remove_nth_def handle_end_active_flight_finished_def
          handle_end_active_flights_finished_def)
    moreover obtain s' ps where
      "run_handler (\<lambda>s. request_create_flight_plan e (s\<lparr>sb_active_flights := Some []\<rparr>)) (s, []) =
         Ret (s', [Create_by_point ps])"
      using create_by_point_run [OF Cons.prems(1), of e "Some []"] by (auto simp: creates_flight_def)
    ultimately show ?thesis
      using create_by_point_run [OF Cons.prems(1), of e "Some []"] True
      by (simp add: script_end_flights_def)
  next
    case False
    have "sys_step e (In_complete 0 (Done_end_active (fl_id f) (Inr ())))
            (s, map (\<lambda>f. End_active_flight a (fl_id f)) (f # fs)) =
          Some (Ret (?s, map (\<lambda>f. End_active_flight a (fl_id f)) fs))"
      using Cons.prems False
      by (simp add: run_handler_def answers_def remove_nth_def handle_end_active_flight_finished_def)
    moreover have "ready_to_create pos ?s" using Cons.prems(1) by (simp add: ready_to_create_def)
    ultimately show ?thesis using Cons.IH [of ?s] False by (simp add: script_end_flights_def)
  qed
qed simp

lemma end_requests:
  "sb_authorization st = Some a \<Longrightarrow>
   cfold (\<lambda>f st. cbind (deref (sb_authorization st)) (\<lambda>a.
            Ret (emit (Send (End_active_flight a (fl_id f))) st))) fs st =
   Ret (st\<lparr>sb_out := sb_out st @ map (\<lambda>f. Send (End_active_flight a (fl_id f))) fs\<rparr>)"
  by (induction fs arbitrary: st) (simp_all add: emit_def)

lemma sends_map [simp]: "sends (map (\<lambda>x. Send (g x)) xs) = map g xs"
  by (induction xs) auto

lemma search_answer_run:
  assumes "ready_to_create pos s" "\<not> sb_end_active_flights_requested s"
  shows "\<exists>m. sys_run ((e, In_complete 0 (Done_search (Inr fs))) # script_end_flights e fs)
               (s, [Flights_search t1 t2 q]) = Some m \<and> creates_flight pos m"
proof (cases "fs = []")
  case True
  have "sys_step e (In_complete 0 (Done_search (Inr []))) (s, [Flights_search t1 t2 q]) =
          Some (run_handler (\<lambda>s. request_create_flight_plan e (s\<lparr>sb_active_flights := Some []\<rparr>)) (s, []))"
    by (simp add: run_handler_def answers_def remove_nth_def handle_active_flights_finished_def
        request_end_active_flights_def handle_end_active_flights_finished_def)
  moreover obtain s' ps where
    "run_handler (\<lambda>s. request_create_flight_plan e (s\<lparr>sb_active_flights := Some []\<rparr>)) (s, []) =
       Ret (s', [Create_by_point ps])"
    using create_by_point_run [OF assms(1), of e "Some []"] by (auto simp: creates_flight_def)
  ultimately show ?thesis
    using create_by_point_run [OF assms(1), of e "Some []"] True
    by (simp add: script_end_flights_def)
next
  case False
  from assms(1) obtain a where a: "sb_authorization s = Some a" by (auto simp: ready_to_create_def)
  let ?s = "s\<lparr>sb_active_flights := Some fs, sb_end_active_flights_requested := True,
              sb_out := map (\<lambda>f. Send (End_active_flight a (fl_id f))) fs\<rparr>"
  have "sys_step e (In_complete 0 (Done_search (Inr fs))) (s, [Flights_search t1 t2 q]) =
          Some (Ret (?s, map (\<lambda>f. End_active_flight a (fl_id f)) fs))"
    using assms(2) False a
    by (simp add: run_handler_def answers_def remove_nth_def handle_active_flights_finished_def
        request_end_active_flights_def Let_def end_requests)
  moreover have "ready_to_create pos ?s" using assms(1) by (simp add: ready_to_create_def)
  ultimately show ?thesis using end_flights_run [of pos ?s fs e a] False by simp
qed

lemma from_flight_run:
  assumes "creates_flight pos m" "en_clock e 0 = At t"
  shows "\<exists>s u. m = Ret (fst s, snd s) \<and>
           position_update (At t) pos' = Ret u \<and>
           (\<exists>s'. sys_run (script_from_flight e f mo key pos') s = Some (Ret (s', [])) \<and>
                 sb_out s' = [Send_telemetry f key [u]])"
proof -
  from assms(1) obtain s ps where m: "m = Ret (s, [Create_by_point ps])"
    and r: "ready_to_create pos (s\<lparr>sb_create_flight_plan_requested := False\<rparr>)"
    by (auto simp: creates_flight_def)
  from r obtain a where a: "sb_authorization s = Some a" by (auto simp: ready_to_create_def)
  obtain u where u: "position_update (At t) pos' = Ret u"
    by (simp add: position_update_def milliseconds_since_epoch_def epoch_def)
  have "\<exists>s'. sys_run (script_from_flight e f mo key pos') (s, [Create_by_point ps]) = Some (Ret (s', [])) \<and>
             sb_out s' = [Send_telemetry f key [u]]"
    using r a u assms(2)
    by (simp add: script_from_flight_def ready_to_create_def run_handler_def answers_def remove_nth_def
        handle_submit_flight_plan_finished_def request_monitor_traffic_def request_start_flight_comms_def
        handle_monitor_traffic_finished_def handle_start_flight_comms_finished_def submit_def Let_def)
  with m u show ?thesis by (intro exI [of _ "(s, [Create_by_point ps])"] exI [of _ u]) simp
qed

text \<open>
  C4. From a fresh submitter that has seen a position, activation leads to telemetry: when
  every call is answered successfully, however many flights the pilot still has active, the
  submitter ends all of those, creates its flight, starts traffic monitoring and flight
  communications, and the next position is submitted for the new flight under its key.
\<close>

theorem telemetry_reached:
  assumes "en_clock e 0 = At t" "position_update (At t) pos' = Ret u"
  shows "\<exists>s. sys_run (flight_script e pos token pl fs f m key pos') (submitter_create cr aircraft, []) =
               Some (Ret (s, [])) \<and> sb_out s = [Send_telemetry f key [u]]"
proof -
  obtain s1 where s1: "sys_run (script_to_search e pos token pl) (submitter_create cr aircraft, []) =
      Some (Ret (s1, [Flights_search (en_clock e 0) (en_clock e 1) (Some (pi_id pl))]))"
    and r1: "ready_to_create pos s1" "\<not> sb_end_active_flights_requested s1"
    using run_to_search [of e pos token pl cr aircraft] by blast
  obtain x where x: "sys_run ((e, In_complete 0 (Done_search (Inr fs))) # script_end_flights e fs)
      (s1, [Flights_search (en_clock e 0) (en_clock e 1) (Some (pi_id pl))]) = Some x"
    "creates_flight pos x"
    using search_answer_run [OF r1] by blast
  obtain y u' where y: "x = Ret y" "position_update (At t) pos' = Ret u'"
    "\<exists>s'. sys_run (script_from_flight e f m key pos') y = Some (Ret (s', [])) \<and>
          sb_out s' = [Send_telemetry f key [u']]"
    using from_flight_run [OF x(2) assms(1), of pos' f m key] by auto
  from x(1) y(1) have x': "sys_run ((e, In_complete 0 (Done_search (Inr fs))) # script_end_flights e fs)
      (s1, [Flights_search (en_clock e 0) (en_clock e 1) (Some (pi_id pl))]) = Some (Ret y)" by simp
  have "flight_script e pos token pl fs f m key pos' =
      script_to_search e pos token pl @ ((e, In_complete 0 (Done_search (Inr fs))) # script_end_flights e fs) @
      script_from_flight e f m key pos'"
    by (simp add: flight_script_def)
  then show ?thesis
    using sys_run_append [OF s1] sys_run_append [OF x'] y(2,3) assms(2) by simp
qed

theorem telemetry_reached_witness:
  "\<exists>s u. sys_run (flight_script env0 position0 ''token'' (pilot_of_id ''pilot'') [flight0, flight0]
              flight0 7 ''secret'' position0) submitter0 = Some (Ret (s, [])) \<and>
         sb_out s = [Send_telemetry flight0 ''secret'' [u]]"
proof -
  have clock: "en_clock env0 0 = At 0" by (simp add: env0_def)
  obtain u where "position_update (At 0) position0 = Ret u"
    by (simp add: position_update_def milliseconds_since_epoch_def epoch_def)
  from telemetry_reached [OF clock this, of position0 "''token''" "pilot_of_id ''pilot''"
      "[flight0, flight0]" flight0 7 "''secret''" anonymous_credentials "[]"]
  show ?thesis unfolding submitter0_def by blast
qed

subsection \<open>Deactivation\<close>



text \<open>
  C6. Answers that are still under way when the submitter is deactivated are not dropped: a
  flight, a plan, a submitted plan or a non-empty list of active flights that arrives
  afterwards makes its callback read the authorization that deactivation has cleared.
\<close>

theorem late_answers_undefined:
  assumes "sb_state s = SS_active" "fs \<noteq> []"
  shows "complete e (Done_create_flight (Inr f)) (deactivate s) = UB \<and>
         complete e (Done_create_plan (Inr p)) (deactivate s) = UB \<and>
         complete e (Done_submit (Inr p)) (deactivate s) = UB \<and>
         complete e (Done_search (Inr fs)) (deactivate s) = UB"
proof -
  define d where "d = deactivate s"
  have d: "sb_authorization d = None" "sb_traffic_monitor d = None" "sb_flight d = None"
    "\<not> sb_traffic_monitoring_requested d" "\<not> sb_submit_flight_plan_requested d"
    "\<not> sb_end_active_flights_requested d"
    using assms(1) by (simp_all add: d_def deactivate_def Let_def split: option.split)
  have "handle_submit_flight_plan_finished g d = UB" for g
    using d by (simp add: handle_submit_flight_plan_finished_def request_monitor_traffic_def Let_def)
  moreover have "handle_create_flight_plan_finished p d = UB"
    using d by (simp add: handle_create_flight_plan_finished_def request_submit_flight_plan_def Let_def)
  moreover have "handle_active_flights_finished e fs d = UB"
    using d assms(2)
    by (cases fs) (simp_all add: handle_active_flights_finished_def request_end_active_flights_def Let_def)
  ultimately show ?thesis
    by (cases "fp_flight_id p") (simp_all add: d_def [symmetric] flight_of_plan_def)
qed

theorem late_answers_undefined_witness:
  "complete env0 (Done_search (Inr [flight0])) (deactivate ((fst submitter0)\<lparr>sb_state := SS_active\<rparr>)) = UB \<and>
   complete env0 (Done_create_plan (Inr plan0)) (deactivate ((fst submitter0)\<lparr>sb_state := SS_active\<rparr>)) = UB"
proof -
  have a: "sb_state ((fst submitter0)\<lparr>sb_state := SS_active\<rparr>) = SS_active" by simp
  have f: "[flight0] \<noteq> []" by simp
  show ?thesis
    using late_answers_undefined [OF a f, of env0 flight0 plan0] by (elim conjE) (intro conjI)
qed

text \<open>Such a run exists: deactivation while the list of active flights is under way.\<close>

lemma late_answer_run:
  "sys_run
     (to_authorized @
        map (\<lambda>i. (env0, i))
          [In_complete 0 (Done_pilot (Inr (pilot_of_id ''pilot''))), In_deactivate,
           In_complete 0 (Done_search (Inr [flight0]))]) submitter0 = Some UB"
  by (simp add: run_handler_def answers_def remove_nth_def concrete_defs activate_def
      request_authorization_def handle_authorization_finished_def request_pilot_id_def
      handle_pilot_id_finished_def request_active_flights_def submitter_create_def deactivate_def
      handle_active_flights_finished_def request_end_active_flights_def Let_def emit_def)

subsection \<open>Activation before the first position\<close>

definition frozen :: "submitter \<Rightarrow> bool" where
  "frozen s \<longleftrightarrow>
     sb_create_flight_plan_requested s \<and> sb_flight_plan s = None \<and> sb_flight s = None"

text \<open>A call keeps the submitter frozen and asks for no flight.\<close>

definition creations :: "submitter \<Rightarrow> nat" where
  "creations s = in_flight St_create (sends (sb_out s)) + in_flight St_submit (sends (sb_out s))"

definition freezes :: "submitter \<Rightarrow> submitter cpp \<Rightarrow> bool" where
  "freezes s m \<longleftrightarrow> (\<forall>s'. m = Ret s' \<longrightarrow> frozen s' \<and> creations s' = creations s)"

lemma freezes_simps [simp]:
  "freezes s UB" "freezes s (Ret s') \<longleftrightarrow> frozen s' \<and> creations s' = creations s"
  by (simp_all add: freezes_def)

lemma freezes_from: "freezes s' m \<Longrightarrow> creations s' = creations s \<Longrightarrow> freezes s m"
  by (simp add: freezes_def)

lemma frozen_create [simp]: "frozen s \<Longrightarrow> request_create_flight_plan e s = Ret s"
  by (simp add: request_create_flight_plan_def frozen_def)

lemma frozen_update [simp]:
  "frozen (s\<lparr>sb_active_flights := fs\<rparr>) = frozen s"
  "frozen (s\<lparr>sb_pilot_id := q\<rparr>) = frozen s"
  "frozen (s\<lparr>sb_authorization := a\<rparr>) = frozen s"
  "frozen (s\<lparr>sb_active_flights_requested := b\<rparr>) = frozen s"
  "frozen (s\<lparr>sb_end_active_flights_requested := b\<rparr>) = frozen s"
  "frozen (s\<lparr>sb_pilot_id_requested := b\<rparr>) = frozen s"
  "frozen (s\<lparr>sb_authorization_requested := b\<rparr>) = frozen s"
  "frozen (s\<lparr>sb_state := st\<rparr>) = frozen s"
  "frozen (s\<lparr>sb_current_position := pos\<rparr>) = frozen s"
  "frozen (s\<lparr>sb_mission_geometry := g\<rparr>) = frozen s"
  "frozen (s\<lparr>sb_traffic_monitor := m\<rparr>) = frozen s"
  "frozen (s\<lparr>sb_encryption_key := k\<rparr>) = frozen s"
  "frozen (s\<lparr>sb_traffic_monitoring_requested := b\<rparr>) = frozen s"
  "frozen (s\<lparr>sb_start_flight_comms_requested := b\<rparr>) = frozen s"
  "frozen (s\<lparr>sb_submit_flight_plan_requested := b\<rparr>) = frozen s"
  "frozen (s\<lparr>sb_out := es\<rparr>) = frozen s"
  "frozen (emit x s) = frozen s"
  by (simp_all add: frozen_def)

lemma freezes_end_active:
  assumes "frozen s"
  shows "freezes s (request_end_active_flights e s)"
proof -
  have "freezes st (cfold (\<lambda>f st. cbind (deref (sb_authorization st)) (\<lambda>a.
            Ret (emit (Send (End_active_flight a (fl_id f))) st))) fs st)" if "frozen st" for fs st
    using that
  proof (induction fs arbitrary: st)
    case (Cons f fs)
    have "freezes st (cfold (\<lambda>f st. cbind (deref (sb_authorization st)) (\<lambda>a.
            Ret (emit (Send (End_active_flight a (fl_id f))) st))) fs
            (emit (Send (End_active_flight a (fl_id f))) st))" for a
      by (rule freezes_from [OF Cons.IH]) (simp_all add: Cons.prems creations_def)
    then show ?case by (cases "sb_authorization st") simp_all
  qed simp
  note loop = freezes_from [OF this]
  from assms show ?thesis
    by (cases "sb_active_flights s")
       (auto simp: request_end_active_flights_def handle_end_active_flights_finished_def Let_def
          creations_def intro!: loop)
qed

lemma freezes_search_finished: "frozen s \<Longrightarrow> freezes s (handle_active_flights_finished e fs s)"
  by (rule freezes_from [of "s\<lparr>sb_active_flights := Some fs\<rparr>"])
     (simp_all add: handle_active_flights_finished_def freezes_end_active creations_def)

lemma freezes_pilot_finished: "frozen s \<Longrightarrow> freezes s (handle_pilot_id_finished e q s)"
  by (rule freezes_from [of "s\<lparr>sb_pilot_id := Some q\<rparr>"])
     (auto simp: handle_pilot_id_finished_def request_active_flights_def Let_def creations_def
        freezes_search_finished split: option.split)

lemma freezes_authorization_finished: "frozen s \<Longrightarrow> freezes s (handle_authorization_finished e a s)"
  by (rule freezes_from [of "s\<lparr>sb_authorization := Some a\<rparr>"])
     (auto simp: handle_authorization_finished_def request_pilot_id_def Let_def creations_def
        freezes_pilot_finished split: option.split)

lemma freezes_authorization: "frozen s \<Longrightarrow> freezes s (request_authorization e s)"
  by (auto simp: request_authorization_def Let_def creations_def freezes_authorization_finished
      split: option.split)

lemma freezes_end_active_finished: "frozen s \<Longrightarrow> freezes s (handle_end_active_flight_finished e i s)"
  by (cases "sb_active_flights s")
     (auto simp: handle_end_active_flight_finished_def handle_end_active_flights_finished_def Let_def
        creations_def)

text \<open>A frozen submitter with no creation under way.\<close>

definition frozen_sys :: "sys \<Rightarrow> bool" where
  "frozen_sys x \<longleftrightarrow> frozen (fst x) \<and> in_flight St_create (snd x) = 0 \<and> in_flight St_submit (snd x) = 0"

lemma freezes_complete:
  assumes "frozen s" "answers r c" "request_stage r \<noteq> St_create" "request_stage r \<noteq> St_submit"
  shows "freezes s (complete e c s)"
proof (cases c)
  case (Done_create_plan out)
  with assms show ?thesis by (cases r) (simp_all add: answers_def)
next
  case (Done_create_flight out)
  with assms show ?thesis by (cases r) (simp_all add: answers_def)
next
  case (Done_submit out)
  with assms show ?thesis by (cases r) (simp_all add: answers_def)
next
  case (Done_authentication out)
  with assms(1) show ?thesis by (cases out) (simp_all add: freezes_authorization_finished creations_def)
next
  case (Done_pilot out)
  with assms(1) show ?thesis by (cases out) (simp_all add: freezes_pilot_finished creations_def)
next
  case (Done_search out)
  with assms(1) show ?thesis by (cases out) (simp_all add: freezes_search_finished creations_def)
next
  case (Done_end_active i out)
  with assms(1) show ?thesis by (cases out) (simp_all add: freezes_end_active_finished creations_def)
next
  case (Done_end out)
  with assms(1) show ?thesis by simp
next
  case (Done_monitor out)
  with assms(1) show ?thesis
    by (cases out) (simp_all add: handle_monitor_traffic_finished_def creations_def)
next
  case (Done_comms out)
  with assms(1) show ?thesis
    by (cases out) (simp_all add: handle_start_flight_comms_finished_def creations_def)
qed

lemma freezes_submit:
  assumes "frozen s"
  shows "freezes s (submit e pos s)"
proof -
  let ?s = "s\<lparr>sb_current_position := Some pos\<rparr>"
  have "sb_flight s = None" using assms by (simp add: frozen_def)
  then have "submit e pos s = (if sb_state s = SS_inactive then Ret ?s else request_authorization e ?s)"
    by (simp add: submit_def Let_def split: option.split)
  moreover have "freezes s (request_authorization e ?s)"
    by (rule freezes_from [OF freezes_authorization]) (simp_all add: assms creations_def)
  ultimately show ?thesis using assms by (simp add: creations_def)
qed

lemma run_handler_frozen:
  assumes "freezes ((fst x)\<lparr>sb_out := []\<rparr>) (h ((fst x)\<lparr>sb_out := []\<rparr>))"
    and "frozen_sys x" "run_handler h x = Ret y"
  shows "frozen_sys y"
proof -
  from assms(3) obtain s' where s': "h ((fst x)\<lparr>sb_out := []\<rparr>) = Ret s'"
    and y: "y = (s', snd x @ sends (sb_out s'))"
    by (auto simp: run_handler_def cbind_eq_Ret)
  from assms(1) s' have "frozen s'" "creations s' = 0" by (simp_all add: freezes_def creations_def)
  with assms(2) y show ?thesis by (simp add: frozen_sys_def creations_def)
qed

lemma in_flight_remove: "in_flight st p = 0 \<Longrightarrow> in_flight st (remove_nth n p) = 0"
  by (auto simp: in_flight_def remove_nth_def filter_empty_conv dest: in_set_takeD in_set_dropD)

lemma sys_step_frozen:
  assumes "frozen_sys x" "i \<noteq> In_deactivate" "sys_step e i x = Some (Ret y)"
  shows "frozen_sys y"
proof -
  let ?s = "(fst x)\<lparr>sb_out := []\<rparr>"
  have f: "frozen ?s" using assms(1) by (simp add: frozen_sys_def)
  show ?thesis
  proof (cases i)
    case In_activate
    have "freezes ?s (activate e ?s)"
      unfolding activate_def
      by (rule freezes_from [OF freezes_authorization]) (use f in \<open>simp_all add: creations_def\<close>)
    from this run_handler_frozen [of x "activate e" y] assms show ?thesis by (simp add: In_activate)
  next
    case In_deactivate
    with assms(2) show ?thesis by simp
  next
    case (In_submit pos)
    from freezes_submit [OF f, of e pos] run_handler_frozen [of x "submit e pos" y] assms
    show ?thesis by (simp add: In_submit)
  next
    case (In_mission g)
    have "freezes ?s (Ret (set_mission_geometry g ?s))"
      using f by (simp add: set_mission_geometry_def creations_def)
    from this run_handler_frozen [of x "\<lambda>s. Ret (set_mission_geometry g s)" y] assms
    show ?thesis by (simp add: In_mission)
  next
    case (In_complete n c)
    with assms(3) have n: "n < length (snd x)" "answers (snd x ! n) c"
      and y: "run_handler (complete e c) (fst x, remove_nth n (snd x)) = Ret y"
      by (auto split: if_splits)
    have "request_stage (snd x ! n) \<noteq> St_create" "request_stage (snd x ! n) \<noteq> St_submit"
      using assms(1) n(1) by (auto simp: frozen_sys_def in_flight_def filter_empty_conv)
    from freezes_complete [OF f n(2) this, of e]
    have "freezes ((fst (fst x, remove_nth n (snd x)))\<lparr>sb_out := []\<rparr>)
            (complete e c ((fst (fst x, remove_nth n (snd x)))\<lparr>sb_out := []\<rparr>))" by simp
    moreover have "frozen_sys (fst x, remove_nth n (snd x))"
      using assms(1) by (simp add: frozen_sys_def in_flight_remove)
    ultimately show ?thesis using y by (rule run_handler_frozen)
  qed
qed

lemma frozen_run:
  assumes "sub_reach no_deactivation start y" "frozen_sys start" "y = Ret x"
  shows "frozen_sys x"
  using assms
proof (induction arbitrary: x rule: sub_reach.induct)
  case (sub_step z e i y)
  then show ?case using sys_step_frozen [of z i e x] by (auto simp: no_deactivation_def)
qed simp

definition early_script :: "env \<Rightarrow> string \<Rightarrow> pilot \<Rightarrow> (env \<times> input) list" where
  "early_script e token pl =
     map (\<lambda>i. (e, i))
       [In_activate, In_complete 0 (Done_authentication (Inr token)),
        In_complete 0 (Done_pilot (Inr pl)), In_complete 0 (Done_search (Inr []))]"

lemma early_run_frozen:
  "\<exists>s. sys_run (early_script e token pl) (submitter_create cr aircraft, []) = Some (Ret (s, [])) \<and>
       frozen s"
  by (cases "cr_oauth cr") (simp_all add: early_script_def run_defs Let_def frozen_def)



end
