(* ===== verification/Daemon.thy ===== *)
theory Daemon
  imports Submitter_System
begin

text \<open>
  The monitor daemon (src/airmap/monitor): \<open>SubmittingVehicleMonitor\<close> turns the
  notifications of a vehicle into calls on its submitter, and \<open>Daemon\<close> gives every vehicle
  the tracker finds a submitter of its own. The daemon's state is the tracker, whose monitors
  are indices into the list of submitters. \<open>FanOutTrafficMonitor\<close> passes traffic updates to a
  set of subscribers.
\<close>

subsection \<open>From notifications to calls\<close>

definition before_flight :: "mav_state \<Rightarrow> bool" where
  "before_flight s \<longleftrightarrow>
     (case s of MS_uninit \<Rightarrow> True | MS_boot \<Rightarrow> True | MS_calibrating \<Rightarrow> True | MS_standby \<Rightarrow> True
      | _ \<Rightarrow> False)"

definition in_flight_state :: "mav_state \<Rightarrow> bool" where
  "in_flight_state s \<longleftrightarrow>
     (case s of MS_active \<Rightarrow> True | MS_critical \<Rightarrow> True | MS_emergency \<Rightarrow> True | _ \<Rightarrow> False)"

fun on_system_status_changed :: "mav_state option \<Rightarrow> mav_state \<Rightarrow> input list" where
  "on_system_status_changed None new = []"
| "on_system_status_changed (Some old) new =
     (if before_flight old then (if new = MS_active then [In_activate] else [])
      else if in_flight_state old then (if before_flight new then [In_deactivate] else [])
      else [])"

declare on_system_status_changed.simps [simp del]

fun monitor_calls :: "vehicle_event \<Rightarrow> input list" where
  "monitor_calls (Status_changed old new) = on_system_status_changed old new"
| "monitor_calls (Position_changed old new) = [In_submit new]"
| "monitor_calls (Mission_received g) = [In_mission g]"

subsection \<open>The daemon\<close>

record config =
  dc_credentials :: credentials
  dc_aircraft_id :: string

record daemon =
  dm_config :: config
  dm_tracker :: "nat tracker"
  dm_submitters :: "sys list"

text \<open>\<open>finalize\<close> registers one (logging) tracker monitor, here the number 0.\<close>

definition daemon_create :: "config \<Rightarrow> daemon" where
  "daemon_create c =
     \<lparr>dm_config = c, dm_tracker = tracker_register 0 tracker_init, dm_submitters = []\<rparr>"

definition on_vehicle_added :: "config \<Rightarrow> nat \<Rightarrow> nat vehicle \<Rightarrow> sys list \<Rightarrow> nat vehicle \<times> sys list" where
  "on_vehicle_added c m v subs =
     (register_monitor (length subs) v,
      subs @ [(submitter_create (dc_credentials c) (dc_aircraft_id c), [])])"

text \<open>The calls a notification makes on the submitter behind monitor \<open>m\<close>.\<close>

definition deliver :: "env \<Rightarrow> nat \<times> vehicle_event \<Rightarrow> sys list \<Rightarrow> sys list cpp" where
  "deliver e ev subs =
     cfold (\<lambda>i subs.
        case sys_step e i (subs ! fst ev) of
          None \<Rightarrow> Ret subs
        | Some m \<Rightarrow> cbind m (\<lambda>x. Ret (subs[fst ev := x])))
       (monitor_calls (snd ev)) subs"

definition handle_mavlink_message :: "int \<Rightarrow> env \<Rightarrow> mav_message \<Rightarrow> daemon \<Rightarrow> daemon cpp" where
  "handle_mavlink_message nav e msg d =
     cbind (tracker_update nav (on_vehicle_added (dm_config d)) msg (dm_tracker d) (dm_submitters d))
       (\<lambda>(es, tr, subs). cbind (cfold (deliver e) es subs)
          (\<lambda>subs'. Ret (d\<lparr>dm_tracker := tr, dm_submitters := subs'\<rparr>)))"

text \<open>A submitter's pending call is answered.\<close>

definition handle_answer :: "env \<Rightarrow> nat \<Rightarrow> nat \<Rightarrow> completion \<Rightarrow> daemon \<Rightarrow> daemon cpp option" where
  "handle_answer e k n c d =
     (if k < length (dm_submitters d)
      then map_option (\<lambda>m. cbind m (\<lambda>x. Ret (d\<lparr>dm_submitters := (dm_submitters d)[k := x]\<rparr>)))
             (sys_step e (In_complete n c) (dm_submitters d ! k))
      else None)"

text \<open>Every vehicle has exactly one submitter, and no two share one.\<close>

definition daemon_wf :: "daemon \<Rightarrow> bool" where
  "daemon_wf d \<longleftrightarrow>
     tracker_wf (dm_tracker d) \<and> tr_monitors (dm_tracker d) = [0] \<and>
     (\<forall>i v. map_of (tr_vehicles (dm_tracker d)) i = Some v \<longrightarrow>
        (\<exists>k < length (dm_submitters d). ve_monitors v = [k])) \<and>
     (\<forall>i j v w. map_of (tr_vehicles (dm_tracker d)) i = Some v \<longrightarrow>
        map_of (tr_vehicles (dm_tracker d)) j = Some w \<longrightarrow> ve_monitors v = ve_monitors w \<longrightarrow> i = j)"

definition submitter_of :: "daemon \<Rightarrow> 8 word \<Rightarrow> nat option" where
  "submitter_of d i = map_option (\<lambda>v. hd (ve_monitors v)) (map_of (tr_vehicles (dm_tracker d)) i)"

lemma daemon_wf_vehicle:
  assumes "daemon_wf d" "map_of (tr_vehicles (dm_tracker d)) i = Some v"
  obtains k where "ve_monitors v = [k]" "k < length (dm_submitters d)" "submitter_of d i = Some k"
proof -
  from assms obtain k where "k < length (dm_submitters d)" "ve_monitors v = [k]"
    unfolding daemon_wf_def by blast
  with that assms(2) show ?thesis by (simp add: submitter_of_def)
qed

lemma daemon_wf_inj:
  "daemon_wf d \<Longrightarrow> map_of (tr_vehicles (dm_tracker d)) i = Some v \<Longrightarrow>
   map_of (tr_vehicles (dm_tracker d)) j = Some w \<Longrightarrow> ve_monitors v = ve_monitors w \<Longrightarrow> i = j"
  unfolding daemon_wf_def by blast

lemma submitter_of_vehicle:
  assumes "submitter_of d i = Some k" "daemon_wf d"
  obtains v where "map_of (tr_vehicles (dm_tracker d)) i = Some v" "ve_monitors v = [k]"
    "k < length (dm_submitters d)"
proof -
  from assms(1) obtain v where v: "map_of (tr_vehicles (dm_tracker d)) i = Some v"
    "hd (ve_monitors v) = k"
    by (auto simp: submitter_of_def)
  from assms(2) v(1) obtain k' where "ve_monitors v = [k']" "k' < length (dm_submitters d)"
    by (rule daemon_wf_vehicle)
  with v that show ?thesis by simp
qed

lemma daemon_wf_create: "daemon_wf (daemon_create c)"
  by (simp add: daemon_wf_def daemon_create_def tracker_register_def tracker_init_def tracker_wf_def)

lemma added_ok_daemon: "added_ok (on_vehicle_added c)"
  by (simp add: added_ok_def on_vehicle_added_def register_monitor_def)

lemma deliver_frame:
  assumes "deliver e ev subs = Ret subs'"
  shows "length subs' = length subs \<and> (\<forall>k. k \<noteq> fst ev \<longrightarrow> subs' ! k = subs ! k)"
proof -
  let ?f = "\<lambda>i subs. case sys_step e i (subs ! fst ev) of
          None \<Rightarrow> Ret subs | Some m \<Rightarrow> cbind m (\<lambda>x. Ret (subs[fst ev := x]))"
  have "length subs' = length subs \<and> (\<forall>k. k \<noteq> fst ev \<longrightarrow> subs' ! k = subs ! k)"
    if "cfold ?f is subs = Ret subs'" for "is" subs
    using that
  proof (induction "is" arbitrary: subs)
    case (Cons i "is")
    then obtain s1 where "?f i subs = Ret s1" "cfold ?f is s1 = Ret subs'"
      by (auto simp: cbind_eq_Ret)
    with Cons.IH [of s1] show ?case
      by (auto simp: cbind_eq_Ret split: option.splits)
  qed simp
  with assms show ?thesis by (simp add: deliver_def)
qed

lemma deliver_all_frame:
  "cfold (deliver e) es subs = Ret subs' \<Longrightarrow> \<forall>ev \<in> set es. fst ev = k0 \<Longrightarrow>
   length subs' = length subs \<and> (\<forall>k. k \<noteq> k0 \<longrightarrow> subs' ! k = subs ! k)"
proof (induction es arbitrary: subs)
  case (Cons ev es)
  then obtain s1 where s1: "deliver e ev subs = Ret s1" "cfold (deliver e) es s1 = Ret subs'"
    by (auto simp: cbind_eq_Ret)
  from deliver_frame [OF s1(1)] Cons.IH [OF s1(2)] Cons.prems(2) show ?case by auto
qed simp

lemma vehicle_events_to_monitors:
  "vehicle_update nav msg v = Ret (es, v') \<Longrightarrow> \<forall>ev \<in> set es. fst ev \<in> set (ve_monitors v)"
  by (auto simp: vehicle_defs notify_def Let_def split_beta split: mav_payload.splits if_splits)

text \<open>What one message does to the daemon's structure.\<close>

lemma handle_message_frame:
  assumes "daemon_wf d" "handle_mavlink_message nav e msg d = Ret d'"
  obtains k v' where
    "map_of (tr_vehicles (dm_tracker d')) = (map_of (tr_vehicles (dm_tracker d)))(mm_sysid msg \<mapsto> v')"
    "ve_monitors v' = [k]" "k < length (dm_submitters d')"
    "submitter_of d (mm_sysid msg) = Some k \<and> length (dm_submitters d') = length (dm_submitters d) \<or>
     submitter_of d (mm_sysid msg) = None \<and> k = length (dm_submitters d) \<and>
       length (dm_submitters d') = Suc (length (dm_submitters d))"
    "\<forall>j < length (dm_submitters d). j \<noteq> k \<longrightarrow> dm_submitters d' ! j = dm_submitters d ! j"
    "tracker_wf (dm_tracker d')" "tr_monitors (dm_tracker d') = [0]"
proof -
  let ?i = "mm_sysid msg" and ?tr = "dm_tracker d" and ?subs = "dm_submitters d"
  have wf: "tracker_wf ?tr" using assms(1) by (simp add: daemon_wf_def)
  obtain es v w1 v' where f: "tracker_find (on_vehicle_added (dm_config d)) ?i ?tr ?subs = (v, w1)"
    and u: "vehicle_update nav msg v = Ret (es, v')"
    and t: "tracker_update nav (on_vehicle_added (dm_config d)) msg ?tr ?subs =
       Ret (es, ?tr\<lparr>tr_vehicles := put ?i v' (tr_vehicles ?tr)\<rparr>, w1)"
    and wf': "tracker_wf (?tr\<lparr>tr_vehicles := put ?i v' (tr_vehicles ?tr)\<rparr>)"
    using wf added_ok_daemon by (rule tracker_update_ok)
  from assms(2) t obtain subs' where s': "cfold (deliver e) es w1 = Ret subs'"
    and d': "d' = d\<lparr>dm_tracker := ?tr\<lparr>tr_vehicles := put ?i v' (tr_vehicles ?tr)\<rparr>,
                    dm_submitters := subs'\<rparr>"
    by (auto simp: handle_mavlink_message_def cbind_eq_Ret)
  have "\<exists>k. ve_monitors v = [k] \<and> k < length w1 \<and>
     (submitter_of d ?i = Some k \<and> w1 = ?subs \<or>
      submitter_of d ?i = None \<and> k = length ?subs \<and>
      w1 = ?subs @ [(submitter_create (dc_credentials (dm_config d)) (dc_aircraft_id (dm_config d)), [])])"
  proof (cases "map_of (tr_vehicles ?tr) ?i")
    case None
    with f assms(1) show ?thesis
      by (auto simp: tracker_find_def daemon_wf_def on_vehicle_added_def register_monitor_def
          vehicle_init_def submitter_of_def)
  next
    case (Some v0)
    from assms(1) Some obtain k where "ve_monitors v0 = [k]" "k < length ?subs"
      "submitter_of d ?i = Some k"
      by (rule daemon_wf_vehicle)
    with f Some show ?thesis by (auto simp: tracker_find_def)
  qed
  then obtain k where k: "ve_monitors v = [k]" "k < length w1"
    and w1: "submitter_of d ?i = Some k \<and> w1 = ?subs \<or>
      submitter_of d ?i = None \<and> k = length ?subs \<and>
      w1 = ?subs @ [(submitter_create (dc_credentials (dm_config d)) (dc_aircraft_id (dm_config d)), [])]"
    by blast
  have "\<forall>ev \<in> set es. fst ev = k" using vehicle_events_to_monitors [OF u] k(1) by simp
  from deliver_all_frame [OF s' this]
  have frame: "length subs' = length w1" "\<forall>j. j \<noteq> k \<longrightarrow> subs' ! j = w1 ! j" by simp_all
  have "ve_monitors v' = [k]" using vehicle_update_frame [OF u] k(1) by simp
  moreover have "\<forall>j < length ?subs. w1 ! j = ?subs ! j" using w1 by (auto simp: nth_append)
  ultimately show ?thesis
    using that [of v' k] frame k(2) w1 wf' assms(1) d' by (auto simp: daemon_wf_def)
qed

lemma handle_message_keeps_wf:
  assumes "daemon_wf d" "handle_mavlink_message nav e msg d = Ret d'"
  shows "daemon_wf d'"
proof -
  let ?m = "map_of (tr_vehicles (dm_tracker d))" and ?n = "length (dm_submitters d)"
  obtain k v' where h:
    "map_of (tr_vehicles (dm_tracker d')) = ?m(mm_sysid msg \<mapsto> v')"
    "ve_monitors v' = [k]" "k < length (dm_submitters d')"
    "submitter_of d (mm_sysid msg) = Some k \<and> length (dm_submitters d') = ?n \<or>
     submitter_of d (mm_sysid msg) = None \<and> k = ?n \<and> length (dm_submitters d') = Suc ?n"
    "tracker_wf (dm_tracker d')" "tr_monitors (dm_tracker d') = [0]"
    using assms by (rule handle_message_frame)
  have own: "ve_monitors v \<noteq> [k]" if "?m i = Some v" "i \<noteq> mm_sysid msg" for i v
  proof
    assume k: "ve_monitors v = [k]"
    from assms(1) that(1) obtain j where "ve_monitors v = [j]" "j < ?n" by (rule daemon_wf_vehicle)
    with k h(4) have "submitter_of d (mm_sysid msg) = Some k" by auto
    then obtain w where w: "?m (mm_sysid msg) = Some w" "ve_monitors w = [k]"
      using assms(1) by (rule submitter_of_vehicle)
    have "ve_monitors v = ve_monitors w" using k w(2) by simp
    from daemon_wf_inj [OF assms(1) that(1) w(1) this] that(2) show False by simp
  qed
  have len: "?n \<le> length (dm_submitters d')" using h(4) by auto
  have one: "\<exists>j < length (dm_submitters d'). ve_monitors v = [j]"
    if "(?m(mm_sysid msg \<mapsto> v')) i = Some v" for i v
  proof (cases "i = mm_sysid msg")
    case True
    with that h(2,3) show ?thesis by simp
  next
    case False
    with that have "?m i = Some v" by simp
    with assms(1) obtain j where "ve_monitors v = [j]" "j < ?n" by (rule daemon_wf_vehicle)
    with len show ?thesis by auto
  qed
  have inj: "i = j"
    if i: "(?m(mm_sysid msg \<mapsto> v')) i = Some v" and j: "(?m(mm_sysid msg \<mapsto> v')) j = Some w"
      and eq: "ve_monitors v = ve_monitors w" for i j v w
  proof (cases "i = mm_sysid msg"; cases "j = mm_sysid msg")
    assume "i = mm_sysid msg" "j \<noteq> mm_sysid msg"
    with own [of j w] i j eq h(2) show ?thesis by simp
  next
    assume "i \<noteq> mm_sysid msg" "j = mm_sysid msg"
    with own [of i v] i j eq h(2) show ?thesis by simp
  next
    assume "i \<noteq> mm_sysid msg" "j \<noteq> mm_sysid msg"
    with i j have "?m i = Some v" "?m j = Some w" by simp_all
    from daemon_wf_inj [OF assms(1) this eq] show ?thesis .
  qed simp
  show ?thesis
    unfolding daemon_wf_def h(1) using h(5,6) one inj by blast
qed

text \<open>
  C8. The daemon keeps vehicles apart: every vehicle has one submitter of its own, and a
  message of one system leaves the submitters of all others, and their pending calls, as
  they were.
\<close>

theorem daemon_isolates_vehicles:
  assumes "daemon_wf d" "handle_mavlink_message nav e msg d = Ret d'"
  shows "daemon_wf d' \<and>
         (\<forall>i k. submitter_of d i = Some k \<longrightarrow>
            submitter_of d' i = Some k \<and>
            (i \<noteq> mm_sysid msg \<longrightarrow> dm_submitters d' ! k = dm_submitters d ! k))"
proof (intro conjI allI impI)
  show wf': "daemon_wf d'" using assms by (rule handle_message_keeps_wf)
  fix i k assume i: "submitter_of d i = Some k"
  obtain k0 v' where h:
    "map_of (tr_vehicles (dm_tracker d')) = (map_of (tr_vehicles (dm_tracker d)))(mm_sysid msg \<mapsto> v')"
    "ve_monitors v' = [k0]"
    "submitter_of d (mm_sysid msg) = Some k0 \<and> length (dm_submitters d') = length (dm_submitters d) \<or>
     submitter_of d (mm_sysid msg) = None \<and> k0 = length (dm_submitters d) \<and>
       length (dm_submitters d') = Suc (length (dm_submitters d))"
    "\<forall>j < length (dm_submitters d). j \<noteq> k0 \<longrightarrow> dm_submitters d' ! j = dm_submitters d ! j"
    using assms by (rule handle_message_frame)
  from i h show s: "submitter_of d' i = Some k" by (auto simp: submitter_of_def)
  assume other: "i \<noteq> mm_sysid msg"
  from i assms(1) obtain v where v: "map_of (tr_vehicles (dm_tracker d)) i = Some v"
    "ve_monitors v = [k]" "k < length (dm_submitters d)"
    by (rule submitter_of_vehicle)
  from v other h(1) have "map_of (tr_vehicles (dm_tracker d')) i = Some v"
    and "map_of (tr_vehicles (dm_tracker d')) (mm_sysid msg) = Some v'" by simp_all
  from daemon_wf_inj [OF wf' this] other v(2) h(2) have "k \<noteq> k0" by auto
  with h(4) v(3) show "dm_submitters d' ! k = dm_submitters d ! k" by simp
qed

definition config0 :: config where
  "config0 =
     \<lparr>dc_credentials = \<lparr>cr_api_key = ''key'', cr_oauth = None, cr_anonymous = None\<rparr>,
      dc_aircraft_id = ''aircraft''\<rparr>"

definition clock0 :: env where
  "clock0 = \<lparr>en_clock = (\<lambda>_. At 0), en_uuid = ''uuid''\<rparr>"

definition heartbeat_of :: "8 word \<Rightarrow> mav_state \<Rightarrow> mav_message" where
  "heartbeat_of i s = \<lparr>mm_sysid = i, mm_payload = Heartbeat s\<rparr>"

theorem daemon_isolates_vehicles_witness:
  "\<exists>d d'. handle_mavlink_message 16 clock0 (heartbeat_of 1 MS_standby) (daemon_create config0) = Ret d \<and>
          handle_mavlink_message 16 clock0 (heartbeat_of 2 MS_boot) d = Ret d' \<and>
          daemon_wf d' \<and> dm_submitters d' ! 0 = dm_submitters d ! 0"
proof -
  obtain d where d: "handle_mavlink_message 16 clock0 (heartbeat_of 1 MS_standby) (daemon_create config0) = Ret d"
    and s: "submitter_of d 1 = Some 0" and v: "map_of (tr_vehicles (dm_tracker d)) 2 = None"
    by (simp add: handle_mavlink_message_def tracker_update_def tracker_find_def daemon_create_def
        tracker_register_def tracker_init_def on_vehicle_added_def register_monitor_def vehicle_init_def
        vehicle_defs heartbeat_of_def notify_def deliver_def submitter_of_def on_system_status_changed.simps before_flight_def)
  have wf: "daemon_wf d"
    by (rule daemon_isolates_vehicles [OF daemon_wf_create d, THEN conjunct1])
  then have m: "tr_monitors (dm_tracker d) = [0]" by (simp add: daemon_wf_def)
  from s wf obtain u where "0 < length (dm_submitters d)" by (rule submitter_of_vehicle)
  obtain d' where d': "handle_mavlink_message 16 clock0 (heartbeat_of 2 MS_boot) d = Ret d'"
    using m v
    by (simp add: handle_mavlink_message_def tracker_update_def tracker_find_def
        on_vehicle_added_def register_monitor_def vehicle_init_def vehicle_defs heartbeat_of_def
        notify_def deliver_def on_system_status_changed.simps before_flight_def run_handler_def activate_def request_authorization_def
        submitter_create_def clock0_def Let_def split: option.split)
  have other: "1 \<noteq> mm_sysid (heartbeat_of 2 MS_boot)" by (simp add: heartbeat_of_def)
  from daemon_isolates_vehicles [OF wf d'] s other
  have "daemon_wf d'" "dm_submitters d' ! 0 = dm_submitters d ! 0" by blast+
  with d d' show ?thesis by blast
qed

subsection \<open>Take-off and landing\<close>

definition heartbeats :: "8 word \<Rightarrow> mav_state list \<Rightarrow> mav_message list" where
  "heartbeats i ss = map (heartbeat_of i) ss"

definition calls_of :: "(nat \<times> vehicle_event) list \<Rightarrow> input list" where
  "calls_of es = concat (map (\<lambda>ev. monitor_calls (snd ev)) es)"

lemma calls_of_simps [simp]: "calls_of [] = []" "calls_of (es @ es') = calls_of es @ calls_of es'"
  by (simp_all add: calls_of_def)

lemma heartbeat_run:
  assumes "ve_system_id v = i" "ve_monitors v = [k]"
  shows "vehicle_run nav (heartbeats i (s # ss)) v =
           cbind (vehicle_run nav (heartbeats i ss) (v\<lparr>ve_status := s\<rparr>)) (\<lambda>(es, v').
             Ret ((if ve_status v = s then [] else [(k, Status_changed (Some (ve_status v)) s)]) @ es, v'))"
proof -
  have "v\<lparr>ve_status := ve_status v\<rparr> = v" by simp
  with assms show ?thesis
    by (auto simp: heartbeats_def heartbeat_of_def vehicle_update_def vehicle_heartbeat_def notify_def)
qed

lemma quiet_heartbeats:
  assumes "ve_system_id v = i" "ve_monitors v = [k]"
    and "\<forall>s \<in> set (ve_status v # ss). \<forall>s' \<in> set ss. on_system_status_changed (Some s) s' = []"
  shows "\<exists>es v'. vehicle_run nav (heartbeats i ss) v = Ret (es, v') \<and> calls_of es = [] \<and>
           ve_system_id v' = i \<and> ve_monitors v' = [k] \<and> ve_status v' = last (ve_status v # ss)"
  using assms
proof (induction ss arbitrary: v)
  case (Cons s ss)
  let ?v = "v\<lparr>ve_status := s\<rparr>"
  obtain es v' where "vehicle_run nav (heartbeats i ss) ?v = Ret (es, v')" "calls_of es = []"
    "ve_system_id v' = i" "ve_monitors v' = [k]" "ve_status v' = last (s # ss)"
    using Cons.IH [of ?v] Cons.prems by auto
  with Cons.prems show ?case
    by (simp add: heartbeat_run [OF Cons.prems(1,2)] calls_of_def)
qed (simp add: heartbeats_def)

lemma vehicle_run_append:
  "vehicle_run nav ms v = Ret (es, v1) \<Longrightarrow>
   vehicle_run nav (ms @ ms') v =
     cbind (vehicle_run nav ms' v1) (\<lambda>(es', v2). Ret (es @ es', v2))"
proof (induction ms arbitrary: v es)
  case Nil
  then show ?case by (cases "vehicle_run nav ms' v1") auto
next
  case (Cons m ms)
  then obtain es1 u es2 where "vehicle_update nav m v = Ret (es1, u)"
    "vehicle_run nav ms u = Ret (es2, v1)" "es = es1 @ es2"
    by (auto simp: cbind_eq_Ret)
  with Cons.IH [of u es2] show ?case
    by (cases "vehicle_run nav ms' v1") auto
qed

lemma no_calls_in_flight:
  "in_flight_state s \<Longrightarrow> in_flight_state s' \<Longrightarrow> on_system_status_changed (Some s) s' = []"
  by (cases s; cases s') (simp_all add: on_system_status_changed.simps in_flight_state_def before_flight_def)

lemma no_calls_before_flight:
  "before_flight s \<or> s = MS_poweroff \<Longrightarrow> before_flight s' \<or> s' = MS_poweroff \<Longrightarrow>
   on_system_status_changed (Some s) s' = []"
  by (cases s; cases s')
     (simp_all add: on_system_status_changed.simps in_flight_state_def before_flight_def)

text \<open>
  C9. A vehicle in flight keeps its submitter active through every change between active,
  critical and emergency, and the first heartbeat of a state before flight deactivates it,
  once, however many such heartbeats follow.
\<close>

theorem landing_deactivates_once:
  assumes "ve_system_id v = i" "ve_monitors v = [k]" "in_flight_state (ve_status v)"
    and "\<forall>s \<in> set ss. in_flight_state s" "ls \<noteq> []" "\<forall>s \<in> set ls. before_flight s"
  shows "\<exists>es v'. vehicle_run nav (heartbeats i (ss @ ls)) v = Ret (es, v') \<and> calls_of es = [In_deactivate]"
proof -
  obtain es v1 where 1: "vehicle_run nav (heartbeats i ss) v = Ret (es, v1)" "calls_of es = []"
    "ve_system_id v1 = i" "ve_monitors v1 = [k]" "ve_status v1 = last (ve_status v # ss)"
    using quiet_heartbeats [OF assms(1,2), of ss nav] no_calls_in_flight assms(3,4) by auto
  have f: "in_flight_state (ve_status v1)" unfolding 1(5) using assms(3,4) by (cases "ss = []") simp_all
  from assms(5) obtain l ls' where ls: "ls = l # ls'" by (cases ls) auto
  let ?v = "v1\<lparr>ve_status := l\<rparr>"
  obtain es' v' where 2: "vehicle_run nav (heartbeats i ls') ?v = Ret (es', v')" "calls_of es' = []"
    using quiet_heartbeats [of ?v i k ls' nav] no_calls_before_flight 1(3,4) assms(6) ls by auto
  have l: "before_flight l" using assms(6) ls by simp
  with f have ne: "ve_status v1 \<noteq> l" "\<not> before_flight (ve_status v1)"
    by (cases l; cases "ve_status v1"; simp add: in_flight_state_def before_flight_def)+
  have "vehicle_run nav (heartbeats i ls) v1 =
          Ret ([(k, Status_changed (Some (ve_status v1)) l)] @ es', v')"
    using heartbeat_run [OF 1(3,4), of nav l ls'] 2(1) ls ne(1) by simp
  then have "vehicle_run nav (heartbeats i (ss @ ls)) v =
      Ret (es @ [(k, Status_changed (Some (ve_status v1)) l)] @ es', v')"
    using vehicle_run_append [OF 1(1), of "heartbeats i ls"] by (simp add: heartbeats_def)
  moreover have "calls_of ((k, Status_changed (Some (ve_status v1)) l) # es') = In_deactivate # calls_of es'"
    using f l ne(2) by (simp add: calls_of_def on_system_status_changed.simps)
  ultimately show ?thesis using 1(2) 2(2) by auto
qed

definition vehicle_with :: "nat \<Rightarrow> mav_state \<Rightarrow> nat vehicle" where
  "vehicle_with k s = (vehicle_init 1)\<lparr>ve_monitors := [k], ve_status := s\<rparr>"

theorem landing_deactivates_once_witness:
  "\<exists>es v'. vehicle_run 16 (heartbeats 1 ([MS_critical, MS_emergency] @ [MS_standby, MS_boot]))
             (vehicle_with 7 MS_active) = Ret (es, v') \<and> calls_of es = [In_deactivate]"
  by (rule landing_deactivates_once [where k = 7])
     (simp_all add: vehicle_with_def vehicle_init_def in_flight_state_def before_flight_def)

text \<open>
  A vehicle that reports power-off while it is active is never deactivated: neither that
  report nor any later one before the next take-off reaches the submitter, which stays active
  and does not end its flight.
\<close>

lemma power_off_leaves_flight_open:
  assumes "ve_system_id v = i" "ve_monitors v = [k]" "ve_status v = MS_active"
    and "\<forall>s \<in> set ss. before_flight s \<or> s = MS_poweroff"
  shows "\<exists>es v'. vehicle_run nav (heartbeats i (MS_poweroff # ss)) v = Ret (es, v') \<and> calls_of es = []"
proof -
  let ?v = "v\<lparr>ve_status := MS_poweroff\<rparr>"
  obtain es v' where "vehicle_run nav (heartbeats i ss) ?v = Ret (es, v')" "calls_of es = []"
    using quiet_heartbeats [of ?v i k ss nav] no_calls_before_flight assms(1,2,4) by auto
  then show ?thesis
    using heartbeat_run [OF assms(1,2), of nav MS_poweroff ss] assms(3)
    by (simp add: calls_of_def on_system_status_changed.simps in_flight_state_def before_flight_def)
qed

lemma power_off_leaves_flight_open_witness:
  "\<exists>es v'. vehicle_run 16 (heartbeats 1 (MS_poweroff # [MS_boot, MS_standby])) (vehicle_with 7 MS_active) =
             Ret (es, v') \<and> calls_of es = []"
  by (rule power_off_leaves_flight_open [where k = 7])
     (simp_all add: vehicle_with_def vehicle_init_def before_flight_def)

subsection \<open>Missions\<close>

text \<open>
  C10. Whatever mission a vehicle has received, creating the flight with it is undefined: the
  notification carries a line string and the submitter reads it as a polygon.
\<close>

theorem received_mission_breaks_creation:
  assumes "vehicle_update nav msg v = Ret (es, v')" "(m, Mission_received g) \<in> set es"
    and "sb_current_position s \<noteq> None" "sb_flight_plan s = None"
    and "\<not> sb_create_flight_plan_requested s"
  shows "request_create_flight_plan e (set_mission_geometry g s) = UB"
proof -
  obtain cs where g: "g = G_line_string cs"
    using assms(1,2)
    by (auto simp: vehicle_defs notify_def Let_def split_beta split: mav_payload.splits if_splits)
  have "mission_ring g = UB"
    by (simp add: g mission_ring_def details_for_def read_as_def geometry_construct_from_def
        geometry_set_def place_def)
  then have "plan_params e t pos g = UB" for t pos
    by (cases "sb_authorization t"; cases "sb_pilot_id t") (simp_all add: plan_params_def)
  with assms(3-5) show ?thesis
    by (auto simp: request_create_flight_plan_def set_mission_geometry_def Let_def)
qed

definition mission_vehicle :: "nat vehicle" where
  "mission_vehicle = (vehicle_with 7 MS_active)\<lparr>ve_mission := mission_count 1 mission_empty\<rparr>"

definition item0 :: mission_item where
  "item0 = \<lparr>mi_seq = 0, mi_command = 16, mi_x = 0, mi_y = 0, mi_z = 0, mi_mission_type = 0\<rparr>"

theorem received_mission_breaks_creation_witness:
  "request_create_flight_plan clock0 (set_mission_geometry (G_line_string [])
     ((submitter_create (dc_credentials config0) [])\<lparr>sb_current_position :=
        Some \<lparr>gp_time_boot_ms = 0, gp_lat = 0, gp_lon = 0, gp_alt = 0, gp_relative_alt = 0,
              gp_vx = 0, gp_vy = 0, gp_vz = 0, gp_hdg = 0\<rparr>\<rparr>)) = UB"
proof -
  have "\<exists>v'. vehicle_update 16 \<lparr>mm_sysid = 1, mm_payload = Mission_item item0\<rparr> mission_vehicle =
          Ret ([(7, Mission_received (G_line_string []))], v')"
    by (simp add: vehicle_defs mission_vehicle_def vehicle_with_def vehicle_init_def mission_count_def
        mission_empty_def item0_def mission_item_step_def notify_def Let_def)
  then obtain v' where u: "vehicle_update 16 \<lparr>mm_sysid = 1, mm_payload = Mission_item item0\<rparr>
      mission_vehicle = Ret ([(7, Mission_received (G_line_string []))], v')" ..
  have "(7, Mission_received (G_line_string [])) \<in> set [(7 :: nat, Mission_received (G_line_string []))]"
    by simp
  from received_mission_breaks_creation [OF u this] show ?thesis
    by (simp add: submitter_create_def)
qed

subsection \<open>Fan-out of traffic updates\<close>

text \<open>\<open>std::set\<close> of subscribers, in the order of the traversal.\<close>

definition fan_subscribe :: "nat \<Rightarrow> nat list \<Rightarrow> nat list" where
  "fan_subscribe k subs = (if k \<in> set subs then subs else insort k subs)"

definition fan_unsubscribe :: "nat \<Rightarrow> nat list \<Rightarrow> nat list" where
  "fan_unsubscribe k subs = filter (\<lambda>j. j \<noteq> k) subs"

definition fan_handle_update ::
  "traffic_type \<Rightarrow> traffic_update list \<Rightarrow> nat list \<Rightarrow> (nat \<times> traffic_type \<times> traffic_update list) list" where
  "fan_handle_update t us subs = map (\<lambda>k. (k, t, us)) subs"

lemma fan_subscribe_twice: "fan_subscribe k (fan_subscribe k subs) = fan_subscribe k subs"
  by (simp add: fan_subscribe_def set_insort_key)

end
