(* ===== verification/Channel.thy ===== *)
theory Channel
  imports Mavlink
begin

text \<open>
  How MAVLink messages travel: a \<open>Channel\<close> frames the bytes it receives and hands complete
  messages to its subscribers (src/airmap/mavlink/channel.cpp), a \<open>FilteringChannel\<close> listens
  to another channel, a \<open>Router\<close> hands a message to each of its routes (router.cpp). The
  framing function of the MAVLink library is the parameter \<open>frame\<close> on its parser state
  \<open>'p\<close>. Subscribers are numbers; a subscription is the position of a node in a list and
  stays valid until it is erased, so it is the number given to the node.
\<close>

datatype framing = Framing_incomplete | Framing_ok | Framing_bad_crc | Framing_other

record 'p channel =
  ch_received :: "64 word"
  ch_good :: "64 word"
  ch_bad :: "64 word"
  ch_subscribers :: "(nat \<times> nat) list"
  ch_next :: nat
  ch_parser :: 'p

definition channel_create :: "'p \<Rightarrow> 'p channel" where
  "channel_create p =
     \<lparr>ch_received = 0, ch_good = 0, ch_bad = 0, ch_subscribers = [], ch_next = 0, ch_parser = p\<rparr>"

definition channel_subscribe :: "nat \<Rightarrow> 'p channel \<Rightarrow> nat \<times> 'p channel" where
  "channel_subscribe subscriber c =
     (ch_next c,
      c\<lparr>ch_subscribers := ch_subscribers c @ [(ch_next c, subscriber)], ch_next := Suc (ch_next c)\<rparr>)"

text \<open>Erasing a node that is not in the list is undefined.\<close>

definition channel_unsubscribe :: "nat \<Rightarrow> 'p channel \<Rightarrow> 'p channel cpp" where
  "channel_unsubscribe n c =
     (if n \<in> fst ` set (ch_subscribers c)
      then Ret (c\<lparr>ch_subscribers := filter (\<lambda>x. fst x \<noteq> n) (ch_subscribers c)\<rparr>) else UB)"

definition channel_start :: "'p channel \<Rightarrow> 'p channel" where
  "channel_start c = c\<lparr>ch_received := 0, ch_good := 0, ch_bad := 0\<rparr>"

definition invoke_subscribers :: "'m list \<Rightarrow> 'p channel \<Rightarrow> (nat \<times> 'm) list" where
  "invoke_subscribers msgs c =
     concat (map (\<lambda>msg. map (\<lambda>x. (snd x, msg)) (ch_subscribers c)) msgs)"

text \<open>One byte; the result is the vector of messages, absent until the first good frame.\<close>

definition process_byte ::
  "('p \<Rightarrow> 8 word \<Rightarrow> framing \<times> 'p \<times> 'm) \<Rightarrow> 8 word \<Rightarrow> 'm list option \<times> 'p channel \<Rightarrow>
   'm list option \<times> 'p channel" where
  "process_byte frame b x =
     (let (result, c) = x; (rc, p, msg) = frame (ch_parser c) b; c1 = c\<lparr>ch_parser := p\<rparr>
      in case rc of
           Framing_ok \<Rightarrow>
             (Some ((case result of None \<Rightarrow> [] | Some ms \<Rightarrow> ms) @ [msg]),
              c1\<lparr>ch_received := ch_received c1 + 1, ch_good := ch_good c1 + 1\<rparr>)
         | Framing_bad_crc \<Rightarrow>
             (result, c1\<lparr>ch_received := ch_received c1 + 1, ch_bad := ch_bad c1 + 1\<rparr>)
         | _ \<Rightarrow> (result, c1))"

definition process_mavlink_data ::
  "('p \<Rightarrow> 8 word \<Rightarrow> framing \<times> 'p \<times> 'm) \<Rightarrow> 8 word list \<Rightarrow> 'p channel \<Rightarrow> 'm list option \<times> 'p channel" where
  "process_mavlink_data frame bs c = fold (process_byte frame) bs (None, c)"

definition join_results :: "'m list option \<Rightarrow> 'm list option \<Rightarrow> 'm list option" where
  "join_results a b =
     (case (a, b) of (None, None) \<Rightarrow> None | (None, Some y) \<Rightarrow> Some y | (Some x, None) \<Rightarrow> Some x
      | (Some x, Some y) \<Rightarrow> Some (x @ y))"

lemma process_byte_join:
  "process_byte frame b (join_results a r, c) =
     (let (r', c') = process_byte frame b (r, c) in (join_results a r', c'))"
  by (auto simp: process_byte_def join_results_def split_beta Let_def split: framing.splits option.splits)

lemma process_bytes_join:
  "fold (process_byte frame) bs (join_results a r, c) =
     (let (r', c') = fold (process_byte frame) bs (r, c) in (join_results a r', c'))"
proof (induction bs arbitrary: r c)
  case (Cons b bs)
  obtain r1 c1 where "process_byte frame b (r, c) = (r1, c1)" by fastforce
  then show ?case using Cons.IH [of r1 c1] by (simp add: process_byte_join)
qed simp

text \<open>
  How the transport cuts the byte stream into reads makes no difference: processing two
  pieces one after the other yields the messages, counters and parser state of processing
  them as one.
\<close>

lemma framing_ignores_chunks:
  "process_mavlink_data frame (bs @ bs') c =
     (let (r, c1) = process_mavlink_data frame bs c; (r', c2) = process_mavlink_data frame bs' c1
      in (join_results r r', c2))"
proof -
  obtain r c1 where 1: "fold (process_byte frame) bs (None, c) = (r, c1)" by fastforce
  have "r = join_results r None" by (simp add: join_results_def split: option.split)
  with 1 process_bytes_join [of frame bs' r None c1] show ?thesis
    by (simp add: process_mavlink_data_def)
qed

text \<open>
  C14. Every frame the channel counts as received is good or bad, and it hands out as many
  messages as it counts good ones, modulo the width of the counters; without a good frame it
  returns no vector at all.
\<close>

theorem channel_counts_frames:
  fixes c :: "'p channel" and frame :: "'p \<Rightarrow> 8 word \<Rightarrow> framing \<times> 'p \<times> 'm"
  shows "let (r, c') = process_mavlink_data frame bs c
   in ch_received c' - ch_received c = (ch_good c' - ch_good c) + (ch_bad c' - ch_bad c) \<and>
      ch_good c' - ch_good c = of_nat (length (case r of None \<Rightarrow> [] | Some ms \<Rightarrow> ms)) \<and> r \<noteq> Some []"
proof -
  define P where "P = (\<lambda>(r, c' :: 'p channel).
      ch_received c' - ch_received c = (ch_good c' - ch_good c) + (ch_bad c' - ch_bad c) \<and>
      ch_good c' - ch_good c = (of_nat (length (case r of None \<Rightarrow> [] | Some ms \<Rightarrow> ms)) :: 64 word) \<and>
      r \<noteq> Some ([] :: 'm list))"
  have step: "P (process_byte frame b x)" if "P x" for b x
    using that
    by (cases x) (auto simp: P_def process_byte_def split_beta Let_def algebra_simps
        split: framing.splits option.splits)
  have "P (fold (process_byte frame) bs x)" if "P x" for x
    using that
  proof (induction bs arbitrary: x)
    case (Cons b bs)
    from Cons.IH [OF step [OF Cons.prems]] show ?case by simp
  qed simp
  moreover have "P (None, c)" by (simp add: P_def)
  ultimately have "P (process_mavlink_data frame bs c)" by (simp add: process_mavlink_data_def)
  then show ?thesis by (simp add: P_def split_beta Let_def)
qed

subsection \<open>Filtering and routing\<close>

text \<open>
  The subscriber a \<open>FilteringChannel\<close> registers. The statement after the guard is
  \<open>return sp->invoke_subscribers({msg})\<close>: the guard has no statement of its own.
\<close>

definition filtering_on_message :: "8 word \<Rightarrow> mav_message \<Rightarrow> 'p channel \<Rightarrow> (nat \<times> mav_message) list" where
  "filtering_on_message own msg c =
     (if mm_sysid msg \<noteq> own then invoke_subscribers [msg] c else [])"

definition filtering_start :: "nat \<Rightarrow> 'p channel \<Rightarrow> nat \<times> 'p channel" where
  "filtering_start self next = channel_subscribe self next"

definition filtering_stop :: "nat \<Rightarrow> 'p channel \<Rightarrow> 'p channel cpp" where
  "filtering_stop subscription next = channel_unsubscribe subscription next"

text \<open>
  A filtering channel for one system passes on the messages of every other system and
  none of its own.
\<close>

lemma filtering_channel_inverted:
  "(\<exists>x. x \<in> set (filtering_on_message own msg c)) \<longleftrightarrow>
     mm_sysid msg \<noteq> own \<and> ch_subscribers c \<noteq> []"
  by (auto simp: filtering_on_message_def invoke_subscribers_def)

definition router_route :: "nat list \<Rightarrow> 'm \<Rightarrow> (nat \<times> 'm) list" where
  "router_route routes msg = map (\<lambda>r. (r, msg)) routes"

text \<open>A subscription can be cancelled once, and only its own subscriber goes.\<close>

lemma unsubscribe_subscribe:
  assumes "\<forall>x \<in> set (ch_subscribers c). fst x < ch_next c" "channel_subscribe s c = (n, c1)"
  shows "\<exists>c2. channel_unsubscribe n c1 = Ret c2 \<and> ch_subscribers c2 = ch_subscribers c \<and>
              channel_unsubscribe n c2 = UB"
proof -
  have "filter (\<lambda>x. fst x \<noteq> ch_next c) (ch_subscribers c) = ch_subscribers c"
    using assms(1) by (induction "ch_subscribers c") (auto simp: filter_id_conv)
  with assms show ?thesis
    by (auto simp: channel_subscribe_def channel_unsubscribe_def)
qed

end
