(* ===== verification/Http.thy ===== *)
theory Http
  imports Error
begin

text \<open>
  HTTP (src/airmap/net/http): the classes of a response (response.cpp), the chain of
  requesters a call passes through (requester_with_api_key.cpp, requester.cpp), the encoding
  of a query and the message that goes on the wire (boost/requester.cpp), and the progress of
  one exchange from resolving the host to reading (boost/requester.cpp, boost/request.cpp). The layers of the chain share
  the contract \<open>request_layer\<close>. Payload length fields are the library's.
\<close>

subsection \<open>Responses\<close>

datatype classification =
    Informational | Success | Redirection | Client_error | Server_error | Unclassified

record response =
  rs_version :: "32 word"
  rs_status :: "32 word"
  rs_headers :: "(string \<times> string) list"
  rs_body :: string

definition classify :: "32 word \<Rightarrow> classification" where
  "classify status =
     (if 100 \<le> status \<and> status < 200 then Informational
      else if 200 \<le> status \<and> status < 300 then Success
      else if 300 \<le> status \<and> status < 400 then Redirection
      else if 400 \<le> status \<and> status < 500 then Client_error
      else if 500 \<le> status \<and> status < 600 then Server_error
      else Unclassified)"

subsection \<open>Requests and the chain of requesters\<close>

datatype http_method = HTTP_delete | HTTP_get | HTTP_patch | HTTP_post

record http_request =
  rq_method :: http_method
  rq_path :: string
  rq_query :: "(string \<times> string) list"
  rq_headers :: "(string \<times> string) list"
  rq_body :: string

definition with_api_key :: "string \<Rightarrow> http_request \<Rightarrow> http_request" where
  "with_api_key key r = r\<lparr>rq_headers := put ''X-API-Key'' key (rq_headers r)\<rparr>"

definition routing :: "string \<Rightarrow> http_request \<Rightarrow> http_request" where
  "routing route r = r\<lparr>rq_path := route @ rq_path r\<rparr>"

text \<open>
  What a layer may do to a request: it keeps the method, the query, the body and every header
  other than its own, and puts something in front of the path.
\<close>

locale request_layer =
  fixes layer :: "http_request \<Rightarrow> http_request" and own :: "string set"
  assumes method_kept: "rq_method (layer r) = rq_method r"
    and query_kept: "rq_query (layer r) = rq_query r"
    and body_kept: "rq_body (layer r) = rq_body r"
    and headers_kept: "h \<notin> own \<Longrightarrow> map_of (rq_headers (layer r)) h = map_of (rq_headers r) h"
    and path_prefixed: "\<exists>p. \<forall>r. rq_path (layer r) = p @ rq_path r"

locale two_layers = outer: request_layer f A + inner: request_layer g B
  for f :: "http_request \<Rightarrow> http_request" and A :: "string set"
    and g :: "http_request \<Rightarrow> http_request" and B :: "string set"
begin

lemma composed: "request_layer (\<lambda>r. g (f r)) (A \<union> B)"
proof
  fix r h
  show "rq_method (g (f r)) = rq_method r"
    by (simp add: outer.method_kept inner.method_kept)
  show "rq_query (g (f r)) = rq_query r"
    by (simp add: outer.query_kept inner.query_kept)
  show "rq_body (g (f r)) = rq_body r"
    by (simp add: outer.body_kept inner.body_kept)
  show "h \<notin> A \<union> B \<Longrightarrow> map_of (rq_headers (g (f r))) h = map_of (rq_headers r) h"
    by (simp add: outer.headers_kept inner.headers_kept)
next
  obtain p q where "\<forall>r. rq_path (f r) = p @ rq_path r" "\<forall>r. rq_path (g r) = q @ rq_path r"
    using outer.path_prefixed inner.path_prefixed by blast
  then show "\<exists>p. \<forall>r. rq_path (g (f r)) = p @ rq_path r"
    by (intro exI [of _ "q @ p"]) simp
qed

end

interpretation api_key_layer: request_layer "with_api_key key" "{''X-API-Key''}"
  by unfold_locales (auto simp: with_api_key_def intro: exI [of _ "[]"])

interpretation routing_layer: request_layer "routing route" "{}"
  by unfold_locales (auto simp: routing_def)

interpretation client_layers: two_layers "with_api_key key" "{''X-API-Key''}" "routing route" "{}"
  by unfold_locales

subsection \<open>Logging requests\<close>

text \<open>
  \<open>LoggingRequester\<close> passes a request on unchanged and remembers when it started; the
  callback looks the entry up and erases it without checking that it is there.
\<close>

type_synonym request_log = "(string \<times> int) list"

definition log_started :: "string \<Rightarrow> int \<Rightarrow> request_log \<Rightarrow> request_log" where
  "log_started uuid now l = put uuid now l"

definition log_finished :: "string \<Rightarrow> int \<Rightarrow> request_log \<Rightarrow> (int \<times> request_log) cpp" where
  "log_finished uuid now l =
     cbind (deref (map_of l uuid)) (\<lambda>t. Ret (now - t, del uuid l))"

lemma log_round_trip:
  "map_of l uuid = None \<Longrightarrow>
   \<exists>l'. log_finished uuid t' (log_started uuid t l) = Ret (t' - t, l') \<and> map_of l' = map_of l"
  by (simp add: log_finished_def log_started_def fun_eq_iff)

lemma log_finished_other:
  "log_finished uuid t l = Ret (d, l') \<Longrightarrow> k \<noteq> uuid \<Longrightarrow> map_of l' k = map_of l k"
  by (auto simp: log_finished_def cbind_eq_Ret)

subsection \<open>Queries\<close>

definition unreserved :: "char \<Rightarrow> bool" where
  "unreserved c \<longleftrightarrow>
     (let n = of_char c :: nat
      in (97 \<le> n \<and> n \<le> 122) \<or> (65 \<le> n \<and> n \<le> 90) \<or> (48 \<le> n \<and> n \<le> 57) \<or>
         c = CHR ''-'' \<or> c = CHR ''.'' \<or> c = CHR ''_'' \<or> c = CHR ''~'')"

definition hex_letter :: "nat \<Rightarrow> char" where
  "hex_letter d = ''0123456789ABCDEF'' ! d"

definition encode_char :: "string \<Rightarrow> char \<Rightarrow> string" where
  "encode_char ignore c =
     (if unreserved c \<or> c \<in> set ignore then [c]
      else [CHR ''%'', hex_letter ((of_char c :: nat) div 16), hex_letter (of_char c mod 16)])"

definition encode_string :: "string \<Rightarrow> string" where
  "encode_string s = concat (map (encode_char ''/.@&%;='') s)"

fun encode_query :: "(string \<times> string) list \<Rightarrow> string" where
  "encode_query [] = []"
| "encode_query [(k, v)] = encode_string (k @ ''='' @ v)"
| "encode_query ((k, v) # q) = encode_string (k @ ''='' @ v) @ ''&'' @ encode_query q"

text \<open>How a server reads a query: cut at \<open>&\<close>, then at the first \<open>=\<close>, then undo the escapes.\<close>

definition hex_value :: "char \<Rightarrow> nat" where
  "hex_value c = (let n = of_char c :: nat in if n \<le> 57 then n - 48 else n - 55)"

fun percent_decode :: "string \<Rightarrow> string" where
  "percent_decode [] = []"
| "percent_decode (c # s) =
     (if c = CHR ''%''
      then (case s of a # b # s' \<Rightarrow> char_of (16 * hex_value a + hex_value b) # percent_decode s' | _ \<Rightarrow> c # s)
      else c # percent_decode s)"

fun split_at :: "char \<Rightarrow> string \<Rightarrow> string list" where
  "split_at d [] = [[]]"
| "split_at d (c # s) =
     (if c = d then [] # split_at d s
      else case split_at d s of [] \<Rightarrow> [[c]] | w # ws \<Rightarrow> (c # w) # ws)"

definition decode_pair :: "string \<Rightarrow> string \<times> string" where
  "decode_pair s =
     (percent_decode (takeWhile (\<lambda>c. c \<noteq> CHR ''='') s),
      percent_decode (drop 1 (dropWhile (\<lambda>c. c \<noteq> CHR ''='') s)))"

definition decode_query :: "string \<Rightarrow> (string \<times> string) list" where
  "decode_query s = (if s = [] then [] else map decode_pair (split_at CHR ''&'' s))"

definition plain_word :: "string \<Rightarrow> bool" where
  "plain_word s \<longleftrightarrow> CHR ''&'' \<notin> set s \<and> CHR ''%'' \<notin> set s"

definition plain_query :: "(string \<times> string) list \<Rightarrow> bool" where
  "plain_query q \<longleftrightarrow> (\<forall>(k, v) \<in> set q. plain_word k \<and> plain_word v \<and> CHR ''='' \<notin> set k)"

lemma hex_letter_facts:
  assumes "d < 16"
  shows "hex_value (hex_letter d) = d" "hex_letter d \<notin> {CHR ''&'', CHR ''='', CHR ''%''}"
proof -
  have "list_all (\<lambda>d. hex_value (hex_letter d) = d \<and> hex_letter d \<notin> {CHR ''&'', CHR ''='', CHR ''%''}) [0..<16]"
    by code_simp
  then show "hex_value (hex_letter d) = d" "hex_letter d \<notin> {CHR ''&'', CHR ''='', CHR ''%''}"
    using assms by (auto simp: list_all_iff)
qed

lemma of_char_nibbles: "(of_char c :: nat) div 16 < 16" "(of_char c :: nat) mod 16 < 16"
  using nat_of_char_less_256 [of c] by (simp_all add: less_mult_imp_div_less)

lemma encode_string_simps [simp]:
  "encode_string [] = []"
  "encode_string (c # s) = encode_char ''/.@&%;='' c @ encode_string s"
  "encode_string (s @ t) = encode_string s @ encode_string t"
  "encode_char ''/.@&%;='' CHR ''='' = ''=''"
  by (simp_all add: encode_string_def encode_char_def)

lemma encode_char_decode:
  assumes "c \<noteq> CHR ''%''"
  shows "percent_decode (encode_char ig c @ s) = c # percent_decode s"
  using assms hex_letter_facts(1) [OF of_char_nibbles(1) [of c]] hex_letter_facts(1) [OF of_char_nibbles(2) [of c]]
  by (auto simp: encode_char_def)

lemma encode_string_decode: "CHR ''%'' \<notin> set s \<Longrightarrow> percent_decode (encode_string s) = s"
proof (induction s)
  case (Cons c s)
  then have "c \<noteq> CHR ''%''" "percent_decode (encode_string s) = s" by auto
  then show ?case by (simp add: encode_char_decode)
qed simp

lemma encode_char_keeps_out:
  assumes "d \<in> {CHR ''&'', CHR ''=''}" "c \<noteq> d"
  shows "d \<notin> set (encode_char ig c)"
  using assms hex_letter_facts(2) [OF of_char_nibbles(1) [of c]] hex_letter_facts(2) [OF of_char_nibbles(2) [of c]]
  by (auto simp: encode_char_def)

lemma encode_string_keeps_out:
  "d \<in> {CHR ''&'', CHR ''=''} \<Longrightarrow> d \<notin> set s \<Longrightarrow> d \<notin> set (encode_string s)"
proof (induction s)
  case (Cons c s)
  then have "d \<notin> set (encode_char ''/.@&%;='' c)" by (intro encode_char_keeps_out) auto
  with Cons show ?case by simp
qed simp

lemma split_at_none: "d \<notin> set s \<Longrightarrow> split_at d s = [s]"
  by (induction s) auto

lemma split_at_cons: "d \<notin> set s \<Longrightarrow> split_at d (s @ d # t) = s # split_at d t"
  by (induction s) auto

lemma takeWhile_neq_append: "d \<notin> set s \<Longrightarrow> takeWhile (\<lambda>c. c \<noteq> d) (s @ d # t) = s"
  and dropWhile_neq_append: "d \<notin> set s \<Longrightarrow> dropWhile (\<lambda>c. c \<noteq> d) (s @ d # t) = d # t"
  by (induction s) auto

lemma decode_pair_encoded:
  assumes "plain_word k" "plain_word v" "CHR ''='' \<notin> set k"
  shows "decode_pair (encode_string (k @ ''='' @ v)) = (k, v)"
proof -
  have "CHR ''='' \<notin> set (encode_string k)" using assms(3) by (simp add: encode_string_keeps_out)
  then have "takeWhile (\<lambda>c. c \<noteq> CHR ''='') (encode_string k @ CHR ''='' # encode_string v) = encode_string k"
    and "dropWhile (\<lambda>c. c \<noteq> CHR ''='') (encode_string k @ CHR ''='' # encode_string v) =
         CHR ''='' # encode_string v"
    by (simp_all add: takeWhile_neq_append dropWhile_neq_append)
  with assms(1,2) show ?thesis
    by (simp add: decode_pair_def encode_string_decode plain_word_def)
qed

lemma encode_pair_no_amp:
  assumes "plain_word k" "plain_word v"
  shows "CHR ''&'' \<notin> set (encode_string (k @ ''='' @ v))"
  using assms by (intro encode_string_keeps_out) (auto simp: plain_word_def)

lemma encode_pair_not_Nil: "encode_string (k @ ''='' @ v) \<noteq> []"
  by simp

text \<open>
  C15. A query whose keys and values contain no ampersand and no percent sign, and whose keys
  contain no equals sign, is read back from its encoding, whatever other characters occur.
\<close>

theorem query_round_trip:
  assumes "plain_query q"
  shows "decode_query (encode_query q) = q"
proof -
  have "split_at CHR ''&'' (encode_query q) = map (\<lambda>(k, v). encode_string (k @ ''='' @ v)) q"
    if "q \<noteq> []"
    using assms that
  proof (induction q rule: encode_query.induct)
    case (2 k v)
    then have "CHR ''&'' \<notin> set (encode_string (k @ ''='' @ v))"
      by (intro encode_pair_no_amp) (simp_all add: plain_query_def)
    from split_at_none [OF this] show ?case by simp
  next
    case (3 k v e q)
    then have "CHR ''&'' \<notin> set (encode_string (k @ ''='' @ v))"
      by (intro encode_pair_no_amp) (simp_all add: plain_query_def)
    from split_at_cons [OF this, of "encode_query (e # q)"] 3
    show ?case by (simp add: plain_query_def)
  qed simp
  moreover have "encode_query q \<noteq> []" if "q \<noteq> []"
    using that encode_pair_not_Nil by (cases q rule: encode_query.cases) simp_all
  moreover have "map decode_pair (map (\<lambda>(k, v). encode_string (k @ ''='' @ v)) q) = q"
    using assms by (induction q) (auto simp: plain_query_def decode_pair_encoded [simplified])
  ultimately show ?thesis by (cases "q = []") (simp_all add: decode_query_def)
qed

theorem query_round_trip_witness:
  "decode_query (encode_query [(''name'', ''a b/c''), (''q'', ''x=y'')]) =
     [(''name'', ''a b/c''), (''q'', ''x=y'')]"
  by (rule query_round_trip) (simp add: plain_query_def plain_word_def)

text \<open>Ampersands in a value are not escaped: they start a parameter of their own.\<close>

lemma query_injection:
  "encode_query [(''id'', ''1&admin=true'')] = encode_query [(''id'', ''1''), (''admin'', ''true'')]"
  by (simp add: encode_string_def encode_char_def)

subsection \<open>On the wire\<close>

record wire_request =
  wr_method :: http_method
  wr_target :: string
  wr_fields :: "(string \<times> string) list"
  wr_body :: string

definition lower_char :: "char \<Rightarrow> char" where
  "lower_char c = (if (of_char c :: nat) \<in> {65..90} then char_of ((of_char c :: nat) + 32) else c)"

definition lower :: "string \<Rightarrow> string" where
  "lower s = map lower_char s"

text \<open>\<open>set\<close> replaces the fields of the same name, which is case-insensitive.\<close>

definition field_set :: "string \<times> string \<Rightarrow> (string \<times> string) list \<Rightarrow> (string \<times> string) list" where
  "field_set f fs = filter (\<lambda>g. lower (fst g) \<noteq> lower (fst f)) fs @ [f]"

definition field_get :: "string \<Rightarrow> (string \<times> string) list \<Rightarrow> string option" where
  "field_get n fs = map_option snd (find (\<lambda>g. lower (fst g) = lower n) fs)"

definition wire :: "string \<Rightarrow> string \<Rightarrow> http_request \<Rightarrow> wire_request" where
  "wire agent host r =
     (let has_query = (rq_method r = HTTP_delete \<or> rq_method r = HTTP_get);
          standard = [(''User-Agent'', agent), (''Accept'', ''application/json'')] @
            (if has_query then [] else [(''Content-Type'', ''application/json'')]) @ [(''Host'', host)]
      in \<lparr>wr_method = rq_method r,
          wr_target = (if has_query then rq_path r @ ''?'' @ encode_query (rq_query r) else rq_path r),
          wr_fields = fold field_set (standard @ rq_headers r) [],
          wr_body = (if has_query then [] else rq_body r)\<rparr>)"

lemma field_get_set_same: "field_get (fst f) (field_set f fs) = Some (snd f)"
proof -
  have "find (\<lambda>g. lower (fst g) = lower (fst f)) (filter (\<lambda>g. lower (fst g) \<noteq> lower (fst f)) fs @ [f]) = Some f"
    by (induction fs) auto
  then show ?thesis by (simp add: field_get_def field_set_def)
qed

lemma field_get_set_other: "lower n \<noteq> lower (fst f) \<Longrightarrow> field_get n (field_set f fs) = field_get n fs"
proof -
  assume other: "lower n \<noteq> lower (fst f)"
  have "find (\<lambda>g. lower (fst g) = lower n) (filter (\<lambda>g. lower (fst g) \<noteq> lower (fst f)) fs @ [f]) =
        find (\<lambda>g. lower (fst g) = lower n) fs"
    using other by (induction fs) auto
  then show ?thesis by (simp add: field_get_def field_set_def)
qed

lemma field_get_fold:
  "field_get n (fold field_set hs fs) =
     (case find (\<lambda>g. lower (fst g) = lower n) (rev hs) of Some g \<Rightarrow> Some (snd g) | None \<Rightarrow> field_get n fs)"
proof (induction hs rule: rev_induct)
  case (snoc f hs)
  then show ?case
    using field_get_set_same [of f] field_get_set_other [of n f] field_get_def
    by (cases "lower (fst f) = lower n") (auto simp: field_get_def)
qed simp

lemma find_SomeD: "find P xs = Some x \<Longrightarrow> x \<in> set xs \<and> P x"
  by (induction xs) (auto split: if_splits)

lemma find_header:
  assumes "map_of hs n = Some v" "\<forall>g \<in> set hs. lower (fst g) = lower n \<longrightarrow> fst g = n"
    and "distinct (map fst hs)"
  shows "\<exists>g. find (\<lambda>g. lower (fst g) = lower n) (rev hs) = Some g \<and> snd g = v"
proof -
  have "(n, v) \<in> set (rev hs)" using map_of_SomeD [OF assms(1)] by simp
  then obtain g where g: "find (\<lambda>g. lower (fst g) = lower n) (rev hs) = Some g"
    by (cases "find (\<lambda>g. lower (fst g) = lower n) (rev hs)") (auto simp: find_None_iff)
  then have "g \<in> set hs" "lower (fst g) = lower n" using find_SomeD [OF g] by simp_all
  with assms have "map_of hs (fst g) = Some (snd g)" "fst g = n"
    by (auto intro: map_of_is_SomeI)
  with assms(1) g show ?thesis by simp
qed

subsection \<open>One exchange\<close>

datatype net_op = Op_resolve | Op_connect | Op_handshake | Op_write | Op_read

text \<open>
  The handler of a finished operation: on an error it reports and stops, else it starts the
  next operation, and after reading it reports the response, without its headers.
\<close>

definition exchange_step ::
  "bool \<Rightarrow> net_op \<Rightarrow> string option \<Rightarrow> response \<Rightarrow> (err + response) option \<times> net_op option" where
  "exchange_step encrypting op failure received =
     (case failure of
        Some message \<Rightarrow> (Some (Inl (error_of_message message)), None)
      | None \<Rightarrow>
          (case op of
             Op_resolve \<Rightarrow> (None, Some Op_connect)
           | Op_connect \<Rightarrow> (None, Some (if encrypting then Op_handshake else Op_write))
           | Op_handshake \<Rightarrow> (None, Some Op_write)
           | Op_write \<Rightarrow> (None, Some Op_read)
           | Op_read \<Rightarrow> (Some (Inr (received\<lparr>rs_headers := []\<rparr>)), None)))"

definition op_rank :: "net_op \<Rightarrow> nat" where
  "op_rank op = (case op of Op_resolve \<Rightarrow> 4 | Op_connect \<Rightarrow> 3 | Op_handshake \<Rightarrow> 2 | Op_write \<Rightarrow> 1 | Op_read \<Rightarrow> 0)"

text \<open>\<open>outcome\<close> says how each operation ends; the list holds the invocations of the callback.\<close>

function exchange :: "bool \<Rightarrow> (net_op \<Rightarrow> string option) \<Rightarrow> response \<Rightarrow> net_op \<Rightarrow> (err + response) list" where
  "exchange encrypting outcome received op =
     (let (report, next) = exchange_step encrypting op (outcome op) received
      in (case report of None \<Rightarrow> [] | Some r \<Rightarrow> [r]) @
         (case next of None \<Rightarrow> [] | Some op' \<Rightarrow> exchange encrypting outcome received op'))"
  by pat_completeness auto
termination
  by (relation "measure (\<lambda>(_, _, _, op). op_rank op)")
     (auto simp: exchange_step_def op_rank_def split: option.splits net_op.splits if_splits)

declare exchange.simps [simp del]

lemma exchange_unfold:
  "exchange enc outcome received op =
     (case outcome op of
        Some message \<Rightarrow> [Inl (error_of_message message)]
      | None \<Rightarrow>
          (case op of
             Op_resolve \<Rightarrow> exchange enc outcome received Op_connect
           | Op_connect \<Rightarrow> exchange enc outcome received (if enc then Op_handshake else Op_write)
           | Op_handshake \<Rightarrow> exchange enc outcome received Op_write
           | Op_write \<Rightarrow> exchange enc outcome received Op_read
           | Op_read \<Rightarrow> [Inr (received\<lparr>rs_headers := []\<rparr>)]))"
  by (subst exchange.simps) (simp add: exchange_step_def split: option.split net_op.split)

text \<open>
  C16. However the operations of an exchange end, its callback runs exactly once: with the
  error of the first operation that fails, or with the response, whose header fields are
  always dropped; a handshake takes part only in encrypted exchanges.
\<close>

theorem exchange_reports_once:
  "exchange enc outcome received Op_resolve =
     (case find (\<lambda>op. outcome op \<noteq> None)
             ([Op_resolve, Op_connect] @ (if enc then [Op_handshake] else []) @ [Op_write, Op_read]) of
        Some op \<Rightarrow> [Inl (error_of_message (the (outcome op)))]
      | None \<Rightarrow> [Inr (received\<lparr>rs_headers := []\<rparr>)])"
  by (simp add: exchange_unfold split: option.split)

end
