(* ===== verification/Json.thy ===== *)
theory Json
  imports Error
begin

text \<open>
  JSON values (src/nlohmann/json.hpp) as the codecs use them: access by key and by index,
  insertion, conversion to strings, booleans and numbers, traversal, and comparison with a
  text. An object is a \<open>std::map\<close>, kept as a list sorted by key. A failing \<open>assert\<close> of the
  constant subscript operator is \<open>Assertion_failed\<close>; it is no C++ exception.
\<close>

subsection \<open>Values\<close>

datatype json =
    J_null
  | J_boolean bool
  | J_integer "64 word"
  | J_unsigned "64 word"
  | J_float double
  | J_string string
  | J_array "json list"
  | J_object "(string \<times> json) list"

abbreviation key_less :: "string \<Rightarrow> string \<Rightarrow> bool" where
  "key_less \<equiv> lex_less char_less"

interpretation json_keys: map_order "\<lambda>_. True" key_less
proof
  have all: "list_all (\<lambda>_. True) xs" for xs :: string by (simp add: list_all_iff)
  show "\<not> key_less a a" for a
    by (rule char_order.lex_irrefl [OF all])
  show "key_less a b \<Longrightarrow> key_less b c \<Longrightarrow> key_less a c" for a b c
    by (rule char_order.lex_trans [OF all all all])
  show "key_less a c \<Longrightarrow> key_less a b \<or> key_less b c" for a b c
    by (rule char_order.lex_weak [OF all all all])
qed

lemma key_less_total: "a \<noteq> b \<Longrightarrow> key_less a b \<or> key_less b a"
proof (induction a arbitrary: b)
  case (Cons x a)
  show ?case
  proof (cases b)
    case (Cons y b')
    consider "x = y" | "char_less x y" | "char_less y x"
      by (metis char_less_def linorder_neqE_nat of_char_eq_iff)
    then show ?thesis
      using Cons.IH [of b'] Cons.prems by cases (auto simp: Cons char_less_def)
  qed simp
qed (metis lex_less.simps(2) neq_Nil_conv)

subsection \<open>Access\<close>

definition json_find :: "string \<Rightarrow> json \<Rightarrow> json option" where
  "json_find k j = (case j of J_object m \<Rightarrow> smap_get key_less k m | _ \<Rightarrow> None)"

definition json_count :: "string \<Rightarrow> json \<Rightarrow> nat" where
  "json_count k j =
     (case j of J_object m \<Rightarrow> (case smap_get key_less k m of None \<Rightarrow> 0 | Some _ \<Rightarrow> 1) | _ \<Rightarrow> 0)"

definition json_at :: "string \<Rightarrow> json \<Rightarrow> json cpp" where
  "json_at k j =
     (case j of
        J_object m \<Rightarrow> (case smap_get key_less k m of None \<Rightarrow> Throw Out_of_range | Some v \<Rightarrow> Ret v)
      | _ \<Rightarrow> Throw Json_type_error)"

definition json_at_index :: "nat \<Rightarrow> json \<Rightarrow> json cpp" where
  "json_at_index i j =
     (case j of
        J_array xs \<Rightarrow> if i < length xs then Ret (xs ! i) else Throw Out_of_range
      | _ \<Rightarrow> Throw Json_type_error)"

definition json_subscript :: "string \<Rightarrow> json \<Rightarrow> json cpp" where
  "json_subscript k j =
     (case j of
        J_object m \<Rightarrow> (case smap_get key_less k m of None \<Rightarrow> Throw Assertion_failed | Some v \<Rightarrow> Ret v)
      | _ \<Rightarrow> Throw Json_type_error)"

definition json_size :: "json \<Rightarrow> nat" where
  "json_size j =
     (case j of J_null \<Rightarrow> 0 | J_array xs \<Rightarrow> length xs | J_object m \<Rightarrow> length m | _ \<Rightarrow> 1)"

text \<open>What a range-based for loop visits; a primitive value is visited as its only element.\<close>

definition json_elements :: "json \<Rightarrow> json list" where
  "json_elements j =
     (case j of J_null \<Rightarrow> [] | J_array xs \<Rightarrow> xs | J_object m \<Rightarrow> map snd m | _ \<Rightarrow> [j])"

subsection \<open>Changes\<close>

text \<open>\<open>j[k] = v\<close> on a mutable value, which turns null into an object.\<close>

definition json_set :: "string \<Rightarrow> json \<Rightarrow> json \<Rightarrow> json cpp" where
  "json_set k v j =
     (case j of
        J_null \<Rightarrow> Ret (J_object [(k, v)])
      | J_object m \<Rightarrow> Ret (J_object (smap_put key_less k v m))
      | _ \<Rightarrow> Throw Json_type_error)"

definition json_push_back :: "json \<Rightarrow> json \<Rightarrow> json cpp" where
  "json_push_back v j =
     (case j of
        J_null \<Rightarrow> Ret (J_array [v])
      | J_array xs \<Rightarrow> Ret (J_array (xs @ [v]))
      | _ \<Rightarrow> Throw Json_type_error)"

text \<open>A value built by appending, starting from null.\<close>

definition json_sequence :: "json list \<Rightarrow> json" where
  "json_sequence xs = (if xs = [] then J_null else J_array xs)"

lemma cfold_push_back: "cfold json_push_back xs J_null = Ret (json_sequence xs)"
proof -
  have app: "cfold json_push_back xs (J_array ys) = Ret (J_array (ys @ xs))" for xs ys
    by (induction xs arbitrary: ys) (simp_all add: json_push_back_def)
  have "json_push_back x J_null = Ret (J_array [x])" for x by (simp add: json_push_back_def)
  with app show ?thesis by (cases xs) (simp_all add: json_sequence_def)
qed

lemma json_elements_sequence [simp]: "json_elements (json_sequence xs) = xs"
  by (simp add: json_elements_def json_sequence_def)

subsection \<open>Conversions\<close>

definition json_get_string :: "json \<Rightarrow> string cpp" where
  "json_get_string j = (case j of J_string s \<Rightarrow> Ret s | _ \<Rightarrow> Throw Json_type_error)"

definition json_get_bool :: "json \<Rightarrow> bool cpp" where
  "json_get_bool j = (case j of J_boolean b \<Rightarrow> Ret b | _ \<Rightarrow> Throw Json_type_error)"

definition json_get_double :: "json \<Rightarrow> double cpp" where
  "json_get_double j =
     (case j of
        J_unsigned w \<Rightarrow> Ret (dbl_of_int (uint w))
      | J_integer w \<Rightarrow> Ret (dbl_of_int (sint w))
      | J_float x \<Rightarrow> Ret x
      | _ \<Rightarrow> Throw Json_type_error)"

definition flt_of_int :: "int \<Rightarrow> float32" where
  "flt_of_int i = flt_of_ratio (i < 0) (nat \<bar>i\<bar>) 1"

text \<open>Types without an overload of their own, like \<open>float\<close>, also accept booleans.\<close>

definition json_get_float :: "json \<Rightarrow> float32 cpp" where
  "json_get_float j =
     (case j of
        J_unsigned w \<Rightarrow> Ret (flt_of_int (uint w))
      | J_integer w \<Rightarrow> Ret (flt_of_int (sint w))
      | J_float x \<Rightarrow> Ret (float_of_dbl x)
      | J_boolean b \<Rightarrow> Ret (flt_of_int (of_bool b))
      | _ \<Rightarrow> Throw Json_type_error)"

text \<open>The integer part of a double; \<open>None\<close> for infinities and NaN.\<close>

definition dbl_truncate :: "double \<Rightarrow> int option" where
  "dbl_truncate x =
     (let u = dbl_mag x; e = u div 2 ^ 52; m = (if e = 0 then u else u mod 2 ^ 52 + 2 ^ 52);
          n = (if 1075 \<le> e then m * 2 ^ (e - 1075) else m div 2 ^ (1075 - max e 1))
      in if e = 2047 then None else Some (if dbl_neg x then - int n else int n))"

text \<open>A double outside the range of the integer type is undefined behaviour.\<close>

definition json_get_uint64 :: "json \<Rightarrow> 64 word cpp" where
  "json_get_uint64 j =
     (case j of
        J_unsigned w \<Rightarrow> Ret w
      | J_integer w \<Rightarrow> Ret w
      | J_float x \<Rightarrow>
          (case dbl_truncate x of
             Some i \<Rightarrow> if 0 \<le> i \<and> i < 2 ^ 64 then Ret (word_of_int i) else UB
           | None \<Rightarrow> UB)
      | _ \<Rightarrow> Throw Json_type_error)"

subsection \<open>Comparison\<close>

text \<open>
  Values of one type are compared member by member (two objects as maps: equally many
  members, pairwise with equal keys and values), numbers of two types after a conversion.
\<close>

fun json_eq :: "json \<Rightarrow> json \<Rightarrow> bool" where
  "json_eq (J_array xs) r = (case r of J_array ys \<Rightarrow> list_all2 json_eq xs ys | _ \<Rightarrow> False)"
| "json_eq (J_object m) r =
     (case r of J_object n \<Rightarrow> list_all2 (\<lambda>(k, v) (l, w). k = l \<and> json_eq v w) m n | _ \<Rightarrow> False)"
| "json_eq J_null r = (case r of J_null \<Rightarrow> True | _ \<Rightarrow> False)"
| "json_eq (J_string s) r = (case r of J_string t \<Rightarrow> s = t | _ \<Rightarrow> False)"
| "json_eq (J_boolean b) r = (case r of J_boolean c \<Rightarrow> b = c | _ \<Rightarrow> False)"
| "json_eq (J_integer i) r =
     (case r of
        J_integer k \<Rightarrow> i = k
      | J_float x \<Rightarrow> dbl_eq (dbl_of_int (sint i)) x
      | J_unsigned u \<Rightarrow> i = u
      | _ \<Rightarrow> False)"
| "json_eq (J_unsigned u) r =
     (case r of
        J_unsigned v \<Rightarrow> u = v
      | J_float x \<Rightarrow> dbl_eq (dbl_of_int (uint u)) x
      | J_integer i \<Rightarrow> u = i
      | _ \<Rightarrow> False)"
| "json_eq (J_float x) r =
     (case r of
        J_float y \<Rightarrow> dbl_eq x y
      | J_integer i \<Rightarrow> dbl_eq x (dbl_of_int (sint i))
      | J_unsigned u \<Rightarrow> dbl_eq x (dbl_of_int (uint u))
      | _ \<Rightarrow> False)"

text \<open>\<open>j == s\<close> for a text \<open>s\<close>, which is turned into a value first.\<close>

definition json_is_text :: "string \<Rightarrow> json \<Rightarrow> bool" where
  "json_is_text s j = json_eq j (J_string s)"

lemma json_is_text_iff: "json_is_text s j \<longleftrightarrow> j = J_string s"
  by (cases j) (simp_all add: json_is_text_def)

subsection \<open>Facts\<close>

lemma json_count_find: "0 < json_count k j \<longleftrightarrow> json_find k j \<noteq> None"
  by (auto simp: json_count_def json_find_def split: json.split option.split)

lemma json_at_found: "json_find k j = Some v \<Longrightarrow> json_at k j = Ret v"
  by (auto simp: json_at_def json_find_def split: json.splits)

lemma json_subscript_found: "json_find k j = Some v \<Longrightarrow> json_subscript k j = Ret v"
  by (auto simp: json_subscript_def json_find_def split: json.splits)

lemma json_find_set:
  assumes "json_set k v j = Ret j'"
  shows "json_find k' j' = (if k' = k then Some v else json_find k' j)"
proof (cases j)
  case (J_object m)
  with assms have j': "j' = J_object (smap_put key_less k v m)" by (simp add: json_set_def)
  show ?thesis
  proof (cases "k' = k")
    case True
    then show ?thesis by (simp add: json_find_def j' json_keys.get_put_same)
  next
    case False
    then have "smap_get key_less k' (smap_put key_less k v m) = smap_get key_less k' m"
      using key_less_total [of k' k] by (intro json_keys.get_put_other) auto
    with False show ?thesis by (simp add: json_find_def j' J_object)
  qed
next
  case J_null
  with assms show ?thesis
    using key_less_total [of k' k] json_keys.irrefl [of k] by (auto simp: json_set_def json_find_def)
qed (use assms in \<open>simp_all add: json_set_def\<close>)

lemma smap_get_size: "smap_get lt k m = Some v \<Longrightarrow> v \<in> snd ` set m"
  by (induction m) (auto split: if_splits)

lemma json_object_size: "v \<in> snd ` set m \<Longrightarrow> size v < size (J_object m)"
proof -
  assume "v \<in> snd ` set m"
  then obtain k where "(k, v) \<in> set m" by auto
  then have "size_prod (\<lambda>_. 0) size (k, v) \<le> size_list (size_prod (\<lambda>_. 0) size) m"
    by (intro size_list_estimation') auto
  then show ?thesis by simp
qed

lemma json_find_size: "json_find k j = Some v \<Longrightarrow> size v < size j"
  using smap_get_size json_object_size by (fastforce simp: json_find_def split: json.splits)

lemma json_subscript_find:
  "json_subscript k j = Ret v \<Longrightarrow> json_find k j = Some v"
  by (auto simp: json_subscript_def json_find_def split: json.splits option.splits)

lemma json_element_size: "x \<in> set (json_elements j) \<Longrightarrow> size x \<le> size j"
proof (cases j)
  case (J_array xs)
  then show "x \<in> set (json_elements j) \<Longrightarrow> size x \<le> size j"
    using size_list_estimation' [of x xs "size x" size] by (simp add: json_elements_def)
next
  case (J_object m)
  assume "x \<in> set (json_elements j)"
  with J_object have "x \<in> snd ` set m" by (simp add: json_elements_def)
  from json_object_size [OF this] J_object show "size x \<le> size j" by simp
qed (simp_all add: json_elements_def)

end
