(* ===== verification/Jsend.thy ===== *)
theory Jsend
  imports Json Http
begin

text \<open>
  How a response becomes a value or an error: the analysis of a JSEND document
  (src/airmap/jsend.h) and the callback a request is given
  (src/airmap/net/http/middleware.h). The decoder of the value, the parser and the printer of
  JSON, and the text of an exception are parameters.
\<close>

subsection \<open>Analysis of a document\<close>

text \<open>
  \<open>e = e.description(...)\<close> assigns the error to itself: the call returns a reference to
  \<open>e\<close>. The implicit assignment assigns its description to itself, and an engaged
  \<open>Optional\<close> destroys its value before it copies it (\<open>opt_assign_self_engaged\<close>).
\<close>

definition error_assign_self :: "err \<Rightarrow> err cpp" where
  "error_assign_self e = (case err_description e of None \<Rightarrow> Ret e | Some _ \<Rightarrow> UB)"

definition error_describe_in_place :: "string \<Rightarrow> err \<Rightarrow> err cpp" where
  "error_describe_in_place d e = error_assign_self (error_set_description d e)"

lemma error_describe_in_place_undefined [simp]: "error_describe_in_place d e = UB"
  by (simp add: error_describe_in_place_def error_assign_self_def error_set_description_def)

definition json_text :: "string \<Rightarrow> json \<Rightarrow> string cpp" where
  "json_text k j = cbind (json_at k j) json_get_string"

definition describe_data :: "(json \<Rightarrow> string) \<Rightarrow> json \<Rightarrow> err \<Rightarrow> err cpp" where
  "describe_data dump j e =
     (if 0 < json_count ''data'' j
      then cbind (json_at ''data'' j) (\<lambda>d. error_describe_in_place (dump d) e) else Ret e)"

definition failure_outcome :: "(json \<Rightarrow> string) \<Rightarrow> json \<Rightarrow> err cpp" where
  "failure_outcome dump j =
     (if 0 < json_count ''message'' j
      then cbind (json_text ''message'' j) (\<lambda>m. Ret (error_of_message m))
      else cbind (json_at ''data'' j) (\<lambda>d.
        if 0 < json_count ''message'' d
        then cbind (json_text ''message'' d) (\<lambda>m. Ret (error_set_description (dump d) (error_of_message m)))
        else describe_data dump j
               (error_of_message ''a failure occured, please see description for details'')))"

definition error_outcome :: "(json \<Rightarrow> string) \<Rightarrow> json \<Rightarrow> err cpp" where
  "error_outcome dump j =
     (if 0 < json_count ''message'' j
      then cbind (json_text ''message'' j) (\<lambda>m. describe_data dump j (error_of_message m))
      else describe_data dump j
             (error_of_message ''an error occured, please see description for details''))"

definition bare_outcome :: "(json \<Rightarrow> 'a cpp) \<Rightarrow> json \<Rightarrow> (err + 'a) cpp" where
  "bare_outcome decode j =
     (if 0 < json_count ''error'' j
      then cbind (json_text ''error'' j) (\<lambda>m. Ret (Inl (error_of_message m)))
      else if 0 < json_count ''msg'' j
      then cbind (json_text ''msg'' j) (\<lambda>m. Ret (Inl (error_of_message m)))
      else if 0 < json_count ''message'' j
      then cbind (json_text ''message'' j) (\<lambda>m. Ret (Inl (error_of_message m)))
      else cmap Inr (decode j))"

text \<open>\<open>Error::Value{"json"}\<close> selects the constructor for \<open>bool\<close>: the key is \<open>true\<close>.\<close>

definition to_outcome ::
  "(json \<Rightarrow> 'a cpp) \<Rightarrow> (json \<Rightarrow> string) \<Rightarrow> json \<Rightarrow> (err + 'a) cpp" where
  "to_outcome decode dump j =
     (if json_find ''status'' j \<noteq> None
      then cbind (json_subscript ''status'' j) (\<lambda>s.
        if json_is_text ''success'' s
        then cmap Inr (cbind (json_subscript ''data'' j) decode)
        else if json_is_text ''fail'' s then cmap Inl (failure_outcome dump j)
        else if json_is_text ''error'' s then cmap Inl (error_outcome dump j)
        else cmap Inl (error_value (Boolean True) (String (dump j)) (error_of_message ''not jsend formatted'')))
      else bare_outcome decode j)"

definition std_exception :: "exn \<Rightarrow> bool" where
  "std_exception e \<longleftrightarrow> e \<noteq> Assertion_failed"

definition parse_to_outcome ::
  "(string \<Rightarrow> json cpp) \<Rightarrow> (exn \<Rightarrow> string) \<Rightarrow> (json \<Rightarrow> 'a cpp) \<Rightarrow> (json \<Rightarrow> string) \<Rightarrow> string \<Rightarrow>
   (err + 'a) cpp" where
  "parse_to_outcome parse what decode dump text =
     (case cbind (parse text) (to_outcome decode dump) of
        Throw e \<Rightarrow>
          if std_exception e
          then cmap Inl (error_value (Boolean True) (String text)
                 (error_set_description (what e) (error_of_message ''failed to parse JSON response'')))
          else Throw e
      | r \<Rightarrow> r)"

subsection \<open>The callback of a request\<close>

text \<open>\<open>None\<close>: the callback returns without calling \<open>next\<close>.\<close>

definition jsend_callback ::
  "(string \<Rightarrow> json cpp) \<Rightarrow> (exn \<Rightarrow> string) \<Rightarrow> (json \<Rightarrow> 'a cpp) \<Rightarrow> (json \<Rightarrow> string) \<Rightarrow>
   err + response \<Rightarrow> (err + 'a) option cpp" where
  "jsend_callback parse what decode dump result =
     (case result of
        Inl e \<Rightarrow> Ret (Some (Inl e))
      | Inr r \<Rightarrow>
          (case classify (rs_status r) of
             Informational \<Rightarrow> Ret None
           | Redirection \<Rightarrow> Ret None
           | Success \<Rightarrow> cmap Some (parse_to_outcome parse what decode dump (rs_body r))
           | Client_error \<Rightarrow> cmap Some (parse_to_outcome parse what decode dump (rs_body r))
           | Server_error \<Rightarrow> cmap Some (parse_to_outcome parse what decode dump (rs_body r))
           | Unclassified \<Rightarrow>
               cmap (\<lambda>e. Some (Inl e))
                 (cbind (error_value (String ''status-code'') (Integer (ucast (rs_status r)))
                           (error_of_message ''networking error''))
                    (error_value (String ''body'') (String (rs_body r))))))"

subsection \<open>Facts\<close>

lemma cmap_simps [simp]: "cmap f (Ret x) = Ret (f x)" "cmap f (Throw e) = Throw e" "cmap f UB = UB"
  by (simp_all add: cmap_def)

lemma cmap_eq: "cmap f m = Ret y \<longleftrightarrow> (\<exists>x. m = Ret x \<and> y = f x)"
  "cmap f m = Throw e \<longleftrightarrow> m = Throw e" "cmap f m = UB \<longleftrightarrow> m = UB"
  by (cases m; auto)+

text \<open>The document as the code distinguishes it.\<close>

lemma to_outcome_status:
  assumes "json_find ''status'' j = Some (J_string s)"
  shows "to_outcome decode dump j =
     (if s = ''success'' then cmap Inr (cbind (json_subscript ''data'' j) decode)
      else if s = ''fail'' then cmap Inl (failure_outcome dump j)
      else if s = ''error'' then cmap Inl (error_outcome dump j)
      else cmap Inl (error_value (Boolean True) (String (dump j)) (error_of_message ''not jsend formatted'')))"
  using assms json_subscript_found [OF assms] by (simp add: to_outcome_def json_is_text_iff)

lemma describe_data_found: "json_find ''data'' j = Some d \<Longrightarrow> describe_data dump j e = UB"
  using json_count_find [of "''data''" j] json_at_found [of "''data''" j d]
  by (simp add: describe_data_def)

lemma failure_outcome_data:
  assumes "json_find ''message'' j = None" "json_find ''data'' j = Some d" "json_find ''message'' d = None"
  shows "failure_outcome dump j = UB"
  using assms json_count_find [of "''message''" j] json_count_find [of "''message''" d]
    json_at_found [OF assms(2)] describe_data_found [OF assms(2)]
  by (simp add: failure_outcome_def)

lemma error_outcome_data:
  assumes "json_find ''data'' j = Some d" "json_find ''message'' j \<in> {None, Some (J_string m)}"
  shows "error_outcome dump j = UB"
  using assms json_count_find [of "''message''" j] json_at_found [of "''message''" j "J_string m"]
    describe_data_found [OF assms(1)]
  by (auto simp: error_outcome_def json_text_def json_get_string_def)

text \<open>
  A response to a request is left without any answer exactly when its status is
  informational or a redirection; every other response, and every networking error, reaches
  the caller or ends the program.
\<close>

lemma unanswered_responses:
  "jsend_callback parse what decode dump result = Ret None \<longleftrightarrow>
     (\<exists>r. result = Inr r \<and> classify (rs_status r) \<in> {Informational, Redirection})"
  by (auto simp: jsend_callback_def cmap_eq split: sum.split classification.split)

text \<open>
  A success document yields exactly what the decoder makes of its data, whatever else it
  contains; a decoder that throws yields an error that carries the message of the exception
  and, under the key \<open>true\<close>, the text of the response.
\<close>

lemma success_is_decoded:
  assumes "classify (rs_status r) \<in> {Success, Client_error, Server_error}" "parse (rs_body r) = Ret j"
    and "json_find ''status'' j = Some (J_string ''success'')" "json_find ''data'' j = Some d"
  shows "jsend_callback parse what decode dump (Inr r) =
           (case decode d of
              Ret v \<Rightarrow> Ret (Some (Inr v))
            | UB \<Rightarrow> UB
            | Throw e \<Rightarrow>
                if e = Assertion_failed then Throw e
                else Ret (Some (Inl \<lparr>err_message = ''failed to parse JSON response'',
                                    err_description = Some (what e),
                                    err_values = [(Boolean True, String (rs_body r))]\<rparr>)))"
  using assms(1,2) to_outcome_status [OF assms(3), of decode dump] json_subscript_found [OF assms(4)]
  by (cases "decode d")
     (auto simp: jsend_callback_def parse_to_outcome_def std_exception_def error_value_def
        error_set_description_def error_of_message_def error_default_def split: classification.split)

definition ok_document :: json where
  "ok_document = J_object [(''data'', J_string ''key''), (''status'', J_string ''success'')]"

lemma success_is_decoded_witness:
  "jsend_callback (\<lambda>_. Ret ok_document) (\<lambda>_. []) json_get_string (\<lambda>_. [])
     (Inr \<lparr>rs_version = 11, rs_status = 200, rs_headers = [], rs_body = []\<rparr>) = Ret (Some (Inr ''key''))"
proof -
  let ?r = "\<lparr>rs_version = 11, rs_status = 200, rs_headers = [], rs_body = []\<rparr>"
  have "classify (rs_status ?r) \<in> {Success, Client_error, Server_error}" by (simp add: classify_def)
  moreover have "json_find ''status'' ok_document = Some (J_string ''success'')"
    "json_find ''data'' ok_document = Some (J_string ''key'')"
    by (simp_all add: ok_document_def json_find_def char_less_def)
  ultimately show ?thesis
    using success_is_decoded [of ?r "\<lambda>_. Ret ok_document" ok_document "J_string ''key''" "\<lambda>_. []"
        json_get_string "\<lambda>_. []"]
    by (simp add: json_get_string_def)
qed

text \<open>
  A failure that carries data but no message, and an error that carries data, are
  undefined behaviour: the code describes the error in place and assigns it to itself.
\<close>

lemma failure_with_data_undefined:
  assumes "classify (rs_status r) \<in> {Success, Client_error, Server_error}" "parse (rs_body r) = Ret j"
    and "json_find ''data'' j = Some d"
    and "json_find ''status'' j = Some (J_string ''fail'') \<and> json_find ''message'' j = None \<and>
           json_find ''message'' d = None \<or>
         json_find ''status'' j = Some (J_string ''error'') \<and>
           json_find ''message'' j \<in> {None, Some (J_string m)}"
  shows "jsend_callback parse what decode dump (Inr r) = UB"
proof -
  have "to_outcome decode dump j = UB"
    using assms(4)
  proof (elim disjE conjE)
    assume s: "json_find ''status'' j = Some (J_string ''fail'')"
      and m: "json_find ''message'' j = None" "json_find ''message'' d = None"
    show ?thesis
      using to_outcome_status [OF s, of decode dump] failure_outcome_data [OF m(1) assms(3) m(2)] by simp
  next
    assume s: "json_find ''status'' j = Some (J_string ''error'')"
      and m: "json_find ''message'' j \<in> {None, Some (J_string m)}"
    show ?thesis
      using to_outcome_status [OF s, of decode dump] error_outcome_data [OF assms(3) m] by simp
  qed
  then show ?thesis
    using assms(1,2) by (auto simp: jsend_callback_def parse_to_outcome_def split: classification.split)
qed

lemma failure_with_data_undefined_witness:
  "jsend_callback (\<lambda>_. Ret (J_object [(''data'', J_object [(''code'', J_unsigned 1)]), (''status'', J_string ''fail'')]))
     (\<lambda>_. []) json_get_string (\<lambda>_. [])
     (Inr \<lparr>rs_version = 11, rs_status = 400, rs_headers = [], rs_body = []\<rparr>) = UB"
  by (rule failure_with_data_undefined [where d = "J_object [(''code'', J_unsigned 1)]" and m = "[]"
        and j = "J_object [(''data'', J_object [(''code'', J_unsigned 1)]), (''status'', J_string ''fail'')]"])
     (simp_all add: classify_def json_find_def char_less_def)

end
