(* ===== verification/Geometry_Json.thy ===== *)
theory Geometry_Json
  imports Json Geometry
begin

text \<open>
  The GeoJSON codec (src/airmap/codec/json/geometry.cpp, geometry.h). Encoders append to a
  value that starts as null, so an empty list of coordinates is written as null; decoders walk
  over whatever they are given. Coordinates are read as \<open>float\<close> although they are kept as
  \<open>double\<close>, and an elevation without an altitude is written where the altitude is read.
\<close>

subsection \<open>Encoding\<close>

definition encode_coordinate :: "coordinate \<Rightarrow> json cpp" where
  "encode_coordinate c =
     cfold json_push_back
       ([J_float (longitude c), J_float (latitude c)] @
        (case altitude c of None \<Rightarrow> [] | Some a \<Rightarrow> [J_float a]) @
        (case elevation c of None \<Rightarrow> [] | Some e \<Rightarrow> [J_float e])) J_null"

text \<open>The loop of the vector encoders: every element is encoded and appended.\<close>

definition encode_each :: "('a \<Rightarrow> json cpp) \<Rightarrow> 'a list \<Rightarrow> json cpp" where
  "encode_each enc xs = cfold (\<lambda>x j. cbind (enc x) (\<lambda>v. json_push_back v j)) xs J_null"

definition encode_coordinates :: "coordinate list \<Rightarrow> json cpp" where
  "encode_coordinates = encode_each encode_coordinate"

definition encode_polygon :: "polygon_shape \<Rightarrow> json cpp" where
  "encode_polygon p = encode_each encode_coordinates (outer_ring p # inner_rings p)"

text \<open>The name of a type; an invalid one leaves the value as it is, which is null.\<close>

definition encode_geometry_type :: "geometry_type \<Rightarrow> json" where
  "encode_geometry_type t =
     (case t of
        GT_point \<Rightarrow> J_string ''Point''
      | GT_multi_point \<Rightarrow> J_string ''MultiPoint''
      | GT_line_string \<Rightarrow> J_string ''LineString''
      | GT_multi_line_string \<Rightarrow> J_string ''MultiLineString''
      | GT_polygon \<Rightarrow> J_string ''Polygon''
      | GT_multi_polygon \<Rightarrow> J_string ''MultiPolygon''
      | GT_geometry_collection \<Rightarrow> J_string ''GeometryCollection''
      | GT_invalid \<Rightarrow> J_null)"

definition with_coordinates :: "json cpp \<Rightarrow> json \<Rightarrow> json cpp" where
  "with_coordinates m j = cbind m (\<lambda>v. json_set ''coordinates'' v j)"

lemma cfold_cong [fundef_cong]:
  "xs = ys \<Longrightarrow> s = t \<Longrightarrow> (\<And>x u. x \<in> set ys \<Longrightarrow> f x u = g x u) \<Longrightarrow> cfold f xs s = cfold g ys t"
proof (induction xs arbitrary: ys s t)
  case (Cons x xs)
  then show ?case by (cases "g x t") auto
qed auto

fun encode_geometry :: "geometry \<Rightarrow> json cpp" where
  "encode_geometry g =
     cbind (json_set ''type'' (encode_geometry_type (geometry_kind g)) J_null) (\<lambda>j.
       case g of
         G_invalid \<Rightarrow> Ret j
       | G_point c \<Rightarrow> with_coordinates (encode_coordinate c) j
       | G_multi_point cs \<Rightarrow> with_coordinates (encode_coordinates cs) j
       | G_line_string cs \<Rightarrow> with_coordinates (encode_coordinates cs) j
       | G_multi_line_string ls \<Rightarrow> with_coordinates (encode_each encode_coordinates ls) j
       | G_polygon p \<Rightarrow> with_coordinates (encode_polygon p) j
       | G_multi_polygon ps \<Rightarrow> with_coordinates (encode_each encode_polygon ps) j
       | G_collection gs \<Rightarrow>
           with_coordinates
             (cfold (\<lambda>x u. cbind (encode_geometry x) (\<lambda>v. json_push_back v u)) gs J_null) j)"

declare encode_geometry.simps [simp del]

subsection \<open>Decoding\<close>

definition get_as_double :: "json \<Rightarrow> double cpp" where
  "get_as_double j = cbind (json_get_float j) (\<lambda>x. Ret (dbl_of_float x))"

definition decode_coordinate :: "json \<Rightarrow> coordinate cpp" where
  "decode_coordinate j =
     cbind (cbind (json_at_index 1 j) get_as_double) (\<lambda>lat.
     cbind (cbind (json_at_index 0 j) get_as_double) (\<lambda>lon.
       if 2 < json_size j
       then cbind (cbind (json_at_index 2 j) get_as_double) (\<lambda>alt.
              Ret \<lparr>latitude = lat, longitude = lon, altitude = Some alt, elevation = None\<rparr>)
       else Ret \<lparr>latitude = lat, longitude = lon, altitude = None, elevation = None\<rparr>))"

definition decode_each :: "(json \<Rightarrow> 'a cpp) \<Rightarrow> json \<Rightarrow> 'a list cpp" where
  "decode_each dec j = cmapM dec (json_elements j)"

definition decode_coordinates :: "json \<Rightarrow> coordinate list cpp" where
  "decode_coordinates = decode_each decode_coordinate"

text \<open>The first element is the outer ring; without any element it stays empty.\<close>

definition decode_polygon :: "json \<Rightarrow> polygon_shape cpp" where
  "decode_polygon j =
     cbind (decode_each decode_coordinates j) (\<lambda>rings.
       Ret (case rings of
              [] \<Rightarrow> \<lparr>outer_ring = [], inner_rings = []\<rparr>
            | r # rs \<Rightarrow> \<lparr>outer_ring = r, inner_rings = rs\<rparr>))"

text \<open>An unknown name leaves the enumerator uninitialised, and it is then read.\<close>

definition decode_geometry_type :: "json \<Rightarrow> geometry_type cpp" where
  "decode_geometry_type j =
     cbind (json_get_string j) (\<lambda>s.
       if s = ''Point'' then Ret GT_point
       else if s = ''MultiPoint'' then Ret GT_multi_point
       else if s = ''LineString'' then Ret GT_line_string
       else if s = ''MultiLineString'' then Ret GT_multi_line_string
       else if s = ''Polygon'' then Ret GT_polygon
       else if s = ''MultiPolygon'' then Ret GT_multi_polygon
       else if s = ''GeometryCollection'' then Ret GT_geometry_collection
       else UB)"

lemma cbind_cong [fundef_cong]:
  "m = n \<Longrightarrow> (\<And>x. n = Ret x \<Longrightarrow> f x = g x) \<Longrightarrow> cbind m f = cbind n g"
  by (cases n) auto

lemma cmapM_cong [fundef_cong]:
  "xs = ys \<Longrightarrow> (\<And>x. x \<in> set ys \<Longrightarrow> f x = g x) \<Longrightarrow> cmapM f xs = cmapM g ys"
  by (induction xs arbitrary: ys) auto

function decode_geometry :: "json \<Rightarrow> geometry cpp" where
  "decode_geometry j =
     cbind (cbind (json_subscript ''type'' j) decode_geometry_type) (\<lambda>t.
     cbind (json_subscript ''coordinates'' j) (\<lambda>c.
       case t of
         GT_point \<Rightarrow> cmap G_point (decode_coordinate c)
       | GT_multi_point \<Rightarrow> cmap G_multi_point (decode_coordinates c)
       | GT_line_string \<Rightarrow> cmap G_line_string (decode_coordinates c)
       | GT_multi_line_string \<Rightarrow> cmap G_multi_line_string (decode_each decode_coordinates c)
       | GT_polygon \<Rightarrow> cmap G_polygon (decode_polygon c)
       | GT_multi_polygon \<Rightarrow> cmap G_multi_polygon (decode_each decode_polygon c)
       | GT_geometry_collection \<Rightarrow> cmap G_collection (cmapM decode_geometry (json_elements c))
       | GT_invalid \<Rightarrow> UB))"
  by pat_completeness auto
termination
proof (relation "measure size")
  fix j t c x
  assume "json_subscript ''coordinates'' j = Ret c" "x \<in> set (json_elements c)"
  then have "size c < size j" "size x \<le> size c"
    using json_subscript_find json_find_size json_element_size by blast+
  then show "(x, j) \<in> measure size" by simp
qed simp

declare decode_geometry.simps [simp del]

subsection \<open>Round trip\<close>

definition as_float :: "double \<Rightarrow> double" where
  "as_float x = dbl_of_float (float_of_dbl x)"

text \<open>What is read back for a coordinate that was written.\<close>

definition coordinate_as_read :: "coordinate \<Rightarrow> coordinate" where
  "coordinate_as_read c =
     \<lparr>latitude = as_float (latitude c), longitude = as_float (longitude c),
      altitude = map_option as_float (case altitude c of None \<Rightarrow> elevation c | a \<Rightarrow> a),
      elevation = None\<rparr>"

definition polygon_as_read :: "polygon_shape \<Rightarrow> polygon_shape" where
  "polygon_as_read p =
     \<lparr>outer_ring = map coordinate_as_read (outer_ring p),
      inner_rings = map (map coordinate_as_read) (inner_rings p)\<rparr>"

fun geometry_as_read :: "geometry \<Rightarrow> geometry" where
  "geometry_as_read G_invalid = G_invalid"
| "geometry_as_read (G_point c) = G_point (coordinate_as_read c)"
| "geometry_as_read (G_multi_point cs) = G_multi_point (map coordinate_as_read cs)"
| "geometry_as_read (G_line_string cs) = G_line_string (map coordinate_as_read cs)"
| "geometry_as_read (G_multi_line_string ls) = G_multi_line_string (map (map coordinate_as_read) ls)"
| "geometry_as_read (G_polygon p) = G_polygon (polygon_as_read p)"
| "geometry_as_read (G_multi_polygon ps) = G_multi_polygon (map polygon_as_read ps)"
| "geometry_as_read (G_collection gs) = G_collection (map geometry_as_read gs)"

fun geometry_valid :: "geometry \<Rightarrow> bool" where
  "geometry_valid (G_collection gs) = list_all geometry_valid gs"
| "geometry_valid g = (g \<noteq> G_invalid)"

text \<open>Encoders and decoders of elements that fit together give ones of lists that do.\<close>

definition codec_pair :: "('a \<Rightarrow> json cpp) \<Rightarrow> (json \<Rightarrow> 'a cpp) \<Rightarrow> ('a \<Rightarrow> 'a) \<Rightarrow> 'a \<Rightarrow> bool" where
  "codec_pair enc dec rd x \<longleftrightarrow> (\<exists>j. enc x = Ret j \<and> dec j = Ret (rd x))"

lemma encode_each_map:
  assumes "\<And>x. x \<in> set xs \<Longrightarrow> enc x = Ret (f x)"
  shows "encode_each enc xs = Ret (json_sequence (map f xs))"
proof -
  have "cfold (\<lambda>x j. cbind (enc x) (\<lambda>v. json_push_back v j)) xs u = cfold json_push_back (map f xs) u" for u
    using assms
  proof (induction xs arbitrary: u)
    case (Cons x xs)
    then show ?case by (cases "json_push_back (f x) u") auto
  qed simp
  then show ?thesis by (simp add: encode_each_def cfold_push_back)
qed

lemma codec_pair_list:
  assumes "\<And>x. x \<in> set xs \<Longrightarrow> codec_pair enc dec rd x"
  obtains f where "encode_each enc xs = Ret (json_sequence (map f xs))"
    "cmapM dec (map f xs) = Ret (map rd xs)"
proof -
  define f where "f x = (SOME j. enc x = Ret j \<and> dec j = Ret (rd x))" for x
  have f: "enc x = Ret (f x) \<and> dec (f x) = Ret (rd x)" if "x \<in> set xs" for x
    unfolding f_def by (rule someI_ex) (use assms that in \<open>auto simp: codec_pair_def\<close>)
  show thesis
    by (rule that [of f]) (use f in \<open>auto intro: encode_each_map cmapM_map_Ret\<close>)
qed

lemma codec_pair_each:
  "(\<And>x. x \<in> set xs \<Longrightarrow> codec_pair enc dec rd x) \<Longrightarrow>
   codec_pair (encode_each enc) (decode_each dec) (map rd) xs"
  by (erule codec_pair_list) (auto simp: codec_pair_def decode_each_def)

lemma get_as_double_float [simp]: "get_as_double (J_float x) = Ret (as_float x)"
  by (simp add: get_as_double_def json_get_float_def as_float_def)

lemma codec_coordinate: "codec_pair encode_coordinate decode_coordinate coordinate_as_read c"
  by (cases "altitude c"; cases "elevation c")
     (simp_all add: codec_pair_def encode_coordinate_def cfold_push_back json_sequence_def
        decode_coordinate_def json_at_index_def json_size_def coordinate_as_read_def
        del: cfold.simps)

lemma codec_coordinates: "codec_pair encode_coordinates decode_coordinates (map coordinate_as_read) cs"
  unfolding encode_coordinates_def decode_coordinates_def by (intro codec_pair_each codec_coordinate)

lemma codec_polygon: "codec_pair encode_polygon decode_polygon polygon_as_read p"
proof -
  have "codec_pair (encode_each encode_coordinates) (decode_each decode_coordinates)
      (map (map coordinate_as_read)) (outer_ring p # inner_rings p)"
    by (intro codec_pair_each codec_coordinates)
  then show ?thesis
    by (auto simp: codec_pair_def encode_polygon_def decode_polygon_def polygon_as_read_def)
qed

lemmas codec_lists =
  codec_coordinates codec_polygon codec_coordinate
  codec_pair_each [OF codec_coordinates] codec_pair_each [OF codec_polygon]

text \<open>The document of a valid geometry, and what the decoder does with it.\<close>

lemma decode_geometry_document:
  assumes "json_set ''type'' (encode_geometry_type t) J_null = Ret j" "json_set ''coordinates'' c j = Ret j'"
    and "t \<noteq> GT_invalid"
  shows "decode_geometry j' =
     (case t of
        GT_point \<Rightarrow> cmap G_point (decode_coordinate c)
      | GT_multi_point \<Rightarrow> cmap G_multi_point (decode_coordinates c)
      | GT_line_string \<Rightarrow> cmap G_line_string (decode_coordinates c)
      | GT_multi_line_string \<Rightarrow> cmap G_multi_line_string (decode_each decode_coordinates c)
      | GT_polygon \<Rightarrow> cmap G_polygon (decode_polygon c)
      | GT_multi_polygon \<Rightarrow> cmap G_multi_polygon (decode_each decode_polygon c)
      | GT_geometry_collection \<Rightarrow> cmap G_collection (cmapM decode_geometry (json_elements c))
      | GT_invalid \<Rightarrow> UB)"
proof -
  have "json_find ''type'' j' = Some (encode_geometry_type t)" "json_find ''coordinates'' j' = Some c"
    using json_find_set [OF assms(1)] json_find_set [OF assms(2)] by simp_all
  then have sub: "json_subscript ''type'' j' = Ret (encode_geometry_type t)"
    "json_subscript ''coordinates'' j' = Ret c"
    by (simp_all add: json_subscript_found)
  have "decode_geometry_type (encode_geometry_type t) = Ret t"
    using assms(3) by (cases t) (simp_all add: decode_geometry_type_def encode_geometry_type_def json_get_string_def)
  with sub show ?thesis by (subst decode_geometry.simps) simp
qed

lemma codec_document:
  assumes "codec_pair enc dec rd x" "t \<noteq> GT_invalid"
    and "encode_geometry g = cbind (json_set ''type'' (encode_geometry_type t) J_null) (with_coordinates (enc x))"
    and "\<And>c. (case t of
        GT_point \<Rightarrow> cmap G_point (decode_coordinate c)
      | GT_multi_point \<Rightarrow> cmap G_multi_point (decode_coordinates c)
      | GT_line_string \<Rightarrow> cmap G_line_string (decode_coordinates c)
      | GT_multi_line_string \<Rightarrow> cmap G_multi_line_string (decode_each decode_coordinates c)
      | GT_polygon \<Rightarrow> cmap G_polygon (decode_polygon c)
      | GT_multi_polygon \<Rightarrow> cmap G_multi_polygon (decode_each decode_polygon c)
      | GT_geometry_collection \<Rightarrow> cmap G_collection (cmapM decode_geometry (json_elements c))
      | GT_invalid \<Rightarrow> UB) = cmap con (dec c)"
  shows "\<exists>j. encode_geometry g = Ret j \<and> decode_geometry j = Ret (con (rd x))"
proof -
  obtain c where c: "enc x = Ret c" "dec c = Ret (rd x)" using assms(1) by (auto simp: codec_pair_def)
  define j where "j = J_object [(''type'', encode_geometry_type t)]"
  have j: "json_set ''type'' (encode_geometry_type t) J_null = Ret j" by (simp add: json_set_def j_def)
  obtain j' where j': "json_set ''coordinates'' c j = Ret j'" by (simp add: json_set_def j_def)
  have "encode_geometry g = Ret j'" by (simp add: assms(3) j with_coordinates_def c(1) j')
  moreover have "decode_geometry j' = cmap con (dec c)"
    using decode_geometry_document [OF j j' assms(2)] assms(4) [of c] by simp
  ultimately show ?thesis by (simp add: c(2) cmap_def)
qed

lemma codec_geometry:
  assumes "geometry_valid g"
  shows "codec_pair encode_geometry decode_geometry geometry_as_read g"
  unfolding codec_pair_def
  using assms
proof (induction g)
  case (G_point c)
  show ?case
    using codec_document [OF codec_coordinate, of GT_point "G_point c" c G_point]
    by (simp add: encode_geometry.simps)
next
  case (G_multi_point cs)
  show ?case
    using codec_document [OF codec_coordinates, of GT_multi_point "G_multi_point cs" cs G_multi_point]
    by (simp add: encode_geometry.simps)
next
  case (G_line_string cs)
  show ?case
    using codec_document [OF codec_coordinates, of GT_line_string "G_line_string cs" cs G_line_string]
    by (simp add: encode_geometry.simps)
next
  case (G_multi_line_string ls)
  show ?case
    using codec_document [OF codec_pair_each [OF codec_coordinates], of GT_multi_line_string
        "G_multi_line_string ls" ls G_multi_line_string]
    by (simp add: encode_geometry.simps)
next
  case (G_polygon p)
  show ?case
    using codec_document [OF codec_polygon, of GT_polygon "G_polygon p" p G_polygon]
    by (simp add: encode_geometry.simps)
next
  case (G_multi_polygon ps)
  show ?case
    using codec_document [OF codec_pair_each [OF codec_polygon], of GT_multi_polygon
        "G_multi_polygon ps" ps G_multi_polygon]
    by (simp add: encode_geometry.simps)
next
  case (G_collection gs)
  then have "codec_pair (encode_each encode_geometry) (decode_each decode_geometry) (map geometry_as_read) gs"
    by (intro codec_pair_each) (auto simp: codec_pair_def list_all_iff)
  from codec_document [OF this, of GT_geometry_collection "G_collection gs" G_collection]
  show ?case by (simp add: encode_geometry.simps encode_each_def decode_each_def)
qed simp

text \<open>
  C19. Every valid geometry, collections of collections included, is written without failure
  and read back as itself, except that every number has been rounded to a \<open>float\<close> and the
  elevation is gone: it comes back as the altitude where there was none.
\<close>

theorem geometry_json_round_trip:
  assumes "geometry_valid g"
  shows "\<exists>j. encode_geometry g = Ret j \<and> decode_geometry j = Ret (geometry_as_read g)"
  using codec_geometry [OF assms] by (simp add: codec_pair_def)

definition collection0 :: geometry where
  "collection0 =
     G_collection [G_multi_point [], G_point \<lparr>latitude = 0, longitude = 0, altitude = None, elevation = Some 0\<rparr>]"

theorem geometry_json_round_trip_witness:
  "\<exists>j. encode_geometry collection0 = Ret j \<and> decode_geometry j = Ret (geometry_as_read collection0)"
  by (rule geometry_json_round_trip) (simp add: collection0_def)

text \<open>A coordinate read back differs when it has no exact \<open>float\<close>: 0.1 comes back larger.\<close>

lemma tenth_as_read: "dbl_less (int_div_dbl 1 10) (as_float (int_div_dbl 1 10))"
  unfolding as_float_def float_of_tenth dbl_tenth
  by (simp add: rounding_defs bitlen.simps dbl_less_def dbl_key_def)

text \<open>A name the decoder does not know makes it read an uninitialised enumerator.\<close>

lemma unknown_geometry_type:
  assumes "json_find ''type'' j = Some (J_string s)" "json_find ''coordinates'' j \<noteq> None"
    and "s \<notin> {''Point'', ''MultiPoint'', ''LineString'', ''MultiLineString'', ''Polygon'', ''MultiPolygon'',
                ''GeometryCollection''}"
  shows "decode_geometry j = UB"
  using json_subscript_found [OF assms(1)] assms(3)
  by (subst decode_geometry.simps) (simp add: decode_geometry_type_def json_get_string_def)

end
