(* ===== verification/Token_Json.thy ===== *)
theory Token_Json
  imports Json Token
begin

text \<open>
  The JSON codec of tokens (src/airmap/codec/json/token.cpp, chrono.cpp), with the helper
  \<open>get\<close> that reads a member if it is there (get.h), the codec of \<open>Optional\<close> (optional.h), and
  the conversion of texts to enumerators. Members that a decoder leaves uninitialised are
  undefined behaviour as soon as the decoded object is copied.
\<close>

subsection \<open>Members and enumerators\<close>

text \<open>\<open>get(to, j, key)\<close>: \<open>to\<close> keeps its value when the member is missing or null.\<close>

definition json_member :: "string \<Rightarrow> (json \<Rightarrow> 'a cpp) \<Rightarrow> 'a \<Rightarrow> json \<Rightarrow> 'a cpp" where
  "json_member k dec to j =
     (if 0 < json_count k j
      then cbind (json_at k j) (\<lambda>v. if v = J_null then Ret to else dec v)
      else Ret to)"

text \<open>The same for a member without an initial value.\<close>

definition json_member_uninit :: "string \<Rightarrow> (json \<Rightarrow> 'a cpp) \<Rightarrow> json \<Rightarrow> 'a cpp" where
  "json_member_uninit k dec j = cbind (json_member k (\<lambda>v. cmap Some (dec v)) None j) deref"

definition decode_optional :: "(json \<Rightarrow> 'a cpp) \<Rightarrow> json \<Rightarrow> 'a option cpp" where
  "decode_optional dec j = (if j = J_null then Ret None else cmap Some (dec j))"

text \<open>
  \<open>boost::lexical_cast\<close> to an enumeration: the text must be one word, and a word the operator
  does not know leaves the value-initialised enumerator.
\<close>

definition lexical_cast_enum :: "(string \<Rightarrow> 'e \<Rightarrow> 'e) \<Rightarrow> 'e \<Rightarrow> string \<Rightarrow> 'e cpp" where
  "lexical_cast_enum select zero s = (if is_word s then Ret (select s zero) else Throw Bad_lexical_cast)"

lemma json_member_found:
  "json_find k j = Some v \<Longrightarrow> v \<noteq> J_null \<Longrightarrow> json_member k dec to j = dec v"
  using json_count_find [of k j] json_at_found [of k j v] by (simp add: json_member_def)

lemma json_member_missing: "json_find k j = None \<Longrightarrow> json_member k dec to j = Ret to"
  using json_count_find [of k j] by (simp add: json_member_def)

lemma json_member_uninit_found:
  "json_find k j = Some v \<Longrightarrow> v \<noteq> J_null \<Longrightarrow> json_member_uninit k dec j = dec v"
  by (cases "dec v") (simp_all add: json_member_uninit_def json_member_found cmap_def)

lemma json_member_uninit_missing: "json_find k j = None \<Longrightarrow> json_member_uninit k dec j = UB"
  by (simp add: json_member_uninit_def json_member_missing)

text \<open>Objects written member by member.\<close>

definition json_object :: "(string \<times> json) list \<Rightarrow> json cpp" where
  "json_object kvs = cfold (\<lambda>(k, v). json_set k v) kvs J_null"

lemma json_find_null [simp]: "json_find k J_null = None"
  by (simp add: json_find_def)

definition json_open :: "json \<Rightarrow> bool" where
  "json_open j \<longleftrightarrow> j = J_null \<or> (\<exists>m. j = J_object m)"

lemma json_set_open:
  assumes "json_open j"
  shows "\<exists>m. json_set k v j = Ret (J_object m)"
  using assms by (auto simp: json_open_def json_set_def)

lemma json_object_general:
  assumes "json_open j"
  shows "\<exists>j'. cfold (\<lambda>(k, v). json_set k v) kvs j = Ret j' \<and> json_open j' \<and>
           (\<forall>k. json_find k j' = (case map_of (rev kvs) k of None \<Rightarrow> json_find k j | v \<Rightarrow> v))"
  using assms
proof (induction kvs arbitrary: j)
  case (Cons e kvs)
  obtain k v where e: "e = (k, v)" by (cases e)
  obtain m where m: "json_set k v j = Ret (J_object m)" using json_set_open [OF Cons.prems] by blast
  have "json_open (J_object m)" by (simp add: json_open_def)
  from Cons.IH [OF this] obtain j' where
    "cfold (\<lambda>(k, v). json_set k v) kvs (J_object m) = Ret j'" "json_open j'"
    "\<forall>k. json_find k j' = (case map_of (rev kvs) k of None \<Rightarrow> json_find k (J_object m) | v \<Rightarrow> v)"
    by blast
  then show ?case
    using m json_find_set [OF m] by (auto simp: e map_add_def split: option.splits)
qed auto

lemma json_object_find:
  assumes "kvs \<noteq> []"
  obtains j where "json_object kvs = Ret j" "j \<noteq> J_null" "\<And>k. json_find k j = map_of (rev kvs) k"
proof -
  have "json_open J_null" by (simp add: json_open_def)
  from json_object_general [OF this, of kvs] obtain j where j: "json_object kvs = Ret j"
    "\<And>k. json_find k j = map_of (rev kvs) k"
    by (force simp: json_object_def split: option.splits)
  have "map_of (rev kvs) (fst (hd kvs)) \<noteq> None"
    using assms by (cases kvs) (auto simp: map_of_eq_None_iff)
  with j have "j \<noteq> J_null" by (metis json_find_null)
  with j that show thesis by blast
qed

subsection \<open>Decoding\<close>

definition decode_token_type :: "json \<Rightarrow> token_type cpp" where
  "decode_token_type j = cbind (json_get_string j) (lexical_cast_enum token_type_select TT_unknown)"

text \<open>Another text leaves the enumerator uninitialised.\<close>

definition decode_oauth_type :: "json \<Rightarrow> oauth_type cpp" where
  "decode_oauth_type j =
     cbind (json_get_string j) (\<lambda>t. if t = ''bearer'' \<or> t = ''Bearer'' then Ret Bearer else UB)"

definition decode_anonymous :: "json \<Rightarrow> anonymous_token cpp" where
  "decode_anonymous j =
     cbind (json_member ''id_token'' json_get_string [] j) (\<lambda>i. Ret \<lparr>anon_id = i\<rparr>)"

definition decode_oauth :: "json \<Rightarrow> oauth_token cpp" where
  "decode_oauth j =
     cbind (json_member ''refresh_token'' json_get_string [] j) (\<lambda>r.
     cbind (json_member ''id_token'' json_get_string [] j) (\<lambda>i.
     cbind (json_member ''access_token'' json_get_string [] j) (\<lambda>a.
     cbind (json_member_uninit ''token_type'' decode_oauth_type j) (\<lambda>t.
       Ret \<lparr>oauth_kind = t, oauth_refresh = r, oauth_id = i, oauth_access = a\<rparr>))))"

text \<open>\<open>std::chrono::seconds{j.get<std::uint64_t>()}\<close> keeps the 64 bits.\<close>

definition decode_seconds :: "json \<Rightarrow> 64 word cpp" where
  "decode_seconds j = json_get_uint64 j"

definition decode_refreshed :: "json \<Rightarrow> refreshed_token cpp" where
  "decode_refreshed j =
     cbind (json_member_uninit ''token_type'' decode_oauth_type j) (\<lambda>t.
     cbind (json_member_uninit ''expires_in'' decode_seconds j) (\<lambda>e.
     cbind (json_member ''id_token'' json_get_string [] j) (\<lambda>i.
     cbind (json_member ''original_token'' (decode_optional decode_oauth) None j) (\<lambda>ot.
       Ret \<lparr>refreshed_kind = t, expires_in = e, refreshed_id = i, original_token = ot\<rparr>))))"

text \<open>\<open>None\<close>: a token of unknown type.\<close>

definition decode_token :: "json \<Rightarrow> token option cpp" where
  "decode_token j =
     cbind (cbind (json_subscript ''type'' j) decode_token_type) (\<lambda>t.
       case t of
         TT_anonymous \<Rightarrow>
           cbind (cbind (json_subscript ''anonymous'' j) decode_anonymous) (\<lambda>x. Ret (Some (Tok_anonymous x)))
       | TT_oauth \<Rightarrow>
           cbind (cbind (json_subscript ''oauth'' j) decode_oauth) (\<lambda>x. Ret (Some (Tok_oauth x)))
       | TT_refreshed \<Rightarrow>
           cbind (cbind (json_subscript ''refreshed'' j) decode_refreshed) (\<lambda>x. Ret (Some (Tok_refreshed x)))
       | TT_unknown \<Rightarrow> Ret None)"

subsection \<open>Encoding\<close>

definition encode_oauth_type :: "oauth_type \<Rightarrow> json" where
  "encode_oauth_type t = (case t of Bearer \<Rightarrow> J_string ''bearer'')"

definition encode_anonymous :: "anonymous_token \<Rightarrow> json cpp" where
  "encode_anonymous t = json_object [(''id_token'', J_string (anon_id t))]"

definition encode_oauth :: "oauth_token \<Rightarrow> json cpp" where
  "encode_oauth t = json_object
     [(''refresh_token'', J_string (oauth_refresh t)), (''id_token'', J_string (oauth_id t)),
      (''access_token'', J_string (oauth_access t)), (''token_type'', encode_oauth_type (oauth_kind t))]"

definition encode_refreshed :: "refreshed_token \<Rightarrow> json cpp" where
  "encode_refreshed t =
     cbind (json_object
       [(''token_type'', encode_oauth_type (refreshed_kind t)), (''expires_in'', J_integer (expires_in t)),
        (''id_token'', J_string (refreshed_id t))]) (\<lambda>j.
       case original_token t of
         None \<Rightarrow> Ret j
       | Some ot \<Rightarrow> cbind (encode_oauth ot) (\<lambda>v. json_set ''original_token'' v j))"

definition encode_token :: "token option \<Rightarrow> json cpp" where
  "encode_token t =
     (let kind = (case t of None \<Rightarrow> TT_unknown | Some x \<Rightarrow> token_kind x)
      in cbind (json_set ''type'' (J_string (token_type_text kind)) J_null) (\<lambda>j.
           case t of
             None \<Rightarrow> Ret j
           | Some (Tok_anonymous x) \<Rightarrow> cbind (encode_anonymous x) (\<lambda>v. json_set ''anonymous'' v j)
           | Some (Tok_oauth x) \<Rightarrow> cbind (encode_oauth x) (\<lambda>v. json_set ''oauth'' v j)
           | Some (Tok_refreshed x) \<Rightarrow> cbind (encode_refreshed x) (\<lambda>v. json_set ''refreshed'' v j)))"

subsection \<open>Round trip\<close>

lemma decode_token_type_text: "decode_token_type (J_string (token_type_text t)) = Ret t"
  by (simp add: decode_token_type_def json_get_string_def lexical_cast_enum_def
      token_type_io.text_word token_type_io.select_text)

lemma decode_oauth_type_encode [simp]: "decode_oauth_type (encode_oauth_type t) = Ret t"
  by (cases t) (simp add: decode_oauth_type_def encode_oauth_type_def json_get_string_def)

lemma encode_oauth_type_not_null [simp]: "encode_oauth_type t \<noteq> J_null"
  by (cases t) (simp add: encode_oauth_type_def)

lemma get_string_simp [simp]: "json_get_string (J_string s) = Ret s"
  by (simp add: json_get_string_def)

lemma anonymous_round_trip:
  obtains j where "encode_anonymous t = Ret j" "decode_anonymous j = Ret t"
proof -
  obtain j where j: "encode_anonymous t = Ret j" "\<And>k. json_find k j = (if k = ''id_token'' then Some (J_string (anon_id t)) else None)"
    unfolding encode_anonymous_def
    by (rule json_object_find [of "[(''id_token'', J_string (anon_id t))]"]) auto
  then have "decode_anonymous j = Ret t" by (simp add: decode_anonymous_def json_member_found)
  with j(1) that show thesis by blast
qed

lemma oauth_round_trip:
  obtains j where "encode_oauth t = Ret j" "j \<noteq> J_null" "decode_oauth j = Ret t"
proof -
  let ?m = "[(''refresh_token'', J_string (oauth_refresh t)), (''id_token'', J_string (oauth_id t)),
      (''access_token'', J_string (oauth_access t)), (''token_type'', encode_oauth_type (oauth_kind t))]"
  obtain j where j: "encode_oauth t = Ret j" "j \<noteq> J_null" "\<And>k. json_find k j = map_of (rev ?m) k"
    unfolding encode_oauth_def by (rule json_object_find [of ?m]) auto
  then have "decode_oauth j = Ret t"
    by (simp add: decode_oauth_def json_member_found json_member_uninit_found)
  with j that show thesis by blast
qed

lemma refreshed_round_trip:
  obtains j where "encode_refreshed t = Ret j" "decode_refreshed j = Ret t"
proof -
  let ?m = "[(''token_type'', encode_oauth_type (refreshed_kind t)), (''expires_in'', J_integer (expires_in t)),
        (''id_token'', J_string (refreshed_id t))]"
  obtain j where j: "json_object ?m = Ret j" "j \<noteq> J_null" "\<And>k. json_find k j = map_of (rev ?m) k"
    by (rule json_object_find [of ?m]) auto
  have decoded: "decode_refreshed j' = Ret t"
    if "\<And>k. k \<noteq> ''original_token'' \<Longrightarrow> json_find k j' = map_of (rev ?m) k"
      and "json_member ''original_token'' (decode_optional decode_oauth) None j' = Ret (original_token t)" for j'
    using that by (simp add: decode_refreshed_def json_member_found json_member_uninit_found
        decode_seconds_def json_get_uint64_def)
  show thesis
  proof (cases "original_token t")
    case None
    with j(3) have "json_member ''original_token'' (decode_optional decode_oauth) None j = Ret (original_token t)"
      by (simp add: json_member_missing)
    with decoded [of j] j have "decode_refreshed j = Ret t" by simp
    with j(1) None that [of j] show thesis by (simp add: encode_refreshed_def)
  next
    case (Some ot)
    obtain v where v: "encode_oauth ot = Ret v" "v \<noteq> J_null" "decode_oauth v = Ret ot"
      by (rule oauth_round_trip)
    have "\<exists>m. j = J_object m"
      using j(1) json_object_general [of J_null ?m] j(2) by (auto simp: json_open_def json_object_def)
    then obtain j' where j': "json_set ''original_token'' v j = Ret j'" by (auto simp: json_set_def)
    have "json_member ''original_token'' (decode_optional decode_oauth) None j' = Ret (original_token t)"
      using json_find_set [OF j'] v Some by (simp add: json_member_found decode_optional_def cmap_def)
    with decoded [of j'] j(3) json_find_set [OF j'] have "decode_refreshed j' = Ret t" by simp
    with j(1) j' v(1) Some that [of j'] show thesis by (simp add: encode_refreshed_def)
  qed
qed

lemma token_document:
  assumes "json_set ''type'' (J_string (token_type_text k)) J_null = Ret j" "json_set key v j = Ret j'"
    and "key \<noteq> ''type''"
  shows "json_subscript ''type'' j' = Ret (J_string (token_type_text k))" "json_subscript key j' = Ret v"
  using assms(3) json_find_set [OF assms(1)] json_find_set [OF assms(2)]
  by (simp_all add: json_subscript_found)

lemmas token_type_names =
  decode_token_type_text [of TT_anonymous, simplified] decode_token_type_text [of TT_oauth, simplified]
  decode_token_type_text [of TT_refreshed, simplified] decode_token_type_text [of TT_unknown, simplified]

text \<open>
  C20. Every token, of whatever type and with or without the token it was refreshed from, is
  read back from its JSON document as it was.
\<close>

theorem token_json_round_trip: "\<exists>j. encode_token t = Ret j \<and> decode_token j = Ret t"
proof -
  have set0: "json_set ''type'' v J_null = Ret (J_object [(''type'', v)])" for v by (simp add: json_set_def)
  have set1: "\<exists>j'. json_set key v (J_object m) = Ret j'" for key v m by (simp add: json_set_def)
  show ?thesis
  proof (cases t)
    case None
    have "json_find ''type'' (J_object [(''type'', v)]) = Some v" for v
      using json_find_set [OF set0] by simp
    then show ?thesis
      by (simp add: None encode_token_def set0 decode_token_def json_subscript_found
          token_type_names)
  next
    case (Some x)
    show ?thesis
    proof (cases x)
      case (Tok_anonymous a)
      obtain v where v: "encode_anonymous a = Ret v" "decode_anonymous v = Ret a" by (rule anonymous_round_trip)
      obtain j' where j': "json_set ''anonymous'' v (J_object [(''type'', J_string (token_type_text TT_anonymous))]) = Ret j'"
        using set1 by blast
      from token_document [OF set0 j'] v j' show ?thesis
        by (simp add: Some Tok_anonymous encode_token_def set0 decode_token_def token_type_names)
    next
      case (Tok_oauth a)
      obtain v where v: "encode_oauth a = Ret v" "decode_oauth v = Ret a" by (rule oauth_round_trip)
      obtain j' where j': "json_set ''oauth'' v (J_object [(''type'', J_string (token_type_text TT_oauth))]) = Ret j'"
        using set1 by blast
      from token_document [OF set0 j'] v j' show ?thesis
        by (simp add: Some Tok_oauth encode_token_def set0 decode_token_def token_type_names)
    next
      case (Tok_refreshed a)
      obtain v where v: "encode_refreshed a = Ret v" "decode_refreshed v = Ret a" by (rule refreshed_round_trip)
      obtain j' where j': "json_set ''refreshed'' v (J_object [(''type'', J_string (token_type_text TT_refreshed))]) = Ret j'"
        using set1 by blast
      from token_document [OF set0 j'] v j' show ?thesis
        by (simp add: Some Tok_refreshed encode_token_def set0 decode_token_def token_type_names)
    qed
  qed
qed

text \<open>A token without a type, or with one that is not bearer, cannot be read.\<close>

lemma oauth_without_type: "json_find ''token_type'' j = None \<Longrightarrow> decode_oauth j \<noteq> Ret t"
  by (auto simp: decode_oauth_def cbind_eq_Ret json_member_uninit_missing)

end
