(* ===== verification/Telemetry_Messages.thy ===== *)
theory Telemetry_Messages
  imports Byte_Strings Float64
begin

text \<open>
  The messages of telemetry.proto as the generated code writes, measures and reads them
  (src/airmap/pregenerated/telemetry.pb.cc). A member equal to zero is not written; the reader
  starts from zeros and walks over tagged fields in any order. What the library does with a
  field of another message (\<open>WireFormat::SkipField\<close>) is a parameter: how many bytes it skips,
  or that it fails.
\<close>

subsection \<open>Fields\<close>

datatype pb_value =
    PB_uint64 "64 word"
  | PB_double double
  | PB_float float32

definition flt_mag :: "float32 \<Rightarrow> nat" where
  "flt_mag x = unat x mod 2 ^ 31"

text \<open>\<open>x == 0\<close>, which holds for both zeros of a floating point type.\<close>

fun pb_is_zero :: "pb_value \<Rightarrow> bool" where
  "pb_is_zero (PB_uint64 w) = (w = 0)"
| "pb_is_zero (PB_double x) = (dbl_mag x = 0)"
| "pb_is_zero (PB_float x) = (flt_mag x = 0)"

fun pb_zero_like :: "pb_value \<Rightarrow> pb_value" where
  "pb_zero_like (PB_uint64 _) = PB_uint64 0"
| "pb_zero_like (PB_double _) = PB_double 0"
| "pb_zero_like (PB_float _) = PB_float 0"

fun pb_wire_type :: "pb_value \<Rightarrow> nat" where
  "pb_wire_type (PB_uint64 _) = 0"
| "pb_wire_type (PB_double _) = 1"
| "pb_wire_type (PB_float _) = 5"

fun pb_value_bytes :: "pb_value \<Rightarrow> bytes" where
  "pb_value_bytes (PB_uint64 w) = varint (unat w)"
| "pb_value_bytes (PB_double x) = le_bytes 8 (unat x)"
| "pb_value_bytes (PB_float x) = le_bytes 4 (unat x)"

text \<open>\<open>ReadPrimitive\<close> of the type of the given value.\<close>

fun pb_read :: "pb_value \<Rightarrow> bytes \<Rightarrow> (pb_value \<times> bytes) option" where
  "pb_read (PB_uint64 _) bs = map_option (\<lambda>(n, r). (PB_uint64 (word_of_nat n), r)) (read_varint 10 bs)"
| "pb_read (PB_double _) bs = map_option (\<lambda>(x, r). (PB_double (word_of_nat (le_value x)), r)) (take_bytes 8 bs)"
| "pb_read (PB_float _) bs = map_option (\<lambda>(x, r). (PB_float (word_of_nat (le_value x)), r)) (take_bytes 4 bs)"

lemma pb_read_length: "pb_read k bs = Some (v, rest) \<Longrightarrow> length rest \<le> length bs"
  using read_varint_length
  by (cases k) (auto simp: take_bytes_def split: if_splits dest!: read_varint_length)

definition pb_put :: "nat \<Rightarrow> pb_value \<Rightarrow> bytes" where
  "pb_put i v = (if pb_is_zero v then [] else varint (8 * i + pb_wire_type v) @ pb_value_bytes v)"

fun pb_put_all :: "nat \<Rightarrow> pb_value list \<Rightarrow> bytes" where
  "pb_put_all i [] = []"
| "pb_put_all i (v # vs) = pb_put i v @ pb_put_all (Suc i) vs"

text \<open>The loop of \<open>MergePartialFromCodedStream\<close>; \<open>vs\<close> are the members in the order of their numbers.\<close>

function pb_parse :: "(nat \<Rightarrow> bytes \<Rightarrow> nat option) \<Rightarrow> bytes \<Rightarrow> pb_value list \<Rightarrow> pb_value list option" where
  "pb_parse skip bs vs =
     (case read_varint 10 bs of
        None \<Rightarrow> Some vs
      | Some (n, rest) \<Rightarrow>
          (let t = n mod 2 ^ 32; i = t div 8
           in if t = 0 then Some vs
              else if t \<le> 127 \<and> 1 \<le> i \<and> i \<le> length vs \<and> t = 8 * i + pb_wire_type (vs ! (i - 1))
              then (case pb_read (vs ! (i - 1)) rest of
                      None \<Rightarrow> None
                    | Some (v, rest') \<Rightarrow> pb_parse skip rest' (vs[i - 1 := v]))
              else (case skip t rest of
                      None \<Rightarrow> None
                    | Some k \<Rightarrow> pb_parse skip (drop k rest) vs)))"
  by pat_completeness auto

termination
proof (relation "measure (\<lambda>(_, bs, _). length bs)")
  fix skip bs vs x n rest t i x2 v rest'
  assume "read_varint 10 bs = Some x" "(n, rest) = x"
    and "pb_read (vs ! (i - 1)) rest = Some x2" "(v, rest') = x2"
  then have "length rest < length bs" "length rest' \<le> length rest"
    using read_varint_length [of 10 bs n rest] pb_read_length [of "vs ! (i - 1)" rest v rest'] by auto
  then show "((skip, rest', vs[i - 1 := v]), skip, bs, vs) \<in> measure (\<lambda>(_, bs, _). length bs)" by simp
next
  fix skip bs vs x n rest t k
  assume "read_varint 10 bs = Some x" "(n, rest) = x"
  then have "length rest < length bs" using read_varint_length by blast
  then show "((skip, drop k rest, vs), skip, bs, vs) \<in> measure (\<lambda>(_, bs, _). length bs)" by simp
qed simp

declare pb_parse.simps [simp del]

text \<open>\<open>ByteSizeLong\<close>: what a member adds to the size.\<close>

fun varint_size :: "nat \<Rightarrow> nat" where
  "varint_size n = (if n < 128 then 1 else 1 + varint_size (n div 128))"

declare varint_size.simps [simp del]

fun pb_value_size :: "pb_value \<Rightarrow> nat" where
  "pb_value_size (PB_uint64 w) = varint_size (unat w)"
| "pb_value_size (PB_double _) = 8"
| "pb_value_size (PB_float _) = 4"

definition pb_size :: "pb_value \<Rightarrow> nat" where
  "pb_size v = (if pb_is_zero v then 0 else 1 + pb_value_size v)"

lemma unat_varint: "unat w < 128 ^ 10" for w :: "64 word"
proof -
  have "unat w < 2 ^ LENGTH(64)" by (rule unsigned_less)
  also have "\<dots> < (128 :: nat) ^ 10" by simp
  finally show ?thesis .
qed

lemma varint_size_eq: "length (varint n) = varint_size n"
  by (induction n rule: varint_size.induct) (simp add: varint.simps varint_size.simps)

lemma varint_tag [simp]: "n < 128 \<Longrightarrow> varint n = [word_of_nat n]"
  by (simp add: varint.simps)

lemma pb_put_size: "0 < i \<Longrightarrow> i \<le> 15 \<Longrightarrow> length (pb_put i v) = pb_size v"
  by (cases v) (simp_all add: pb_put_def pb_size_def varint_size_eq)

lemma pb_put_all_size:
  "0 < i \<Longrightarrow> i + length vs \<le> 16 \<Longrightarrow> length (pb_put_all i vs) = sum_list (map pb_size vs)"
  by (induction vs arbitrary: i) (simp_all add: pb_put_size)

lemma pb_size_bound: "pb_size v \<le> (case v of PB_uint64 _ \<Rightarrow> 11 | PB_double _ \<Rightarrow> 9 | PB_float _ \<Rightarrow> 5)"
proof (cases v)
  case (PB_uint64 w)
  have "unat w < 128 ^ 10" by (rule unat_varint)
  then have "varint_size (unat w) \<le> 10" using length_varint_le [of "unat w" 10] by (simp add: varint_size_eq)
  with PB_uint64 show ?thesis by (simp add: pb_size_def)
qed (simp_all add: pb_size_def)

subsection \<open>Reading back\<close>

definition pb_settle :: "pb_value \<Rightarrow> pb_value" where
  "pb_settle v = (if pb_is_zero v then pb_zero_like v else v)"

definition pb_same_kind :: "pb_value \<Rightarrow> pb_value \<Rightarrow> bool" where
  "pb_same_kind v w \<longleftrightarrow> pb_zero_like v = pb_zero_like w"

lemma pb_same_kindD:
  "pb_same_kind k v \<Longrightarrow> pb_wire_type k = pb_wire_type v \<and> pb_read k bs = pb_read v bs"
  by (cases k; cases v) (simp_all add: pb_same_kind_def)

lemma pb_read_value: "pb_read v (pb_value_bytes v @ bs) = Some (v, bs)"
proof (cases v)
  case (PB_uint64 w)
  have "unat w < 128 ^ 10" by (rule unat_varint)
  then show ?thesis by (simp add: PB_uint64 read_varint_varint)
next
  case (PB_double x)
  have "unat x < 2 ^ LENGTH(64)" by (rule unsigned_less)
  then show ?thesis by (simp add: PB_double take_bytes_append)
next
  case (PB_float x)
  have "unat x < 2 ^ LENGTH(32)" by (rule unsigned_less)
  then show ?thesis by (simp add: PB_float take_bytes_append)
qed

lemma read_varint_Nil [simp]: "read_varint k [] = None"
  by (cases k) simp_all

lemma read_varint_one: "t < 128 \<Longrightarrow> read_varint 10 (word_of_nat t # r) = Some (t, r)"
  using unat_small_byte [of t] read_varint.simps(3) [of 9 "word_of_nat t" r] by (simp del: read_varint.simps)

lemma pb_parse_step:
  assumes "i = Suc (length pre)" "i \<le> 15" "pb_same_kind k v" "\<not> pb_is_zero v"
  shows "pb_parse skip (pb_put i v @ bs) (pre @ k # post) = pb_parse skip bs (pre @ v # post)"
proof -
  let ?t = "8 * i + pb_wire_type v"
  have w: "pb_wire_type v \<le> 5" by (cases v) simp_all
  have t: "?t < 128" "?t div 8 = i" "?t \<noteq> 0" using assms(1,2) w by auto
  have bytes: "pb_put i v @ bs = word_of_nat ?t # pb_value_bytes v @ bs"
    using assms(4) t(1) by (simp add: pb_put_def)
  have "read_varint 10 (pb_put i v @ bs) = Some (?t, pb_value_bytes v @ bs)"
    unfolding bytes by (rule read_varint_one [OF t(1)])
  moreover have "?t mod 2 ^ 32 = ?t" using t(1) by simp
  moreover have "(pre @ k # post) ! (i - 1) = k" "(pre @ k # post)[i - 1 := v] = pre @ v # post"
    using assms(1) by simp_all
  ultimately show ?thesis
    using t assms(1,2) pb_same_kindD [OF assms(3), of "pb_value_bytes v @ bs"] pb_read_value [of v bs]
    by (subst pb_parse.simps) (simp add: Let_def)
qed

lemma pb_parse_put_all:
  assumes "i = Suc (length pre)" "i + length vs \<le> 16" "map pb_zero_like vs = zs"
  shows "pb_parse skip (pb_put_all i vs) (pre @ zs) = Some (pre @ map pb_settle vs)"
  using assms
proof (induction vs arbitrary: i pre zs)
  case Nil
  then show ?case by (subst pb_parse.simps) simp
next
  case (Cons v vs)
  obtain zs' where zs: "zs = pb_zero_like v # zs'" "map pb_zero_like vs = zs'" using Cons.prems(3) by auto
  have IH: "pb_parse skip (pb_put_all (Suc i) vs) ((pre @ [x]) @ zs') = Some ((pre @ [x]) @ map pb_settle vs)" for x
    by (rule Cons.IH) (use Cons.prems zs in simp_all)
  show ?case
  proof (cases "pb_is_zero v")
    case True
    with IH [of "pb_zero_like v"] show ?thesis by (simp add: pb_put_def pb_settle_def zs)
  next
    case False
    have "pb_same_kind (pb_zero_like v) v" by (cases v) (simp_all add: pb_same_kind_def)
    from pb_parse_step [OF Cons.prems(1) _ this False, of skip "pb_put_all (Suc i) vs" zs'] IH [of v] False
    show ?thesis using Cons.prems(2) by (simp add: zs pb_settle_def)
  qed
qed

subsection \<open>The messages\<close>

text \<open>
  Each message with its members as a list, what \<open>Clear\<close> leaves, writing, the size, and reading.
\<close>

record pb_position =
  pp_timestamp :: "64 word"
  pp_latitude :: double
  pp_longitude :: double
  pp_altitude_agl :: float32
  pp_altitude_msl :: float32
  pp_horizontal_accuracy :: float32

definition position_values :: "pb_position \<Rightarrow> pb_value list" where
  "position_values m = [PB_uint64 (pp_timestamp m), PB_double (pp_latitude m), PB_double (pp_longitude m), PB_float (pp_altitude_agl m), PB_float (pp_altitude_msl m), PB_float (pp_horizontal_accuracy m)]"

definition position_cleared :: pb_position where
  "position_cleared = \<lparr>pp_timestamp = 0, pp_latitude = 0, pp_longitude = 0, pp_altitude_agl = 0, pp_altitude_msl = 0, pp_horizontal_accuracy = 0\<rparr>"

fun position_of_values :: "pb_value list \<Rightarrow> pb_position option" where
  "position_of_values [PB_uint64 a, PB_double b, PB_double c, PB_float d, PB_float e, PB_float f] = Some \<lparr>pp_timestamp = a, pp_latitude = b, pp_longitude = c, pp_altitude_agl = d, pp_altitude_msl = e, pp_horizontal_accuracy = f\<rparr>"
| "position_of_values _ = None"

definition serialize_position :: "pb_position \<Rightarrow> bytes" where
  "serialize_position m =
     pb_put 1 (PB_uint64 (pp_timestamp m)) @
     pb_put 2 (PB_double (pp_latitude m)) @
     pb_put 3 (PB_double (pp_longitude m)) @
     pb_put 4 (PB_float (pp_altitude_agl m)) @
     pb_put 5 (PB_float (pp_altitude_msl m)) @
     pb_put 6 (PB_float (pp_horizontal_accuracy m))"

definition position_byte_size :: "pb_position \<Rightarrow> nat" where
  "position_byte_size m =
     pb_size (PB_uint64 (pp_timestamp m)) +
     pb_size (PB_double (pp_latitude m)) +
     pb_size (PB_double (pp_longitude m)) +
     pb_size (PB_float (pp_altitude_agl m)) +
     pb_size (PB_float (pp_altitude_msl m)) +
     pb_size (PB_float (pp_horizontal_accuracy m))"

definition parse_position :: "(nat \<Rightarrow> bytes \<Rightarrow> nat option) \<Rightarrow> bytes \<Rightarrow> pb_position option" where
  "parse_position skip bs =
     Option.bind (pb_parse skip bs (position_values position_cleared)) position_of_values"

lemma serialize_position_eq: "serialize_position m = pb_put_all 1 (position_values m)"
  by (simp add: serialize_position_def position_values_def numeral_eq_Suc)

lemma parse_serialize_position:
  "parse_position skip (serialize_position m) = position_of_values (map pb_settle (position_values m))"
  using pb_parse_put_all [of 1 "[]" "position_values m" "position_values position_cleared" skip]
  by (simp add: parse_position_def serialize_position_eq position_values_def position_cleared_def)

lemma position_size:
  "length (serialize_position m) = position_byte_size m" "position_byte_size m \<le> 44"
  using pb_put_all_size [of 1 "position_values m"]
    pb_size_bound [of "PB_uint64 (pp_timestamp m)"] pb_size_bound [of "PB_double (pp_latitude m)"] pb_size_bound [of "PB_double (pp_longitude m)"] pb_size_bound [of "PB_float (pp_altitude_agl m)"] pb_size_bound [of "PB_float (pp_altitude_msl m)"] pb_size_bound [of "PB_float (pp_horizontal_accuracy m)"]
  by (simp_all add: serialize_position_eq position_values_def position_byte_size_def)

record pb_attitude =
  pa_timestamp :: "64 word"
  pa_yaw :: float32
  pa_pitch :: float32
  pa_roll :: float32

definition attitude_values :: "pb_attitude \<Rightarrow> pb_value list" where
  "attitude_values m = [PB_uint64 (pa_timestamp m), PB_float (pa_yaw m), PB_float (pa_pitch m), PB_float (pa_roll m)]"

definition attitude_cleared :: pb_attitude where
  "attitude_cleared = \<lparr>pa_timestamp = 0, pa_yaw = 0, pa_pitch = 0, pa_roll = 0\<rparr>"

fun attitude_of_values :: "pb_value list \<Rightarrow> pb_attitude option" where
  "attitude_of_values [PB_uint64 a, PB_float b, PB_float c, PB_float d] = Some \<lparr>pa_timestamp = a, pa_yaw = b, pa_pitch = c, pa_roll = d\<rparr>"
| "attitude_of_values _ = None"

definition serialize_attitude :: "pb_attitude \<Rightarrow> bytes" where
  "serialize_attitude m =
     pb_put 1 (PB_uint64 (pa_timestamp m)) @
     pb_put 2 (PB_float (pa_yaw m)) @
     pb_put 3 (PB_float (pa_pitch m)) @
     pb_put 4 (PB_float (pa_roll m))"

definition attitude_byte_size :: "pb_attitude \<Rightarrow> nat" where
  "attitude_byte_size m =
     pb_size (PB_uint64 (pa_timestamp m)) +
     pb_size (PB_float (pa_yaw m)) +
     pb_size (PB_float (pa_pitch m)) +
     pb_size (PB_float (pa_roll m))"

definition parse_attitude :: "(nat \<Rightarrow> bytes \<Rightarrow> nat option) \<Rightarrow> bytes \<Rightarrow> pb_attitude option" where
  "parse_attitude skip bs =
     Option.bind (pb_parse skip bs (attitude_values attitude_cleared)) attitude_of_values"

lemma serialize_attitude_eq: "serialize_attitude m = pb_put_all 1 (attitude_values m)"
  by (simp add: serialize_attitude_def attitude_values_def numeral_eq_Suc)

lemma parse_serialize_attitude:
  "parse_attitude skip (serialize_attitude m) = attitude_of_values (map pb_settle (attitude_values m))"
  using pb_parse_put_all [of 1 "[]" "attitude_values m" "attitude_values attitude_cleared" skip]
  by (simp add: parse_attitude_def serialize_attitude_eq attitude_values_def attitude_cleared_def)

lemma attitude_size:
  "length (serialize_attitude m) = attitude_byte_size m" "attitude_byte_size m \<le> 26"
  using pb_put_all_size [of 1 "attitude_values m"]
    pb_size_bound [of "PB_uint64 (pa_timestamp m)"] pb_size_bound [of "PB_float (pa_yaw m)"] pb_size_bound [of "PB_float (pa_pitch m)"] pb_size_bound [of "PB_float (pa_roll m)"]
  by (simp_all add: serialize_attitude_eq attitude_values_def attitude_byte_size_def)

record pb_speed =
  ps_timestamp :: "64 word"
  ps_velocity_x :: float32
  ps_velocity_y :: float32
  ps_velocity_z :: float32

definition speed_values :: "pb_speed \<Rightarrow> pb_value list" where
  "speed_values m = [PB_uint64 (ps_timestamp m), PB_float (ps_velocity_x m), PB_float (ps_velocity_y m), PB_float (ps_velocity_z m)]"

definition speed_cleared :: pb_speed where
  "speed_cleared = \<lparr>ps_timestamp = 0, ps_velocity_x = 0, ps_velocity_y = 0, ps_velocity_z = 0\<rparr>"

fun speed_of_values :: "pb_value list \<Rightarrow> pb_speed option" where
  "speed_of_values [PB_uint64 a, PB_float b, PB_float c, PB_float d] = Some \<lparr>ps_timestamp = a, ps_velocity_x = b, ps_velocity_y = c, ps_velocity_z = d\<rparr>"
| "speed_of_values _ = None"

definition serialize_speed :: "pb_speed \<Rightarrow> bytes" where
  "serialize_speed m =
     pb_put 1 (PB_uint64 (ps_timestamp m)) @
     pb_put 2 (PB_float (ps_velocity_x m)) @
     pb_put 3 (PB_float (ps_velocity_y m)) @
     pb_put 4 (PB_float (ps_velocity_z m))"

definition speed_byte_size :: "pb_speed \<Rightarrow> nat" where
  "speed_byte_size m =
     pb_size (PB_uint64 (ps_timestamp m)) +
     pb_size (PB_float (ps_velocity_x m)) +
     pb_size (PB_float (ps_velocity_y m)) +
     pb_size (PB_float (ps_velocity_z m))"

definition parse_speed :: "(nat \<Rightarrow> bytes \<Rightarrow> nat option) \<Rightarrow> bytes \<Rightarrow> pb_speed option" where
  "parse_speed skip bs =
     Option.bind (pb_parse skip bs (speed_values speed_cleared)) speed_of_values"

lemma serialize_speed_eq: "serialize_speed m = pb_put_all 1 (speed_values m)"
  by (simp add: serialize_speed_def speed_values_def numeral_eq_Suc)

lemma parse_serialize_speed:
  "parse_speed skip (serialize_speed m) = speed_of_values (map pb_settle (speed_values m))"
  using pb_parse_put_all [of 1 "[]" "speed_values m" "speed_values speed_cleared" skip]
  by (simp add: parse_speed_def serialize_speed_eq speed_values_def speed_cleared_def)

lemma speed_size:
  "length (serialize_speed m) = speed_byte_size m" "speed_byte_size m \<le> 26"
  using pb_put_all_size [of 1 "speed_values m"]
    pb_size_bound [of "PB_uint64 (ps_timestamp m)"] pb_size_bound [of "PB_float (ps_velocity_x m)"] pb_size_bound [of "PB_float (ps_velocity_y m)"] pb_size_bound [of "PB_float (ps_velocity_z m)"]
  by (simp_all add: serialize_speed_eq speed_values_def speed_byte_size_def)

record pb_barometer =
  pb_timestamp :: "64 word"
  pb_pressure :: float32

definition barometer_values :: "pb_barometer \<Rightarrow> pb_value list" where
  "barometer_values m = [PB_uint64 (pb_timestamp m), PB_float (pb_pressure m)]"

definition barometer_cleared :: pb_barometer where
  "barometer_cleared = \<lparr>pb_timestamp = 0, pb_pressure = 0\<rparr>"

fun barometer_of_values :: "pb_value list \<Rightarrow> pb_barometer option" where
  "barometer_of_values [PB_uint64 a, PB_float b] = Some \<lparr>pb_timestamp = a, pb_pressure = b\<rparr>"
| "barometer_of_values _ = None"

definition serialize_barometer :: "pb_barometer \<Rightarrow> bytes" where
  "serialize_barometer m =
     pb_put 1 (PB_uint64 (pb_timestamp m)) @
     pb_put 2 (PB_float (pb_pressure m))"

definition barometer_byte_size :: "pb_barometer \<Rightarrow> nat" where
  "barometer_byte_size m =
     pb_size (PB_uint64 (pb_timestamp m)) +
     pb_size (PB_float (pb_pressure m))"

definition parse_barometer :: "(nat \<Rightarrow> bytes \<Rightarrow> nat option) \<Rightarrow> bytes \<Rightarrow> pb_barometer option" where
  "parse_barometer skip bs =
     Option.bind (pb_parse skip bs (barometer_values barometer_cleared)) barometer_of_values"

lemma serialize_barometer_eq: "serialize_barometer m = pb_put_all 1 (barometer_values m)"
  by (simp add: serialize_barometer_def barometer_values_def numeral_eq_Suc)

lemma parse_serialize_barometer:
  "parse_barometer skip (serialize_barometer m) = barometer_of_values (map pb_settle (barometer_values m))"
  using pb_parse_put_all [of 1 "[]" "barometer_values m" "barometer_values barometer_cleared" skip]
  by (simp add: parse_barometer_def serialize_barometer_eq barometer_values_def barometer_cleared_def)

lemma barometer_size:
  "length (serialize_barometer m) = barometer_byte_size m" "barometer_byte_size m \<le> 16"
  using pb_put_all_size [of 1 "barometer_values m"]
    pb_size_bound [of "PB_uint64 (pb_timestamp m)"] pb_size_bound [of "PB_float (pb_pressure m)"]
  by (simp_all add: serialize_barometer_eq barometer_values_def barometer_byte_size_def)

end
