(* ===== verification/Rest_Telemetry.thy ===== *)
theory Rest_Telemetry
  imports Telemetry_Messages Domain
begin

text \<open>
  Submission of telemetry (src/airmap/rest/telemetry.cpp): updates are serialized and framed,
  the frames are encrypted, and one datagram carries a counter, the flight, the
  initialization vector and the cipher text. OpenSSL and base64 are parameters. The reader of
  a datagram, \<open>receive\<close>, is the reference the sender is compared with.
\<close>

subsection \<open>Frames\<close>

text \<open>\<open>htons\<close> of a 16-bit integer in memory is its big endian bytes; both values are truncated.\<close>

definition frame_update :: "8 word \<Rightarrow> bytes \<Rightarrow> bytes" where
  "frame_update t message = be_bytes 2 (unat t) @ be_bytes 2 (length message) @ message"

fun update_message :: "telemetry_update \<Rightarrow> bytes" where
  "update_message (Update_position p) = serialize_position
     \<lparr>pp_timestamp = tp_timestamp p, pp_latitude = tp_latitude p, pp_longitude = tp_longitude p,
      pp_altitude_agl = float_of_dbl (tp_altitude_gl p), pp_altitude_msl = float_of_dbl (tp_altitude_msl p),
      pp_horizontal_accuracy = float_of_dbl (tp_horizontal_accuracy p)\<rparr>"
| "update_message (Update_speed s) = serialize_speed
     \<lparr>ps_timestamp = ts_timestamp s, ps_velocity_x = ts_velocity_x s, ps_velocity_y = ts_velocity_y s,
      ps_velocity_z = ts_velocity_z s\<rparr>"
| "update_message (Update_attitude a) = serialize_attitude
     \<lparr>pa_timestamp = ta_timestamp a, pa_yaw = ta_yaw a, pa_pitch = ta_pitch a, pa_roll = ta_roll a\<rparr>"
| "update_message (Update_barometer b) = serialize_barometer
     \<lparr>pb_timestamp = tb_timestamp b, pb_pressure = tb_pressure b\<rparr>"

fun telemetry_payload :: "telemetry_update list \<Rightarrow> bytes" where
  "telemetry_payload [] = []"
| "telemetry_payload (u # us) = frame_update (telemetry_update_type u) (update_message u) @ telemetry_payload us"

subsection \<open>Encryption\<close>

text \<open>The calls into OpenSSL, given the key and the vector they read: 32 and 16 bytes.\<close>

record evp =
  evp_new :: bool
  evp_init :: "bytes \<Rightarrow> bytes \<Rightarrow> bool"
  evp_update :: "bytes \<Rightarrow> bytes \<Rightarrow> bytes \<Rightarrow> bytes option"
  evp_final :: "bytes \<Rightarrow> bytes \<Rightarrow> bytes \<Rightarrow> bytes option"

text \<open>
  \<open>read_ahead n s\<close>: what a callee reads that is given \<open>s.data()\<close> and takes \<open>n\<close> bytes; the
  terminating zero is there, nothing behind it is.
\<close>

definition read_ahead :: "nat \<Rightarrow> bytes \<Rightarrow> bytes cpp" where
  "read_ahead n s = (if n \<le> length s + 1 then Ret (take n (s @ [0])) else UB)"

definition aes_encrypt ::
  "(string \<Rightarrow> bytes) \<Rightarrow> evp \<Rightarrow> bytes \<Rightarrow> string \<Rightarrow> bytes \<Rightarrow> bytes cpp" where
  "aes_encrypt base64_decode ssl message key iv =
     (if \<not> evp_new ssl then Throw (Runtime_error ''failed to create encryption context'')
      else cbind (read_ahead 32 (base64_decode key)) (\<lambda>k.
           cbind (read_ahead 16 iv) (\<lambda>v.
           if \<not> evp_init ssl k v then Throw (Runtime_error ''failed to initialize encryption context'')
           else let room = length message + 16
                in case evp_update ssl k v message of
                     None \<Rightarrow> Throw (Runtime_error ''failed to update encryption context for data'')
                   | Some a \<Rightarrow>
                       if room < length a then UB
                       else case evp_final ssl k v message of
                              None \<Rightarrow> Throw (Runtime_error ''failed to finalize encryption'')
                            | Some b \<Rightarrow> if room < length a + length b then UB else Ret (a @ b))))"

subsection \<open>Datagrams\<close>

definition telemetry_packet :: "32 word \<Rightarrow> string \<Rightarrow> bytes \<Rightarrow> bytes \<Rightarrow> bytes" where
  "telemetry_packet counter flight iv message =
     be_bytes 4 (unat counter) @ [word_of_nat (length flight)] @ text_bytes flight @ [1] @ iv @ message"

text \<open>The static counter is handed through; \<open>secret\<close> is the outcome of \<open>create_shared_secret\<close>.\<close>

definition submit_updates ::
  "bytes cpp \<Rightarrow> (bytes \<Rightarrow> string \<Rightarrow> bytes \<Rightarrow> bytes cpp) \<Rightarrow> flight \<Rightarrow> string \<Rightarrow> telemetry_update list \<Rightarrow>
   32 word \<Rightarrow> (bytes \<times> 32 word) cpp" where
  "submit_updates secret encrypt f key us counter =
     cbind secret (\<lambda>iv. cbind (encrypt (telemetry_payload us) key iv) (\<lambda>msg.
       Ret (telemetry_packet counter (fl_id f) iv msg, counter + 1)))"

subsection \<open>The receiver\<close>

function read_frames :: "bytes \<Rightarrow> (nat \<times> bytes) list option" where
  "read_frames bs =
     (if bs = [] then Some []
      else Option.bind (take_bytes 2 bs) (\<lambda>(t, r1).
           Option.bind (take_bytes 2 r1) (\<lambda>(n, r2).
           Option.bind (take_bytes (be_value n) r2) (\<lambda>(m, r3).
             map_option (Cons (be_value t, m)) (read_frames r3)))))"
  by pat_completeness auto
termination
  by (relation "measure length") (auto simp: take_bytes_def split: if_splits)

declare read_frames.simps [simp del]

definition read_packet :: "bytes \<Rightarrow> (nat \<times> string \<times> bytes \<times> bytes) option" where
  "read_packet bs =
     Option.bind (take_bytes 4 bs) (\<lambda>(c, r1).
     Option.bind (take_bytes 1 r1) (\<lambda>(n, r2).
     Option.bind (take_bytes (be_value n) r2) (\<lambda>(i, r3).
     Option.bind (take_bytes 1 r3) (\<lambda>(t, r4).
     Option.bind (take_bytes 16 r4) (\<lambda>(iv, msg).
       if t = [1] then Some (be_value c, bytes_text i, iv, msg) else None)))))"

definition receive ::
  "(bytes \<Rightarrow> bytes \<Rightarrow> bytes) \<Rightarrow> bytes \<Rightarrow> (nat \<times> string \<times> (nat \<times> bytes) list) option" where
  "receive decrypt bs =
     Option.bind (read_packet bs) (\<lambda>(c, i, iv, msg).
       map_option (\<lambda>fs. (c, i, fs)) (read_frames (decrypt iv msg)))"

subsection \<open>Facts\<close>

lemma length_update_message: "length (update_message u) \<le> 44"
  by (cases u)
     (simp_all add: position_size(1) speed_size(1) attitude_size(1) barometer_size(1)
        order_trans [OF position_size(2)] order_trans [OF speed_size(2)]
        order_trans [OF attitude_size(2)] order_trans [OF barometer_size(2)])

lemma length_payload: "length (telemetry_payload us) \<le> 48 * length us"
proof (induction us)
  case (Cons u us)
  then show ?case using length_update_message [of u] by (simp add: frame_update_def)
qed simp

lemma read_frames_payload:
  "read_frames (telemetry_payload us) =
     Some (map (\<lambda>u. (unat (telemetry_update_type u), update_message u)) us)"
proof (induction us)
  case Nil
  show ?case by (subst read_frames.simps) simp
next
  case (Cons u us)
  have "unat (telemetry_update_type u) < 2 ^ LENGTH(8)" by (rule unsigned_less)
  moreover have "length (update_message u) < 256 ^ 2" using length_update_message [of u] by simp
  ultimately show ?case using Cons.IH
    by (subst read_frames.simps) (simp add: frame_update_def take_bytes_append)
qed

lemma be_value_single [simp]: "be_value [b] = unat b"
  by (simp add: be_value_def)

lemma read_packet_packet:
  assumes "length flight < 256" "length iv = 16"
  shows "read_packet (telemetry_packet c flight iv msg) = Some (unat c, flight, iv, msg)"
proof -
  have "unat c < 2 ^ LENGTH(32)" by (rule unsigned_less)
  then have "be_value (be_bytes 4 (unat c)) = unat c" by simp
  moreover have "take_bytes 1 (b # r) = Some ([b], r)" for b r by (simp add: take_bytes_def)
  ultimately show ?thesis using assms
    by (simp add: read_packet_def telemetry_packet_def take_bytes_append unat_small_byte)
qed

subsection \<open>Properties\<close>

text \<open>
  C17. What is submitted arrives: for a flight whose identifier fits the length byte, the
  receiver that undoes the encryption reads from the datagram the counter, the flight, and
  every update with its type and its message, in order and whatever their number; the
  counter goes on by one, modulo its width.
\<close>

theorem telemetry_is_received:
  assumes "length (fl_id f) < 256" "length iv = 16"
    and "encrypt (telemetry_payload us) key iv = Ret msg" "decrypt iv msg = telemetry_payload us"
  shows "\<exists>packet. submit_updates (Ret iv) encrypt f key us counter = Ret (packet, counter + 1) \<and>
           receive decrypt packet =
             Some (unat counter, fl_id f, map (\<lambda>u. (unat (telemetry_update_type u), update_message u)) us)"
  using assms(2-4) read_packet_packet [OF assms(1,2)]
  by (simp add: submit_updates_def receive_def read_frames_payload)

definition telemetry_flight :: flight where
  "telemetry_flight =
     \<lparr>fl_id = ''flight'', fl_flight_plan_id = None, fl_pilot = pilot_of_id [], fl_aircraft = aircraft_of_id [],
      fl_latitude = 0, fl_longitude = 0, fl_max_altitude = 0, fl_geometry = G_invalid, fl_created_at = At 0,
      fl_start_time = At 0, fl_end_time = At 0\<rparr>"

theorem telemetry_is_received_witness:
  "\<exists>packet. submit_updates (Ret (replicate 16 0)) (\<lambda>m _ iv. Ret (rev m)) telemetry_flight []
              [Update_barometer \<lparr>tb_timestamp = 1, tb_pressure = 2\<rparr>] 0 = Ret (packet, 1) \<and>
     receive (\<lambda>_. rev) packet =
       Some (0, ''flight'', [(4, serialize_barometer \<lparr>pb_timestamp = 1, pb_pressure = 2\<rparr>)])"
proof -
  let ?us = "[Update_barometer \<lparr>tb_timestamp = 1, tb_pressure = 2\<rparr>]"
  have "length (fl_id telemetry_flight) < 256" by (simp add: telemetry_flight_def)
  moreover have "length (replicate 16 0 :: bytes) = 16" by simp
  ultimately obtain packet where
    "submit_updates (Ret (replicate 16 0)) (\<lambda>m _ iv. Ret (rev m)) telemetry_flight [] ?us 0 = Ret (packet, 0 + 1)"
    "receive (\<lambda>_. rev) packet = Some (unat (0 :: 32 word), fl_id telemetry_flight,
       map (\<lambda>u. (unat (telemetry_update_type u), update_message u)) ?us)"
    using telemetry_is_received [of telemetry_flight "replicate 16 0" "\<lambda>m _ iv. Ret (rev m)" ?us "[]"
        "rev (telemetry_payload ?us)" "\<lambda>_. rev" 0]
    by auto
  then show ?thesis by (auto simp: telemetry_flight_def)
qed

text \<open>
  A position comes back from its message exactly, but for the altitudes and the accuracy,
  which were rounded to \<open>float\<close> when the message was filled, and for the sign of a zero; the
  size the message announces is its length, and no message is longer than 44 bytes.
\<close>

lemma position_message_round_trip:
  "parse_position skip (serialize_position m) =
     Some \<lparr>pp_timestamp = pp_timestamp m,
           pp_latitude = (if dbl_mag (pp_latitude m) = 0 then 0 else pp_latitude m),
           pp_longitude = (if dbl_mag (pp_longitude m) = 0 then 0 else pp_longitude m),
           pp_altitude_agl = (if flt_mag (pp_altitude_agl m) = 0 then 0 else pp_altitude_agl m),
           pp_altitude_msl = (if flt_mag (pp_altitude_msl m) = 0 then 0 else pp_altitude_msl m),
           pp_horizontal_accuracy =
             (if flt_mag (pp_horizontal_accuracy m) = 0 then 0 else pp_horizontal_accuracy m)\<rparr> \<and>
   length (serialize_position m) = position_byte_size m \<and> position_byte_size m \<le> 44"
  using position_size [of m]
  by (simp add: parse_serialize_position position_values_def pb_settle_def)


definition padding_cipher :: evp where
  "padding_cipher =
     \<lparr>evp_new = True, evp_init = (\<lambda>_ _. True),
      evp_update = (\<lambda>_ _ m. Some (take (16 * (length m div 16)) m)),
      evp_final = (\<lambda>_ _ m. Some (let r = drop (16 * (length m div 16)) m
                                 in r @ replicate (16 - length r) (word_of_nat (16 - length r))))\<rparr>"


text \<open>An identifier of 256 characters or more is not received: its length wraps around.\<close>

lemma long_flight_id:
  assumes "length flight = 256" "hd flight \<noteq> CHR 0x01"
  shows "read_packet (telemetry_packet c flight iv msg) = None"
proof -
  obtain x xs where fl: "flight = x # xs" using assms(1) by (cases flight) simp_all
  have "(of_char x :: 8 word) \<noteq> 1"
  proof
    assume "(of_char x :: 8 word) = 1"
    then have "bytes_text (text_bytes [x]) = [CHR 0x01]"
      by (simp add: bytes_text_def text_bytes_def char_of_def bit_Suc bit_0)
    with assms(2) fl show False by simp
  qed
  moreover have "take_bytes 1 (b # r) = Some ([b], r)" for b r by (simp add: take_bytes_def)
  moreover have "be_value [word_of_nat (length flight)] = 0" by (simp add: assms(1))
  moreover have "text_bytes flight = of_char x # text_bytes xs" by (simp add: fl text_bytes_def)
  ultimately show ?thesis
    by (cases "take_bytes 16 (text_bytes xs @ 1 # iv @ msg)")
       (simp_all add: read_packet_def telemetry_packet_def take_bytes_append take_bytes_def [of 0])
qed

end
