(* ===== verification/Float_Exact.thy ===== *)
theory Float_Exact
  imports Complex_Main Float64
begin

text \<open>
  Exactness of the conversions of theory Float64: a ratio that is a number of the format is
  rounded to itself, so that a \<open>float\<close> kept as a \<open>double\<close>, as the JSON codecs do, comes back
  unchanged.
\<close>

subsection \<open>The exponent of a ratio\<close>

lemma bitlen_bounds: "0 < n \<Longrightarrow> 2 ^ (bitlen n - 1) \<le> n \<and> n < 2 ^ bitlen n \<and> 0 < bitlen n"
proof (induction n rule: bitlen.induct)
  case (1 n)
  show ?case
  proof (cases "n div 2 = 0")
    case True
    with 1(2) have "n = 1" by presburger
    then show ?thesis by (simp add: bitlen.simps)
  next
    case False
    then obtain k where k: "bitlen (n div 2) = Suc k" "2 ^ k \<le> n div 2" "n div 2 < 2 ^ Suc k"
      using 1 by (cases "bitlen (n div 2)") auto
    then have "2 ^ Suc k \<le> n" "n < 2 ^ Suc (Suc k)" by simp_all
    with k(1) 1(2) show ?thesis by (subst (1 2 3) bitlen.simps) simp
  qed
qed

lemma powi_nat: "(2 :: real) powi e = 2 ^ nat e / 2 ^ nat (- e)"
  by (cases "0 \<le> e") (simp_all add: power_int_def field_simps)

lemma ratio_ge_iff:
  "0 < d \<Longrightarrow> d * 2 ^ nat e \<le> n * 2 ^ nat (- e) \<longleftrightarrow> (2 :: real) powi e \<le> real n / real d"
proof -
  assume d: "0 < d"
  have "d * 2 ^ nat e \<le> n * 2 ^ nat (- e) \<longleftrightarrow> real d * 2 ^ nat e \<le> real n * 2 ^ nat (- e)"
    using of_nat_le_iff [of "d * 2 ^ nat e" "n * 2 ^ nat (- e)", where ?'a = real] by simp
  with d show ?thesis by (simp add: powi_nat field_simps)
qed

lemma powi_Suc: "(2 :: real) powi (e + 1) = 2 * 2 powi e"
  by (simp add: power_int_add)

lemma exponent_of_bounds:
  assumes "0 < n" "0 < d"
  shows "(2 :: real) powi exponent_of n d \<le> real n / real d \<and> real n / real d < 2 powi (exponent_of n d + 1)"
proof -
  define e where "e = int (bitlen n) - int (bitlen d)"
  have n: "2 powi (int (bitlen n) - 1) \<le> real n" "real n < 2 powi (int (bitlen n))"
    and d: "2 powi (int (bitlen d) - 1) \<le> real d" "real d < 2 powi (int (bitlen d))"
  proof -
    have *: "2 powi (int (bitlen k) - 1) \<le> real k \<and> real k < 2 powi (int (bitlen k))" if k: "0 < k" for k
    proof -
      obtain b where b: "bitlen k = Suc b" "2 ^ b \<le> k" "k < 2 ^ Suc b"
        using bitlen_bounds [OF k] by (cases "bitlen k") auto
      then have "2 ^ b \<le> real k" "real k < 2 ^ Suc b"
        using of_nat_le_iff [of "2 ^ b" k, where ?'a = real] of_nat_less_iff [of k "2 ^ Suc b", where ?'a = real]
        by simp_all
      then show ?thesis by (simp add: b(1) power_int_def nat_add_distrib)
    qed
    show "2 powi (int (bitlen n) - 1) \<le> real n" "real n < 2 powi (int (bitlen n))"
      "2 powi (int (bitlen d) - 1) \<le> real d" "real d < 2 powi (int (bitlen d))"
      using * assms by blast+
  qed
  have pos: "0 < real d" using assms by simp
  have "2 powi (e - 1) * 2 powi int (bitlen d) = (2 :: real) powi (int (bitlen n) - 1)"
    unfolding e_def by (subst power_int_add [symmetric]) simp_all
  moreover have "2 powi (e - 1) * real d \<le> 2 powi (e - 1) * 2 powi int (bitlen d)"
    using d(2) by (intro mult_left_mono) simp_all
  ultimately have "2 powi (e - 1) * real d \<le> real n" using n(1) by linarith
  then have low: "2 powi (e - 1) \<le> real n / real d" by (simp only: pos_le_divide_eq [OF pos])
  have "2 powi (e + 1) * 2 powi (int (bitlen d) - 1) = (2 :: real) powi int (bitlen n)"
    unfolding e_def by (subst power_int_add [symmetric]) simp_all
  moreover have "2 powi (e + 1) * 2 powi (int (bitlen d) - 1) \<le> 2 powi (e + 1) * real d"
    using d(1) by (intro mult_left_mono) simp_all
  ultimately have "real n < 2 powi (e + 1) * real d" using n(2) by linarith
  then have high: "real n / real d < 2 powi (e + 1)" by (simp only: pos_divide_less_eq [OF pos])
  show ?thesis
  proof (cases "2 powi e \<le> real n / real d")
    case True
    then have "exponent_of n d = e"
      using ratio_ge_iff [OF assms(2), of e n] by (simp add: exponent_of_def e_def [symmetric] Let_def)
    with True high show ?thesis by simp
  next
    case False
    then have "exponent_of n d = e - 1"
      using ratio_ge_iff [OF assms(2), of e n] by (simp add: exponent_of_def e_def [symmetric] Let_def)
    with False low show ?thesis by simp
  qed
qed

lemma powi_less_cancel: "(2 :: real) powi a < 2 powi b \<longleftrightarrow> a < b"
  using power_int_strict_increasing [of a b "2 :: real"] power_int_increasing [of b a "2 :: real"]
  by (cases "a < b") auto

subsection \<open>Exact rounding\<close>

lemma round_even_exact: "0 < d \<Longrightarrow> round_even (m * d) d = m"
  by (simp add: round_even_def)

lemma round_bits_exact:
  assumes "0 < n" "0 < d" "real n / real d = real m * 2 powi q" "m < 2 ^ p" "0 < p"
    and "qmin \<le> q" "q = qmin \<or> 2 ^ (p - 1) \<le> m"
  shows "round_bits p qmin infb n d = min infb (m + nat (q - qmin) * 2 ^ (p - 1))"
proof -
  let ?E = "exponent_of n d"
  note E = exponent_of_bounds [OF assms(1,2)]
  have "real m < 2 ^ p" using assms(4) of_nat_less_iff [of m "2 ^ p", where ?'a = real] by simp
  then have "real m * 2 powi q < 2 powi (int p + q)" by (simp add: power_int_add)
  with E assms(3) have "(2 :: real) powi ?E < 2 powi (int p + q)" by linarith
  then have up: "?E < int p + q" by (simp add: powi_less_cancel)
  have q: "max qmin (?E - int p + 1) = q"
  proof (cases "2 ^ (p - 1) \<le> m")
    case True
    then have "2 ^ (p - 1) \<le> real m" using of_nat_le_iff [of "2 ^ (p - 1)" m, where ?'a = real] by simp
    then have "2 powi (int p - 1 + q) \<le> real m * 2 powi q"
      using assms(5) by (simp add: power_int_add power_int_diff power_diff field_simps)
    with E assms(3) have "(2 :: real) powi (int p - 1 + q) < 2 powi (?E + 1)" by linarith
    then have "int p - 1 + q < ?E + 1" by (simp add: powi_less_cancel)
    with up assms(6) show ?thesis by simp
  next
    case False
    with assms(7) up show ?thesis by simp
  qed
  have "n * 2 ^ nat (- q) = m * (d * 2 ^ nat q)"
  proof -
    have "real n = real m * real d * (2 ^ nat q / 2 ^ nat (- q))"
      using assms(2,3) by (simp add: powi_nat field_simps)
    then have "real n * 2 ^ nat (- q) = real m * (real d * 2 ^ nat q)" by (simp add: field_simps)
    then show ?thesis
      using of_nat_eq_iff [of "n * 2 ^ nat (- q)" "m * (d * 2 ^ nat q)", where ?'a = real] by simp
  qed
  then have "round_even (n * 2 ^ nat (- q)) (d * 2 ^ nat q) = m"
    using assms(2) by (simp add: round_even_exact)
  then show ?thesis using assms(1) by (simp add: round_bits_def q Let_def min_def)
qed

subsection \<open>A float kept as a double\<close>

definition flt_nan :: "float32 \<Rightarrow> bool" where
  "flt_nan x \<longleftrightarrow> 255 * 2 ^ 23 < unat x mod 2 ^ 31"

lemma unat_word_of_nat: "n < 2 ^ LENGTH('a) \<Longrightarrow> unat (word_of_nat n :: 'a :: len word) = n"
  by (simp add: unat_of_nat)

lemma dbl_parts:
  assumes "b < 2 ^ 63"
  shows "dbl_neg (word_of_nat ((if neg then 2 ^ 63 else 0) + b)) = neg"
    and "dbl_mag (word_of_nat ((if neg then 2 ^ 63 else 0) + b)) = b"
proof -
  have "unat (word_of_nat ((if neg then 2 ^ 63 else 0) + b) :: double) = (if neg then 2 ^ 63 else 0) + b"
    by (rule unat_word_of_nat) (use assms in simp)
  with assms show "dbl_neg (word_of_nat ((if neg then 2 ^ 63 else 0) + b)) = neg"
    "dbl_mag (word_of_nat ((if neg then 2 ^ 63 else 0) + b)) = b"
    by (simp_all add: dbl_neg_def dbl_mag_def)
qed

text \<open>A normal double, written as a 53-bit mantissa and a power of two.\<close>

lemma float_of_dbl_of_ratio:
  assumes "0 < n" "0 < d" "real n / real d = real m * 2 powi q" "2 ^ 52 \<le> m" "m < 2 ^ 53"
    and "-1074 \<le> q" "q \<le> 970"
  obtains n' d' where "0 < n'" "0 < d'" "real n' / real d' = real m * 2 powi q"
    "float_of_dbl (dbl_of_ratio neg n d) = flt_of_ratio neg n' d'"
proof -
  define b where "b = m + nat (q + 1074) * 2 ^ 52"
  define e where "e = nat (q + 1075)"
  have e: "Suc (nat (q + 1074)) = e" "int e = q + 1075" "0 < e" "e < 2047"
    using assms(6,7) by (auto simp: e_def)
  obtain f where f: "m = f + 2 ^ 52" using assms(4) le_Suc_ex [of "2 ^ 52" m] by (auto simp: add.commute)
  have f_less: "f < 2 ^ 52" using assms(5) by (simp add: f)
  have b_eq: "b = f + e * 2 ^ 52" by (simp add: b_def f e(1) [symmetric])
  have bd: "b div 2 ^ 52 = e" "b mod 2 ^ 52 = f" using f_less by (simp_all add: b_eq)
  have b_less: "b < 2047 * 2 ^ 52" using f_less e(4) by (simp add: b_eq)
  have "round_bits 53 (-1074) (2047 * 2 ^ 52) n d = b"
    using round_bits_exact [of n d m q 53 "-1074" "2047 * 2 ^ 52"] assms b_less by (simp add: b_def)
  then have x: "dbl_of_ratio neg n d = word_of_nat ((if neg then 2 ^ 63 else 0) + b)"
    by (simp add: dbl_of_ratio_def)
  have parts: "dbl_neg (dbl_of_ratio neg n d) = neg" "dbl_mag (dbl_of_ratio neg n d) = b"
    unfolding x by (rule dbl_parts, use b_less in simp)+
  have nan: "\<not> dbl_nan (dbl_of_ratio neg n d)" using b_less by (simp add: dbl_nan_def parts)
  have "float_of_dbl (dbl_of_ratio neg n d) = flt_of_ratio neg (m * 2 ^ (e - 1075)) (2 ^ (1075 - e))"
    unfolding float_of_dbl_def Let_def parts bd f using nan e(3,4) by simp
  moreover have "real (m * 2 ^ (e - 1075)) / real (2 ^ (1075 - e)) = real m * 2 powi q"
  proof -
    have "nat q = e - 1075" "nat (- q) = 1075 - e" using e(2) by auto
    then show ?thesis by (simp add: powi_nat)
  qed
  moreover have "0 < m * 2 ^ (e - 1075)" using assms(4) by (simp add: gr0I)
  ultimately show thesis using that [of "m * 2 ^ (e - 1075)" "2 ^ (1075 - e)"] by simp
qed

lemma flt_of_ratio_exact:
  assumes "0 < n" "0 < d" "real n / real d = real m * 2 powi q" "m < 2 ^ 24"
    and "-149 \<le> q" "q = -149 \<or> 2 ^ 23 \<le> m" "m + nat (q + 149) * 2 ^ 23 < 255 * 2 ^ 23"
  shows "flt_of_ratio neg n d = word_of_nat ((if neg then 2 ^ 31 else 0) + (m + nat (q + 149) * 2 ^ 23))"
  using round_bits_exact [of n d m q 24 "-149" "255 * 2 ^ 23"] assms by (simp add: flt_of_ratio_def)

lemma normalize_mantissa:
  fixes m :: nat
  assumes "0 < m" "m < 2 ^ 53"
  obtains k where "2 ^ 52 \<le> m * 2 ^ k" "m * 2 ^ k < 2 ^ 53" "k \<le> 52"
proof -
  obtain b where b: "bitlen m = Suc b" "2 ^ b \<le> m" "m < 2 ^ Suc b"
    using bitlen_bounds [OF assms(1)] by (cases "bitlen m") auto
  have "(2 :: nat) ^ b < 2 ^ 53" using b(2) assms(2) by (rule order_le_less_trans)
  then have "b < 53" by (simp only: power_strict_increasing_iff [of "2 :: nat"])
  then have "2 ^ b * 2 ^ (52 - b) = (2 :: nat) ^ 52" "2 ^ Suc b * 2 ^ (52 - b) = (2 :: nat) ^ 53"
    by (simp_all flip: power_add power_Suc add: Suc_diff_le)
  with b(2,3) have "2 ^ 52 \<le> m * 2 ^ (52 - b)" "m * 2 ^ (52 - b) < 2 ^ 53"
    by (metis mult_le_mono1, metis mult_less_mono1 zero_less_numeral zero_less_power)
  then show thesis using that [of "52 - b"] by simp
qed

lemma float_round_trip_positive:
  assumes "0 < m" "m < 2 ^ 24" "-149 \<le> q" "q \<le> 104" "q = -149 \<or> 2 ^ 23 \<le> m"
    and "0 < n" "0 < d" "real n / real d = real m * 2 powi q"
    and "m + nat (q + 149) * 2 ^ 23 < 255 * 2 ^ 23"
  shows "float_of_dbl (dbl_of_ratio neg n d) =
           word_of_nat ((if neg then 2 ^ 31 else 0) + (m + nat (q + 149) * 2 ^ 23))"
proof -
  obtain k where k: "2 ^ 52 \<le> m * 2 ^ k" "m * 2 ^ k < 2 ^ 53" "k \<le> 52"
    using normalize_mantissa [of m] assms(1,2) by auto
  have eq: "real (m * 2 ^ k) * 2 powi (q - int k) = real m * 2 powi q"
    by (simp add: power_int_diff)
  have ratio: "real n / real d = real (m * 2 ^ k) * 2 powi (q - int k)" by (simp only: eq assms(8))
  have q: "-1074 \<le> q - int k" "q - int k \<le> 970" using assms(3,4) k(3) by simp_all
  obtain n' d' where nd: "0 < n'" "0 < d'" "real n' / real d' = real (m * 2 ^ k) * 2 powi (q - int k)"
    "float_of_dbl (dbl_of_ratio neg n d) = flt_of_ratio neg n' d'"
    by (rule float_of_dbl_of_ratio [OF assms(6,7) ratio k(1,2) q])
  have ratio': "real n' / real d' = real m * 2 powi q" by (simp only: nd(3) eq)
  show ?thesis unfolding nd(4) by (rule flt_of_ratio_exact [OF nd(1,2) ratio' assms(2,3,5,9)])
qed

lemma float_of_dbl_of_float:
  assumes "\<not> flt_nan x"
  shows "float_of_dbl (dbl_of_float x) = x"
proof -
  define neg where "neg \<longleftrightarrow> 2 ^ 31 \<le> unat x"
  define u where "u = unat x mod 2 ^ 31"
  define e where "e = u div 2 ^ 23"
  define m where "m = u mod 2 ^ 23"
  have u: "u = m + e * 2 ^ 23" "m < 2 ^ 23" by (simp_all add: e_def m_def)
  have u_le: "u \<le> 255 * 2 ^ 23" using assms by (simp add: flt_nan_def u_def)
  have "unat x < 2 ^ LENGTH(32)" by (rule unsigned_less)
  then have "unat x = (if neg then 2 ^ 31 else 0) + u" by (auto simp: neg_def u_def mod_if)
  moreover have "word_of_nat (unat x) = x" by simp
  ultimately have x: "x = word_of_nat ((if neg then 2 ^ 31 else 0) + u)" by simp
  have dof: "dbl_of_float x =
    (if e = 255 then word_of_nat ((if neg then 2 ^ 63 else 0) + 2047 * 2 ^ 52 + m * 2 ^ 29)
     else if e = 0 then dbl_of_ratio neg m (2 ^ 149)
     else dbl_of_ratio neg ((m + 2 ^ 23) * 2 ^ (e - 150)) (2 ^ (150 - e)))"
    by (simp add: dbl_of_float_def Let_def neg_def u_def e_def m_def)
  consider "e = 255" | "e = 0" "m = 0" | "e = 0" "0 < m" | "0 < e" "e < 255"
  proof -
    have "e \<le> 255" using u u_le by simp
    then show ?thesis using that by (cases "e = 255"; cases "e = 0"; cases "m = 0") auto
  qed
  then show ?thesis
  proof cases
    case 1
    with u u_le have m: "m = 0" by simp
    define y where "y = (word_of_nat ((if neg then 2 ^ 63 else 0) + 2047 * 2 ^ 52) :: double)"
    have "dbl_neg y = neg" "dbl_mag y = 2047 * 2 ^ 52" unfolding y_def by (rule dbl_parts, simp)+
    then have "float_of_dbl y = word_of_nat ((if neg then 2 ^ 31 else 0) + 255 * 2 ^ 23)"
      by (simp add: float_of_dbl_def dbl_nan_def Let_def)
    moreover have "dbl_of_float x = y" unfolding dof y_def using 1 m by simp
    moreover have "u = 255 * 2 ^ 23" using u(1) 1 m by simp
    ultimately show ?thesis using x by simp
  next
    case 2
    have "dbl_of_ratio neg 0 (2 ^ 149) = word_of_nat ((if neg then 2 ^ 63 else 0) + 0)"
      by (simp add: dbl_of_ratio_def round_bits_def)
    moreover have "dbl_neg (word_of_nat ((if neg then 2 ^ 63 else 0) + 0)) = neg"
      "dbl_mag (word_of_nat ((if neg then 2 ^ 63 else 0) + 0)) = 0"
      by (rule dbl_parts, simp)+
    ultimately have "float_of_dbl (dbl_of_ratio neg 0 (2 ^ 149)) = word_of_nat (if neg then 2 ^ 31 else 0)"
      by (simp add: float_of_dbl_def dbl_nan_def Let_def flt_of_ratio_def round_bits_def del: add_0_right)
    moreover have "dbl_of_float x = dbl_of_ratio neg 0 (2 ^ 149)" unfolding dof using 2 by simp
    moreover have "u = 0" using u(1) 2 by simp
    ultimately show ?thesis using x by simp
  next
    case 3
    have "real m / real (2 ^ 149) = real m * 2 powi (-149)" by (simp add: power_int_minus field_simps)
    with 3 u u_le have "float_of_dbl (dbl_of_ratio neg m (2 ^ 149)) = word_of_nat ((if neg then 2 ^ 31 else 0) + m)"
      using float_round_trip_positive [of m "-149" m "2 ^ 149" neg] by simp
    moreover have "dbl_of_float x = dbl_of_ratio neg m (2 ^ 149)" unfolding dof using 3 by simp
    moreover have "u = m" using u(1) 3 by simp
    ultimately show ?thesis using x by simp
  next
    case 4
    define q where "q = int e - 150"
    have q: "nat q = e - 150" "nat (- q) = 150 - e" "nat (q + 149) = e - 1" by (auto simp: q_def)
    have ratio: "real ((m + 2 ^ 23) * 2 ^ (e - 150)) / real (2 ^ (150 - e)) = real (m + 2 ^ 23) * 2 powi q"
      by (simp add: powi_nat q)
    have sum: "m + 2 ^ 23 + (e - 1) * 2 ^ 23 = u" using 4 u(1) by (cases e) simp_all
    have "u < 255 * 2 ^ 23" using u 4 by simp
    then have "float_of_dbl (dbl_of_ratio neg ((m + 2 ^ 23) * 2 ^ (e - 150)) (2 ^ (150 - e))) =
        word_of_nat ((if neg then 2 ^ 31 else 0) + (m + 2 ^ 23 + nat (q + 149) * 2 ^ 23))"
      using ratio u(2) 4 sum
      by (intro float_round_trip_positive) (simp_all add: q q_def)
    moreover have "dbl_of_float x = dbl_of_ratio neg ((m + 2 ^ 23) * 2 ^ (e - 150)) (2 ^ (150 - e))"
      unfolding dof using 4 by simp
    ultimately show ?thesis using x sum by (simp only: q)
  qed
qed

end
