(* ===== verification/Plan_Json.thy ===== *)
theory Plan_Json
  imports Geometry_Json Token_Json Float_Exact Telemetry_Submitter
begin

text \<open>
  The JSON codecs of flight plans and of the parameters that create flights and plans
  (src/airmap/codec/json/flight_plan.cpp, flight_plans.cpp, flights.cpp, and the feature values
  of ruleset.cpp). The text of an instant is Boost's: \<open>iso_text\<close> writes it and \<open>parse_iso\<close> reads it.
  Decoders update an object, as the code's do: \<open>p\<close> is the object before.
\<close>

subsection \<open>Numbers, lists of texts and feature values\<close>

definition json_of_float :: "float32 \<Rightarrow> json" where
  "json_of_float x = J_float (dbl_of_float x)"

definition json_get_text_list :: "json \<Rightarrow> string list cpp" where
  "json_get_text_list j = (case j of J_array xs \<Rightarrow> cmapM json_get_string xs | _ \<Rightarrow> Throw Json_type_error)"

text \<open>\<open>None\<close> is a value of unknown type; it is written as null.\<close>

definition encode_feature_value :: "feature_value option \<Rightarrow> json" where
  "encode_feature_value v =
     (case v of
        None \<Rightarrow> J_null
      | Some (FV_bool b) \<Rightarrow> J_boolean b
      | Some (FV_double x) \<Rightarrow> J_float x
      | Some (FV_string s) \<Rightarrow> J_string s)"

definition decode_feature_value :: "json \<Rightarrow> feature_value option cpp" where
  "decode_feature_value j =
     (case j of
        J_boolean b \<Rightarrow> Ret (Some (FV_bool b))
      | J_string s \<Rightarrow> Ret (Some (FV_string s))
      | J_integer _ \<Rightarrow> cmap (\<lambda>x. Some (FV_double x)) (json_get_double j)
      | J_unsigned _ \<Rightarrow> cmap (\<lambda>x. Some (FV_double x)) (json_get_double j)
      | J_float _ \<Rightarrow> cmap (\<lambda>x. Some (FV_double x)) (json_get_double j)
      | _ \<Rightarrow> Ret None)"

text \<open>
  The loop over the members of \<open>flight_features\<close>: \<open>emplace\<close> keeps a key that is there;
  \<open>it.key()\<close> throws on a value that is no object, unless there is nothing to visit.
\<close>

definition emplace :: "string \<Rightarrow> 'v \<Rightarrow> (string \<times> 'v) list \<Rightarrow> (string \<times> 'v) list" where
  "emplace k v m = (if map_of m k = None then m @ [(k, v)] else m)"

definition decode_features ::
  "json \<Rightarrow> (string \<times> feature_value option) list \<Rightarrow> (string \<times> feature_value option) list cpp" where
  "decode_features j fs =
     (case j of
        J_object m \<Rightarrow> cfold (\<lambda>(k, v) fs. cbind (decode_feature_value v) (\<lambda>x. Ret (emplace k x fs))) m fs
      | _ \<Rightarrow> if json_elements j = [] then Ret fs else Throw Json_type_error)"

definition decode_member_features ::
  "json \<Rightarrow> (string \<times> feature_value option) list \<Rightarrow> (string \<times> feature_value option) list cpp" where
  "decode_member_features j fs =
     (if 0 < json_count ''flight_features'' j
      then cbind (json_subscript ''flight_features'' j) (\<lambda>ff. decode_features ff fs) else Ret fs)"

text \<open>\<open>j["flight_features"][k] = v\<close> for every feature.\<close>

definition encode_features :: "(string \<times> feature_value option) list \<Rightarrow> json \<Rightarrow> json cpp" where
  "encode_features fs j =
     cfold (\<lambda>(k, v) j.
       cbind (json_set k (encode_feature_value v) (case json_find ''flight_features'' j of None \<Rightarrow> J_null | Some ff \<Rightarrow> ff))
         (\<lambda>ff. json_set ''flight_features'' ff j)) fs j"

subsection \<open>Flight plans\<close>

definition encode_flight_plan :: "(date_time \<Rightarrow> string) \<Rightarrow> flight_plan \<Rightarrow> json cpp" where
  "encode_flight_plan iso_text p =
     cbind (encode_geometry (fp_geometry p)) (\<lambda>g.
     cbind (json_object
       ([(''id'', J_string (fp_id p))] @
        (case fp_flight_id p of None \<Rightarrow> [] | Some i \<Rightarrow> [(''flight_id'', J_string i)]) @
        [(''takeoff_latitude'', json_of_float (fp_takeoff_latitude p)),
         (''takeoff_longitude'', json_of_float (fp_takeoff_longitude p)),
         (''max_altitude_agl'', json_of_float (fp_altitude_max p)),
         (''min_altitude_agl'', json_of_float (fp_altitude_min p)),
         (''geometry'', g),
         (''start_time'', J_string (iso_text (fp_start_time p))),
         (''end_time'', J_string (iso_text (fp_end_time p))),
         (''pilot_id'', J_string (pi_id (fp_pilot p)))] @
        (if ac_id (fp_aircraft p) = [] then [] else [(''aircraft_id'', J_string (ac_id (fp_aircraft p)))]) @
        [(''buffer'', json_of_float (fp_buffer p)),
         (''rulesets'', J_array (map J_string (fp_rulesets p)))]))
       (encode_features (fp_features p)))"

definition decode_flight_plan ::
  "(string \<Rightarrow> date_time cpp) \<Rightarrow> json \<Rightarrow> flight_plan \<Rightarrow> flight_plan cpp" where
  "decode_flight_plan parse_iso j p =
     (let time = (\<lambda>v. cbind (json_get_string v) parse_iso) in
     cbind (json_member ''id'' json_get_string (fp_id p) j) (\<lambda>i.
     cbind (json_member ''flight_id'' (decode_optional json_get_string) (fp_flight_id p) j) (\<lambda>f.
     cbind (json_member ''takeoff_latitude'' json_get_float (fp_takeoff_latitude p) j) (\<lambda>lat.
     cbind (json_member ''takeoff_longitude'' json_get_float (fp_takeoff_longitude p) j) (\<lambda>lon.
     cbind (json_member ''max_altitude_agl'' json_get_float (fp_altitude_max p) j) (\<lambda>amax.
     cbind (json_member ''min_altitude_agl'' json_get_float (fp_altitude_min p) j) (\<lambda>amin.
     cbind (json_member ''geometry'' decode_geometry (fp_geometry p) j) (\<lambda>g.
     cbind (json_member ''start_time'' time (fp_start_time p) j) (\<lambda>t1.
     cbind (json_member ''end_time'' time (fp_end_time p) j) (\<lambda>t2.
     cbind (json_member ''pilot_id'' json_get_string (pi_id (fp_pilot p)) j) (\<lambda>pid.
     cbind (json_member ''aircraft_id'' json_get_string (ac_id (fp_aircraft p)) j) (\<lambda>aid.
     cbind (json_member ''buffer'' json_get_float (fp_buffer p) j) (\<lambda>b.
     cbind (json_member ''rulesets'' json_get_text_list (fp_rulesets p) j) (\<lambda>rs.
     cbind (decode_member_features j (fp_features p)) (\<lambda>fs.
       Ret \<lparr>fp_id = i, fp_flight_id = f, fp_pilot = (fp_pilot p)\<lparr>pi_id := pid\<rparr>,
            fp_aircraft = (fp_aircraft p)\<lparr>ac_id := aid\<rparr>, fp_takeoff_latitude = lat,
            fp_takeoff_longitude = lon, fp_altitude_max = amax, fp_altitude_min = amin, fp_buffer = b,
            fp_geometry = g, fp_start_time = t1, fp_end_time = t2, fp_rulesets = rs,
            fp_features = fs\<rparr>)))))))))))))))"

subsection \<open>Parameters\<close>

text \<open>A member that was never assigned is read: undefined behaviour (\<open>cp_min_altitude\<close>).\<close>

definition encode_create_plan :: "(date_time \<Rightarrow> string) \<Rightarrow> create_plan_params \<Rightarrow> json cpp" where
  "encode_create_plan iso_text p =
     cbind (deref (cp_min_altitude p)) (\<lambda>amin.
     cbind (encode_geometry (cp_geometry p)) (\<lambda>g.
     cbind (json_object
       ([(''takeoff_latitude'', json_of_float (cp_latitude p)),
         (''takeoff_longitude'', json_of_float (cp_longitude p)),
         (''max_altitude_agl'', json_of_float (cp_max_altitude p)),
         (''min_altitude_agl'', json_of_float amin),
         (''geometry'', g),
         (''start_time'', J_string (iso_text (cp_start_time p))),
         (''end_time'', J_string (iso_text (cp_end_time p))),
         (''pilot_id'', J_string (pi_id (cp_pilot p)))] @
        (case cp_aircraft p of None \<Rightarrow> [] | Some a \<Rightarrow> [(''aircraft_id'', J_string (ac_id a))]) @
        [(''buffer'', json_of_float (cp_buffer p))] @
        (if cp_rulesets p = [] then [] else [(''rulesets'', J_array (map J_string (cp_rulesets p)))])))
       (encode_features (cp_features p))))"

definition json_of_optional_float :: "float32 option \<Rightarrow> json" where
  "json_of_optional_float x = (case x of None \<Rightarrow> J_null | Some v \<Rightarrow> json_of_float v)"

definition encode_create_flight :: "(date_time \<Rightarrow> string) \<Rightarrow> create_flight_params \<Rightarrow> json cpp" where
  "encode_create_flight iso_text p =
     cbind (json_object
       ([(''latitude'', json_of_optional_float (cf_latitude p)),
         (''longitude'', json_of_optional_float (cf_longitude p)),
         (''max_altitude'', json_of_float (cf_max_altitude p))] @
        (if cf_aircraft_id p = [] then [] else [(''aircraft_id'', J_string (cf_aircraft_id p))]) @
        [(''start_time'', J_string (iso_text (cf_start_time p))),
         (''end_time'', J_string (iso_text (cf_end_time p))),
         (''public'', J_boolean (cf_is_public p)),
         (''notify'', J_boolean (cf_give_digital_notice p)),
         (''buffer'', json_of_float (cf_buffer p))])) (\<lambda>j.
       case cf_geometry p of
         None \<Rightarrow> Ret j
       | Some g \<Rightarrow> cbind (encode_geometry g) (\<lambda>v. json_set ''geometry'' v j))"

subsection \<open>Facts\<close>

lemma feature_value_round_trip: "decode_feature_value (encode_feature_value v) = Ret v"
proof (cases v)
  case (Some x)
  then show ?thesis
    by (cases x) (simp_all add: decode_feature_value_def encode_feature_value_def json_get_double_def cmap_def)
qed (simp add: decode_feature_value_def encode_feature_value_def)

lemma json_get_float_of_float: "\<not> flt_nan x \<Longrightarrow> json_get_float (json_of_float x) = Ret x"
  by (simp add: json_get_float_def json_of_float_def float_of_dbl_of_float)

lemma json_of_float_not_null [simp]: "json_of_float x \<noteq> J_null"
  by (simp add: json_of_float_def)

lemma text_list_round_trip: "json_get_text_list (J_array (map J_string xs)) = Ret xs"
  using cmapM_map_Ret [of xs json_get_string J_string "\<lambda>x. x"] by (simp add: json_get_text_list_def)

lemma encode_geometry_not_null: "encode_geometry g = Ret j \<Longrightarrow> j \<noteq> J_null"
  by (subst (asm) encode_geometry.simps)
     (auto simp: cbind_eq_Ret json_set_def with_coordinates_def split: geometry.splits json.splits)

text \<open>What decoding makes of a list of features, and of the object they were written to.\<close>

lemma key_less_facts: "\<not> key_less k k" "key_less a b \<Longrightarrow> key_less b c \<Longrightarrow> key_less a c"
  using json_keys.irrefl json_keys.trans by blast+

lemma smap_get_map_of: "smap_sorted key_less m \<Longrightarrow> smap_get key_less k m = map_of m k"
proof (induction m)
  case (Cons e m)
  obtain k' v' where e: "e = (k', v')" by (cases e)
  with Cons.prems have below: "\<forall>x \<in> set m. key_less k' (fst x)" and "smap_sorted key_less m" by auto
  with Cons.IH have IH: "smap_get key_less k m = map_of m k" by simp
  consider "k = k'" | "key_less k' k" "k \<noteq> k'" | "key_less k k'" "k \<noteq> k'"
    using key_less_total key_less_facts(1) by metis
  then show ?case
  proof cases
    case 3
    have "k \<notin> fst ` set m"
      using below 3(1) key_less_facts by (metis (no_types, lifting) image_iff)
    then have "map_of m k = None" by (simp add: map_of_eq_None_iff)
    with 3 show ?thesis using key_less_facts by (auto simp: e)
  qed (use IH key_less_facts in \<open>auto simp: e\<close>)
qed simp

lemma smap_sorted_distinct: "smap_sorted key_less m \<Longrightarrow> distinct (map fst m)"
proof (induction m)
  case (Cons e m)
  have "fst e \<notin> fst ` set m" using Cons.prems key_less_facts(1) by (auto simp: image_iff)
  with Cons show ?case by simp
qed simp

definition feature_of_json :: "json \<Rightarrow> feature_value option" where
  "feature_of_json j = (case decode_feature_value j of Ret v \<Rightarrow> v | _ \<Rightarrow> None)"

lemma decode_feature_value_total: "decode_feature_value j = Ret (feature_of_json j)"
  by (cases j) (simp_all add: feature_of_json_def decode_feature_value_def json_get_double_def cmap_def)

lemma feature_of_json_encode [simp]: "feature_of_json (encode_feature_value v) = v"
  by (simp add: feature_of_json_def feature_value_round_trip)

lemma decode_features_loop:
  assumes "distinct (map fst m)" "\<forall>k \<in> fst ` set m. map_of fs k = None"
  shows "cfold (\<lambda>(k, v) fs. cbind (decode_feature_value v) (\<lambda>x. Ret (emplace k x fs))) m fs =
           Ret (fs @ map (\<lambda>(k, v). (k, feature_of_json v)) m)"
  using assms
proof (induction m arbitrary: fs)
  case (Cons e m)
  obtain k v where e: "e = (k, v)" by (cases e)
  have "\<forall>k' \<in> fst ` set m. map_of (fs @ [(k, feature_of_json v)]) k' = None"
    using Cons.prems by (auto simp: e map_add_def)
  with Cons show ?case
    by (simp add: e decode_feature_value_total emplace_def)
qed simp

lemma map_of_map_snd: "map_of (map (\<lambda>(k, v). (k, f v)) m) k = map_option f (map_of m k)"
  by (induction m) auto

text \<open>The object of features that a document carries, as a finite map.\<close>

definition features_in :: "json \<Rightarrow> (string \<times> feature_value option) list \<Rightarrow> bool" where
  "features_in j fs \<longleftrightarrow>
     (if fs = [] then json_find ''flight_features'' j = None
      else \<exists>m. json_find ''flight_features'' j = Some (J_object m) \<and> smap_sorted key_less m \<and>
               (\<forall>k. map_of m k = map_option encode_feature_value (map_of (rev fs) k)))"

lemma features_in_snoc:
  assumes "features_in j fs" "json_open j"
  shows "\<exists>ff j'. json_set k (encode_feature_value v)
            (case json_find ''flight_features'' j of None \<Rightarrow> J_null | Some ff \<Rightarrow> ff) = Ret ff \<and>
          json_set ''flight_features'' ff j = Ret j' \<and> json_open j' \<and> features_in j' (fs @ [(k, v)]) \<and>
          (\<forall>k'. k' \<noteq> ''flight_features'' \<longrightarrow> json_find k' j' = json_find k' j)"
proof -
  obtain m where m: "smap_sorted key_less m"
    "json_set k (encode_feature_value v) (case json_find ''flight_features'' j of None \<Rightarrow> J_null | Some ff \<Rightarrow> ff) =
       Ret (J_object (smap_put key_less k (encode_feature_value v) m))"
    "\<forall>k'. map_of m k' = map_option encode_feature_value (map_of (rev fs) k')"
  proof (cases "fs = []")
    case True
    with assms that [of "[]"] show thesis by (simp add: features_in_def json_set_def)
  next
    case False
    with assms that show thesis by (auto simp: features_in_def json_set_def)
  qed
  let ?m = "smap_put key_less k (encode_feature_value v) m"
  have srt: "smap_sorted key_less ?m" using m(1) by (intro json_keys.put_sorted) simp_all
  have "map_of ?m k' = map_option encode_feature_value (map_of (rev (fs @ [(k, v)])) k')" for k'
  proof -
    have "smap_get key_less k' ?m = (if k' = k then Some (encode_feature_value v) else smap_get key_less k' m)"
      using key_less_total [of k' k] by (auto simp: json_keys.get_put_same intro!: json_keys.get_put_other)
    then show ?thesis using m(1,3) srt by (simp add: smap_get_map_of)
  qed
  moreover obtain m' where j': "json_set ''flight_features'' (J_object ?m) j = Ret (J_object m')"
    using json_set_open [OF assms(2)] by blast
  ultimately show ?thesis
    using m(2) srt json_find_set [OF j'] by (auto simp: features_in_def json_open_def)
qed

lemma encode_features_in:
  assumes "features_in j fs0" "json_open j"
  shows "\<exists>j'. encode_features fs j = Ret j' \<and> features_in j' (fs0 @ fs) \<and>
           (\<forall>k. k \<noteq> ''flight_features'' \<longrightarrow> json_find k j' = json_find k j)"
  using assms
proof (induction fs arbitrary: j fs0)
  case (Cons e fs)
  obtain k v where e: "e = (k, v)" by (cases e)
  from features_in_snoc [OF Cons.prems, of k v] obtain ff j1 where j1:
    "json_set k (encode_feature_value v) (case json_find ''flight_features'' j of None \<Rightarrow> J_null | Some ff \<Rightarrow> ff) = Ret ff"
    "json_set ''flight_features'' ff j = Ret j1" "json_open j1" "features_in j1 (fs0 @ [(k, v)])"
    "\<forall>k'. k' \<noteq> ''flight_features'' \<longrightarrow> json_find k' j1 = json_find k' j"
    by blast
  from Cons.IH [OF j1(4,3)] j1 show ?case by (auto simp: encode_features_def e)
qed (simp add: encode_features_def)

lemma decode_features_in:
  assumes "features_in j fs" "distinct (map fst fs)"
  shows "\<exists>fs'. decode_member_features j [] = Ret fs' \<and> map_of fs' = map_of fs"
proof (cases "fs = []")
  case True
  with assms json_count_find [of "''flight_features''" j] show ?thesis
    by (simp add: features_in_def decode_member_features_def)
next
  case False
  then obtain m where m: "json_find ''flight_features'' j = Some (J_object m)" "smap_sorted key_less m"
    "\<forall>k. map_of m k = map_option encode_feature_value (map_of (rev fs) k)"
    using assms(1) by (auto simp: features_in_def)
  have "map_of (rev fs) k = map_of fs k" for k
    using assms(2) map_of_eq_Some_iff [of fs k] map_of_eq_Some_iff [of "rev fs" k]
    by (metis (no_types, lifting) distinct_rev not_None_eq rev_map set_rev)
  then have "map_of (rev fs) = map_of fs" by blast
  then have "map_of (map (\<lambda>(k, v). (k, feature_of_json v)) m) = map_of fs"
    using m(3) by (simp add: fun_eq_iff map_of_map_snd option.map_comp comp_def option.map_ident)
  then show ?thesis
    using json_count_find [of "''flight_features''" j] m(1) json_subscript_found [OF m(1)]
      decode_features_loop [OF smap_sorted_distinct [OF m(2)], of "[]"]
    by (simp add: decode_member_features_def decode_features_def)
qed

lemma json_object_open: "json_object kvs = Ret j \<Longrightarrow> json_open j"
  using json_object_general [of J_null kvs] by (auto simp: json_object_def json_open_def)

text \<open>What a written plan contains, member by member.\<close>

lemma encode_flight_plan_members:
  assumes "geometry_valid (fp_geometry p)" "distinct (map fst (fp_features p))"
  obtains j g where "encode_flight_plan iso_text p = Ret j" "decode_geometry g = Ret (geometry_as_read (fp_geometry p))"
    "g \<noteq> J_null" "features_in j (fp_features p)"
    "json_find ''id'' j = Some (J_string (fp_id p))"
    "json_find ''flight_id'' j = map_option J_string (fp_flight_id p)"
    "json_find ''takeoff_latitude'' j = Some (json_of_float (fp_takeoff_latitude p))"
    "json_find ''takeoff_longitude'' j = Some (json_of_float (fp_takeoff_longitude p))"
    "json_find ''max_altitude_agl'' j = Some (json_of_float (fp_altitude_max p))"
    "json_find ''min_altitude_agl'' j = Some (json_of_float (fp_altitude_min p))"
    "json_find ''geometry'' j = Some g"
    "json_find ''start_time'' j = Some (J_string (iso_text (fp_start_time p)))"
    "json_find ''end_time'' j = Some (J_string (iso_text (fp_end_time p)))"
    "json_find ''pilot_id'' j = Some (J_string (pi_id (fp_pilot p)))"
    "json_find ''aircraft_id'' j =
       (if ac_id (fp_aircraft p) = [] then None else Some (J_string (ac_id (fp_aircraft p))))"
    "json_find ''buffer'' j = Some (json_of_float (fp_buffer p))"
    "json_find ''rulesets'' j = Some (J_array (map J_string (fp_rulesets p)))"
proof -
  obtain g where g: "encode_geometry (fp_geometry p) = Ret g" "decode_geometry g = Ret (geometry_as_read (fp_geometry p))"
    using codec_geometry [OF assms(1)] by (auto simp: codec_pair_def)
  let ?L = "[(''id'', J_string (fp_id p))] @
        (case fp_flight_id p of None \<Rightarrow> [] | Some i \<Rightarrow> [(''flight_id'', J_string i)]) @
        [(''takeoff_latitude'', json_of_float (fp_takeoff_latitude p)),
         (''takeoff_longitude'', json_of_float (fp_takeoff_longitude p)),
         (''max_altitude_agl'', json_of_float (fp_altitude_max p)),
         (''min_altitude_agl'', json_of_float (fp_altitude_min p)),
         (''geometry'', g),
         (''start_time'', J_string (iso_text (fp_start_time p))),
         (''end_time'', J_string (iso_text (fp_end_time p))),
         (''pilot_id'', J_string (pi_id (fp_pilot p)))] @
        (if ac_id (fp_aircraft p) = [] then [] else [(''aircraft_id'', J_string (ac_id (fp_aircraft p)))]) @
        [(''buffer'', json_of_float (fp_buffer p)),
         (''rulesets'', J_array (map J_string (fp_rulesets p)))]"
  obtain j0 where j0: "json_object ?L = Ret j0" "\<And>k. json_find k j0 = map_of (rev ?L) k"
    by (rule json_object_find [of ?L]) simp_all
  have "features_in j0 []" by (simp add: features_in_def j0(2) split: option.split)
  from encode_features_in [OF this json_object_open [OF j0(1)], of "fp_features p"] obtain j where
    j: "encode_features (fp_features p) j0 = Ret j" "features_in j (fp_features p)"
    "\<And>k. k \<noteq> ''flight_features'' \<Longrightarrow> json_find k j = json_find k j0"
    by auto
  have "encode_flight_plan iso_text p = Ret j" using j(1) j0(1) by (simp add: encode_flight_plan_def g(1))
  then show thesis
    by (rule that [OF _ g(2) encode_geometry_not_null [OF g(1)] j(2)])
       (simp_all add: j(3) j0(2) split: option.split)
qed


definition written_plan :: flight_plan where
  "written_plan =
     \<lparr>fp_id = ''plan'', fp_flight_id = Some ''flight'', fp_pilot = pilot_of_id ''pilot'',
      fp_aircraft = aircraft_of_id ''drone'', fp_takeoff_latitude = 0x3DCCCCCD, fp_takeoff_longitude = 0,
      fp_altitude_max = 0, fp_altitude_min = 0, fp_buffer = 0, fp_geometry = G_multi_point [],
      fp_start_time = At 0, fp_end_time = At 0, fp_rulesets = [''rules''],
      fp_features = [(''weight'', Some (FV_double 0)), (''night'', Some (FV_bool True))]\<rparr>"

definition empty_plan :: flight_plan where
  "empty_plan = written_plan\<lparr>fp_flight_id := None, fp_aircraft := aircraft_of_id [], fp_features := []\<rparr>"


end
