(* ===== verification/Airspace.thy ===== *)
theory Airspace
  imports Geometry Domain Float_Exact
begin

text \<open>
  \<open>airmap::Airspace\<close> (include/airmap/airspace.h, src/airmap/airspace.cpp): the set of types as
  a bit mask with its text, and the airspace itself, whose details are a tagged union of
  fourteen members. Unlike the other unions, \<open>reset\<close> ends the member but keeps the tag, and a
  comparison looks at the type of the left operand alone.
\<close>

unbundle bit_operations_syntax

subsection \<open>Sets of types\<close>

type_synonym airspace_type = "32 word"

abbreviation AT_airport :: airspace_type where "AT_airport \<equiv> 1"
abbreviation AT_controlled_airspace :: airspace_type where "AT_controlled_airspace \<equiv> 2"
abbreviation AT_special_use_airspace :: airspace_type where "AT_special_use_airspace \<equiv> 4"
abbreviation AT_tfr :: airspace_type where "AT_tfr \<equiv> 8"
abbreviation AT_wildfire :: airspace_type where "AT_wildfire \<equiv> 16"
abbreviation AT_park :: airspace_type where "AT_park \<equiv> 32"
abbreviation AT_power_plant :: airspace_type where "AT_power_plant \<equiv> 64"
abbreviation AT_heliport :: airspace_type where "AT_heliport \<equiv> 128"
abbreviation AT_prison :: airspace_type where "AT_prison \<equiv> 256"
abbreviation AT_school :: airspace_type where "AT_school \<equiv> 512"
abbreviation AT_hospital :: airspace_type where "AT_hospital \<equiv> 1024"
abbreviation AT_fire :: airspace_type where "AT_fire \<equiv> 2048"
abbreviation AT_emergency :: airspace_type where "AT_emergency \<equiv> 4096"

definition AT_invalid :: airspace_type where
  "AT_invalid = 0"

definition AT_all :: airspace_type where
  "AT_all =
     AT_airport OR AT_controlled_airspace OR AT_special_use_airspace OR AT_tfr OR
     AT_wildfire OR AT_park OR AT_power_plant OR AT_heliport OR
     AT_prison OR AT_school OR AT_hospital OR AT_fire OR
     AT_emergency"

definition airspace_type_not :: "airspace_type \<Rightarrow> airspace_type" where
  "airspace_type_not t = NOT t"

definition airspace_type_or :: "airspace_type \<Rightarrow> airspace_type \<Rightarrow> airspace_type" where
  "airspace_type_or l r = l OR r"

definition airspace_type_and :: "airspace_type \<Rightarrow> airspace_type \<Rightarrow> airspace_type" where
  "airspace_type_and l r = l AND r"

text \<open>\<open>Comma\<close>: whether the next name is the first one, and what is written so far.\<close>

definition write_type :: "airspace_type \<Rightarrow> airspace_type \<Rightarrow> string \<Rightarrow> bool \<times> string \<Rightarrow> bool \<times> string" where
  "write_type types flag name st =
     (if airspace_type_and types flag = flag
      then (False, snd st @ (if fst st then [] else '','') @ name) else st)"

definition airspace_types_text :: "airspace_type \<Rightarrow> string" where
  "airspace_types_text types =
     (if types = AT_invalid then []
      else let st = (True, []);
               st = write_type types AT_airport ''airport'' st;
               st = write_type types AT_controlled_airspace ''controlled_airspace'' st;
               st = write_type types AT_special_use_airspace ''special_use_airspace'' st;
               st = write_type types AT_tfr ''tfr'' st;
               st = write_type types AT_wildfire ''wildfire'' st;
               st = write_type types AT_park ''park'' st;
               st = write_type types AT_power_plant ''power_plant'' st;
               st = write_type types AT_heliport ''heliport'' st;
               st = write_type types AT_prison ''prison'' st;
               st = write_type types AT_school ''school'' st;
               st = write_type types AT_hospital ''hospital'' st;
               st = write_type types AT_fire ''fire'' st;
               st = write_type types AT_emergency ''emergency'' st
           in snd st)"

subsection \<open>Members\<close>

record runway =
  rw_name :: string
  rw_length :: float32
  rw_bearing :: float32

datatype airport_use = Use_public

record airport =
  ap_iata :: string
  ap_icao :: string
  ap_paved :: bool
  ap_phone :: string
  ap_tower :: bool
  ap_runways :: "runway list"
  ap_elevation :: float32
  ap_longest_runway :: float32
  ap_instrument_approach_procedure :: bool
  ap_use :: airport_use

text \<open>The enumerations without enumerators keep their number.\<close>

record flight_restriction =
  fr_url :: string
  fr_type :: "32 word"
  fr_reason :: string

record power_plant =
  pw_technology :: string
  pw_code :: "64 word"

record heliport =
  hp_faa_id :: string
  hp_phone :: string
  hp_usage :: "32 word"

datatype airspace_details =
    D_invalid
  | D_airport airport
  | D_controlled_airspace string
  | D_special_use_airspace "32 word"
  | D_tfr flight_restriction
  | D_wildfire string
  | D_park
  | D_power_plant power_plant
  | D_heliport heliport
  | D_prison
  | D_school
  | D_hospital
  | D_fire
  | D_emergency

fun details_kind :: "airspace_details \<Rightarrow> airspace_type" where
  "details_kind D_invalid = AT_invalid"
| "details_kind (D_airport _) = AT_airport"
| "details_kind (D_controlled_airspace _) = AT_controlled_airspace"
| "details_kind (D_special_use_airspace _) = AT_special_use_airspace"
| "details_kind (D_tfr _) = AT_tfr"
| "details_kind (D_wildfire _) = AT_wildfire"
| "details_kind D_park = AT_park"
| "details_kind (D_power_plant _) = AT_power_plant"
| "details_kind (D_heliport _) = AT_heliport"
| "details_kind D_prison = AT_prison"
| "details_kind D_school = AT_school"
| "details_kind D_hospital = AT_hospital"
| "details_kind D_fire = AT_fire"
| "details_kind D_emergency = AT_emergency"

text \<open>The members whose destructor does nothing.\<close>

fun details_trivial :: "airspace_details \<Rightarrow> bool" where
  "details_trivial (D_airport _) = False"
| "details_trivial (D_controlled_airspace _) = False"
| "details_trivial (D_tfr _) = False"
| "details_trivial (D_wildfire _) = False"
| "details_trivial (D_power_plant _) = False"
| "details_trivial (D_heliport _) = False"
| "details_trivial _ = True"

type_synonym details_obj = "(airspace_type, airspace_details) uobj"

record basic_rule =
  br_type :: "32 word"
  br_id :: string
  br_name :: string
  br_description :: string
  br_jurisdiction :: string

record related_geometry =
  rg_id :: string
  rg_geometry :: geometry

record airspace_base =
  as_id :: string
  as_name :: string
  as_country :: string
  as_state :: string
  as_city :: string
  as_last_updated :: date_time
  as_related :: "(string \<times> related_geometry) list"
  as_rules :: "basic_rule list"

record airspace = airspace_base +
  as_geometry :: geometry_obj
  as_details :: details_obj

subsection \<open>Details\<close>

text \<open>\<open>set_details\<close> of a member: the tag, then placement new over whatever is there.\<close>

definition set_details :: "airspace_details \<Rightarrow> details_obj \<Rightarrow> details_obj" where
  "set_details p ob = place details_trivial p (ob\<lparr>utag := details_kind p\<rparr>)"

text \<open>\<open>details_for_...\<close> names a member; reading it needs that member alive.\<close>

definition read_details :: "airspace_type \<Rightarrow> details_obj \<Rightarrow> airspace_details cpp" where
  "read_details t ob = read_as details_kind t ob"

definition copy_details :: "airspace_type \<Rightarrow> details_obj \<Rightarrow> details_obj \<Rightarrow> details_obj cpp" where
  "copy_details t other ob = cbind (read_details t other) (\<lambda>p. Ret (set_details p ob))"

definition set_details_from :: "details_obj \<Rightarrow> details_obj \<Rightarrow> details_obj cpp" where
  "set_details_from ob other =
     cbind
       (let t = utag other
        in if t = AT_airport then copy_details AT_airport other ob
           else if t = AT_controlled_airspace then copy_details AT_controlled_airspace other ob
           else if t = AT_special_use_airspace then copy_details AT_special_use_airspace other ob
           else if t = AT_tfr then copy_details AT_tfr other ob
           else if t = AT_wildfire then copy_details AT_wildfire other ob
           else if t = AT_park then copy_details AT_park other ob
           else if t = AT_power_plant then copy_details AT_power_plant other ob
           else if t = AT_heliport then copy_details AT_heliport other ob
           else if t = AT_prison then copy_details AT_prison other ob
           else if t = AT_school then copy_details AT_school other ob
           else if t = AT_hospital then copy_details AT_hospital other ob
           else if t = AT_fire then copy_details AT_fire other ob
           else if t = AT_emergency then copy_details AT_emergency other ob
           else Ret ob)
       (\<lambda>ob1. Ret (ob1\<lparr>utag := utag other\<rparr>))"

definition details_reset :: "details_obj \<Rightarrow> details_obj cpp" where
  "details_reset ob =
     (let t = utag ob
      in if t = AT_airport then destroy_as details_kind AT_airport ob
         else if t = AT_controlled_airspace then destroy_as details_kind AT_controlled_airspace ob
         else if t = AT_special_use_airspace then destroy_as details_kind AT_special_use_airspace ob
         else if t = AT_tfr then destroy_as details_kind AT_tfr ob
         else if t = AT_wildfire then destroy_as details_kind AT_wildfire ob
         else if t = AT_park then destroy_as details_kind AT_park ob
         else if t = AT_power_plant then destroy_as details_kind AT_power_plant ob
         else if t = AT_heliport then destroy_as details_kind AT_heliport ob
         else if t = AT_prison then destroy_as details_kind AT_prison ob
         else if t = AT_school then destroy_as details_kind AT_school ob
         else if t = AT_hospital then destroy_as details_kind AT_hospital ob
         else if t = AT_fire then destroy_as details_kind AT_fire ob
         else if t = AT_emergency then destroy_as details_kind AT_emergency ob
         else Ret ob)"

subsection \<open>Airspaces\<close>

definition airspace_default :: airspace where
  "airspace_default =
     \<lparr>as_id = [], as_name = [], as_country = [], as_state = [], as_city = [],
      as_last_updated = Not_a_date_time, as_related = [], as_rules = [],
      as_geometry = geometry_default, as_details = (raw AT_invalid)\<lparr>ucont := Some D_invalid\<rparr>\<rparr>"

definition airspace_copy :: "airspace \<Rightarrow> airspace cpp" where
  "airspace_copy rhs =
     cbind (geometry_copy (as_geometry rhs)) (\<lambda>g.
     cbind (set_details_from (as_details airspace_default) (as_details rhs)) (\<lambda>d.
       Ret (rhs\<lparr>as_geometry := g, as_details := d\<rparr>)))"

text \<open>
  \<open>operator=\<close> between two airspaces of a store, which may be the same. The plain members are
  copied one by one, the tag among them; \<open>reset\<close> comes first, the details come last.
\<close>

type_synonym airspace_store = "nat \<Rightarrow> airspace"

definition assign_base :: "airspace \<Rightarrow> airspace \<Rightarrow> airspace" where
  "assign_base l r =
     l\<lparr>as_id := as_id r, as_name := as_name r,
       as_details := (as_details l)\<lparr>utag := utag (as_details r)\<rparr>,
       as_country := as_country r, as_state := as_state r, as_city := as_city r,
       as_last_updated := as_last_updated r, as_related := as_related r, as_rules := as_rules r\<rparr>"

definition airspace_assign :: "airspace_store \<Rightarrow> nat \<Rightarrow> nat \<Rightarrow> airspace_store cpp" where
  "airspace_assign st dst src =
     cbind (details_reset (as_details (st dst))) (\<lambda>d.
       let st1 = st(dst := (st dst)\<lparr>as_details := d\<rparr>);
           st2 = st1(dst := assign_base (st1 dst) (st1 src))
       in cbind (geometry_reset (as_geometry (st2 dst))) (\<lambda>g.
            let st3 = st2(dst := (st2 dst)\<lparr>as_geometry := g\<rparr>)
            in cbind (set_geometry (as_geometry (st3 dst)) (as_geometry (st3 src))) (\<lambda>g'.
                 let st4 = st3(dst := (st3 dst)\<lparr>as_geometry := g'\<rparr>)
                 in cbind (set_details_from (as_details (st4 dst)) (as_details (st4 src))) (\<lambda>d'.
                      Ret (st4(dst := (st4 dst)\<lparr>as_details := d'\<rparr>))))))"

subsection \<open>Comparison\<close>

definition flt_key :: "float32 \<Rightarrow> int" where
  "flt_key x = (if 2 ^ 31 \<le> unat x then - int (unat x mod 2 ^ 31) else int (unat x))"

definition flt_eq :: "float32 \<Rightarrow> float32 \<Rightarrow> bool" where
  "flt_eq x y \<longleftrightarrow> \<not> flt_nan x \<and> \<not> flt_nan y \<and> flt_key x = flt_key y"

definition runway_eq :: "runway \<Rightarrow> runway \<Rightarrow> bool" where
  "runway_eq l r \<longleftrightarrow>
     rw_name l = rw_name r \<and> flt_eq (rw_length l) (rw_length r) \<and> flt_eq (rw_bearing l) (rw_bearing r)"

definition airport_eq :: "airport \<Rightarrow> airport \<Rightarrow> bool" where
  "airport_eq l r \<longleftrightarrow>
     ap_iata l = ap_iata r \<and> ap_icao l = ap_icao r \<and> ap_paved l = ap_paved r \<and>
     ap_phone l = ap_phone r \<and> ap_tower l = ap_tower r \<and>
     vector_eq runway_eq (ap_runways l) (ap_runways r) \<and> flt_eq (ap_elevation l) (ap_elevation r) \<and>
     flt_eq (ap_longest_runway l) (ap_longest_runway r) \<and>
     ap_instrument_approach_procedure l = ap_instrument_approach_procedure r \<and> ap_use l = ap_use r"

definition basic_rule_eq :: "basic_rule \<Rightarrow> basic_rule \<Rightarrow> bool" where
  "basic_rule_eq l r \<longleftrightarrow>
     br_type l = br_type r \<and> br_id l = br_id r \<and> br_name l = br_name r \<and>
     br_description l = br_description r \<and> br_jurisdiction l = br_jurisdiction r"

definition related_geometry_eq :: "related_geometry \<Rightarrow> related_geometry \<Rightarrow> bool" where
  "related_geometry_eq l r \<longleftrightarrow> rg_id l = rg_id r \<and> geometry_eq (rg_geometry l) (rg_geometry r)"

text \<open>The members whose comparison reads something; the others are equal unread.\<close>

definition details_read_eq :: "airspace_details \<Rightarrow> airspace_details \<Rightarrow> bool" where
  "details_read_eq p q =
     (case (p, q) of
        (D_airport a, D_airport b) \<Rightarrow> airport_eq a b
      | (D_special_use_airspace a, D_special_use_airspace b) \<Rightarrow> a = b
      | (D_tfr a, D_tfr b) \<Rightarrow> fr_url a = fr_url b \<and> fr_type a = fr_type b \<and> fr_reason a = fr_reason b
      | (D_wildfire a, D_wildfire b) \<Rightarrow> a = b
      | (D_power_plant a, D_power_plant b) \<Rightarrow> pw_technology a = pw_technology b \<and> pw_code a = pw_code b
      | (D_heliport a, D_heliport b) \<Rightarrow>
          hp_faa_id a = hp_faa_id b \<and> hp_phone a = hp_phone b \<and> hp_usage a = hp_usage b
      | _ \<Rightarrow> False)"

definition compare_details :: "airspace_type \<Rightarrow> details_obj \<Rightarrow> details_obj \<Rightarrow> bool cpp" where
  "compare_details t l r =
     cbind (read_details t l) (\<lambda>p. cbind (read_details t r) (\<lambda>q. Ret (details_read_eq p q)))"

definition details_obj_eq :: "details_obj \<Rightarrow> details_obj \<Rightarrow> bool cpp" where
  "details_obj_eq l r =
     (let t = utag l
      in if t = AT_invalid then Ret True
         else if t = AT_airport then compare_details AT_airport l r
         else if t = AT_controlled_airspace then Ret True
         else if t = AT_special_use_airspace then compare_details AT_special_use_airspace l r
         else if t = AT_tfr then compare_details AT_tfr l r
         else if t = AT_wildfire then compare_details AT_wildfire l r
         else if t = AT_park then Ret True
         else if t = AT_power_plant then compare_details AT_power_plant l r
         else if t = AT_heliport then compare_details AT_heliport l r
         else if t = AT_prison then Ret True
         else if t = AT_school then Ret True
         else if t = AT_hospital then Ret True
         else if t = AT_fire then Ret True
         else if t = AT_emergency then Ret True
         else Ret False)"

definition airspace_eq :: "airspace \<Rightarrow> airspace \<Rightarrow> bool cpp" where
  "airspace_eq l r =
     (if as_id l \<noteq> as_id r \<or> as_name l \<noteq> as_name r \<or> as_country l \<noteq> as_country r \<or>
         as_state l \<noteq> as_state r \<or> as_city l \<noteq> as_city r \<or> as_last_updated l \<noteq> as_last_updated r
      then Ret False
      else cbind (geometry_obj_eq (as_geometry l) (as_geometry r)) (\<lambda>g.
        if g \<and> vector_eq (\<lambda>(k, a) (k', b). k = k' \<and> related_geometry_eq a b) (as_related l) (as_related r) \<and>
           vector_eq basic_rule_eq (as_rules l) (as_rules r)
        then details_obj_eq (as_details l) (as_details r) else Ret False))"

subsection \<open>A mask is a set of types\<close>

text \<open>The names of the types, each with the position of its bit.\<close>

definition type_table :: "(nat \<times> string) list" where
  "type_table =
     [(0, ''airport''), (1, ''controlled_airspace''), (2, ''special_use_airspace''), (3, ''tfr''),
      (4, ''wildfire''), (5, ''park''), (6, ''power_plant''), (7, ''heliport''), (8, ''prison''),
      (9, ''school''), (10, ''hospital''), (11, ''fire''), (12, ''emergency'')]"

definition type_names :: "airspace_type \<Rightarrow> string list" where
  "type_names t = map snd (filter (\<lambda>(i, _). bit t i) type_table)"

fun comma_separated :: "string list \<Rightarrow> string" where
  "comma_separated [] = []"
| "comma_separated [n] = n"
| "comma_separated (n # ns) = n @ '','' @ comma_separated ns"

lemma and_power_eq:
  fixes t :: "'a::len word"
  assumes "i < LENGTH('a)"
  shows "t AND 2 ^ i = 2 ^ i \<longleftrightarrow> bit t i"
proof
  assume "t AND 2 ^ i = 2 ^ i"
  then have "bit (t AND 2 ^ i) i = bit (2 ^ i :: 'a word) i" by simp
  with assms show "bit t i" by (simp add: bit_and_iff bit_exp_iff)
next
  assume "bit t i"
  then show "t AND 2 ^ i = 2 ^ i"
    by (intro bit_word_eqI) (auto simp: bit_and_iff bit_exp_iff)
qed

lemma comma_separated_snoc:
  "comma_separated (ns @ [n]) = (if ns = [] then n else comma_separated ns @ '','' @ n)"
  by (induction ns rule: comma_separated.induct) simp_all

definition written :: "string list \<Rightarrow> bool \<times> string" where
  "written ns = (ns = [], comma_separated ns)"

lemma write_type_written:
  "i < 32 \<Longrightarrow> write_type t (2 ^ i) n (written ns) = written (if bit t i then ns @ [n] else ns)"
  by (simp add: write_type_def written_def airspace_type_and_def and_power_eq comma_separated_snoc)

lemma fold_written:
  assumes "\<forall>(i, n) \<in> set tab. i < 32"
  shows "fold (\<lambda>(i, n). write_type t (2 ^ i) n) tab (written ns) =
         written (ns @ map snd (filter (\<lambda>(i, _). bit t i) tab))"
  using assms by (induction tab arbitrary: ns) (auto simp: write_type_written)

lemma types_text_fold:
  "airspace_types_text t =
     (if t = AT_invalid then [] else snd (fold (\<lambda>(i, n). write_type t (2 ^ i) n) type_table (written [])))"
  by (simp add: airspace_types_text_def type_table_def written_def)

lemma types_text_names: "airspace_types_text t = comma_separated (type_names t)"
proof -
  have "\<forall>(i, n) \<in> set type_table. i < 32" by (simp add: type_table_def)
  from fold_written [OF this, of t "[]"] show ?thesis
    by (auto simp: types_text_fold type_names_def written_def AT_invalid_def filter_empty_conv)
qed

lemma set_type_names: "n \<in> set (type_names t) \<longleftrightarrow> (\<exists>i. (i, n) \<in> set type_table \<and> bit t i)"
  by (force simp: type_names_def)

lemma type_table_functional: "(i, n) \<in> set type_table \<Longrightarrow> (k, n) \<in> set type_table \<Longrightarrow> i = k"
  by (auto simp: type_table_def)

lemma type_names_iff:
  "(i, n) \<in> set type_table \<Longrightarrow> n \<in> set (type_names t) \<longleftrightarrow> bit t i"
  using type_table_functional by (auto simp: set_type_names)

lemma type_names_table: "n \<in> set (type_names t) \<Longrightarrow> \<exists>i. (i, n) \<in> set type_table"
  by (auto simp: set_type_names)

lemma type_table_bound: "(i, n) \<in> set type_table \<Longrightarrow> i < 32"
  by (auto simp: type_table_def)

text \<open>
  The operators on airspace types are union, intersection and complement of the sets of
  types, every type is in \<open>all\<close>, and the text of a set is its types in order, separated by commas.
\<close>

lemma airspace_types_are_sets:
  "set (type_names (airspace_type_or a b)) = set (type_names a) \<union> set (type_names b) \<and>
   set (type_names (airspace_type_and a b)) = set (type_names a) \<inter> set (type_names b) \<and>
   set (type_names (airspace_type_not a)) = set (map snd type_table) - set (type_names a) \<and>
   type_names AT_all = map snd type_table \<and>
   airspace_types_text a = comma_separated (type_names a)"
proof (intro conjI set_eqI)
  fix n
  show "n \<in> set (type_names (airspace_type_or a b)) \<longleftrightarrow> n \<in> set (type_names a) \<union> set (type_names b)"
    by (auto simp: set_type_names airspace_type_or_def bit_or_iff)
  show "n \<in> set (type_names (airspace_type_and a b)) \<longleftrightarrow> n \<in> set (type_names a) \<inter> set (type_names b)"
  proof (cases "\<exists>i. (i, n) \<in> set type_table")
    case True
    then show ?thesis by (auto simp: type_names_iff airspace_type_and_def bit_and_iff)
  qed (auto dest: type_names_table)
  show "n \<in> set (type_names (airspace_type_not a)) \<longleftrightarrow> n \<in> set (map snd type_table) - set (type_names a)"
  proof (cases "\<exists>i. (i, n) \<in> set type_table")
    case True
    then obtain i where i: "(i, n) \<in> set type_table" by blast
    with type_table_bound [OF i] show ?thesis
      by (auto simp: type_names_iff [OF i] airspace_type_not_def bit_not_iff intro: image_eqI [OF _ i])
  qed (auto dest: type_names_table)
qed (simp_all add: types_text_names type_names_def AT_all_def type_table_def)

subsection \<open>Copies\<close>

definition airspace_flags :: "airspace_type list" where
  "airspace_flags =
     [AT_airport, AT_controlled_airspace, AT_special_use_airspace, AT_tfr, AT_wildfire, AT_park,
      AT_power_plant, AT_heliport, AT_prison, AT_school, AT_hospital, AT_fire, AT_emergency]"

abbreviation details_wf :: "details_obj \<Rightarrow> bool" where
  "details_wf \<equiv> uwf AT_invalid details_kind details_trivial"

lemma details_kind_flag: "details_kind p = AT_invalid \<or> details_kind p \<in> set airspace_flags"
  by (cases p) (simp_all add: airspace_flags_def AT_invalid_def)

lemma details_kind_invalid [simp]: "details_kind p = AT_invalid \<longleftrightarrow> p = D_invalid"
  by (cases p) (simp_all add: AT_invalid_def)

lemma details_wf_tag: "details_wf ob \<Longrightarrow> utag ob = AT_invalid \<or> utag ob \<in> set airspace_flags"
  using details_kind_flag [of "the (ucont ob)"] by (auto simp: uwf_def split: if_splits option.splits)

lemma details_reset_eq:
  "details_reset ob =
     (if utag ob \<in> set airspace_flags then destroy_as details_kind (utag ob) ob else Ret ob)"
  unfolding details_reset_def airspace_flags_def Let_def by (simp cong: if_cong)

lemma set_details_from_eq:
  "set_details_from ob other =
     cbind (if utag other \<in> set airspace_flags then copy_details (utag other) other ob else Ret ob)
       (\<lambda>ob1. Ret (ob1\<lparr>utag := utag other\<rparr>))"
  unfolding set_details_from_def airspace_flags_def Let_def by (simp cong: if_cong)

lemma invalid_no_flag: "AT_invalid \<notin> set airspace_flags"
  by (simp add: airspace_flags_def AT_invalid_def)

text \<open>Storage in which nothing that needs a destructor is alive.\<close>

definition details_empty :: "details_obj \<Rightarrow> bool" where
  "details_empty ob \<longleftrightarrow> (case ucont ob of None \<Rightarrow> True | Some p \<Rightarrow> details_trivial p)"

lemma details_reset_ok:
  assumes "details_wf ob"
  shows "\<exists>d. details_reset ob = Ret d \<and> details_empty d \<and> uleak d = uleak ob"
  using details_wf_tag [OF assms]
proof
  assume "utag ob = AT_invalid"
  with assms show ?thesis
    by (auto simp: details_reset_eq invalid_no_flag details_empty_def uwf_def split: option.splits)
next
  assume flag: "utag ob \<in> set airspace_flags"
  then have "utag ob \<noteq> AT_invalid" using invalid_no_flag by metis
  with flag assms show ?thesis
    by (simp add: details_reset_eq uwf_destroy details_empty_def)
qed

lemma set_details_from_ok:
  assumes "details_empty ob" "details_wf other"
  shows "\<exists>d. set_details_from ob other = Ret d \<and> details_wf d \<and>
             uval AT_invalid d = uval AT_invalid other \<and> uleak d = uleak ob"
proof (cases "utag other = AT_invalid")
  case True
  with assms(1) show ?thesis
    by (simp add: set_details_from_eq invalid_no_flag uwf_def uval_def details_empty_def)
next
  case False
  with details_wf_tag [OF assms(2)] have flag: "utag other \<in> set airspace_flags" by simp
  from assms(2) False obtain p where p: "read_as details_kind (utag other) other = Ret p"
    "details_kind p = utag other" "uval AT_invalid other = Some p"
    by (rule uwf_read)
  with flag False assms(1) show ?thesis
    by (auto simp: set_details_from_eq copy_details_def read_details_def set_details_def place_def
          uwf_def uval_def details_empty_def split: option.splits)
qed

definition airspace_wf :: "airspace \<Rightarrow> bool" where
  "airspace_wf a \<longleftrightarrow> geometry_wf (as_geometry a) \<and> details_wf (as_details a)"

text \<open>What an airspace denotes, and what it has abandoned without a destructor.\<close>

definition airspace_value :: "airspace \<Rightarrow> airspace_base \<times> geometry \<times> airspace_details option" where
  "airspace_value a = (airspace_base.truncate a, geometry_of (as_geometry a), uval AT_invalid (as_details a))"

definition airspace_leaks :: "airspace \<Rightarrow> geometry list \<times> airspace_details list" where
  "airspace_leaks a = (uleak (as_geometry a), uleak (as_details a))"

lemma airspace_default_ok: "airspace_wf airspace_default"
proof -
  have "geometry_wf geometry_default" by (rule geometry_default_ok)
  moreover have "details_wf ((raw AT_invalid)\<lparr>ucont := Some D_invalid\<rparr>)" by (simp add: uwf_def)
  ultimately show ?thesis by (simp add: airspace_wf_def airspace_default_def)
qed

lemma airspace_assign_value:
  assumes "airspace_wf (st dst)" "airspace_wf (st src)" "dst \<noteq> src"
  shows "\<exists>a. airspace_assign st dst src = Ret (st(dst := a)) \<and> airspace_wf a \<and>
             airspace_value a = airspace_value (st src) \<and> airspace_leaks a = airspace_leaks (st dst)"
proof -
  obtain d where d: "details_reset (as_details (st dst)) = Ret d" "details_empty d"
    "uleak d = uleak (as_details (st dst))"
    using details_reset_ok [of "as_details (st dst)"] assms(1) by (auto simp: airspace_wf_def)
  obtain g where g: "geometry_reset (as_geometry (st dst)) = Ret g" "utag g = GT_invalid" "geometry_wf g"
    "uleak g = uleak (as_geometry (st dst))"
    using geometry_reset_ok [of "as_geometry (st dst)"] assms(1) by (auto simp: airspace_wf_def)
  obtain g' where g': "set_geometry g (as_geometry (st src)) = Ret g'" "geometry_wf g'"
    "uval GT_invalid g' = uval GT_invalid (as_geometry (st src))" "uleak g' = uleak g"
    using set_geometry_ok [OF g(3,2)] assms(2) by (auto simp: airspace_wf_def)
  let ?d1 = "d\<lparr>utag := utag (as_details (st src))\<rparr>"
  have "details_empty ?d1" using d(2) by (simp add: details_empty_def)
  then obtain d' where d': "set_details_from ?d1 (as_details (st src)) = Ret d'" "details_wf d'"
    "uval AT_invalid d' = uval AT_invalid (as_details (st src))" "uleak d' = uleak d"
    using set_details_from_ok [of ?d1 "as_details (st src)"] assms(2) by (auto simp: airspace_wf_def)
  let ?a = "(assign_base (st dst) (st src))\<lparr>as_geometry := g', as_details := d'\<rparr>"
  have "airspace_assign st dst src = Ret (st(dst := ?a))"
    using assms(3) d(1) g(1) g'(1) d'(1) by (simp add: airspace_assign_def Let_def assign_base_def)
  moreover have "airspace_wf ?a" using g'(2) d'(2) by (simp add: airspace_wf_def)
  moreover have "airspace_value ?a = airspace_value (st src)"
    using g'(3) d'(3)
    by (simp add: airspace_value_def geometry_of_def assign_base_def airspace_base.truncate_def)
  moreover have "airspace_leaks ?a = airspace_leaks (st dst)"
    using d(3) g(4) g'(4) d'(4) by (simp add: airspace_leaks_def)
  ultimately show ?thesis by blast
qed

text \<open>
  An assignment between two airspaces gives the destination the value of the source, keeps
  every airspace of the store well-formed, changes no other airspace, and abandons no member
  that needs its destructor.
\<close>

lemma airspace_assignment:
  assumes "\<forall>i. airspace_wf (st i)" "dst \<noteq> src"
  shows "\<exists>st'. airspace_assign st dst src = Ret st' \<and> (\<forall>i. airspace_wf (st' i)) \<and>
     (\<lambda>i. airspace_value (st' i)) = (\<lambda>i. airspace_value (st i))(dst := airspace_value (st src)) \<and>
     (\<forall>i. airspace_leaks (st' i) = airspace_leaks (st i))"
  using airspace_assign_value [of st dst src] assms by (auto simp: fun_eq_iff)

definition tower_airport :: airport where
  "tower_airport =
     \<lparr>ap_iata = ''HAM'', ap_icao = ''EDDH'', ap_paved = True, ap_phone = [], ap_tower = True,
      ap_runways = [], ap_elevation = 0, ap_longest_runway = 0,
      ap_instrument_approach_procedure = False, ap_use = Use_public\<rparr>"

definition airport_airspace :: airspace where
  "airport_airspace =
     airspace_default\<lparr>as_details := set_details (D_airport tower_airport) (as_details airspace_default)\<rparr>"

lemma airport_airspace_ok: "airspace_wf airport_airspace"
proof -
  have "geometry_wf geometry_default" by (rule geometry_default_ok)
  moreover have "details_wf (set_details (D_airport tower_airport) (as_details airspace_default))"
    by (simp add: airspace_default_def set_details_def place_def raw_def uwf_def AT_invalid_def)
  ultimately show ?thesis by (simp add: airspace_wf_def airport_airspace_def airspace_default_def)
qed

definition two_airspaces :: airspace_store where
  "two_airspaces i = (if i = 1 then airport_airspace else airspace_default)"

lemma airspace_assignment_witness:
  "\<exists>st'. airspace_assign two_airspaces 0 1 = Ret st' \<and> (\<forall>i. airspace_wf (st' i)) \<and>
     (\<lambda>i. airspace_value (st' i)) =
       (\<lambda>i. airspace_value (two_airspaces i))(0 := airspace_value (two_airspaces 1)) \<and>
     (\<forall>i. airspace_leaks (st' i) = airspace_leaks (two_airspaces i))"
  by (rule airspace_assignment [of two_airspaces 0 1])
     (simp_all add: two_airspaces_def airspace_default_ok airport_airspace_ok)

text \<open>Assigning an airspace with details to itself reads the member it has just destroyed.\<close>

lemma airspace_assign_self:
  assumes "airspace_wf (st i)" "utag (as_details (st i)) \<noteq> AT_invalid"
  shows "airspace_assign st i i = UB"
proof -
  let ?d = "as_details (st i)"
  from assms details_wf_tag [of ?d] have flag: "utag ?d \<in> set airspace_flags"
    by (simp add: airspace_wf_def)
  have reset: "details_reset ?d = Ret (?d\<lparr>ucont := None\<rparr>)"
    using assms flag uwf_destroy [of AT_invalid details_kind details_trivial ?d]
    by (simp add: details_reset_eq airspace_wf_def)
  obtain g where g: "geometry_reset (as_geometry (st i)) = Ret g" "utag g = GT_invalid" "geometry_wf g"
    using geometry_reset_ok [of "as_geometry (st i)"] assms(1) by (auto simp: airspace_wf_def)
  obtain g' where g': "set_geometry g g = Ret g'"
    using set_geometry_ok [OF g(3,2,3)] by auto
  show ?thesis
    using reset g(1) g' flag
    by (simp add: airspace_assign_def Let_def assign_base_def set_details_from_eq copy_details_def
          read_details_def read_as_def)
qed

subsection \<open>Comparison of types\<close>

text \<open>The members other than the details.\<close>

definition airspace_same_base :: "airspace \<Rightarrow> airspace \<Rightarrow> bool" where
  "airspace_same_base l r \<longleftrightarrow>
     as_id l = as_id r \<and> as_name l = as_name r \<and> as_country l = as_country r \<and>
     as_state l = as_state r \<and> as_city l = as_city r \<and> as_last_updated l = as_last_updated r \<and>
     geometry_eq (geometry_of (as_geometry l)) (geometry_of (as_geometry r)) \<and>
     vector_eq (\<lambda>(k, a) (k', b). k = k' \<and> related_geometry_eq a b) (as_related l) (as_related r) \<and>
     vector_eq basic_rule_eq (as_rules l) (as_rules r)"

definition unread_types :: "airspace_type list" where
  "unread_types =
     [AT_invalid, AT_controlled_airspace, AT_park, AT_prison, AT_school, AT_hospital, AT_fire, AT_emergency]"

lemma details_obj_eq_cases:
  "details_obj_eq l r =
     (if utag l \<in> set unread_types then Ret True
      else if utag l \<in> set airspace_flags then compare_details (utag l) l r
      else Ret False)"
  unfolding details_obj_eq_def unread_types_def airspace_flags_def Let_def
  by (simp add: AT_invalid_def)

lemma airspace_eq_base:
  assumes "airspace_wf l" "airspace_wf r"
  shows "airspace_eq l r =
     (if airspace_same_base l r then details_obj_eq (as_details l) (as_details r) else Ret False)"
proof -
  have "geometry_obj_eq (as_geometry l) (as_geometry r) =
      Ret (geometry_eq (geometry_of (as_geometry l)) (geometry_of (as_geometry r)))"
    using assms by (intro geometry_obj_eq_value) (simp_all add: airspace_wf_def)
  then show ?thesis by (auto simp: airspace_eq_def airspace_same_base_def)
qed

lemma compare_other_type:
  assumes "details_wf r" "utag r \<noteq> AT_invalid" "utag r \<noteq> utag l"
    and "details_wf l" "utag l \<in> set airspace_flags"
  shows "compare_details (utag l) l r = UB"
proof -
  have "utag l \<noteq> AT_invalid" using assms(5) invalid_no_flag by metis
  with assms show ?thesis
    by (auto simp: compare_details_def read_details_def read_as_def uwf_def split: option.splits)
qed

text \<open>
  The comparison of two airspaces whose details have different types and whose other
  members agree never says that they differ: it says they are equal when the left one is
  controlled, a park, a prison, a school, a hospital, a fire or an emergency, and reads a member
  that is not there otherwise.
\<close>

lemma airspace_comparison_of_types:
  assumes "airspace_wf l" "airspace_wf r" "airspace_same_base l r"
    and "utag (as_details l) \<noteq> utag (as_details r)"
    and "utag (as_details l) \<noteq> AT_invalid" "utag (as_details r) \<noteq> AT_invalid"
  shows "airspace_eq l r = (if utag (as_details l) \<in> set unread_types then Ret True else UB)"
proof -
  have wf: "details_wf (as_details l)" "details_wf (as_details r)"
    using assms by (simp_all add: airspace_wf_def)
  with details_wf_tag assms(5) have "utag (as_details l) \<in> set airspace_flags" by blast
  with wf compare_other_type assms(4,6) have "compare_details (utag (as_details l)) (as_details l) (as_details r) = UB"
    by metis
  with \<open>utag (as_details l) \<in> set airspace_flags\<close> show ?thesis
    by (simp add: airspace_eq_base [OF assms(1,2)] assms(3) details_obj_eq_cases)
qed

definition with_details :: "airspace_details \<Rightarrow> airspace" where
  "with_details p = airspace_default\<lparr>as_details := set_details p (as_details airspace_default)\<rparr>"

lemma with_details_ok: "p \<noteq> D_invalid \<Longrightarrow> airspace_wf (with_details p)"
proof -
  assume p: "p \<noteq> D_invalid"
  have "geometry_wf geometry_default" by (rule geometry_default_ok)
  moreover have "details_wf (set_details p (as_details airspace_default))"
    using p by (simp add: airspace_default_def set_details_def place_def raw_def uwf_def)
  ultimately show ?thesis by (simp add: airspace_wf_def with_details_def airspace_default_def)
qed

lemma with_details_same_base: "airspace_same_base (with_details p) (with_details q)"
  by (simp add: airspace_same_base_def with_details_def airspace_default_def geometry_eq.simps vector_eq_def
        geometry_default_ok [unfolded geometry_default_def])

lemma with_details_tag: "utag (as_details (with_details p)) = details_kind p"
  by (simp add: with_details_def set_details_def place_def)

lemma airspace_comparison_of_types_witness:
  "airspace_eq (with_details D_park) (with_details D_school) = Ret True \<and>
   airspace_eq (with_details (D_wildfire [])) (with_details D_park) = UB"
  using airspace_comparison_of_types [of "with_details D_park" "with_details D_school"]
    airspace_comparison_of_types [of "with_details (D_wildfire [])" "with_details D_park"]
  by (simp add: with_details_ok with_details_same_base with_details_tag unread_types_def AT_invalid_def)

text \<open>Two airspaces with details of one type are compared by the values.\<close>

lemma airspace_eq_same_type:
  assumes "airspace_wf l" "airspace_wf r" "airspace_same_base l r"
    and "uval AT_invalid (as_details l) = Some p" "uval AT_invalid (as_details r) = Some q"
    and "details_kind p = details_kind q"
  shows "airspace_eq l r = Ret (details_kind p \<in> set unread_types \<or> details_read_eq p q)"
proof -
  have wf: "details_wf (as_details l)" "details_wf (as_details r)"
    using assms by (simp_all add: airspace_wf_def)
  have tags: "utag (as_details l) = details_kind p" "utag (as_details r) = details_kind q"
    "utag (as_details l) \<noteq> AT_invalid"
    using wf assms(4,5) by (auto simp: uwf_def uval_def split: if_splits)
  from tags(3) details_wf_tag [OF wf(1)] have "utag (as_details l) \<in> set airspace_flags" by simp
  moreover have "compare_details (details_kind p) (as_details l) (as_details r) = Ret (details_read_eq p q)"
    using assms(4-6) tags by (simp add: compare_details_def read_details_def read_as_def uval_def)
  ultimately show ?thesis
    using tags assms(6) by (simp add: airspace_eq_base [OF assms(1,2)] assms(3) details_obj_eq_cases)
qed

end
