(* ===== verification/Rest_Codecs.thy ===== *)
theory Rest_Codecs
  imports Plan_Json Airspace
begin

text \<open>
  What the endpoints of the services send: the parameters of a query
  (src/airmap/codec/http/query/*.cpp) and the body of a request (src/airmap/codec/json/
  \<open>advisories\<close>, \<open>authenticator\<close>, \<open>credentials\<close>, \<open>pilots\<close>, \<open>rulesets\<close>). A query is kept as a
  list of its parameters. The texts Boost and the JSON library produce are the record \<open>texts\<close>.
\<close>

record texts =
  tx_iso :: "date_time \<Rightarrow> string"
  tx_float :: "float32 \<Rightarrow> string"
  tx_streamed_float :: "float32 \<Rightarrow> string"
  tx_dump :: "json \<Rightarrow> string"

type_synonym query = "(string \<times> string) list"

definition query_opt :: "string \<Rightarrow> ('a \<Rightarrow> string) \<Rightarrow> 'a option \<Rightarrow> query \<Rightarrow> query" where
  "query_opt k f x q = (case x of None \<Rightarrow> q | Some v \<Rightarrow> put k (f v) q)"

definition bool_text :: "bool \<Rightarrow> string" where
  "bool_text b = (if b then ''true'' else ''false'')"

definition uint_text :: "32 word \<Rightarrow> string" where
  "uint_text n = show_nat (unat n)"

definition query_geometry :: "texts \<Rightarrow> geometry option \<Rightarrow> query \<Rightarrow> query cpp" where
  "query_geometry tx g q =
     (case g of
        None \<Rightarrow> Ret q
      | Some v \<Rightarrow> cbind (encode_geometry v) (\<lambda>j. Ret (put ''geometry'' (tx_dump tx j) q)))"

subsection \<open>Types of airspaces and data to exclude\<close>

text \<open>Fires and emergencies are taken out of the set, which may leave nothing.\<close>

definition searchable :: "airspace_type \<Rightarrow> airspace_type" where
  "searchable t =
     airspace_type_and (airspace_type_and t (airspace_type_not AT_emergency)) (airspace_type_not AT_fire)"

definition query_types :: "string \<Rightarrow> airspace_type option \<Rightarrow> query \<Rightarrow> query" where
  "query_types k t q =
     (case t of
        None \<Rightarrow> q
      | Some v \<Rightarrow> if v \<noteq> AT_invalid then put k (airspace_types_text (searchable v)) q else q)"

abbreviation EX_aircraft :: "32 word" where "EX_aircraft \<equiv> 1"
abbreviation EX_user_metadata :: "32 word" where "EX_user_metadata \<equiv> 2"
abbreviation EX_app_metadata :: "32 word" where "EX_app_metadata \<equiv> 4"
abbreviation EX_authorized_apps :: "32 word" where "EX_authorized_apps \<equiv> 8"

definition exclude_or :: "32 word \<Rightarrow> 32 word \<Rightarrow> 32 word" where
  "exclude_or l r = l OR r"

definition exclude_and :: "32 word \<Rightarrow> 32 word \<Rightarrow> 32 word" where
  "exclude_and l r = l AND r"

definition write_exclude :: "32 word \<Rightarrow> 32 word \<Rightarrow> string \<Rightarrow> bool \<times> string \<Rightarrow> bool \<times> string" where
  "write_exclude ex flag name st =
     (if exclude_and ex flag = flag
      then (False, snd st @ (if fst st then [] else '','') @ name) else st)"

definition exclude_text :: "32 word \<Rightarrow> string" where
  "exclude_text ex =
     (let st = (True, []);
          st = write_exclude ex EX_aircraft ''aircraft'' st;
          st = write_exclude ex EX_user_metadata ''user_metadata'' st;
          st = write_exclude ex EX_app_metadata ''app_metadata'' st;
          st = write_exclude ex EX_authorized_apps ''authorized_apps'' st
      in snd st)"

subsection \<open>Queries\<close>

record flights_search =
  fs_authorization :: "string option"
  fs_limit :: "32 word option"
  fs_geometry :: "geometry option"
  fs_country :: "string option"
  fs_state :: "string option"
  fs_city :: "string option"
  fs_pilot_id :: "string option"
  fs_start_after :: "date_time option"
  fs_start_before :: "date_time option"
  fs_end_after :: "date_time option"
  fs_end_before :: "date_time option"
  fs_enhance :: "bool option"

definition flights_search_query :: "texts \<Rightarrow> flights_search \<Rightarrow> query cpp" where
  "flights_search_query tx p =
     cbind (query_geometry tx (fs_geometry p) (query_opt ''limit'' uint_text (fs_limit p) [])) (\<lambda>q.
     Ret ((query_opt ''enhance'' bool_text (fs_enhance p) \<circ>
           query_opt ''end_before'' (tx_iso tx) (fs_end_before p) \<circ>
           query_opt ''end_after'' (tx_iso tx) (fs_end_after p) \<circ>
           query_opt ''start_before'' (tx_iso tx) (fs_start_before p) \<circ>
           query_opt ''start_after'' (tx_iso tx) (fs_start_after p) \<circ>
           query_opt ''pilot_id'' id (fs_pilot_id p) \<circ>
           query_opt ''city'' id (fs_city p) \<circ>
           query_opt ''state'' id (fs_state p) \<circ>
           query_opt ''country'' id (fs_country p)) q))"

definition flight_for_id_query :: "bool option \<Rightarrow> query" where
  "flight_for_id_query enhance = query_opt ''enhance'' bool_text enhance []"

text \<open>\<open>full\<close> is an \<open>Optional<bool>\<close> of which only the presence is tested; \<open>limit\<close> is not sent.\<close>

record airspaces_search =
  ss_types :: "airspace_type option"
  ss_ignored_types :: "airspace_type option"
  ss_full :: "bool option"
  ss_geometry :: geometry
  ss_buffer :: "32 word option"
  ss_limit :: "32 word option"
  ss_offset :: "32 word option"
  ss_date_time :: "date_time option"

definition airspaces_search_query :: "texts \<Rightarrow> airspaces_search \<Rightarrow> query cpp" where
  "airspaces_search_query tx p =
     cbind (query_geometry tx (Some (ss_geometry p))
              (put ''full'' (bool_text (ss_full p \<noteq> None))
                (query_types ''ignored_types'' (ss_ignored_types p) (query_types ''types'' (ss_types p) [])))) (\<lambda>q.
     Ret ((query_opt ''datetime'' (tx_iso tx) (ss_date_time p) \<circ>
           query_opt ''offset'' uint_text (ss_offset p) \<circ>
           query_opt ''buffer'' uint_text (ss_buffer p)) q))"

record status_params =
  sp_latitude :: "float32 option"
  sp_longitude :: "float32 option"
  sp_types :: "airspace_type option"
  sp_ignored_types :: "airspace_type option"
  sp_weather :: "bool option"
  sp_flight_date_time :: "date_time option"
  sp_geometry :: "geometry option"
  sp_buffer :: "32 word option"

definition status_query :: "texts \<Rightarrow> status_params \<Rightarrow> query cpp" where
  "status_query tx p =
     cbind (query_geometry tx (sp_geometry p)
       ((query_opt ''datetime'' (tx_iso tx) (sp_flight_date_time p) \<circ>
         query_types ''ignored_types'' (sp_ignored_types p) \<circ>
         query_types ''types'' (sp_types p) \<circ>
         query_opt ''longitude'' (tx_streamed_float tx) (sp_longitude p) \<circ>
         query_opt ''latitude'' (tx_streamed_float tx) (sp_latitude p)) [])) (\<lambda>q.
     Ret ((query_opt ''weather'' bool_text (sp_weather p) \<circ>
           query_opt ''buffer'' uint_text (sp_buffer p)) q))"

definition advisory_for_id_query :: "texts \<Rightarrow> date_time option \<Rightarrow> date_time option \<Rightarrow> query" where
  "advisory_for_id_query tx start stop =
     query_opt ''end'' (tx_iso tx) stop (query_opt ''start'' (tx_iso tx) start [])"

text \<open>The coordinates of a weather report are plain floats, and \<open>if (latitude)\<close> tests for zero.\<close>

record weather_params =
  wp_latitude :: float32
  wp_longitude :: float32
  wp_start :: "date_time option"
  wp_end :: "date_time option"

definition query_nonzero :: "texts \<Rightarrow> string \<Rightarrow> float32 \<Rightarrow> query \<Rightarrow> query" where
  "query_nonzero tx k x q = (if flt_eq x 0 then q else put k (tx_float tx x) q)"

definition weather_query :: "texts \<Rightarrow> weather_params \<Rightarrow> query" where
  "weather_query tx p =
     query_opt ''end'' (tx_iso tx) (wp_end p)
       (query_opt ''start'' (tx_iso tx) (wp_start p)
         (query_nonzero tx ''longitude'' (wp_longitude p)
           (query_nonzero tx ''latitude'' (wp_latitude p) [])))"

definition manufacturers_query :: "string option \<Rightarrow> query" where
  "manufacturers_query name = query_opt ''q'' id name []"

text \<open>A manufacturer is given by its id and its name.\<close>

definition models_query :: "(string \<times> string) option \<Rightarrow> string option \<Rightarrow> query" where
  "models_query manufacturer name =
     query_opt ''q'' id name (query_opt ''manufacturer'' fst manufacturer [])"

definition pilot_query :: "32 word option \<Rightarrow> bool \<Rightarrow> query" where
  "pilot_query exclude statistics =
     put ''statistics'' (bool_text statistics) (query_opt ''enhance'' exclude_text exclude [])"

definition fetch_rules_query :: "string option \<Rightarrow> query" where
  "fetch_rules_query rulesets = query_opt ''rulesets'' id rulesets []"

subsection \<open>Bodies\<close>

text \<open>A required member that was never set is written as null.\<close>

definition encode_optional :: "('a \<Rightarrow> json cpp) \<Rightarrow> 'a option \<Rightarrow> json cpp" where
  "encode_optional enc x = (case x of None \<Rightarrow> Ret J_null | Some v \<Rightarrow> enc v)"

definition encode_string_value :: "string \<Rightarrow> json cpp" where
  "encode_string_value s = Ret (J_string s)"

record advisory_search =
  av_geometry :: "geometry option"
  av_rulesets :: "string option"
  av_start :: "date_time option"
  av_end :: "date_time option"

definition encode_advisory_search :: "texts \<Rightarrow> advisory_search \<Rightarrow> json cpp" where
  "encode_advisory_search tx p =
     cbind (encode_optional encode_geometry (av_geometry p)) (\<lambda>g.
     cbind (encode_optional encode_string_value (av_rulesets p)) (\<lambda>r.
     cbind (encode_optional (\<lambda>t. encode_string_value (tx_iso tx t)) (av_start p)) (\<lambda>t1.
     cbind (encode_optional (\<lambda>t. encode_string_value (tx_iso tx t)) (av_end p)) (\<lambda>t2.
       json_object [(''geometry'', g), (''rulesets'', r), (''start'', t1), (''end'', t2)]))))"

record evaluate_rules =
  er_geometry :: "geometry option"
  er_features :: "(string \<times> feature_value option) list"
  er_rulesets :: "string option"

definition encode_evaluate_rules :: "evaluate_rules \<Rightarrow> json cpp" where
  "encode_evaluate_rules p =
     cbind (encode_optional encode_geometry (er_geometry p)) (\<lambda>g.
     cbind (encode_optional encode_string_value (er_rulesets p)) (\<lambda>r.
     cbind (json_object [(''geometry'', g), (''rulesets'', r)]) (encode_features (er_features p))))"

definition decode_evaluate_rules :: "json \<Rightarrow> evaluate_rules cpp" where
  "decode_evaluate_rules j =
     cbind (json_member ''geometry'' (decode_optional decode_geometry) None j) (\<lambda>g.
     cbind (json_member ''rulesets'' (decode_optional json_get_string) None j) (\<lambda>r.
     cbind (decode_member_features j []) (\<lambda>fs.
       Ret \<lparr>er_geometry = g, er_features = fs, er_rulesets = r\<rparr>)))"

definition encode_rulesets_search :: "geometry option \<Rightarrow> json cpp" where
  "encode_rulesets_search g = cbind (encode_optional encode_geometry g) (\<lambda>j. json_object [(''geometry'', j)])"

text \<open>The app and user metadata of an update are not written.\<close>

record update_pilot =
  up_first_name :: string
  up_last_name :: string
  up_user_name :: string
  up_phone :: string
  up_app_metadata :: "(string \<times> string) list"
  up_user_metadata :: "(string \<times> string) list"

definition encode_update_pilot :: "update_pilot \<Rightarrow> json cpp" where
  "encode_update_pilot p =
     json_object
       [(''first_name'', J_string (up_first_name p)), (''last_name'', J_string (up_last_name p)),
        (''username'', J_string (up_user_name p)), (''phone'', J_string (up_phone p))]"

definition encode_finish_verify :: "32 word \<Rightarrow> json cpp" where
  "encode_finish_verify token = json_object [(''token'', J_unsigned (ucast token))]"

definition encode_add_aircraft :: "string \<Rightarrow> string \<Rightarrow> json cpp" where
  "encode_add_aircraft model_id nick_name =
     json_object [(''model_id'', J_string model_id), (''nickname'', J_string nick_name)]"

definition encode_update_aircraft :: "string \<Rightarrow> json cpp" where
  "encode_update_aircraft nick_name = json_object [(''nick_name'', J_string nick_name)]"

subsection \<open>Authentication\<close>

datatype grant_type = Grant_password | Grant_bearer
datatype token_scope = Scope_access_token | Scope_open_id | Scope_open_id_offline_access
datatype connection = Username_password_authentication

definition encode_grant_type :: "grant_type \<Rightarrow> json \<Rightarrow> json cpp" where
  "encode_grant_type t j =
     (case t of
        Grant_bearer \<Rightarrow> json_set ''grant_type'' (J_string ''urn:ietf:params:oauth:grant-type:jwt-bearer'') j
      | Grant_password \<Rightarrow> json_set ''grant_type'' (J_string ''password'') j)"

definition encode_scope :: "token_scope \<Rightarrow> json \<Rightarrow> json cpp" where
  "encode_scope s j =
     (case s of
        Scope_open_id \<Rightarrow> json_set ''scope'' (J_string ''openid'') j
      | Scope_open_id_offline_access \<Rightarrow> json_set ''scope'' (J_string ''openid offline_access'') j
      | Scope_access_token \<Rightarrow> json_set ''scope'' (J_string []) j)"

definition encode_connection :: "connection \<Rightarrow> json \<Rightarrow> json cpp" where
  "encode_connection c j =
     (case c of
        Username_password_authentication \<Rightarrow>
          json_set ''connection'' (J_string ''Username-Password-Authentication'') j)"

record password_params =
  au_oauth :: oauth_credentials
  au_grant_type :: grant_type
  au_scope :: token_scope
  au_connection :: connection

definition encode_password_params :: "password_params \<Rightarrow> json cpp" where
  "encode_password_params p =
     cbind (json_object
       [(''username'', J_string (oc_username (au_oauth p))), (''password'', J_string (oc_password (au_oauth p))),
        (''client_id'', J_string (oc_client_id (au_oauth p))), (''device'', J_string (oc_device_id (au_oauth p)))]) (\<lambda>j.
     cbind (encode_grant_type (au_grant_type p) j) (\<lambda>j.
     cbind (encode_scope (au_scope p) j) (encode_connection (au_connection p))))"

definition encode_anonymous_params :: "string \<Rightarrow> json cpp" where
  "encode_anonymous_params i = json_object [(''user_id'', J_string i)]"

record renew_params =
  rn_client_id :: string
  rn_refresh_token :: string
  rn_grant_type :: grant_type
  rn_scope :: token_scope

definition encode_renew_params :: "renew_params \<Rightarrow> json cpp" where
  "encode_renew_params p =
     cbind (json_object
       [(''client_id'', J_string (rn_client_id p)), (''refresh_token'', J_string (rn_refresh_token p))]) (\<lambda>j.
     cbind (encode_grant_type (rn_grant_type p) j) (encode_scope (rn_scope p)))"

subsection \<open>Credentials\<close>

text \<open>
  \<open>Credentials::Anonymous\<close> is the type of the parameters of an anonymous authentication, so
  its encoder is theirs and writes another key than the decoder reads.
\<close>

definition decode_anonymous_credentials :: "json \<Rightarrow> string cpp" where
  "decode_anonymous_credentials j = json_member ''id'' json_get_string [] j"

definition decode_oauth_credentials :: "json \<Rightarrow> oauth_credentials cpp" where
  "decode_oauth_credentials j =
     cbind (json_member ''username'' json_get_string [] j) (\<lambda>u.
     cbind (json_member ''password'' json_get_string [] j) (\<lambda>p.
     cbind (json_member ''client-id'' json_get_string [] j) (\<lambda>c.
     cbind (json_member ''device-id'' json_get_string [] j) (\<lambda>d.
       Ret \<lparr>oc_username = u, oc_password = p, oc_client_id = c, oc_device_id = d\<rparr>))))"

definition decode_credentials :: "json \<Rightarrow> credentials cpp" where
  "decode_credentials j =
     cbind (json_member ''api-key'' json_get_string [] j) (\<lambda>k.
     cbind (json_member ''anonymous'' (decode_optional decode_anonymous_credentials) None j) (\<lambda>a.
     cbind (json_member ''oauth'' (decode_optional decode_oauth_credentials) None j) (\<lambda>c.
       Ret \<lparr>cr_api_key = k, cr_oauth = c, cr_anonymous = a\<rparr>)))"

definition encode_oauth_credentials :: "oauth_credentials \<Rightarrow> json cpp" where
  "encode_oauth_credentials c =
     json_object
       [(''username'', J_string (oc_username c)), (''password'', J_string (oc_password c)),
        (''client-id'', J_string (oc_client_id c)), (''device-id'', J_string (oc_device_id c))]"

definition encode_credentials :: "credentials \<Rightarrow> json cpp" where
  "encode_credentials c =
     cbind (json_object [(''api-key'', J_string (cr_api_key c))]) (\<lambda>j.
     cbind (case cr_anonymous c of
              None \<Rightarrow> Ret j
            | Some i \<Rightarrow> cbind (encode_anonymous_params i) (\<lambda>v. json_set ''anonymous'' v j)) (\<lambda>j.
       case cr_oauth c of
         None \<Rightarrow> Ret j
       | Some a \<Rightarrow> cbind (encode_oauth_credentials a) (\<lambda>v. json_set ''oauth'' v j)))"

subsection \<open>Facts\<close>

text \<open>What a search for types asks for.\<close>

lemma searchable_names: "set (type_names (searchable t)) = set (type_names t) - {''fire'', ''emergency''}"
proof (intro set_eqI)
  fix n
  show "n \<in> set (type_names (searchable t)) \<longleftrightarrow> n \<in> set (type_names t) - {''fire'', ''emergency''}"
  proof (cases "\<exists>i. (i, n) \<in> set type_table")
    case True
    then obtain i where i: "(i, n) \<in> set type_table" by blast
    have "(12, ''emergency'') \<in> set type_table" "(11, ''fire'') \<in> set type_table"
      by (simp_all add: type_table_def)
    then have "n = ''emergency'' \<Longrightarrow> i = 12" "n = ''fire'' \<Longrightarrow> i = 11"
      using i type_table_functional by blast+
    moreover have "i = 12 \<Longrightarrow> n = ''emergency''" "i = 11 \<Longrightarrow> n = ''fire''"
      using i by (simp_all add: type_table_def)
    moreover have "bit (NOT AT_emergency) i \<longleftrightarrow> i \<noteq> 12" "bit (NOT AT_fire) i \<longleftrightarrow> i \<noteq> 11"
      using type_table_bound [OF i] bit_exp_iff [of 12 i, where ?'a = "32 word"]
        bit_exp_iff [of 11 i, where ?'a = "32 word"] unfolding bit_not_iff by auto
    ultimately have "bit (NOT AT_emergency) i \<longleftrightarrow> n \<noteq> ''emergency''"
      "bit (NOT AT_fire) i \<longleftrightarrow> n \<noteq> ''fire''" by blast+
    then show ?thesis
      by (auto simp: type_names_iff [OF i] searchable_def airspace_type_and_def airspace_type_not_def bit_and_iff)
  qed (auto dest: type_names_table)
qed

lemma search_for_fires:
  "query_types k (Some AT_fire) q = put k [] q"
proof -
  have "searchable AT_fire = 0" by (simp add: searchable_def airspace_type_and_def airspace_type_not_def)
  then show ?thesis by (simp add: query_types_def AT_invalid_def airspace_types_text_def)
qed

text \<open>A weather report on the equator is asked for without its latitude.\<close>

lemma weather_on_equator:
  "map_of (weather_query tx \<lparr>wp_latitude = 0, wp_longitude = x, wp_start = a, wp_end = b\<rparr>) ''latitude'' = None"
proof -
  have "flt_eq 0 0" by (simp add: flt_eq_def flt_nan_def)
  then show ?thesis
    by (auto simp: weather_query_def query_nonzero_def query_opt_def split: option.split)
qed

lemma anonymous_params_as_credentials:
  obtains j where "encode_anonymous_params i = Ret j" "j \<noteq> J_null" "decode_anonymous_credentials j = Ret []"
proof -
  let ?m = "[(''user_id'', J_string i)]"
  obtain j where j: "encode_anonymous_params i = Ret j" "j \<noteq> J_null" "\<And>k. json_find k j = map_of (rev ?m) k"
    unfolding encode_anonymous_params_def by (rule json_object_find [of ?m]) auto
  then have "decode_anonymous_credentials j = Ret []"
    by (simp add: decode_anonymous_credentials_def json_member_missing)
  with j that show thesis by blast
qed

lemma oauth_credentials_round_trip:
  obtains j where "encode_oauth_credentials c = Ret j" "j \<noteq> J_null" "decode_oauth_credentials j = Ret c"
proof -
  let ?m = "[(''username'', J_string (oc_username c)), (''password'', J_string (oc_password c)),
      (''client-id'', J_string (oc_client_id c)), (''device-id'', J_string (oc_device_id c))]"
  obtain j where j: "encode_oauth_credentials c = Ret j" "j \<noteq> J_null" "\<And>k. json_find k j = map_of (rev ?m) k"
    unfolding encode_oauth_credentials_def by (rule json_object_find [of ?m]) auto
  then have "decode_oauth_credentials j = Ret c"
    by (simp add: decode_oauth_credentials_def json_member_found)
  with j that show thesis by blast
qed

lemma credentials_members:
  assumes "\<And>i. cr_anonymous c = Some i \<Longrightarrow> encode_anonymous_params i = Ret a"
    and "\<And>x. cr_oauth c = Some x \<Longrightarrow> encode_oauth_credentials x = Ret b"
  shows "encode_credentials c = json_object
     ((''api-key'', J_string (cr_api_key c)) #
      (case cr_anonymous c of None \<Rightarrow> [] | Some _ \<Rightarrow> [(''anonymous'', a)]) @
      (case cr_oauth c of None \<Rightarrow> [] | Some _ \<Rightarrow> [(''oauth'', b)]))"
proof -
  have "json_set ''api-key'' v J_null = Ret (J_object [(''api-key'', v)])" for v by (simp add: json_set_def)
  moreover have nil: "cfold f [] = Ret" for f :: "string \<times> json \<Rightarrow> json \<Rightarrow> json cpp"
    by (simp add: fun_eq_iff)
  moreover have "cfold f [x] = f x" for f :: "string \<times> json \<Rightarrow> json \<Rightarrow> json cpp" and x
    by (simp add: fun_eq_iff nil)
  ultimately show ?thesis using assms
    by (cases "cr_anonymous c"; cases "cr_oauth c") (simp_all add: encode_credentials_def json_object_def)
qed

text \<open>
  Credentials that are written and read back keep the API key and the OAuth data; the id of
  an anonymous user is lost, because it is written under another key than it is read from.
\<close>

lemma credentials_json_round_trip:
  "\<exists>j. encode_credentials c = Ret j \<and>
       decode_credentials j = Ret (c\<lparr>cr_anonymous := map_option (\<lambda>_. []) (cr_anonymous c)\<rparr>)"
proof -
  obtain a where a: "encode_anonymous_params (the (cr_anonymous c)) = Ret a" "a \<noteq> J_null"
    "decode_anonymous_credentials a = Ret []" by (rule anonymous_params_as_credentials)
  obtain b where b: "encode_oauth_credentials (the (cr_oauth c)) = Ret b" "b \<noteq> J_null"
    "decode_oauth_credentials b = Ret (the (cr_oauth c))" by (rule oauth_credentials_round_trip)
  let ?kvs = "(''api-key'', J_string (cr_api_key c)) #
      (case cr_anonymous c of None \<Rightarrow> [] | Some _ \<Rightarrow> [(''anonymous'', a)]) @
      (case cr_oauth c of None \<Rightarrow> [] | Some _ \<Rightarrow> [(''oauth'', b)])"
  obtain j where j: "json_object ?kvs = Ret j" "\<And>k. json_find k j = map_of (rev ?kvs) k"
    by (rule json_object_find [of ?kvs]) auto
  have "encode_credentials c = json_object ?kvs"
    by (rule credentials_members) (use a(1) b(1) in simp_all)
  then have "encode_credentials c = Ret j" using j(1) by (rule trans)
  moreover have "json_find ''api-key'' j = Some (J_string (cr_api_key c))"
    "json_find ''anonymous'' j = map_option (\<lambda>_. a) (cr_anonymous c)"
    "json_find ''oauth'' j = map_option (\<lambda>_. b) (cr_oauth c)"
    unfolding j(2) by (simp_all split: option.split)
  then have "decode_credentials j = Ret (c\<lparr>cr_anonymous := map_option (\<lambda>_. []) (cr_anonymous c)\<rparr>)"
    using a(2,3) b(2,3)
    by (cases "cr_anonymous c"; cases "cr_oauth c")
       (simp_all add: decode_credentials_def json_member_found json_member_missing decode_optional_def cmap_def)
  ultimately show ?thesis by blast
qed

end
