(* ===== verification/Rest.thy ===== *)
theory Rest
  imports Rest_Codecs Jsend
begin

text \<open>
  The services of the client (src/airmap/rest/*.cpp): every operation as the request it hands
  to its requester, the routes of the services, and the way a request takes through the layers
  of the client (rest/client.cpp) to the message on the wire. Formatting is
  src/airmap/util/fmt.h over \<open>boost::format\<close>, which throws unless there are as many arguments
  as directives.
\<close>

subsection \<open>Formatting\<close>

text \<open>The directives in use: \<open>%s\<close>, \<open>%d\<close> and, with a single argument, \<open>%1%\<close>.\<close>

function sprintf :: "string \<Rightarrow> string list \<Rightarrow> string cpp" where
  "sprintf s args =
     (case s of
        [] \<Rightarrow> if args = [] then Ret [] else Throw Format_error
      | c # t \<Rightarrow>
          if c \<noteq> CHR ''%'' then cmap (Cons c) (sprintf t args)
          else (case (t, args) of
                  ([], _) \<Rightarrow> Throw Format_error
                | (_, []) \<Rightarrow> Throw Format_error
                | (d # t', a # as) \<Rightarrow>
                    if d = CHR ''s'' \<or> d = CHR ''d'' then cmap (append a) (sprintf t' as)
                    else if d = CHR ''1'' \<and> t' \<noteq> [] \<and> hd t' = CHR ''%''
                    then cmap (append a) (sprintf (drop 1 t') as)
                    else Throw Format_error))"
  by pat_completeness auto
termination
  by (relation "measure (\<lambda>(s, _). length s)") auto

declare sprintf.simps [simp del]

subsection \<open>Routes\<close>

datatype client_version = Version_production | Version_staging

definition versioned_route :: "string \<Rightarrow> string \<Rightarrow> client_version \<Rightarrow> string cpp" where
  "versioned_route pattern production v =
     (case v of
        Version_production \<Rightarrow> sprintf pattern [production]
      | Version_staging \<Rightarrow> sprintf pattern [''stage''])"

definition flights_route :: "client_version \<Rightarrow> string cpp" where
  "flights_route = versioned_route ''/flight/%s'' ''v2''"

definition flight_plans_route :: "client_version \<Rightarrow> string cpp" where
  "flight_plans_route = versioned_route ''/flight/%s'' ''v2''"

definition pilots_route :: "client_version \<Rightarrow> string cpp" where
  "pilots_route = versioned_route ''/pilot/%s'' ''v2''"

definition aircrafts_route :: "client_version \<Rightarrow> string cpp" where
  "aircrafts_route = versioned_route ''/aircraft/%s'' ''v2''"

definition airspaces_route :: "client_version \<Rightarrow> string cpp" where
  "airspaces_route = versioned_route ''/airspace/%s'' ''v2''"

definition advisory_route :: "client_version \<Rightarrow> string cpp" where
  "advisory_route = versioned_route ''/advisory/%s'' ''v1''"

definition rulesets_route :: "client_version \<Rightarrow> string cpp" where
  "rulesets_route = versioned_route ''/rules/%s'' ''v1''"

definition status_route :: "client_version \<Rightarrow> string cpp" where
  "status_route = versioned_route ''/status/%s'' ''v2''"

definition authenticator_route :: "client_version \<Rightarrow> string cpp" where
  "authenticator_route = versioned_route ''/auth/%s'' ''v1''"

subsection \<open>Requests\<close>

type_synonym fields = "(string \<times> string) list"

definition request_of :: "http_method \<Rightarrow> string cpp \<Rightarrow> query cpp \<Rightarrow> fields cpp \<Rightarrow> string cpp \<Rightarrow> http_request cpp" where
  "request_of m path query headers body =
     cbind headers (\<lambda>h. cbind query (\<lambda>q. cbind path (\<lambda>p. cbind body (\<lambda>b.
       Ret \<lparr>rq_method = m, rq_path = p, rq_query = q, rq_headers = h, rq_body = b\<rparr>))))"

definition get_request :: "string cpp \<Rightarrow> query cpp \<Rightarrow> fields cpp \<Rightarrow> http_request cpp" where
  "get_request path query headers = request_of HTTP_get path query headers (Ret [])"

definition delete_request :: "string cpp \<Rightarrow> query cpp \<Rightarrow> fields cpp \<Rightarrow> http_request cpp" where
  "delete_request path query headers = request_of HTTP_delete path query headers (Ret [])"

definition post_request :: "string cpp \<Rightarrow> fields cpp \<Rightarrow> string cpp \<Rightarrow> http_request cpp" where
  "post_request path headers body = request_of HTTP_post path (Ret []) headers body"

definition patch_request :: "string cpp \<Rightarrow> fields cpp \<Rightarrow> string cpp \<Rightarrow> http_request cpp" where
  "patch_request path headers body = request_of HTTP_patch path (Ret []) headers body"

definition bearer :: "string \<Rightarrow> fields cpp" where
  "bearer token = cmap (\<lambda>v. [(''Authorization'', v)]) (sprintf ''Bearer %s'' [token])"

definition bearer_if :: "string option \<Rightarrow> fields cpp" where
  "bearer_if token = (case token of None \<Rightarrow> Ret [] | Some t \<Rightarrow> bearer t)"

text \<open>rest/flights.cpp formats the field with the directive \<open>%1%\<close>.\<close>

definition bearer_1 :: "string \<Rightarrow> fields cpp" where
  "bearer_1 token = cmap (\<lambda>v. [(''Authorization'', v)]) (sprintf ''Bearer %1%'' [token])"

definition bearer_1_if :: "string option \<Rightarrow> fields cpp" where
  "bearer_1_if token = (case token of None \<Rightarrow> Ret [] | Some t \<Rightarrow> bearer_1 t)"

definition dumped :: "texts \<Rightarrow> json cpp \<Rightarrow> string cpp" where
  "dumped tx j = cmap (tx_dump tx) j"

subsection \<open>Flights\<close>

definition flights_search_request :: "texts \<Rightarrow> flights_search \<Rightarrow> http_request cpp" where
  "flights_search_request tx p =
     get_request (Ret ''/'') (flights_search_query tx p) (bearer_1_if (fs_authorization p))"

definition flights_for_id_request :: "string option \<Rightarrow> string \<Rightarrow> bool option \<Rightarrow> http_request cpp" where
  "flights_for_id_request token i enhance =
     get_request (sprintf ''/%s'' [i]) (Ret (flight_for_id_query enhance)) (bearer_1_if token)"

definition create_flight_by_point :: "texts \<Rightarrow> create_flight_params \<Rightarrow> http_request cpp" where
  "create_flight_by_point tx p =
     post_request (Ret ''/point'') (bearer_1 (cf_authorization p)) (dumped tx (encode_create_flight (tx_iso tx) p))"

definition create_flight_by_path :: "texts \<Rightarrow> create_flight_params \<Rightarrow> http_request cpp" where
  "create_flight_by_path tx p =
     post_request (Ret ''/path'') (bearer_1 (cf_authorization p)) (dumped tx (encode_create_flight (tx_iso tx) p))"

definition create_flight_by_polygon :: "texts \<Rightarrow> create_flight_params \<Rightarrow> http_request cpp" where
  "create_flight_by_polygon tx p =
     post_request (Ret ''/polygon'') (bearer_1 (cf_authorization p)) (dumped tx (encode_create_flight (tx_iso tx) p))"

definition end_flight_request :: "string \<Rightarrow> string \<Rightarrow> http_request cpp" where
  "end_flight_request token i =
     post_request (sprintf ''/%s/end'' [i]) (bearer_1 token) (Ret [])"

definition delete_flight_request :: "string \<Rightarrow> string \<Rightarrow> http_request cpp" where
  "delete_flight_request token i =
     post_request (sprintf ''/%s/delete'' [i]) (bearer_1 token) (Ret [])"

definition start_flight_comms_request :: "string \<Rightarrow> string \<Rightarrow> http_request cpp" where
  "start_flight_comms_request token i =
     post_request (sprintf ''/%s/start-comm'' [i]) (bearer_1 token) (Ret [])"

definition end_flight_comms_request :: "string \<Rightarrow> string \<Rightarrow> http_request cpp" where
  "end_flight_comms_request token i =
     post_request (sprintf ''/%s/end-comm'' [i]) (bearer_1 token) (Ret [])"

subsection \<open>Flight plans\<close>

definition plan_for_id_request :: "string option \<Rightarrow> string \<Rightarrow> http_request cpp" where
  "plan_for_id_request token i =
     get_request (sprintf ''/plan/%s'' [i]) (Ret []) (bearer_if token)"

definition create_plan_request :: "texts \<Rightarrow> create_plan_params \<Rightarrow> http_request cpp" where
  "create_plan_request tx p =
     post_request (Ret ''/plan'') (bearer (cp_authorization p)) (dumped tx (encode_create_plan (tx_iso tx) p))"

definition update_plan_request :: "texts \<Rightarrow> string option \<Rightarrow> flight_plan \<Rightarrow> http_request cpp" where
  "update_plan_request tx token p =
     patch_request (sprintf ''/plan/%s'' [fp_id p]) (bearer_if token) (dumped tx (encode_flight_plan (tx_iso tx) p))"

definition delete_plan_request :: "string option \<Rightarrow> string \<Rightarrow> http_request cpp" where
  "delete_plan_request token i =
     delete_request (sprintf ''/plan/%s'' [i]) (Ret []) (bearer_if token)"

definition render_briefing_request :: "string option \<Rightarrow> string \<Rightarrow> http_request cpp" where
  "render_briefing_request token i =
     get_request (sprintf ''/plan/%s/briefing'' [i]) (Ret []) (bearer_if token)"

definition submit_plan_request :: "string option \<Rightarrow> string \<Rightarrow> http_request cpp" where
  "submit_plan_request token i =
     post_request (sprintf ''/plan/%s/submit'' [i]) (bearer_if token) (Ret [])"

subsection \<open>Pilots\<close>

definition authenticated_pilot_request :: "string \<Rightarrow> 32 word option \<Rightarrow> bool \<Rightarrow> http_request cpp" where
  "authenticated_pilot_request token exclude statistics =
     get_request (Ret ''/profile'') (Ret (pilot_query exclude statistics)) (bearer token)"

definition pilot_for_id_request :: "string \<Rightarrow> string \<Rightarrow> 32 word option \<Rightarrow> bool \<Rightarrow> http_request cpp" where
  "pilot_for_id_request token i exclude statistics =
     get_request (sprintf ''/%s'' [i]) (Ret (pilot_query exclude statistics)) (bearer token)"

definition update_pilot_request :: "texts \<Rightarrow> string \<Rightarrow> string \<Rightarrow> update_pilot \<Rightarrow> http_request cpp" where
  "update_pilot_request tx token i p =
     patch_request (sprintf ''/%s'' [i]) (bearer token) (dumped tx (encode_update_pilot p))"

definition start_verify_request :: "string \<Rightarrow> string \<Rightarrow> http_request cpp" where
  "start_verify_request token i =
     post_request (sprintf ''/%s/phone/send_token'' [i]) (bearer token) (Ret [])"

definition finish_verify_request :: "texts \<Rightarrow> string \<Rightarrow> string \<Rightarrow> 32 word \<Rightarrow> http_request cpp" where
  "finish_verify_request tx token i code =
     post_request (sprintf ''/phone/send_token'' [i]) (bearer token) (dumped tx (encode_finish_verify code))"

definition aircrafts_request :: "string \<Rightarrow> string \<Rightarrow> http_request cpp" where
  "aircrafts_request token i =
     get_request (sprintf ''/%s/aircraft'' [i]) (Ret []) (bearer token)"

definition add_aircraft_request :: "texts \<Rightarrow> string \<Rightarrow> string \<Rightarrow> string \<Rightarrow> string \<Rightarrow> http_request cpp" where
  "add_aircraft_request tx token i model nick =
     post_request (sprintf ''/%s/aircraft'' [i]) (bearer token) (dumped tx (encode_add_aircraft model nick))"

definition delete_aircraft_request :: "string \<Rightarrow> string \<Rightarrow> string \<Rightarrow> http_request cpp" where
  "delete_aircraft_request token i aircraft =
     delete_request (sprintf ''/%s/aircraft/%s'' [i, aircraft]) (Ret []) (bearer token)"

definition update_aircraft_request :: "texts \<Rightarrow> string \<Rightarrow> string \<Rightarrow> string \<Rightarrow> string \<Rightarrow> http_request cpp" where
  "update_aircraft_request tx token i aircraft nick =
     patch_request (sprintf ''/%s/aircraft/%s'' [i, aircraft]) (bearer token)
       (dumped tx (encode_update_aircraft nick))"

subsection \<open>Aircraft, airspaces, advisories, rulesets and status\<close>

definition manufacturers_request :: "string option \<Rightarrow> http_request cpp" where
  "manufacturers_request name =
     get_request (Ret ''/manufacturer'') (Ret (manufacturers_query name)) (Ret [])"

definition models_request :: "(string \<times> string) option \<Rightarrow> string option \<Rightarrow> http_request cpp" where
  "models_request manufacturer name =
     get_request (Ret ''/model'') (Ret (models_query manufacturer name)) (Ret [])"

definition model_for_id_request :: "string \<Rightarrow> http_request cpp" where
  "model_for_id_request i =
     get_request (sprintf ''/model/%s'' [i]) (Ret []) (Ret [])"

definition airspaces_search_request :: "texts \<Rightarrow> airspaces_search \<Rightarrow> http_request cpp" where
  "airspaces_search_request tx p =
     get_request (Ret ''/search'') (airspaces_search_query tx p) (Ret [])"

definition airspace_for_id_request :: "string \<Rightarrow> http_request cpp" where
  "airspace_for_id_request i =
     get_request (sprintf ''/%s'' [i]) (Ret []) (Ret [])"

definition advisory_for_id_request :: "texts \<Rightarrow> string \<Rightarrow> date_time option \<Rightarrow> date_time option \<Rightarrow> http_request cpp" where
  "advisory_for_id_request tx i start stop =
     get_request (sprintf ''/airspace/%s'' [i]) (Ret (advisory_for_id_query tx start stop)) (Ret [])"

definition advisory_search_request :: "texts \<Rightarrow> advisory_search \<Rightarrow> http_request cpp" where
  "advisory_search_request tx p =
     post_request (Ret ''/airspace'') (Ret []) (dumped tx (encode_advisory_search tx p))"

definition report_weather_request :: "texts \<Rightarrow> weather_params \<Rightarrow> http_request cpp" where
  "report_weather_request tx p =
     get_request (Ret ''/weather'') (Ret (weather_query tx p)) (Ret [])"

definition rulesets_search_request :: "texts \<Rightarrow> geometry option \<Rightarrow> http_request cpp" where
  "rulesets_search_request tx g =
     post_request (Ret ''/'') (Ret []) (dumped tx (encode_rulesets_search g))"

definition ruleset_for_id_request :: "string \<Rightarrow> http_request cpp" where
  "ruleset_for_id_request i =
     get_request (sprintf ''/%s'' [i]) (Ret []) (Ret [])"

definition fetch_rules_request :: "string option \<Rightarrow> http_request cpp" where
  "fetch_rules_request rulesets =
     get_request (Ret ''/rule'') (Ret (fetch_rules_query rulesets)) (Ret [])"

definition evaluate_rules_request :: "texts \<Rightarrow> evaluate_rules \<Rightarrow> http_request cpp" where
  "evaluate_rules_request tx p =
     post_request (Ret ''/evaluation'') (Ret []) (dumped tx (encode_evaluate_rules p))"

definition evaluate_plan_request :: "string \<Rightarrow> http_request cpp" where
  "evaluate_plan_request i =
     get_request (sprintf ''/%s/evaluation'' [i]) (Ret []) (Ret [])"

definition status_by_point :: "texts \<Rightarrow> status_params \<Rightarrow> http_request cpp" where
  "status_by_point tx p =
     get_request (Ret ''/point'') (status_query tx p) (Ret [])"

definition status_by_path :: "texts \<Rightarrow> status_params \<Rightarrow> http_request cpp" where
  "status_by_path tx p =
     get_request (Ret ''/path'') (status_query tx p) (Ret [])"

definition status_by_polygon :: "texts \<Rightarrow> status_params \<Rightarrow> http_request cpp" where
  "status_by_polygon tx p =
     get_request (Ret ''/polygon'') (status_query tx p) (Ret [])"

subsection \<open>Authentication\<close>

definition password_request :: "texts \<Rightarrow> password_params \<Rightarrow> http_request cpp" where
  "password_request tx p =
     post_request (Ret ''/oauth/ro'') (Ret []) (dumped tx (encode_password_params p))"

definition anonymous_request :: "texts \<Rightarrow> string \<Rightarrow> http_request cpp" where
  "anonymous_request tx i =
     post_request (Ret ''/anonymous/token'') (Ret []) (dumped tx (encode_anonymous_params i))"

definition renew_request :: "texts \<Rightarrow> renew_params \<Rightarrow> http_request cpp" where
  "renew_request tx p =
     post_request (Ret ''/delegation'') (Ret []) (dumped tx (encode_renew_params p))"

text \<open>
  The callback of an authentication with a password: a client error is searched for its
  description, and whatever is thrown there becomes a generic error.
\<close>

definition client_error_message :: "(string \<Rightarrow> json cpp) \<Rightarrow> string \<Rightarrow> string cpp" where
  "client_error_message parse body =
     (case cbind (parse body) (\<lambda>j.
             if 0 < json_count ''error_description'' j then json_text ''error_description'' j
             else Ret ''generic client error'') of
        Throw e \<Rightarrow> if e = Assertion_failed then Throw e else Ret ''generic client error''
      | r \<Rightarrow> r)"

definition password_callback ::
  "(string \<Rightarrow> json cpp) \<Rightarrow> (exn \<Rightarrow> string) \<Rightarrow> (json \<Rightarrow> string) \<Rightarrow> err + response \<Rightarrow>
   (err + oauth_token) option cpp" where
  "password_callback parse what dump result =
     (case result of
        Inl e \<Rightarrow> Ret (Some (Inl e))
      | Inr r \<Rightarrow>
          (case classify (rs_status r) of
             Informational \<Rightarrow> Ret None
           | Redirection \<Rightarrow> Ret None
           | Success \<Rightarrow> cmap Some (parse_to_outcome parse what decode_oauth dump (rs_body r))
           | Server_error \<Rightarrow> cmap Some (parse_to_outcome parse what decode_oauth dump (rs_body r))
           | Client_error \<Rightarrow>
               cmap (\<lambda>m. Some (Inl (error_of_message m))) (client_error_message parse (rs_body r))
           | Unclassified \<Rightarrow>
               cmap (\<lambda>e. Some (Inl e))
                 (cbind (error_value (String ''status-code'') (Integer (ucast (rs_status r)))
                           (error_of_message ''networking error''))
                    (error_value (String ''body'') (String (rs_body r))))))"

text \<open>A client error is answered whatever the body holds, as long as the parser returns or throws.\<close>

lemma password_client_error:
  assumes "classify (rs_status r) = Client_error"
    and "parse (rs_body r) \<noteq> UB" "parse (rs_body r) \<noteq> Throw Assertion_failed"
  shows "\<exists>m. password_callback parse what dump (Inr r) = Ret (Some (Inl (error_of_message m)))"
proof -
  have texts: "json_text k j \<noteq> UB" "json_text k j \<noteq> Throw Assertion_failed" for k j
    by (simp_all add: json_text_def json_at_def json_get_string_def split: json.split option.split)
  have "\<exists>m. client_error_message parse (rs_body r) = Ret m"
  proof (cases "parse (rs_body r)")
    case (Ret j)
    then show ?thesis
      using texts [of "''error_description''" j]
      by (cases "json_text ''error_description'' j") (simp_all add: client_error_message_def)
  qed (use assms(2,3) in \<open>simp_all add: client_error_message_def\<close>)
  with assms(1) show ?thesis by (auto simp: password_callback_def)
qed

subsection \<open>Calls of the client\<close>

datatype service =
    S_advisory | S_aircrafts | S_airspaces | S_authenticator | S_flight_plans | S_flights
  | S_pilots | S_rulesets | S_status | S_sso

text \<open>The operations of all services with their parameters; a token comes first.\<close>

datatype flights_call =
    Flights_search_call flights_search
  | Flight_for_id_call "string option" string "bool option"
  | Flight_by_point_call create_flight_params
  | Flight_by_path_call create_flight_params
  | Flight_by_polygon_call create_flight_params
  | End_flight_call string string
  | Delete_flight_call string string
  | Start_comms_call string string
  | End_comms_call string string

fun request_for_flights :: "texts \<Rightarrow> flights_call \<Rightarrow> http_request cpp" where
  "request_for_flights tx (Flights_search_call a) = flights_search_request tx a"
| "request_for_flights _ (Flight_for_id_call a b c) = flights_for_id_request a b c"
| "request_for_flights tx (Flight_by_point_call a) = create_flight_by_point tx a"
| "request_for_flights tx (Flight_by_path_call a) = create_flight_by_path tx a"
| "request_for_flights tx (Flight_by_polygon_call a) = create_flight_by_polygon tx a"
| "request_for_flights _ (End_flight_call a b) = end_flight_request a b"
| "request_for_flights _ (Delete_flight_call a b) = delete_flight_request a b"
| "request_for_flights _ (Start_comms_call a b) = start_flight_comms_request a b"
| "request_for_flights _ (End_comms_call a b) = end_flight_comms_request a b"

fun token_for_flights :: "flights_call \<Rightarrow> string option" where
  "token_for_flights (Flights_search_call a) = fs_authorization a"
| "token_for_flights (Flight_for_id_call a _ _) = a"
| "token_for_flights (Flight_by_point_call a) = Some (cf_authorization a)"
| "token_for_flights (Flight_by_path_call a) = Some (cf_authorization a)"
| "token_for_flights (Flight_by_polygon_call a) = Some (cf_authorization a)"
| "token_for_flights (End_flight_call a _) = Some a"
| "token_for_flights (Delete_flight_call a _) = Some a"
| "token_for_flights (Start_comms_call a _) = Some a"
| "token_for_flights (End_comms_call a _) = Some a"

datatype plans_call =
    Plan_for_id_call "string option" string
  | Create_plan_call create_plan_params
  | Update_plan_call "string option" flight_plan
  | Delete_plan_call "string option" string
  | Render_briefing_call "string option" string
  | Submit_plan_call "string option" string

fun request_for_plans :: "texts \<Rightarrow> plans_call \<Rightarrow> http_request cpp" where
  "request_for_plans _ (Plan_for_id_call a b) = plan_for_id_request a b"
| "request_for_plans tx (Create_plan_call a) = create_plan_request tx a"
| "request_for_plans tx (Update_plan_call a b) = update_plan_request tx a b"
| "request_for_plans _ (Delete_plan_call a b) = delete_plan_request a b"
| "request_for_plans _ (Render_briefing_call a b) = render_briefing_request a b"
| "request_for_plans _ (Submit_plan_call a b) = submit_plan_request a b"

fun token_for_plans :: "plans_call \<Rightarrow> string option" where
  "token_for_plans (Plan_for_id_call a _) = a"
| "token_for_plans (Create_plan_call a) = Some (cp_authorization a)"
| "token_for_plans (Update_plan_call a _) = a"
| "token_for_plans (Delete_plan_call a _) = a"
| "token_for_plans (Render_briefing_call a _) = a"
| "token_for_plans (Submit_plan_call a _) = a"

datatype pilots_call =
    Authenticated_pilot_call string "32 word option" bool
  | Pilot_for_id_call string string "32 word option" bool
  | Update_pilot_call string string update_pilot
  | Start_verify_call string string
  | Finish_verify_call string string "32 word"
  | Aircrafts_call string string
  | Add_aircraft_call string string string string
  | Delete_aircraft_call string string string
  | Update_aircraft_call string string string string

fun request_for_pilots :: "texts \<Rightarrow> pilots_call \<Rightarrow> http_request cpp" where
  "request_for_pilots _ (Authenticated_pilot_call a b c) = authenticated_pilot_request a b c"
| "request_for_pilots _ (Pilot_for_id_call a b c d) = pilot_for_id_request a b c d"
| "request_for_pilots tx (Update_pilot_call a b c) = update_pilot_request tx a b c"
| "request_for_pilots _ (Start_verify_call a b) = start_verify_request a b"
| "request_for_pilots tx (Finish_verify_call a b c) = finish_verify_request tx a b c"
| "request_for_pilots _ (Aircrafts_call a b) = aircrafts_request a b"
| "request_for_pilots tx (Add_aircraft_call a b c d) = add_aircraft_request tx a b c d"
| "request_for_pilots _ (Delete_aircraft_call a b c) = delete_aircraft_request a b c"
| "request_for_pilots tx (Update_aircraft_call a b c d) = update_aircraft_request tx a b c d"

fun token_for_pilots :: "pilots_call \<Rightarrow> string option" where
  "token_for_pilots (Authenticated_pilot_call a _ _) = Some a"
| "token_for_pilots (Pilot_for_id_call a _ _ _) = Some a"
| "token_for_pilots (Update_pilot_call a _ _) = Some a"
| "token_for_pilots (Start_verify_call a _) = Some a"
| "token_for_pilots (Finish_verify_call a _ _) = Some a"
| "token_for_pilots (Aircrafts_call a _) = Some a"
| "token_for_pilots (Add_aircraft_call a _ _ _) = Some a"
| "token_for_pilots (Delete_aircraft_call a _ _) = Some a"
| "token_for_pilots (Update_aircraft_call a _ _ _) = Some a"

datatype aircrafts_call =
    Manufacturers_call "string option"
  | Models_call "(string \<times> string) option" "string option"
  | Model_for_id_call string

fun request_for_aircrafts :: "texts \<Rightarrow> aircrafts_call \<Rightarrow> http_request cpp" where
  "request_for_aircrafts _ (Manufacturers_call a) = manufacturers_request a"
| "request_for_aircrafts _ (Models_call a b) = models_request a b"
| "request_for_aircrafts _ (Model_for_id_call a) = model_for_id_request a"

datatype airspaces_call =
    Airspaces_search_call airspaces_search
  | Airspace_for_id_call string

fun request_for_airspaces :: "texts \<Rightarrow> airspaces_call \<Rightarrow> http_request cpp" where
  "request_for_airspaces tx (Airspaces_search_call a) = airspaces_search_request tx a"
| "request_for_airspaces _ (Airspace_for_id_call a) = airspace_for_id_request a"

datatype advisory_call =
    Advisory_for_id_call string "date_time option" "date_time option"
  | Advisory_search_call advisory_search
  | Report_weather_call weather_params

fun request_for_advisory :: "texts \<Rightarrow> advisory_call \<Rightarrow> http_request cpp" where
  "request_for_advisory tx (Advisory_for_id_call a b c) = advisory_for_id_request tx a b c"
| "request_for_advisory tx (Advisory_search_call a) = advisory_search_request tx a"
| "request_for_advisory tx (Report_weather_call a) = report_weather_request tx a"

datatype rulesets_call =
    Rulesets_search_call "geometry option"
  | Ruleset_for_id_call string
  | Fetch_rules_call "string option"
  | Evaluate_rules_call evaluate_rules
  | Evaluate_plan_call string

fun request_for_rulesets :: "texts \<Rightarrow> rulesets_call \<Rightarrow> http_request cpp" where
  "request_for_rulesets tx (Rulesets_search_call a) = rulesets_search_request tx a"
| "request_for_rulesets _ (Ruleset_for_id_call a) = ruleset_for_id_request a"
| "request_for_rulesets _ (Fetch_rules_call a) = fetch_rules_request a"
| "request_for_rulesets tx (Evaluate_rules_call a) = evaluate_rules_request tx a"
| "request_for_rulesets _ (Evaluate_plan_call a) = evaluate_plan_request a"

datatype status_call =
    Status_by_point_call status_params
  | Status_by_path_call status_params
  | Status_by_polygon_call status_params

fun request_for_status :: "texts \<Rightarrow> status_call \<Rightarrow> http_request cpp" where
  "request_for_status tx (Status_by_point_call a) = status_by_point tx a"
| "request_for_status tx (Status_by_path_call a) = status_by_path tx a"
| "request_for_status tx (Status_by_polygon_call a) = status_by_polygon tx a"

datatype auth_call =
    Password_call password_params
  | Anonymous_call string
  | Renew_call renew_params

fun request_for_auth :: "texts \<Rightarrow> auth_call \<Rightarrow> http_request cpp" where
  "request_for_auth tx (Password_call a) = password_request tx a"
| "request_for_auth tx (Anonymous_call a) = anonymous_request tx a"
| "request_for_auth tx (Renew_call a) = renew_request tx a"

fun auth_service :: "auth_call \<Rightarrow> service" where
  "auth_service (Password_call _) = S_sso"
| "auth_service (Anonymous_call _) = S_authenticator"
| "auth_service (Renew_call _) = S_sso"

datatype rest_call =
    On_flights flights_call
  | On_plans plans_call
  | On_pilots pilots_call
  | On_aircrafts aircrafts_call
  | On_airspaces airspaces_call
  | On_advisory advisory_call
  | On_rulesets rulesets_call
  | On_status status_call
  | On_auth auth_call

text \<open>The request of a call, the service it belongs to, and the token it carries.\<close>

fun rest_request :: "texts \<Rightarrow> rest_call \<Rightarrow> http_request cpp" where
  "rest_request tx (On_flights c) = request_for_flights tx c"
| "rest_request tx (On_plans c) = request_for_plans tx c"
| "rest_request tx (On_pilots c) = request_for_pilots tx c"
| "rest_request tx (On_aircrafts c) = request_for_aircrafts tx c"
| "rest_request tx (On_airspaces c) = request_for_airspaces tx c"
| "rest_request tx (On_advisory c) = request_for_advisory tx c"
| "rest_request tx (On_rulesets c) = request_for_rulesets tx c"
| "rest_request tx (On_status c) = request_for_status tx c"
| "rest_request tx (On_auth c) = request_for_auth tx c"

fun call_service :: "rest_call \<Rightarrow> service" where
  "call_service (On_flights _) = S_flights"
| "call_service (On_plans _) = S_flight_plans"
| "call_service (On_pilots _) = S_pilots"
| "call_service (On_aircrafts _) = S_aircrafts"
| "call_service (On_airspaces _) = S_airspaces"
| "call_service (On_advisory _) = S_advisory"
| "call_service (On_rulesets _) = S_rulesets"
| "call_service (On_status _) = S_status"
| "call_service (On_auth c) = auth_service c"

fun call_token :: "rest_call \<Rightarrow> string option" where
  "call_token (On_flights c) = token_for_flights c"
| "call_token (On_plans c) = token_for_plans c"
| "call_token (On_pilots c) = token_for_pilots c"
| "call_token (On_aircrafts _) = None"
| "call_token (On_airspaces _) = None"
| "call_token (On_advisory _) = None"
| "call_token (On_rulesets _) = None"
| "call_token (On_status _) = None"
| "call_token (On_auth _) = None"

text \<open>
  rest/client.cpp: the requester of every service adds the API key before the route is put in
  front of the path; the one for single sign-on does neither.
\<close>

definition service_route :: "service \<Rightarrow> client_version \<Rightarrow> string cpp" where
  "service_route s =
     (case s of
        S_advisory \<Rightarrow> advisory_route
      | S_aircrafts \<Rightarrow> aircrafts_route
      | S_airspaces \<Rightarrow> airspaces_route
      | S_authenticator \<Rightarrow> authenticator_route
      | S_flight_plans \<Rightarrow> flight_plans_route
      | S_flights \<Rightarrow> flights_route
      | S_pilots \<Rightarrow> pilots_route
      | S_rulesets \<Rightarrow> rulesets_route
      | S_status \<Rightarrow> status_route
      | S_sso \<Rightarrow> (\<lambda>_. Ret []))"

definition through_layers :: "service \<Rightarrow> string \<Rightarrow> string \<Rightarrow> http_request \<Rightarrow> http_request" where
  "through_layers s key route r = (if s = S_sso then r else routing route (with_api_key key r))"

definition client_message ::
  "texts \<Rightarrow> string \<Rightarrow> (service \<Rightarrow> string) \<Rightarrow> client_version \<Rightarrow> string \<Rightarrow> rest_call \<Rightarrow> wire_request cpp" where
  "client_message tx agent host v key c =
     cbind (rest_request tx c) (\<lambda>r. cbind (service_route (call_service c) v) (\<lambda>route.
       Ret (wire agent (host (call_service c)) (through_layers (call_service c) key route r))))"

subsection \<open>Facts\<close>

lemma sprintf_Nil [simp]: "sprintf [] args = (if args = [] then Ret [] else Throw Format_error)"
  by (simp add: sprintf.simps)

lemma sprintf_char [simp]: "c \<noteq> CHR ''%'' \<Longrightarrow> sprintf (c # t) args = cmap (Cons c) (sprintf t args)"
  by (simp add: sprintf.simps [of "c # t"])

lemma sprintf_arg [simp]: "sprintf (CHR ''%'' # CHR ''s'' # t) (a # as) = cmap (append a) (sprintf t as)"
  by (simp add: sprintf.simps [of "CHR ''%'' # CHR ''s'' # t"])

lemma sprintf_arg_1 [simp]:
  "sprintf (CHR ''%'' # CHR ''1'' # CHR ''%'' # t) (a # as) = cmap (append a) (sprintf t as)"
  by (simp add: sprintf.simps [of "CHR ''%'' # CHR ''1'' # CHR ''%'' # t"])

lemma bearer_eq [simp]: "bearer t = Ret [(''Authorization'', ''Bearer '' @ t)]"
  by (simp add: bearer_def)

lemma bearer_1_eq [simp]: "bearer_1 t = Ret [(''Authorization'', ''Bearer '' @ t)]"
  by (simp add: bearer_1_def)

definition bearer_fields :: "string option \<Rightarrow> fields" where
  "bearer_fields token = (case token of None \<Rightarrow> [] | Some t \<Rightarrow> [(''Authorization'', ''Bearer '' @ t)])"

lemma bearer_fields_simps [simp]:
  "bearer_fields None = []" "bearer_fields (Some t) = [(''Authorization'', ''Bearer '' @ t)]"
  by (simp_all add: bearer_fields_def)

lemma bearer_if_eq [simp]: "bearer_if token = Ret (bearer_fields token)" "bearer_1_if token = Ret (bearer_fields token)"
  by (simp_all add: bearer_if_def bearer_1_if_def split: option.split)

lemmas request_builders = get_request_def delete_request_def post_request_def patch_request_def

lemma request_headers:
  "request_of m path query (Ret h) body = Ret r \<Longrightarrow> rq_headers r = h \<and> rq_method r = m"
  by (auto simp: request_of_def cbind_eq_Ret)

lemmas endpoint_defs =
  flights_search_request_def flights_for_id_request_def create_flight_by_point_def
  create_flight_by_path_def create_flight_by_polygon_def end_flight_request_def
  delete_flight_request_def start_flight_comms_request_def end_flight_comms_request_def
  plan_for_id_request_def create_plan_request_def update_plan_request_def
  delete_plan_request_def render_briefing_request_def submit_plan_request_def
  authenticated_pilot_request_def pilot_for_id_request_def update_pilot_request_def
  start_verify_request_def finish_verify_request_def aircrafts_request_def
  add_aircraft_request_def delete_aircraft_request_def update_aircraft_request_def
  manufacturers_request_def models_request_def model_for_id_request_def
  airspaces_search_request_def airspace_for_id_request_def advisory_for_id_request_def
  advisory_search_request_def report_weather_request_def rulesets_search_request_def
  ruleset_for_id_request_def fetch_rules_request_def evaluate_rules_request_def
  evaluate_plan_request_def status_by_point_def status_by_path_def status_by_polygon_def
  password_request_def anonymous_request_def renew_request_def

lemma flights_headers: "request_for_flights tx c = Ret r \<Longrightarrow> rq_headers r = bearer_fields (token_for_flights c)"
  by (cases c) (simp_all add: endpoint_defs request_builders request_headers)

lemma plans_headers: "request_for_plans tx c = Ret r \<Longrightarrow> rq_headers r = bearer_fields (token_for_plans c)"
  by (cases c) (simp_all add: endpoint_defs request_builders request_headers)

lemma pilots_headers: "request_for_pilots tx c = Ret r \<Longrightarrow> rq_headers r = bearer_fields (token_for_pilots c)"
  by (cases c) (simp_all add: endpoint_defs request_builders request_headers)

lemma other_headers:
  "request_for_aircrafts tx c1 = Ret r \<Longrightarrow> rq_headers r = []"
  "request_for_airspaces tx c2 = Ret r \<Longrightarrow> rq_headers r = []"
  "request_for_advisory tx c3 = Ret r \<Longrightarrow> rq_headers r = []"
  "request_for_rulesets tx c4 = Ret r \<Longrightarrow> rq_headers r = []"
  "request_for_status tx c5 = Ret r \<Longrightarrow> rq_headers r = []"
  "request_for_auth tx c6 = Ret r \<Longrightarrow> rq_headers r = []"
proof -
  note facts = endpoint_defs request_builders request_headers
  show "request_for_aircrafts tx c1 = Ret r \<Longrightarrow> rq_headers r = []" by (cases c1) (simp_all add: facts)
  show "request_for_airspaces tx c2 = Ret r \<Longrightarrow> rq_headers r = []" by (cases c2) (simp_all add: facts)
  show "request_for_advisory tx c3 = Ret r \<Longrightarrow> rq_headers r = []" by (cases c3) (simp_all add: facts)
  show "request_for_rulesets tx c4 = Ret r \<Longrightarrow> rq_headers r = []" by (cases c4) (simp_all add: facts)
  show "request_for_status tx c5 = Ret r \<Longrightarrow> rq_headers r = []" by (cases c5) (simp_all add: facts)
  show "request_for_auth tx c6 = Ret r \<Longrightarrow> rq_headers r = []" by (cases c6) (simp_all add: facts)
qed

lemma call_headers: "rest_request tx c = Ret r \<Longrightarrow> rq_headers r = bearer_fields (call_token c)"
  by (cases c) (simp_all add: flights_headers plans_headers pilots_headers other_headers)

lemma field_names:
  "lower ''Authorization'' = ''authorization''" "lower ''X-API-Key'' = ''x-api-key''"
  "lower ''Host'' = ''host''" "lower ''User-Agent'' = ''user-agent''" "lower ''Accept'' = ''accept''"
  "lower ''Content-Type'' = ''content-type''"
  by code_simp+

lemma layered_headers:
  assumes "rq_headers r = bearer_fields token"
  shows "rq_headers (through_layers s key route r) =
    bearer_fields token @ (if s = S_sso then [] else [(''X-API-Key'', key)])"
  using assms by (cases token) (simp_all add: through_layers_def routing_def with_api_key_def)

lemma layered_request:
  "rq_method (through_layers s key route r) = rq_method r"
  "rq_query (through_layers s key route r) = rq_query r"
  "rq_body (through_layers s key route r) = rq_body r"
  "rq_path (through_layers s key route r) = (if s = S_sso then rq_path r else route @ rq_path r)"
  by (simp_all add: through_layers_def routing_def with_api_key_def)

lemma wire_field_get:
  "field_get n (wr_fields (wire agent host r)) =
     (case find (\<lambda>g. lower (fst g) = lower n) (rev (rq_headers r)) of
        Some g \<Rightarrow> Some (snd g)
      | None \<Rightarrow> field_get n (wr_fields (wire agent host (r\<lparr>rq_headers := []\<rparr>))))"
proof -
  have "wr_fields (wire agent host r) =
      fold field_set (rq_headers r) (wr_fields (wire agent host (r\<lparr>rq_headers := []\<rparr>)))"
    by (simp add: wire_def Let_def)
  then show ?thesis by (simp add: field_get_fold)
qed

lemma field_get_set:
  "field_get n (field_set (m, v) fs) = (if lower n = lower m then Some v else field_get n fs)"
proof (cases "lower n = lower m")
  case True
  then have "field_get n (field_set (m, v) fs) = field_get m (field_set (m, v) fs)" by (simp add: field_get_def)
  with True show ?thesis using field_get_set_same [of "(m, v)" fs] by simp
next
  case False
  then show ?thesis using field_get_set_other [of n "(m, v)" fs] by simp
qed

lemma standard_fields:
  assumes "rq_headers r = []"
  shows "field_get ''Authorization'' (wr_fields (wire agent host r)) = None"
    and "field_get ''X-API-Key'' (wr_fields (wire agent host r)) = None"
    and "field_get ''Host'' (wr_fields (wire agent host r)) = Some host"
proof -
  have nil: "field_get n [] = None" for n by (simp add: field_get_def)
  show "field_get ''Authorization'' (wr_fields (wire agent host r)) = None"
    "field_get ''X-API-Key'' (wr_fields (wire agent host r)) = None"
    "field_get ''Host'' (wr_fields (wire agent host r)) = Some host"
    using assms by (simp_all add: wire_def Let_def field_get_set field_names nil)
qed

lemma layered_fields:
  assumes "rq_headers r = bearer_fields token"
  shows "field_get ''Authorization'' (wr_fields (wire agent host (through_layers s key route r))) =
           map_option (\<lambda>t. ''Bearer '' @ t) token"
    and "field_get ''X-API-Key'' (wr_fields (wire agent host (through_layers s key route r))) =
           (if s = S_sso then None else Some key)"
    and "field_get ''Host'' (wr_fields (wire agent host (through_layers s key route r))) = Some host"
proof -
  note headers = layered_headers [OF assms, of s key route]
  show "field_get ''Authorization'' (wr_fields (wire agent host (through_layers s key route r))) =
      map_option (\<lambda>t. ''Bearer '' @ t) token"
    by (subst wire_field_get, unfold headers, cases token; cases "s = S_sso")
       (simp_all add: field_names standard_fields)
  show "field_get ''X-API-Key'' (wr_fields (wire agent host (through_layers s key route r))) =
      (if s = S_sso then None else Some key)"
    by (subst wire_field_get, unfold headers, cases token; cases "s = S_sso")
       (simp_all add: field_names standard_fields)
  show "field_get ''Host'' (wr_fields (wire agent host (through_layers s key route r))) = Some host"
    by (subst wire_field_get, unfold headers, cases token; cases "s = S_sso")
       (simp_all add: field_names standard_fields)
qed

text \<open>
  C22. Every call of a service whose request can be built reaches the wire with its token as
  bearer, with the API key unless it goes to single sign-on, with the host of the service, with
  the route of the service before its path, and with its query escaped behind the path or its
  body unchanged.
\<close>

theorem calls_reach_their_service:
  assumes "client_message tx agent host v key c = Ret m"
  shows "\<exists>r route. rest_request tx c = Ret r \<and> service_route (call_service c) v = Ret route \<and>
     field_get ''Authorization'' (wr_fields m) = map_option (\<lambda>t. ''Bearer '' @ t) (call_token c) \<and>
     field_get ''X-API-Key'' (wr_fields m) = (if call_service c = S_sso then None else Some key) \<and>
     field_get ''Host'' (wr_fields m) = Some (host (call_service c)) \<and>
     (if rq_method r = HTTP_delete \<or> rq_method r = HTTP_get
      then wr_target m = route @ rq_path r @ ''?'' @ encode_query (rq_query r)
      else wr_target m = route @ rq_path r \<and> wr_body m = rq_body r)"
proof -
  from assms obtain r route where r: "rest_request tx c = Ret r" "service_route (call_service c) v = Ret route"
    "m = wire agent (host (call_service c)) (through_layers (call_service c) key route r)"
    by (auto simp: client_message_def cbind_eq_Ret)
  have "call_service c = S_sso \<Longrightarrow> route = []" using r(2) by (simp add: service_route_def)
  then have target: "if rq_method r = HTTP_delete \<or> rq_method r = HTTP_get
      then wr_target m = route @ rq_path r @ ''?'' @ encode_query (rq_query r)
      else wr_target m = route @ rq_path r \<and> wr_body m = rq_body r"
    by (auto simp: r(3) wire_def Let_def layered_request)
  from layered_fields [OF call_headers [OF r(1)]] r target show ?thesis by blast
qed

definition plain_texts :: texts where
  "plain_texts = \<lparr>tx_iso = (\<lambda>_. ''now''), tx_float = (\<lambda>_. ''0''), tx_streamed_float = (\<lambda>_. ''0''), tx_dump = (\<lambda>_. ''{}'')\<rparr>"

lemma submit_message:
  "client_message tx agent host v key (On_plans (Submit_plan_call token i)) =
     cbind (flight_plans_route v) (\<lambda>route. Ret (wire agent (host S_flight_plans)
       (through_layers S_flight_plans key route
         \<lparr>rq_method = HTTP_post, rq_path = ''/plan/'' @ i @ ''/submit'', rq_query = [],
          rq_headers = bearer_fields token, rq_body = []\<rparr>)))"
  by (simp add: client_message_def service_route_def submit_plan_request_def request_builders request_of_def
        cmap_def)

theorem calls_reach_their_service_witness:
  "\<exists>m. client_message plain_texts ''AirMap'' (\<lambda>_. ''api.airmap.com'') Version_production ''key''
         (On_plans (Submit_plan_call (Some ''t'') ''p1'')) = Ret m \<and>
       field_get ''Authorization'' (wr_fields m) = Some ''Bearer t'' \<and>
       field_get ''X-API-Key'' (wr_fields m) = Some ''key''"
proof -
  let ?c = "On_plans (Submit_plan_call (Some ''t'') ''p1'')"
  obtain m where m: "client_message plain_texts ''AirMap'' (\<lambda>_. ''api.airmap.com'') Version_production ''key'' ?c = Ret m"
    by (auto simp: submit_message flight_plans_route_def versioned_route_def cmap_def)
  from calls_reach_their_service [OF this] m show ?thesis by auto
qed

end
