(* ===== verification/Rest_Calls.thy ===== *)
theory Rest_Calls
  imports Rest
begin

text \<open>
  Which calls of the client (src/airmap/rest/*.cpp) can be built at all: writing a geometry, a
  plan, its features and every other body succeeds, so a call fails only where the code itself
  makes it fail.
\<close>

subsection \<open>Bodies are always written\<close>

lemma json_object_total: "kvs \<noteq> [] \<Longrightarrow> \<exists>j. json_object kvs = Ret j"
  by (rule json_object_find) auto

lemma encode_valid_geometry: "geometry_valid g \<Longrightarrow> \<exists>j. encode_geometry g = Ret j"
  using codec_geometry by (auto simp: codec_pair_def)

lemma encode_geometry_total: "\<exists>j. encode_geometry g = Ret j"
proof (induction g)
  case (G_collection gs)
  then obtain f where f: "\<And>x. x \<in> set gs \<Longrightarrow> encode_geometry x = Ret (f x)" by metis
  have "cfold (\<lambda>x u. cbind (encode_geometry x) (\<lambda>v. json_push_back v u)) gs J_null =
      Ret (json_sequence (map f gs))"
    using encode_each_map [of gs encode_geometry f, OF f] by (simp add: encode_each_def)
  then show ?case by (simp add: encode_geometry.simps with_coordinates_def json_set_def)
next
  case G_invalid
  show ?case by (simp add: encode_geometry.simps json_set_def)
qed (simp_all add: encode_valid_geometry)

lemma returns_bind [simp]: "returns (cbind m f) \<longleftrightarrow> (\<exists>x. m = Ret x \<and> returns (f x))"
  by (cases m) auto

lemma object_with_features:
  assumes "kvs \<noteq> []" "''flight_features'' \<notin> fst ` set kvs"
  shows "returns (cbind (json_object kvs) (encode_features fs))"
proof -
  obtain j where j: "json_object kvs = Ret j" "\<And>k. json_find k j = map_of (rev kvs) k"
    using assms(1) by (rule json_object_find) auto
  have "map_of (rev kvs) ''flight_features'' = None"
    using assms(2) by (simp add: map_of_eq_None_iff)
  then have "features_in j []" by (simp add: features_in_def j(2))
  from encode_features_in [OF this json_object_open [OF j(1)], of fs] j(1) show ?thesis by auto
qed

lemma encode_flight_plan_total: "returns (encode_flight_plan iso_text p)"
proof -
  obtain g where "encode_geometry (fp_geometry p) = Ret g" using encode_geometry_total by blast
  then show ?thesis
    unfolding encode_flight_plan_def
    by (simp only: cbind.simps) (rule object_with_features, auto split: option.split)
qed

lemma encode_create_plan_total: "returns (encode_create_plan iso_text p) \<longleftrightarrow> cp_min_altitude p \<noteq> None"
proof (cases "cp_min_altitude p")
  case (Some a)
  obtain g where g: "encode_geometry (cp_geometry p) = Ret g" using encode_geometry_total by blast
  have "returns (encode_create_plan iso_text p)"
    unfolding encode_create_plan_def Some deref_simps g
    by (simp only: cbind.simps) (rule object_with_features, auto split: option.split)
  with Some show ?thesis by simp
qed (simp add: encode_create_plan_def)

lemma encode_create_flight_total: "returns (encode_create_flight iso_text p)"
proof -
  have set_geometry: "returns (case cf_geometry p of
      None \<Rightarrow> Ret j | Some g \<Rightarrow> cbind (encode_geometry g) (\<lambda>v. json_set ''geometry'' v j))"
    if "json_open j" for j
  proof (cases "cf_geometry p")
    case (Some g)
    obtain v where "encode_geometry g = Ret v" using encode_geometry_total by blast
    with Some json_set_open [OF that, of "''geometry''" v] show ?thesis by auto
  qed simp
  have object: "returns (cbind (json_object kvs) (\<lambda>j. case cf_geometry p of
      None \<Rightarrow> Ret j | Some g \<Rightarrow> cbind (encode_geometry g) (\<lambda>v. json_set ''geometry'' v j)))"
    if "kvs \<noteq> []" for kvs
    using json_object_total [OF that] json_object_open [of kvs] set_geometry by auto
  show ?thesis
    unfolding encode_create_flight_def by (rule object) simp
qed

lemma encode_optional_total:
  "(\<And>v. \<exists>j. enc v = Ret j) \<Longrightarrow> \<exists>j. encode_optional enc x = Ret j"
  by (cases x) (simp_all add: encode_optional_def)

lemma encode_string_value_total: "\<exists>j. encode_string_value s = Ret j"
  by (simp add: encode_string_value_def)

lemmas optional_totals =
  encode_optional_total [of encode_geometry, OF encode_geometry_total]
  encode_optional_total [of encode_string_value, OF encode_string_value_total]
  encode_optional_total [of "\<lambda>t. encode_string_value (f t)" for f, OF encode_string_value_total]

lemma encode_advisory_search_total: "returns (encode_advisory_search tx p)"
proof -
  obtain g r t1 t2 where "encode_optional encode_geometry (av_geometry p) = Ret g"
    "encode_optional encode_string_value (av_rulesets p) = Ret r"
    "encode_optional (\<lambda>t. encode_string_value (tx_iso tx t)) (av_start p) = Ret t1"
    "encode_optional (\<lambda>t. encode_string_value (tx_iso tx t)) (av_end p) = Ret t2"
    using optional_totals by metis
  then show ?thesis
    using json_object_total [of "[(''geometry'', g), (''rulesets'', r), (''start'', t1), (''end'', t2)]"]
    by (simp add: encode_advisory_search_def returns_iff)
qed

lemma encode_evaluate_rules_total: "returns (encode_evaluate_rules p)"
proof -
  obtain g r where "encode_optional encode_geometry (er_geometry p) = Ret g"
    "encode_optional encode_string_value (er_rulesets p) = Ret r"
    using optional_totals by metis
  then show ?thesis
    unfolding encode_evaluate_rules_def by (simp only: cbind.simps) (rule object_with_features, auto)
qed

lemma encode_rulesets_search_total: "returns (encode_rulesets_search g)"
  using optional_totals(1) [of g] json_object_total
  by (auto simp: encode_rulesets_search_def returns_iff)

lemma small_objects_total:
  "returns (encode_update_pilot u)" "returns (encode_finish_verify code)"
  "returns (encode_add_aircraft m n)" "returns (encode_update_aircraft n)"
  "returns (encode_anonymous_params i)"
  by (simp_all add: encode_update_pilot_def encode_finish_verify_def encode_add_aircraft_def
        encode_update_aircraft_def encode_anonymous_params_def returns_iff json_object_total)

lemma json_set_object: "\<exists>m'. json_set k v (J_object m) = Ret (J_object m')"
  by (simp add: json_set_def)

lemma json_object_is_object: "kvs \<noteq> [] \<Longrightarrow> \<exists>m. json_object kvs = Ret (J_object m)"
  using json_object_find [of kvs] json_object_open by (metis json_open_def)

lemma authentication_objects:
  "\<exists>m'. encode_grant_type g (J_object m) = Ret (J_object m')"
  "\<exists>m'. encode_scope s (J_object m) = Ret (J_object m')"
  "\<exists>m'. encode_connection c (J_object m) = Ret (J_object m')"
  by (simp_all add: encode_grant_type_def encode_scope_def encode_connection_def json_set_object
        split: grant_type.split token_scope.split connection.split)

lemma authentication_bodies_total: "returns (encode_password_params p)" "returns (encode_renew_params n)"
proof -
  obtain m1 where "json_object
      [(''username'', J_string (oc_username (au_oauth p))), (''password'', J_string (oc_password (au_oauth p))),
       (''client_id'', J_string (oc_client_id (au_oauth p))), (''device'', J_string (oc_device_id (au_oauth p)))] =
      Ret (J_object m1)"
    using json_object_is_object by blast
  moreover obtain m2 where "encode_grant_type (au_grant_type p) (J_object m1) = Ret (J_object m2)"
    using authentication_objects(1) by blast
  moreover obtain m3 where "encode_scope (au_scope p) (J_object m2) = Ret (J_object m3)"
    using authentication_objects(2) by blast
  moreover obtain m4 where "encode_connection (au_connection p) (J_object m3) = Ret (J_object m4)"
    using authentication_objects(3) by blast
  ultimately show "returns (encode_password_params p)"
    unfolding encode_password_params_def by simp
  obtain n1 where "json_object
      [(''client_id'', J_string (rn_client_id n)), (''refresh_token'', J_string (rn_refresh_token n))] =
      Ret (J_object n1)"
    using json_object_is_object by blast
  moreover obtain n2 where "encode_grant_type (rn_grant_type n) (J_object n1) = Ret (J_object n2)"
    using authentication_objects(1) by blast
  moreover obtain n3 where "encode_scope (rn_scope n) (J_object n2) = Ret (J_object n3)"
    using authentication_objects(2) by blast
  ultimately show "returns (encode_renew_params n)"
    unfolding encode_renew_params_def by simp
qed

lemma query_geometry_total: "\<exists>q'. query_geometry tx g q = Ret q'"
proof (cases g)
  case (Some v)
  then show ?thesis using encode_geometry_total [of v] by (auto simp: query_geometry_def)
qed (simp add: query_geometry_def)

lemma queries_total:
  "returns (flights_search_query tx a)" "returns (airspaces_search_query tx b)" "returns (status_query tx c)"
  by (simp_all add: flights_search_query_def airspaces_search_query_def status_query_def query_geometry_total)

subsection \<open>Calls that can be sent\<close>

text \<open>Every call but the last step of a phone verification and a plan without minimal altitude.\<close>

fun sendable :: "rest_call \<Rightarrow> bool" where
  "sendable (On_pilots c) = (case c of Finish_verify_call _ _ _ \<Rightarrow> False | _ \<Rightarrow> True)"
| "sendable (On_plans c) = (case c of Create_plan_call p \<Rightarrow> cp_min_altitude p \<noteq> None | _ \<Rightarrow> True)"
| "sendable _ = True"

lemma cmap_returns [simp]: "returns (cmap f m) \<longleftrightarrow> returns m"
  by (cases m) simp_all

lemma returns_request_of:
  "returns (request_of m path query headers body) \<longleftrightarrow>
     returns path \<and> returns query \<and> returns headers \<and> returns body"
  by (cases path; cases query; cases headers; cases body) (simp_all add: request_of_def)

lemmas building = endpoint_defs request_builders returns_request_of dumped_def

lemma flights_total: "returns (request_for_flights tx c)"
  by (cases c) (simp_all add: building queries_total encode_create_flight_total)

lemma plans_total: "returns (request_for_plans tx c) \<longleftrightarrow> sendable (On_plans c)"
  by (cases c) (simp_all add: building encode_create_plan_total encode_flight_plan_total)

lemma finish_verify_throws: "finish_verify_request tx token i code = Throw Format_error"
proof -
  have "\<exists>b. dumped tx (encode_finish_verify code) = Ret b"
    using small_objects_total(2) [of code] by (auto simp: dumped_def returns_iff)
  then show ?thesis by (auto simp: finish_verify_request_def request_builders request_of_def cmap_def)
qed

lemma pilots_total: "returns (request_for_pilots tx c) \<longleftrightarrow> sendable (On_pilots c)"
  by (cases c) (simp_all add: building small_objects_total finish_verify_throws [unfolded building])

lemma others_total:
  "returns (request_for_aircrafts tx c1)" "returns (request_for_airspaces tx c2)"
  "returns (request_for_advisory tx c3)" "returns (request_for_rulesets tx c4)"
  "returns (request_for_status tx c5)" "returns (request_for_auth tx c6)"
proof -
  show "returns (request_for_aircrafts tx c1)" by (cases c1) (simp_all add: building)
  show "returns (request_for_airspaces tx c2)" by (cases c2) (simp_all add: building queries_total)
  show "returns (request_for_advisory tx c3)"
    by (cases c3) (simp_all add: building encode_advisory_search_total)
  show "returns (request_for_rulesets tx c4)"
    by (cases c4) (simp_all add: building encode_rulesets_search_total encode_evaluate_rules_total)
  show "returns (request_for_status tx c5)" by (cases c5) (simp_all add: building queries_total)
  show "returns (request_for_auth tx c6)"
    by (cases c6) (simp_all add: building small_objects_total authentication_bodies_total)
qed

lemma service_route_total: "returns (service_route s v)"
  by (cases s; cases v)
     (simp_all add: service_route_def advisory_route_def aircrafts_route_def airspaces_route_def
        authenticator_route_def flight_plans_route_def flights_route_def pilots_route_def
        rulesets_route_def status_route_def versioned_route_def)

lemma rest_request_total: "returns (rest_request tx c) \<longleftrightarrow> sendable c"
  by (cases c) (simp_all add: flights_total plans_total pilots_total others_total del: sendable.simps(1,2))


text \<open>
  The confirmation of a phone number is never sent: its path has no place for the id it is
  formatted with, so the call throws.
\<close>

lemma phone_confirmation_throws:
  "client_message tx agent host v key (On_pilots (Finish_verify_call token i code)) = Throw Format_error"
  by (simp add: client_message_def finish_verify_throws)

end
