(* ===== verification/Client_Context.thy ===== *)
theory Client_Context
  imports Rest_Calls
begin

text \<open>
  The configuration of a client (include/airmap/client.h, src/airmap/client.cpp,
  src/airmap/codec/json/client.cpp) and the context that creates clients and runs their work
  (src/airmap/boost/context.cpp): where the requester of each service sends to, and the state
  machine of \<open>run\<close> and \<open>stop\<close> as a step relation over any number of threads, one step per
  atomic operation.
\<close>

subsection \<open>Configuration\<close>

record net_endpoint =
  ne_host :: string
  ne_port :: "16 word"

record configuration =
  cc_host :: string
  cc_version :: client_version
  cc_sso :: net_endpoint
  cc_telemetry :: net_endpoint
  cc_traffic :: net_endpoint
  cc_credentials :: credentials

definition default_production_configuration :: "credentials \<Rightarrow> configuration" where
  "default_production_configuration c =
     \<lparr>cc_host = ''api.airmap.com'', cc_version = Version_production,
      cc_sso = \<lparr>ne_host = ''sso.airmap.io'', ne_port = 443\<rparr>,
      cc_telemetry = \<lparr>ne_host = ''api.k8s.stage.airmap.com'', ne_port = 32003\<rparr>,
      cc_traffic = \<lparr>ne_host = ''mqtt-prod.airmap.io'', ne_port = 8883\<rparr>, cc_credentials = c\<rparr>"

definition default_staging_configuration :: "credentials \<Rightarrow> configuration" where
  "default_staging_configuration c =
     \<lparr>cc_host = ''api.airmap.com'', cc_version = Version_staging,
      cc_sso = \<lparr>ne_host = ''sso.airmap.io'', ne_port = 443\<rparr>,
      cc_telemetry = \<lparr>ne_host = ''api.k8s.stage.airmap.com'', ne_port = 32003\<rparr>,
      cc_traffic = \<lparr>ne_host = ''mqtt-stage.airmap.io'', ne_port = 8883\<rparr>, cc_credentials = c\<rparr>"

definition default_configuration :: "client_version \<Rightarrow> credentials \<Rightarrow> configuration" where
  "default_configuration v c =
     (case v of
        Version_production \<Rightarrow> default_production_configuration c
      | Version_staging \<Rightarrow> default_staging_configuration c)"

fun client_version_text :: "client_version \<Rightarrow> string" where
  "client_version_text Version_production = ''production''"
| "client_version_text Version_staging = ''staging''"

definition client_version_select :: "string \<Rightarrow> client_version \<Rightarrow> client_version" where
  "client_version_select s e =
     (if s = ''production'' then Version_production else if s = ''staging'' then Version_staging else e)"

interpretation client_version_io: text_enum client_version_text client_version_select
proof
  show "is_word (client_version_text e)" for e
    by (cases e) (simp_all add: is_word_def is_space_char_def)
  show "client_version_select (client_version_text e) e0 = e" for e e0
    by (cases e) (simp_all add: client_version_select_def)
qed

text \<open>The unsigned port is read like any type without an overload of its own, from any number.\<close>

definition json_get_port :: "json \<Rightarrow> 16 word cpp" where
  "json_get_port j =
     (case j of
        J_unsigned w \<Rightarrow> Ret (ucast w)
      | J_integer w \<Rightarrow> Ret (ucast w)
      | J_float x \<Rightarrow>
          (case dbl_truncate x of
             Some i \<Rightarrow> if 0 \<le> i \<and> i < 2 ^ 16 then Ret (word_of_int i) else UB
           | None \<Rightarrow> UB)
      | J_boolean b \<Rightarrow> Ret (of_bool b)
      | _ \<Rightarrow> Throw Json_type_error)"

definition decode_version :: "json \<Rightarrow> client_version cpp" where
  "decode_version j =
     cbind (json_get_string j) (lexical_cast_enum client_version_select Version_production)"

text \<open>The members \<open>sso\<close>, \<open>telemetry\<close> and \<open>traffic\<close> are subscripted in a constant document.\<close>

definition decode_endpoint :: "string \<Rightarrow> json \<Rightarrow> net_endpoint \<Rightarrow> net_endpoint cpp" where
  "decode_endpoint k j e =
     cbind (cbind (json_subscript k j) (json_member ''host'' json_get_string (ne_host e))) (\<lambda>h.
     cbind (cbind (json_subscript k j) (json_member ''port'' json_get_port (ne_port e))) (\<lambda>p.
       Ret \<lparr>ne_host = h, ne_port = p\<rparr>))"

definition decode_configuration :: "json \<Rightarrow> configuration \<Rightarrow> configuration cpp" where
  "decode_configuration j c =
     cbind (json_member ''host'' json_get_string (cc_host c) j) (\<lambda>h.
     cbind (json_member ''version'' decode_version (cc_version c) j) (\<lambda>v.
     cbind (decode_endpoint ''sso'' j (cc_sso c)) (\<lambda>sso.
     cbind (decode_endpoint ''telemetry'' j (cc_telemetry c)) (\<lambda>tel.
     cbind (decode_endpoint ''traffic'' j (cc_traffic c)) (\<lambda>tra.
     cbind (json_member ''credentials'' decode_credentials (cc_credentials c) j) (\<lambda>cr.
       Ret \<lparr>cc_host = h, cc_version = v, cc_sso = sso, cc_telemetry = tel, cc_traffic = tra,
            cc_credentials = cr\<rparr>))))))"

definition encode_endpoint :: "net_endpoint \<Rightarrow> json cpp" where
  "encode_endpoint e =
     json_object [(''host'', J_string (ne_host e)), (''port'', J_unsigned (ucast (ne_port e)))]"

definition encode_configuration :: "configuration \<Rightarrow> json cpp" where
  "encode_configuration c =
     cbind (encode_endpoint (cc_sso c)) (\<lambda>sso.
     cbind (encode_endpoint (cc_telemetry c)) (\<lambda>tel.
     cbind (encode_endpoint (cc_traffic c)) (\<lambda>tra.
     cbind (encode_credentials (cc_credentials c)) (\<lambda>cr.
       json_object
         [(''host'', J_string (cc_host c)), (''version'', J_string (client_version_text (cc_version c))),
          (''sso'', sso), (''telemetry'', tel), (''traffic'', tra), (''credentials'', cr)]))))"

text \<open>A configuration is read back from its document, but for the id of an anonymous user.\<close>

lemma encode_endpoint_object:
  obtains j where "encode_endpoint e = Ret j"
    "json_member ''host'' json_get_string h j = Ret (ne_host e)"
    "json_member ''port'' json_get_port p j = Ret (ne_port e)"
proof -
  let ?m = "[(''host'', J_string (ne_host e)), (''port'', J_unsigned (ucast (ne_port e)))]"
  obtain j where j: "json_object ?m = Ret j" "j \<noteq> J_null" "\<And>k. json_find k j = map_of (rev ?m) k"
    by (rule json_object_find [of ?m]) auto
  have "ucast (ucast (ne_port e) :: 64 word) = ne_port e" by (simp add: ucast_up_ucast_id is_up)
  with j that [of j] show thesis by (simp add: encode_endpoint_def json_member_found json_get_port_def)
qed

lemma configuration_round_trip:
  assumes "encode_credentials (cc_credentials c) = Ret cr" "cr \<noteq> J_null" "decode_credentials cr = Ret d"
  shows "\<exists>j. encode_configuration c = Ret j \<and> decode_configuration j c0 = Ret (c\<lparr>cc_credentials := d\<rparr>)"
proof -
  obtain sso where sso: "encode_endpoint (cc_sso c) = Ret sso"
    "json_member ''host'' json_get_string (ne_host (cc_sso c0)) sso = Ret (ne_host (cc_sso c))"
    "json_member ''port'' json_get_port (ne_port (cc_sso c0)) sso = Ret (ne_port (cc_sso c))"
    by (rule encode_endpoint_object)
  obtain tel where tel: "encode_endpoint (cc_telemetry c) = Ret tel"
    "json_member ''host'' json_get_string (ne_host (cc_telemetry c0)) tel = Ret (ne_host (cc_telemetry c))"
    "json_member ''port'' json_get_port (ne_port (cc_telemetry c0)) tel = Ret (ne_port (cc_telemetry c))"
    by (rule encode_endpoint_object)
  obtain tra where tra: "encode_endpoint (cc_traffic c) = Ret tra"
    "json_member ''host'' json_get_string (ne_host (cc_traffic c0)) tra = Ret (ne_host (cc_traffic c))"
    "json_member ''port'' json_get_port (ne_port (cc_traffic c0)) tra = Ret (ne_port (cc_traffic c))"
    by (rule encode_endpoint_object)
  let ?m = "[(''host'', J_string (cc_host c)), (''version'', J_string (client_version_text (cc_version c))),
      (''sso'', sso), (''telemetry'', tel), (''traffic'', tra), (''credentials'', cr)]"
  obtain j where j: "json_object ?m = Ret j" "j \<noteq> J_null" "\<And>k. json_find k j = map_of (rev ?m) k"
    by (rule json_object_find [of ?m]) auto
  have "decode_version (J_string (client_version_text v)) = Ret v" for v
    by (simp add: decode_version_def json_get_string_def lexical_cast_enum_def client_version_io.text_word
        client_version_io.select_text)
  with j sso tel tra assms show ?thesis
    by (simp add: encode_configuration_def decode_configuration_def decode_endpoint_def json_member_found
        json_subscript_found)
qed

subsection \<open>Where a service is reached\<close>

record service_endpoint =
  se_encrypted :: bool
  se_host :: string
  se_port :: "16 word"
  se_route :: string

definition env_get :: "(string \<Rightarrow> string option) \<Rightarrow> string \<Rightarrow> string \<Rightarrow> string" where
  "env_get env name fallback = (case env name of Some v \<Rightarrow> v | None \<Rightarrow> fallback)"

definition request_factory_for_protocol :: "string \<Rightarrow> bool cpp" where
  "request_factory_for_protocol protocol =
     (if protocol = ''http'' then Ret False
      else if protocol = ''https'' then Ret True
      else Throw (Logic_error ''unsupported protocol''))"

text \<open>\<open>boost::lexical_cast<std::uint16_t>\<close> is the parameter \<open>port_of\<close>.\<close>

definition requester_for ::
  "(string \<Rightarrow> 16 word cpp) \<Rightarrow> (string \<Rightarrow> string option) \<Rightarrow> string \<Rightarrow> string \<Rightarrow> string cpp \<Rightarrow> service_endpoint cpp" where
  "requester_for port_of env name host route =
     (let protocol = env_get env (''AIRMAP_PROTOCOL_'' @ name) ''https'';
          h = env_get env (''AIRMAP_HOST_'' @ name) host;
          p = env_get env (''AIRMAP_PORT_'' @ name) ''443''
      in cbind route (\<lambda>r. cbind (request_factory_for_protocol protocol) (\<lambda>e. cbind (port_of p) (\<lambda>port.
           Ret \<lparr>se_encrypted = e, se_host = h, se_port = port,
                se_route = env_get env (''AIRMAP_ROUTE_'' @ name) r\<rparr>))))"

definition sso_requester ::
  "(string \<Rightarrow> 16 word cpp) \<Rightarrow> (string \<Rightarrow> string option) \<Rightarrow> configuration \<Rightarrow> service_endpoint cpp" where
  "sso_requester port_of env c =
     (let protocol = env_get env ''AIRMAP_PROTOCOL_SSO'' ''https'';
          h = env_get env ''AIRMAP_HOST_SSO'' (ne_host (cc_sso c));
          p = env_get env ''AIRMAP_PORT_SSO'' (show_nat (unat (ne_port (cc_sso c))))
      in cbind (request_factory_for_protocol protocol) (\<lambda>e. cbind (port_of p) (\<lambda>port.
           Ret \<lparr>se_encrypted = e, se_host = h, se_port = port, se_route = []\<rparr>)))"

text \<open>Flight plans read the variables of flights.\<close>

definition service_requester ::
  "(string \<Rightarrow> 16 word cpp) \<Rightarrow> (string \<Rightarrow> string option) \<Rightarrow> configuration \<Rightarrow> service \<Rightarrow> service_endpoint cpp" where
  "service_requester port_of env c s =
     (let via = (\<lambda>name. requester_for port_of env name (cc_host c) (service_route s (cc_version c)))
      in case s of
           S_advisory \<Rightarrow> via ''ADVISORY''
         | S_aircrafts \<Rightarrow> via ''AIRCRAFTS''
         | S_airspaces \<Rightarrow> via ''AIRSPACES''
         | S_authenticator \<Rightarrow> via ''AUTHENTICATOR''
         | S_flight_plans \<Rightarrow> via ''FLIGHTS''
         | S_flights \<Rightarrow> via ''FLIGHTS''
         | S_pilots \<Rightarrow> via ''PILOTS''
         | S_rulesets \<Rightarrow> via ''RULESETS''
         | S_status \<Rightarrow> via ''STATUS''
         | S_sso \<Rightarrow> sso_requester port_of env c)"

text \<open>\<open>default_configuration\<close> with an empty environment: the routes and the host of a client.\<close>

lemma service_requester_default:
  assumes "env = (\<lambda>_. None)" "s \<noteq> S_sso" "port_of ''443'' = Ret 443"
  shows "\<exists>route. service_route s v = Ret route \<and>
    service_requester port_of env (default_configuration v c) s =
      Ret \<lparr>se_encrypted = True, se_host = ''api.airmap.com'', se_port = 443, se_route = route\<rparr>"
proof -
  obtain route where "service_route s v = Ret route"
    using service_route_total by (auto simp: returns_iff)
  moreover have "cc_host (default_configuration v c) = ''api.airmap.com''"
    "cc_version (default_configuration v c) = v"
    by (cases v; simp add: default_configuration_def default_production_configuration_def
        default_staging_configuration_def)+
  ultimately show ?thesis
    using assms by (cases s)
      (simp_all add: service_requester_def requester_for_def env_get_def request_factory_for_protocol_def)
qed

text \<open>One variable of the environment moves flights and flight plans to the same route.\<close>

lemma flights_route_variable:
  assumes "env ''AIRMAP_ROUTE_FLIGHTS'' = Some route"
    and "service_requester port_of env c S_flights = Ret e" "service_requester port_of env c S_flight_plans = Ret e'"
  shows "se_route e = route \<and> e = e'"
  using assms by (auto simp: service_requester_def requester_for_def env_get_def cbind_eq_Ret)

subsection \<open>Running and stopping\<close>

datatype context_state = Stopped | Stopping | Running

datatype return_code = RC_success | RC_error | RC_already_running

text \<open>
  Where a thread is in \<open>run\<close> or in \<open>stop\<close>: each constructor is the point before the next
  access to a member that threads share.
\<close>

datatype program_point =
    Run_called | Run_entered | Run_looping | Run_serving | Run_leaving | Run_left
  | Run_returned return_code
  | Stop_called return_code | Stop_won return_code | Stop_stored | Stop_returned

record ctx =
  cx_state :: context_state
  cx_return_code :: return_code
  cx_halted :: bool
  cx_threads :: "nat \<Rightarrow> program_point"

definition move :: "nat \<Rightarrow> program_point \<Rightarrow> ctx \<Rightarrow> ctx" where
  "move t p s = s\<lparr>cx_threads := (cx_threads s)(t := p)\<rparr>"

text \<open>
  \<open>io_service::run\<close> returns when the service is stopped, which lasts, because a work object
  keeps it busy, and throws what a handler throws.
\<close>

inductive context_step :: "ctx \<Rightarrow> ctx \<Rightarrow> bool" where
  run_refused: "cx_threads s t = Run_called \<Longrightarrow> cx_state s \<noteq> Stopped \<Longrightarrow>
    context_step s (move t (Run_returned RC_already_running) s)"
| run_enters: "cx_threads s t = Run_called \<Longrightarrow> cx_state s = Stopped \<Longrightarrow>
    context_step s (move t Run_entered (s\<lparr>cx_state := Running\<rparr>))"
| run_clears: "cx_threads s t = Run_entered \<Longrightarrow>
    context_step s (move t Run_looping (s\<lparr>cx_return_code := RC_success\<rparr>))"
| run_serves: "cx_threads s t = Run_looping \<Longrightarrow> \<not> cx_halted s \<Longrightarrow>
    context_step s (move t Run_serving s)"
| service_halts: "cx_threads s t = Run_serving \<Longrightarrow> cx_halted s \<Longrightarrow>
    context_step s (move t Run_looping s)"
| service_throws: "cx_threads s t = Run_serving \<Longrightarrow>
    context_step s (move t Run_looping s)"
| run_ends: "cx_threads s t = Run_looping \<Longrightarrow> cx_halted s \<Longrightarrow>
    context_step s (move t Run_leaving s)"
| run_leaves: "cx_threads s t = Run_leaving \<Longrightarrow>
    context_step s (move t Run_left (s\<lparr>cx_state := Stopped\<rparr>))"
| run_returns: "cx_threads s t = Run_left \<Longrightarrow>
    context_step s (move t (Run_returned (cx_return_code s)) s)"
| stop_ignored: "cx_threads s t = Stop_called rc \<Longrightarrow> cx_state s \<noteq> Running \<Longrightarrow>
    context_step s (move t Stop_returned s)"
| stop_wins: "cx_threads s t = Stop_called rc \<Longrightarrow> cx_state s = Running \<Longrightarrow>
    context_step s (move t (Stop_won rc) (s\<lparr>cx_state := Stopping\<rparr>))"
| stop_stores: "cx_threads s t = Stop_won rc \<Longrightarrow>
    context_step s (move t Stop_stored (s\<lparr>cx_return_code := rc\<rparr>))"
| stop_halts: "cx_threads s t = Stop_stored \<Longrightarrow>
    context_step s (move t Stop_returned (s\<lparr>cx_halted := True\<rparr>))"

inductive_cases context_stepE: "context_step s s'"

definition context_init :: "ctx \<Rightarrow> bool" where
  "context_init s \<longleftrightarrow>
     cx_state s = Stopped \<and> cx_return_code s = RC_success \<and> \<not> cx_halted s \<and>
     (\<forall>t. cx_threads s t = Run_called \<or> (\<exists>rc. cx_threads s t = Stop_called rc))"

definition context_reach :: "ctx \<Rightarrow> ctx \<Rightarrow> bool" where
  "context_reach s s' \<longleftrightarrow> context_init s \<and> context_step\<^sup>*\<^sup>* s s'"

text \<open>A thread between entering and leaving.\<close>

definition inside :: "program_point \<Rightarrow> bool" where
  "inside p \<longleftrightarrow> p \<in> {Run_entered, Run_looping, Run_serving, Run_leaving}"

text \<open>\<open>r\<close> is the thread that runs the context; without one the context is stopped.\<close>

definition runs_alone :: "nat option \<Rightarrow> ctx \<Rightarrow> bool" where
  "runs_alone r s \<longleftrightarrow>
     (\<forall>t. inside (cx_threads s t) \<longleftrightarrow> r = Some t) \<and> (cx_state s = Stopped \<longleftrightarrow> r = None)"

definition leaves_halted :: "ctx \<Rightarrow> bool" where
  "leaves_halted s \<longleftrightarrow> (\<forall>t. cx_threads s t = Run_leaving \<or> cx_threads s t = Run_left \<longrightarrow> cx_halted s)"

definition codes_known :: "return_code set \<Rightarrow> ctx \<Rightarrow> bool" where
  "codes_known codes s \<longleftrightarrow>
     cx_return_code s \<in> insert RC_success codes \<and>
     (\<forall>t rc. cx_threads s t = Stop_called rc \<or> cx_threads s t = Stop_won rc \<longrightarrow> rc \<in> codes)"

definition returned_known :: "return_code set \<Rightarrow> ctx \<Rightarrow> bool" where
  "returned_known codes s \<longleftrightarrow>
     (\<forall>t rc. cx_threads s t = Run_returned rc \<longrightarrow>
        rc = RC_already_running \<or> cx_halted s \<and> rc \<in> insert RC_success codes)"

lemma runs_alone_move:
  assumes "runs_alone r s" "cx_threads u = cx_threads s" "cx_state u = Stopped \<longleftrightarrow> cx_state s = Stopped"
    and "inside p \<longleftrightarrow> inside (cx_threads s t)"
  shows "runs_alone r (move t p u)"
  using assms by (simp add: runs_alone_def move_def)

lemma runs_alone_step:
  assumes "context_step s s'" "runs_alone r s"
  shows "\<exists>r'. runs_alone r' s'"
  using assms
proof (cases rule: context_step.cases)
  case (run_enters t)
  with assms(2) have "runs_alone (Some t) s'" by (auto simp: runs_alone_def move_def inside_def)
  then show ?thesis by blast
next
  case (run_leaves t)
  with assms(2) have "r = Some t" by (auto simp: runs_alone_def inside_def)
  with run_leaves assms(2) have "runs_alone None s'" by (auto simp: runs_alone_def move_def inside_def)
  then show ?thesis by blast
qed (use assms(2) in \<open>auto intro!: exI [of _ r] runs_alone_move simp: inside_def\<close>)

lemma leaves_halted_step: "context_step s s' \<Longrightarrow> leaves_halted s \<Longrightarrow> leaves_halted s'"
  by (induction rule: context_step.induct) (auto simp: leaves_halted_def move_def)

lemma codes_known_step: "context_step s s' \<Longrightarrow> codes_known codes s \<Longrightarrow> codes_known codes s'"
  by (induction rule: context_step.induct) (auto simp: codes_known_def move_def)

lemma returned_known_step:
  "context_step s s' \<Longrightarrow> leaves_halted s \<Longrightarrow> codes_known codes s \<Longrightarrow> returned_known codes s \<Longrightarrow>
   returned_known codes s'"
  by (induction rule: context_step.induct)
     (auto simp: leaves_halted_def codes_known_def returned_known_def move_def)

definition stop_codes :: "ctx \<Rightarrow> return_code set" where
  "stop_codes s = {rc. \<exists>t. cx_threads s t = Stop_called rc}"

lemma context_reach_inv:
  assumes "context_reach s0 s"
  shows "(\<exists>r. runs_alone r s) \<and> leaves_halted s \<and> codes_known (stop_codes s0) s \<and>
         returned_known (stop_codes s0) s"
proof -
  from assms have init: "context_init s0" and run: "context_step\<^sup>*\<^sup>* s0 s" by (simp_all add: context_reach_def)
  from run show ?thesis
  proof (induction rule: rtranclp_induct)
    case base
    have pc: "cx_threads s0 t = Run_called \<or> (\<exists>rc. cx_threads s0 t = Stop_called rc)" for t
      using init by (simp add: context_init_def)
    have other: "\<not> inside (cx_threads s0 t)" "cx_threads s0 t \<noteq> Run_leaving" "cx_threads s0 t \<noteq> Run_left"
      "cx_threads s0 t \<noteq> Run_returned rc" "cx_threads s0 t \<noteq> Stop_won rc" for t rc
      using pc [of t] by (auto simp: inside_def)
    then have "runs_alone None s0" using init by (simp add: runs_alone_def context_init_def)
    moreover have "leaves_halted s0" "returned_known (stop_codes s0) s0"
      using other by (simp_all add: leaves_halted_def returned_known_def)
    moreover have "codes_known (stop_codes s0) s0"
      using init other by (auto simp: codes_known_def context_init_def stop_codes_def)
    ultimately show ?case by blast
  next
    case (step s s')
    then show ?case
      using runs_alone_step leaves_halted_step codes_known_step returned_known_step by blast
  qed
qed

text \<open>
  C25. Whatever threads call \<open>run\<close> and \<open>stop\<close>, at most one of them runs the context, the context
  is stopped exactly when none does, and a call of \<open>run\<close> that was not refused returns only
  after a stop took effect, with success or with a code that was given to \<open>stop\<close>.
\<close>

theorem context_runs_alone:
  assumes "context_reach s0 s"
  shows "(\<forall>t u. inside (cx_threads s t) \<and> inside (cx_threads s u) \<longrightarrow> t = u) \<and>
     (cx_state s = Stopped \<longleftrightarrow> \<not> (\<exists>t. inside (cx_threads s t))) \<and>
     (\<forall>t rc. cx_threads s t = Run_returned rc \<longrightarrow> rc = RC_already_running \<or>
        cx_halted s \<and> (rc = RC_success \<or> (\<exists>u. cx_threads s0 u = Stop_called rc)))"
  using context_reach_inv [OF assms]
  by (auto simp: runs_alone_def returned_known_def stop_codes_def)

text \<open>One thread calls \<open>run\<close>, all others call \<open>stop\<close>; the stop overtakes the start of the run.\<close>

definition lost0 :: ctx where
  "lost0 = \<lparr>cx_state = Stopped, cx_return_code = RC_success, cx_halted = False,
     cx_threads = (\<lambda>_. Stop_called RC_error)(0 := Run_called)\<rparr>"

definition lost1 :: ctx where
  "lost1 = move 1 (Stop_won RC_error) ((move 0 Run_entered (lost0\<lparr>cx_state := Running\<rparr>))\<lparr>cx_state := Stopping\<rparr>)"

definition lost2 :: ctx where
  "lost2 = move 0 Run_looping ((move 1 Stop_returned ((move 1 Stop_stored
     (lost1\<lparr>cx_return_code := RC_error\<rparr>))\<lparr>cx_halted := True\<rparr>))\<lparr>cx_return_code := RC_success\<rparr>)"

definition lost3 :: ctx where
  "lost3 = move 0 (Run_returned RC_success) (move 0 Run_left ((move 0 Run_leaving lost2)\<lparr>cx_state := Stopped\<rparr>))"

lemmas lost_defs = lost0_def lost1_def lost2_def lost3_def

lemma lost_start: "context_reach lost0 lost1"
proof -
  have "context_step lost0 (move 0 Run_entered (lost0\<lparr>cx_state := Running\<rparr>))"
    by (rule run_enters) (simp_all add: lost0_def)
  moreover have "context_step (move 0 Run_entered (lost0\<lparr>cx_state := Running\<rparr>)) lost1"
    unfolding lost1_def by (rule stop_wins) (simp_all add: lost0_def move_def)
  moreover have "context_init lost0" by (simp add: context_init_def lost0_def)
  ultimately show ?thesis by (auto simp: context_reach_def)
qed

lemma lost_middle: "context_step\<^sup>*\<^sup>* lost1 lost2"
proof -
  let ?a = "move 1 Stop_stored (lost1\<lparr>cx_return_code := RC_error\<rparr>)"
  let ?b = "move 1 Stop_returned (?a\<lparr>cx_halted := True\<rparr>)"
  have "context_step lost1 ?a" by (rule stop_stores) (simp add: lost1_def move_def)
  moreover have "context_step ?a ?b" by (rule stop_halts) (simp add: move_def)
  moreover have "context_step ?b lost2"
    unfolding lost2_def by (rule run_clears) (simp add: lost1_def move_def)
  ultimately show ?thesis by (meson converse_rtranclp_into_rtranclp r_into_rtranclp)
qed

lemma lost_end: "context_step\<^sup>*\<^sup>* lost2 lost3"
proof -
  let ?a = "move 0 Run_leaving lost2"
  let ?b = "move 0 Run_left (?a\<lparr>cx_state := Stopped\<rparr>)"
  have "context_step lost2 ?a" by (rule run_ends) (simp_all add: lost2_def move_def)
  moreover have "context_step ?a ?b" by (rule run_leaves) (simp add: move_def)
  moreover have "context_step ?b (move 0 (Run_returned (cx_return_code ?b)) ?b)"
    by (rule run_returns) (simp add: move_def)
  moreover have "move 0 (Run_returned (cx_return_code ?b)) ?b = lost3"
    by (simp add: lost3_def lost2_def move_def)
  ultimately show ?thesis by (metis converse_rtranclp_into_rtranclp r_into_rtranclp)
qed

theorem context_runs_alone_witness:
  "inside (cx_threads lost1 0) \<and> cx_state lost1 = Stopping \<and>
   {u. inside (cx_threads lost1 u)} = {0}"
proof -
  have "inside (cx_threads lost1 0)" "cx_state lost1 = Stopping"
    by (simp_all add: lost_defs move_def inside_def)
  with context_runs_alone [OF lost_start] show ?thesis by blast
qed

text \<open>
  A stop with an error can take effect while a thread is about to run the context, and that
  thread still returns success: it clears the code after the stop has stored it.
\<close>

lemma stop_code_can_be_lost:
  "\<exists>s0 s1 s2. context_reach s0 s1 \<and> context_step\<^sup>*\<^sup>* s1 s2 \<and>
     inside (cx_threads s1 0) \<and> cx_threads s1 1 = Stop_won RC_error \<and>
     cx_threads s2 1 = Stop_returned \<and> cx_threads s2 0 = Run_returned RC_success"
proof (intro exI conjI)
  show "context_reach lost0 lost1" by (rule lost_start)
  show "context_step\<^sup>*\<^sup>* lost1 lost3" using lost_middle lost_end by (rule rtranclp_trans)
qed (simp_all add: lost_defs move_def inside_def)

subsection \<open>Returning\<close>

definition point_rank :: "program_point \<Rightarrow> nat" where
  "point_rank p =
     (case p of
        Run_called \<Rightarrow> 6 | Run_entered \<Rightarrow> 5 | Run_serving \<Rightarrow> 4 | Run_looping \<Rightarrow> 3 | Run_leaving \<Rightarrow> 2
      | Run_left \<Rightarrow> 1 | Run_returned _ \<Rightarrow> 0
      | Stop_called _ \<Rightarrow> 3 | Stop_won _ \<Rightarrow> 2 | Stop_stored \<Rightarrow> 1 | Stop_returned \<Rightarrow> 0)"

lemma halted_step_moves:
  assumes "context_step s s'" "cx_halted s"
  shows "cx_halted s' \<and> (\<exists>t. point_rank (cx_threads s' t) < point_rank (cx_threads s t) \<and>
           (\<forall>u. u \<noteq> t \<longrightarrow> cx_threads s' u = cx_threads s u))"
  using assms
  by (cases rule: context_step.cases) (auto simp: move_def point_rank_def)

lemma halted_step_exists:
  assumes "cx_halted s" "0 < point_rank (cx_threads s t)"
  shows "\<exists>s'. context_step s s' \<and> point_rank (cx_threads s' t) < point_rank (cx_threads s t)"
proof (cases "cx_threads s t")
  case Run_called
  then show ?thesis
    using run_refused [of s t] run_enters [of s t]
    by (cases "cx_state s = Stopped") (force simp: move_def point_rank_def)+
next
  case (Stop_called rc)
  then show ?thesis
    using stop_ignored [of s t rc] stop_wins [of s t rc]
    by (cases "cx_state s = Running") (force simp: move_def point_rank_def)+
qed (use assms in \<open>auto simp: move_def point_rank_def intro: context_step.intros
       intro!: exI [of _ "move t _ _"]\<close>)



end
