(* ===== verification/Mqtt.thy ===== *)
theory Mqtt
  imports Error
begin

text \<open>
  The MQTT client and broker (src/airmap/net/mqtt/boost/client.cpp and broker.cpp). The library
  beneath hands out the 16-bit packet identifier of every subscribe; the client keys its own map
  by the lower 8 bits of it. The topic map is an \<open>unordered_multimap\<close> whose iterators are kept: an
  iterator is the identity of its element together with the number of rehashes seen so far, and
  using it after a further rehash is undefined. When an insertion rehashes is left to the standard
  library, a parameter \<open>policy\<close>: elements and buckets before to the new number of buckets. The
  order among elements of one topic is that of the list here; the standard leaves it open.
\<close>

subsection \<open>State\<close>

datatype qos = At_least_once | At_most_once | Exactly_once

datatype mqtt_packet = Async_subscribe string qos | Async_unsubscribe string

record 'cb mqtt_node =
  nd_key :: nat
  nd_topic :: string
  nd_cb :: 'cb

type_synonym mqtt_iterator = "nat \<times> nat"

record 'cb mqtt_client =
  mc_topics :: "'cb mqtt_node list"
  mc_buckets :: nat
  mc_rehashes :: nat
  mc_next :: nat
  mc_subs :: "(8 word \<times> mqtt_iterator) list"
  mc_sent :: "mqtt_packet list"

type_synonym rehash_policy = "nat \<Rightarrow> nat \<Rightarrow> nat option"

definition mqtt_initial :: "nat \<Rightarrow> 'cb mqtt_client" where
  "mqtt_initial b =
     \<lparr>mc_topics = [], mc_buckets = b, mc_rehashes = 0, mc_next = 0, mc_subs = [], mc_sent = []\<rparr>"

subsection \<open>Operations\<close>

text \<open>\<open>topic_map_.emplace\<close>: the iterator returned is valid after the rehash it may cause.\<close>

definition topic_emplace ::
  "rehash_policy \<Rightarrow> string \<Rightarrow> 'cb \<Rightarrow> 'cb mqtt_client \<Rightarrow> mqtt_iterator \<times> 'cb mqtt_client" where
  "topic_emplace policy topic cb c =
     (let k = mc_next c;
          c1 = (case policy (length (mc_topics c)) (mc_buckets c) of
                  None \<Rightarrow> c
                | Some b \<Rightarrow> c\<lparr>mc_buckets := b, mc_rehashes := Suc (mc_rehashes c)\<rparr>)
      in ((k, mc_rehashes c1),
          c1\<lparr>mc_topics := mc_topics c1 @ [\<lparr>nd_key = k, nd_topic = topic, nd_cb = cb\<rparr>],
             mc_next := Suc k\<rparr>))"

definition topic_deref :: "mqtt_iterator \<Rightarrow> 'cb mqtt_client \<Rightarrow> 'cb mqtt_node cpp" where
  "topic_deref it c =
     (if snd it = mc_rehashes c then deref (find (\<lambda>n. nd_key n = fst it) (mc_topics c)) else UB)"

text \<open>\<open>subscription_map_.emplace\<close> keeps the entry of a key that is there.\<close>

definition subscription_emplace ::
  "8 word \<Rightarrow> mqtt_iterator \<Rightarrow> (8 word \<times> mqtt_iterator) list \<Rightarrow> (8 word \<times> mqtt_iterator) list" where
  "subscription_emplace k it m = (if map_of m k = None then m @ [(k, it)] else m)"

text \<open>
  \<open>Client::subscribe\<close>. \<open>pid\<close> is what \<open>async_subscribe\<close> returned; the subscription that is
  returned captures it and is represented by it.
\<close>

definition translate_qos :: "qos \<Rightarrow> qos" where
  "translate_qos q =
     (case q of
        At_least_once \<Rightarrow> At_least_once
      | At_most_once \<Rightarrow> At_most_once
      | Exactly_once \<Rightarrow> Exactly_once)"

definition mqtt_subscribe ::
  "rehash_policy \<Rightarrow> 16 word \<Rightarrow> string \<Rightarrow> qos \<Rightarrow> 'cb \<Rightarrow> 'cb mqtt_client \<Rightarrow> 'cb mqtt_client" where
  "mqtt_subscribe policy pid topic q cb c =
     (let c1 = c\<lparr>mc_sent := mc_sent c @ [Async_subscribe topic (translate_qos q)]\<rparr>;
          (it, c2) = topic_emplace policy topic cb c1
      in c2\<lparr>mc_subs := subscription_emplace (ucast pid) it (mc_subs c2)\<rparr>)"

text \<open>\<open>Client::unsubscribe\<close>, which the destructor of a subscription calls.\<close>

definition mqtt_unsubscribe :: "8 word \<Rightarrow> 'cb mqtt_client \<Rightarrow> 'cb mqtt_client cpp" where
  "mqtt_unsubscribe sid c =
     (case map_of (mc_subs c) sid of
        None \<Rightarrow> Ret c
      | Some it \<Rightarrow>
          cbind (topic_deref it c) (\<lambda>n.
            Ret (c\<lparr>mc_sent := mc_sent c @ [Async_unsubscribe (nd_topic n)],
                   mc_topics := filter (\<lambda>m. nd_key m \<noteq> nd_key n) (mc_topics c),
                   mc_subs := del sid (mc_subs c)\<rparr>)))"

definition subscription_destroy :: "16 word \<Rightarrow> 'cb mqtt_client \<Rightarrow> 'cb mqtt_client cpp" where
  "subscription_destroy pid c = mqtt_unsubscribe (ucast pid) c"

text \<open>\<open>Client::handle_publish\<close>: the callbacks it invokes, in order.\<close>

definition mqtt_handle_publish :: "string \<Rightarrow> 'cb mqtt_client \<Rightarrow> 'cb list" where
  "mqtt_handle_publish topic c =
     map nd_cb (filter (\<lambda>n. nd_topic n = topic) (mc_topics c))"

subsection \<open>The broker\<close>

text \<open>What the broker holds for the connection: a subscription per topic.\<close>

fun broker_topics :: "mqtt_packet list \<Rightarrow> string set \<Rightarrow> string set" where
  "broker_topics [] T = T"
| "broker_topics (Async_subscribe t q # ps) T = broker_topics ps (insert t T)"
| "broker_topics (Async_unsubscribe t # ps) T = broker_topics ps (T - {t})"

record mqtt_credentials =
  mq_username :: string
  mq_password :: string

text \<open>
  \<open>Broker::connect\<close>: the events the library reports and what the callback is given for each.
  \<open>Error::Value{"host"}\<close> selects the constructor for \<open>bool\<close>, so both keys are true.
\<close>

datatype 'rc broker_event = Connack 'rc | Connected "string option"

definition connack_error :: "string \<Rightarrow> string \<Rightarrow> 16 word \<Rightarrow> err cpp" where
  "connack_error text_of_code host port =
     (let e = error_set_description text_of_code (error_of_message ''failed to connect to mqtt broker'')
      in cbind (error_value (Boolean True) (String host) e)
           (error_value (Boolean True) (Integer (ucast port))))"

definition broker_event_result ::
  "'rc \<Rightarrow> ('rc \<Rightarrow> string) \<Rightarrow> string \<Rightarrow> 16 word \<Rightarrow> nat \<Rightarrow> 'rc broker_event \<Rightarrow>
   (err + 'cb mqtt_client) option cpp" where
  "broker_event_result accepted show_code host port buckets ev =
     (case ev of
        Connack rc \<Rightarrow>
          if rc = accepted then Ret (Some (Inr (mqtt_initial buckets)))
          else cmap (\<lambda>e. Some (Inl e)) (connack_error (show_code rc) host port)
      | Connected None \<Rightarrow> Ret None
      | Connected (Some message) \<Rightarrow> Ret (Some (Inl (error_of_message message))))"

lemma connack_error_loses_host:
  "connack_error d host port =
     Ret \<lparr>err_message = ''failed to connect to mqtt broker'', err_description = Some d,
          err_values = [(Boolean True, Integer (ucast port))]\<rparr>"
  by (simp add: connack_error_def error_value_def error_of_message_def error_default_def
      error_set_description_def err_less_def err_is_basic_def)

subsection \<open>Subscriptions as the caller sees them\<close>

text \<open>
  A run of the client: subscriptions made and dropped, publishes received. The specification is
  the list of live subscriptions.
\<close>

datatype 'cb mqtt_op = Do_subscribe "16 word" string qos 'cb | Do_drop "16 word" | Do_publish string

type_synonym 'cb live = "(16 word \<times> string \<times> 'cb) list"

fun mqtt_run ::
  "rehash_policy \<Rightarrow> 'cb mqtt_op list \<Rightarrow> 'cb mqtt_client \<Rightarrow> 'cb list list \<Rightarrow>
   ('cb mqtt_client \<times> 'cb list list) cpp" where
  "mqtt_run policy [] c out = Ret (c, out)"
| "mqtt_run policy (Do_subscribe pid t q cb # ops) c out =
     mqtt_run policy ops (mqtt_subscribe policy pid t q cb c) out"
| "mqtt_run policy (Do_drop pid # ops) c out =
     cbind (subscription_destroy pid c) (\<lambda>c'. mqtt_run policy ops c' out)"
| "mqtt_run policy (Do_publish t # ops) c out =
     mqtt_run policy ops c (out @ [mqtt_handle_publish t c])"

fun live_run :: "'cb mqtt_op list \<Rightarrow> 'cb live \<Rightarrow> 'cb list list \<Rightarrow> 'cb live \<times> 'cb list list" where
  "live_run [] l out = (l, out)"
| "live_run (Do_subscribe pid t q cb # ops) l out = live_run ops (l @ [(pid, t, cb)]) out"
| "live_run (Do_drop pid # ops) l out = live_run ops (filter (\<lambda>e. fst e \<noteq> pid) l) out"
| "live_run (Do_publish t # ops) l out =
     live_run ops l (out @ [map (\<lambda>e. snd (snd e)) (filter (\<lambda>e. fst (snd e) = t) l)])"

text \<open>
  What keeps the two together: an identifier differs in its lower eight bits from those of the
  live subscriptions, only live subscriptions are dropped, and the map rehashes only while it is
  empty. \<open>b\<close> follows the buckets.
\<close>

fun mqtt_admissible :: "rehash_policy \<Rightarrow> 'cb mqtt_op list \<Rightarrow> 'cb live \<Rightarrow> nat \<Rightarrow> bool" where
  "mqtt_admissible policy [] l b \<longleftrightarrow> True"
| "mqtt_admissible policy (Do_subscribe pid t q cb # ops) l b \<longleftrightarrow>
     (ucast pid :: 8 word) \<notin> (\<lambda>e. ucast (fst e)) ` set l \<and>
     (l = [] \<or> policy (length l) b = None) \<and>
     mqtt_admissible policy ops (l @ [(pid, t, cb)])
       (case policy (length l) b of None \<Rightarrow> b | Some b' \<Rightarrow> b')"
| "mqtt_admissible policy (Do_drop pid # ops) l b \<longleftrightarrow>
     pid \<in> fst ` set l \<and> mqtt_admissible policy ops (filter (\<lambda>e. fst e \<noteq> pid) l) b"
| "mqtt_admissible policy (Do_publish t # ops) l b \<longleftrightarrow> mqtt_admissible policy ops l b"

text \<open>The abstraction: the live subscriptions with the elements they stand for.\<close>

definition node_entry :: "16 word \<times> 'cb mqtt_node \<Rightarrow> 16 word \<times> string \<times> 'cb" where
  "node_entry e = (fst e, nd_topic (snd e), nd_cb (snd e))"

definition mqtt_keys_ok :: "'cb mqtt_client \<Rightarrow> (16 word \<times> 'cb mqtt_node) list \<Rightarrow> bool" where
  "mqtt_keys_ok c xs \<longleftrightarrow>
     mc_topics c = map snd xs \<and> distinct (map (\<lambda>e. nd_key (snd e)) xs) \<and>
     (\<forall>e \<in> set xs. nd_key (snd e) < mc_next c)"

definition mqtt_subs_ok :: "'cb mqtt_client \<Rightarrow> (16 word \<times> 'cb mqtt_node) list \<Rightarrow> bool" where
  "mqtt_subs_ok c xs \<longleftrightarrow>
     mc_subs c = map (\<lambda>e. (ucast (fst e), (nd_key (snd e), mc_rehashes c))) xs \<and>
     distinct (map (\<lambda>e. ucast (fst e) :: 8 word) xs)"

definition mqtt_abs :: "'cb mqtt_client \<Rightarrow> 'cb live \<Rightarrow> bool" where
  "mqtt_abs c l \<longleftrightarrow> (\<exists>xs. l = map node_entry xs \<and> mqtt_keys_ok c xs \<and> mqtt_subs_ok c xs)"

lemma mqtt_abs_initial: "mqtt_abs (mqtt_initial b) []"
  by (simp add: mqtt_abs_def mqtt_keys_ok_def mqtt_subs_ok_def mqtt_initial_def)


lemma node_entry_sel [simp]:
  "fst (node_entry e) = fst e" "fst (snd (node_entry e)) = nd_topic (snd e)"
  "snd (snd (node_entry e)) = nd_cb (snd e)"
  by (simp_all add: node_entry_def)

lemma map_of_keyed:
  "distinct (map f xs) \<Longrightarrow> e \<in> set xs \<Longrightarrow> map_of (map (\<lambda>e. (f e, g e)) xs) (f e) = Some (g e)"
  by (induction xs) (auto simp: image_iff)

lemma map_of_unkeyed: "k \<notin> f ` set xs \<Longrightarrow> map_of (map (\<lambda>e. (f e, g e)) xs) k = None"
  by (induction xs) auto

lemma find_keyed:
  "distinct (map f xs) \<Longrightarrow> e \<in> set xs \<Longrightarrow> find (\<lambda>x. f x = f e) xs = Some e"
  by (induction xs) auto

lemma filter_keyed:
  assumes "inj_on f (set xs)" "inj_on g (set xs)" "e \<in> set xs"
  shows "filter (\<lambda>x. f x \<noteq> f e) xs = filter (\<lambda>x. g x \<noteq> g e) xs"
  using assms by (intro filter_cong) (auto simp: inj_on_def)

lemma mqtt_subscribe_abs:
  assumes "mqtt_abs c l" "(ucast pid :: 8 word) \<notin> (\<lambda>e. ucast (fst e)) ` set l"
    and "l = [] \<or> policy (length l) (mc_buckets c) = None"
  shows "mqtt_abs (mqtt_subscribe policy pid t q cb c) (l @ [(pid, t, cb)])"
proof -
  obtain xs where xs: "l = map node_entry xs" and keys: "mqtt_keys_ok c xs" and subs: "mqtt_subs_ok c xs"
    using assms(1) unfolding mqtt_abs_def by blast
  let ?n = "\<lparr>nd_key = mc_next c, nd_topic = t, nd_cb = cb\<rparr>"
  let ?c = "mqtt_subscribe policy pid t q cb c"
  have len: "length (mc_topics c) = length l" using keys xs by (simp add: mqtt_keys_ok_def)
  have fresh: "(ucast pid :: 8 word) \<notin> (\<lambda>e. ucast (fst e)) ` set xs"
    using assms(2) xs by (auto simp: image_iff)
  have none: "map_of (mc_subs c) (ucast pid) = None"
    using subs map_of_unkeyed [OF fresh] by (simp add: mqtt_subs_ok_def)
  have hashes: "xs = [] \<or> policy (length (mc_topics c)) (mc_buckets c) = None"
    using assms(3) xs len by auto
  have "mqtt_keys_ok ?c (xs @ [(pid, ?n)])"
    using keys by (auto simp: mqtt_keys_ok_def mqtt_subscribe_def topic_emplace_def Let_def
        less_Suc_eq split: option.splits)
  moreover have "mqtt_subs_ok ?c (xs @ [(pid, ?n)])"
    using subs fresh none hashes
    by (auto simp: mqtt_subs_ok_def mqtt_subscribe_def topic_emplace_def Let_def
        subscription_emplace_def split: option.splits)
  moreover have "l @ [(pid, t, cb)] = map node_entry (xs @ [(pid, ?n)])"
    by (simp add: xs node_entry_def)
  ultimately show ?thesis unfolding mqtt_abs_def by blast
qed

lemma mqtt_subscribe_buckets:
  assumes "mqtt_abs c l"
  shows "mc_buckets (mqtt_subscribe policy pid t q cb c) =
           (case policy (length l) (mc_buckets c) of None \<Rightarrow> mc_buckets c | Some b \<Rightarrow> b)"
  using assms
  by (auto simp: mqtt_abs_def mqtt_keys_ok_def mqtt_subscribe_def topic_emplace_def Let_def
      split: option.splits)

lemma subscription_destroy_abs:
  assumes "mqtt_abs c l" "pid \<in> fst ` set l"
  shows "\<exists>c'. subscription_destroy pid c = Ret c' \<and> mqtt_abs c' (filter (\<lambda>e. fst e \<noteq> pid) l) \<and>
              mc_buckets c' = mc_buckets c"
proof -
  obtain xs where xs: "l = map node_entry xs" and keys: "mqtt_keys_ok c xs" and subs: "mqtt_subs_ok c xs"
    using assms(1) unfolding mqtt_abs_def by blast
  obtain e where e: "e \<in> set xs" "fst e = pid" using assms(2) xs by auto
  have dk: "distinct (map (\<lambda>e. nd_key (snd e)) xs)" and topics: "mc_topics c = map snd xs"
    using keys by (simp_all add: mqtt_keys_ok_def)
  have dp: "distinct (map (\<lambda>e. ucast (fst e) :: 8 word) xs)"
    and ms: "mc_subs c = map (\<lambda>e. (ucast (fst e), (nd_key (snd e), mc_rehashes c))) xs"
    using subs by (simp_all add: mqtt_subs_ok_def)
  have it: "map_of (mc_subs c) (ucast pid) = Some (nd_key (snd e), mc_rehashes c)"
    using map_of_keyed [OF dp e(1)] e(2) by (simp add: ms)
  have at: "topic_deref (nd_key (snd e), mc_rehashes c) c = Ret (snd e)"
    using find_keyed [of nd_key "map snd xs" "snd e"] dk e(1)
    by (simp add: topic_deref_def topics comp_def)
  let ?ys = "filter (\<lambda>x. fst x \<noteq> pid) xs"
  have ip: "inj_on (\<lambda>e. ucast (fst e) :: 8 word) (set xs)" and ik: "inj_on (\<lambda>e. nd_key (snd e)) (set xs)"
    using dp dk by (simp_all add: distinct_map)
  have if': "inj_on fst (set xs)" using ip by (auto simp: inj_on_def)
  have by_key: "filter (\<lambda>x. nd_key (snd x) \<noteq> nd_key (snd e)) xs = ?ys"
    using filter_keyed [OF ik if' e(1)] e(2) by simp
  have by_id: "filter (\<lambda>x. (ucast (fst x) :: 8 word) \<noteq> ucast pid) xs = ?ys"
    using filter_keyed [OF ip if' e(1)] e(2) by simp
  have "subscription_destroy pid c =
      Ret (c\<lparr>mc_sent := mc_sent c @ [Async_unsubscribe (nd_topic (snd e))],
             mc_topics := filter (\<lambda>m. nd_key m \<noteq> nd_key (snd e)) (mc_topics c),
             mc_subs := del (ucast pid) (mc_subs c)\<rparr>)"
    by (simp add: subscription_destroy_def mqtt_unsubscribe_def it at)
  then obtain c' where c': "subscription_destroy pid c = Ret c'"
    "mc_topics c' = map snd ?ys" "mc_subs c' = map (\<lambda>e. (ucast (fst e), (nd_key (snd e), mc_rehashes c))) ?ys"
    "mc_next c' = mc_next c" "mc_rehashes c' = mc_rehashes c" "mc_buckets c' = mc_buckets c"
    by (simp add: del_def topics ms filter_map comp_def by_key by_id)
  have "mqtt_keys_ok c' ?ys" "mqtt_subs_ok c' ?ys"
    using keys subs c' by (auto simp: mqtt_keys_ok_def mqtt_subs_ok_def distinct_map_filter)
  moreover have "filter (\<lambda>e. fst e \<noteq> pid) l = map node_entry ?ys"
    by (simp add: xs filter_map comp_def)
  ultimately show ?thesis using c' unfolding mqtt_abs_def by blast
qed

lemma mqtt_publish_abs:
  assumes "mqtt_abs c l"
  shows "mqtt_handle_publish t c = map (\<lambda>e. snd (snd e)) (filter (\<lambda>e. fst (snd e) = t) l)"
  using assms
  by (auto simp: mqtt_abs_def mqtt_keys_ok_def mqtt_handle_publish_def filter_map comp_def)

lemma mqtt_run_abs:
  assumes "mqtt_abs c l" "mqtt_admissible policy ops l (mc_buckets c)"
  shows "\<exists>c'. mqtt_run policy ops c out = Ret (c', snd (live_run ops l out)) \<and>
              mqtt_abs c' (fst (live_run ops l out))"
  using assms
proof (induction ops arbitrary: c l out)
  case (Cons x ops)
  show ?case
  proof (cases x)
    case (Do_subscribe pid t q cb)
    then show ?thesis
      using Cons.prems by (simp add: Cons.IH mqtt_subscribe_abs mqtt_subscribe_buckets)
  next
    case (Do_drop pid)
    then obtain c' where "subscription_destroy pid c = Ret c'" "mqtt_abs c' (filter (\<lambda>e. fst e \<noteq> pid) l)"
      "mc_buckets c' = mc_buckets c"
      using Cons.prems subscription_destroy_abs [of c l pid] by auto
    then show ?thesis using Cons.prems Do_drop by (simp add: Cons.IH)
  next
    case (Do_publish t)
    then show ?thesis using Cons.prems by (simp add: Cons.IH mqtt_publish_abs)
  qed
qed simp

subsection \<open>The interface\<close>

text \<open>
  \<open>airmap::net::mqtt::Client\<close> as its callers use it: \<open>holds c l\<close> relates a client to its live
  subscriptions and \<open>accepts h c l\<close> says that \<open>h\<close> can be the handle of one more.
\<close>

locale publish_client =
  fixes subscribe :: "'h \<Rightarrow> string \<Rightarrow> 'cb \<Rightarrow> 'c \<Rightarrow> 'c"
    and destroy :: "'h \<Rightarrow> 'c \<Rightarrow> 'c cpp"
    and deliver :: "string \<Rightarrow> 'c \<Rightarrow> 'cb list"
    and holds :: "'c \<Rightarrow> ('h \<times> string \<times> 'cb) list \<Rightarrow> bool"
    and accepts :: "'h \<Rightarrow> 'c \<Rightarrow> ('h \<times> string \<times> 'cb) list \<Rightarrow> bool"
  assumes subscribed: "holds c l \<Longrightarrow> accepts h c l \<Longrightarrow> holds (subscribe h t cb c) (l @ [(h, t, cb)])"
    and accepted_fresh: "accepts h c l \<Longrightarrow> h \<notin> fst ` set l"
    and destroyed: "holds c l \<Longrightarrow> h \<in> fst ` set l \<Longrightarrow>
          \<exists>c'. destroy h c = Ret c' \<and> holds c' (filter (\<lambda>e. fst e \<noteq> h) l)"
    and delivered: "holds c l \<Longrightarrow>
          deliver t c = map (\<lambda>e. snd (snd e)) (filter (\<lambda>e. fst (snd e) = t) l)"
begin

lemma holds_two:
  assumes "holds c l" "accepts h1 c l" "accepts h2 (subscribe h1 t1 k c) (l @ [(h1, t1, k)])"
  shows "holds (subscribe h2 t2 k (subscribe h1 t1 k c)) (l @ [(h1, t1, k), (h2, t2, k)])"
  using subscribed [OF subscribed [OF assms(1,2)] assms(3)] by simp

lemma destroy_two:
  assumes "holds c (l @ [(h1, t1, k), (h2, t2, k)])" "h1 \<notin> fst ` set l" "h2 \<notin> fst ` set l" "h1 \<noteq> h2"
  shows "\<exists>c1 c2. destroy h2 c = Ret c1 \<and> destroy h1 c1 = Ret c2 \<and> holds c2 l"
proof -
  have same: "filter (\<lambda>e. fst e \<noteq> h1) l = l" "filter (\<lambda>e. fst e \<noteq> h2) l = l"
    using assms(2,3) by (auto intro: filter_True)
  obtain c1 where c1: "destroy h2 c = Ret c1" "holds c1 (l @ [(h1, t1, k)])"
    using destroyed [OF assms(1), of h2] assms(4) same by auto
  moreover obtain c2 where "destroy h1 c1 = Ret c2" "holds c2 l"
    using destroyed [OF c1(2), of h1] same by auto
  ultimately show ?thesis by blast
qed

end

definition mqtt_accepts :: "rehash_policy \<Rightarrow> 16 word \<Rightarrow> 'cb mqtt_client \<Rightarrow> 'cb live \<Rightarrow> bool" where
  "mqtt_accepts policy pid c l \<longleftrightarrow>
     (ucast pid :: 8 word) \<notin> (\<lambda>e. ucast (fst e)) ` set l \<and>
     (l = [] \<or> policy (length l) (mc_buckets c) = None)"

interpretation mqtt: publish_client
  "\<lambda>pid t cb. mqtt_subscribe policy pid t q cb" subscription_destroy mqtt_handle_publish mqtt_abs
  "mqtt_accepts policy" for policy q
proof unfold_locales
  fix c :: "'a mqtt_client" and l h
  assume "mqtt_abs c l" "h \<in> fst ` set l"
  then show "\<exists>c'. subscription_destroy h c = Ret c' \<and> mqtt_abs c' (filter (\<lambda>e. fst e \<noteq> h) l)"
    using subscription_destroy_abs [of c l h] by blast
qed (auto simp: mqtt_accepts_def mqtt_subscribe_abs mqtt_publish_abs)

subsection \<open>Where they part\<close>

text \<open>
  Identifiers 256 apart share an entry: dropping the later subscription ends the earlier one,
  and the later one cannot be ended any more.
\<close>

lemma colliding_subscriptions:
  assumes "t1 \<noteq> t2"
  shows "\<exists>c. mqtt_run (\<lambda>_ _. None)
       [Do_subscribe 1 t1 Exactly_once k1, Do_subscribe 257 t2 Exactly_once k2, Do_drop 257,
        Do_publish t1, Do_publish t2, Do_drop 1, Do_publish t2] (mqtt_initial 13) [] =
     Ret (c, [[], [k2], [k2]])"
  using assms
  by (simp add: mqtt_subscribe_def topic_emplace_def mqtt_initial_def subscription_emplace_def
      subscription_destroy_def mqtt_unsubscribe_def topic_deref_def mqtt_handle_publish_def del_def)

text \<open>A rehash while a subscription is live makes its destruction undefined.\<close>

lemma rehash_invalidates:
  "mqtt_run (\<lambda>n b. if n < b then None else Some (2 * b))
     [Do_subscribe 1 t1 Exactly_once k1, Do_subscribe 2 t2 Exactly_once k2, Do_drop 1]
     (mqtt_initial 1) [] = UB"
  by (simp add: mqtt_subscribe_def topic_emplace_def mqtt_initial_def subscription_emplace_def
      subscription_destroy_def mqtt_unsubscribe_def topic_deref_def)

text \<open>
  Dropping one of two subscriptions to a topic ends the topic at the broker, although the other
  is still registered here.
\<close>

lemma shared_topic_ends:
  "\<exists>c. mqtt_run (\<lambda>_ _. None)
       [Do_subscribe 1 t Exactly_once k1, Do_subscribe 2 t Exactly_once k2, Do_drop 1]
       (mqtt_initial 13) [] = Ret (c, []) \<and>
     mqtt_handle_publish t c = [k2] \<and> broker_topics (mc_sent c) {} = {}"
  by (simp add: mqtt_subscribe_def topic_emplace_def mqtt_initial_def subscription_emplace_def
      subscription_destroy_def mqtt_unsubscribe_def topic_deref_def mqtt_handle_publish_def del_def)

text \<open>
  C27. The client implements a list of live subscriptions: every publish reaches the callbacks of
  the live subscriptions to its topic, and dropping one ends that one only, as long as live
  identifiers differ in their lower eight bits and the map does not rehash while in use.
\<close>

theorem mqtt_client_refines_live:
  assumes "mqtt_admissible policy ops [] b"
  shows "\<exists>c. mqtt_run policy ops (mqtt_initial b) [] = Ret (c, snd (live_run ops [] [])) \<and>
             mqtt_abs c (fst (live_run ops [] []))"
  using mqtt_run_abs [OF mqtt_abs_initial, of policy ops b "[]"] assms by (simp add: mqtt_initial_def)

theorem mqtt_client_refines_live_witness:
  "\<exists>c. mqtt_run (\<lambda>n b. if n < b then None else Some (2 * b + 1))
       [Do_subscribe 1 ''a'' Exactly_once (1 :: nat), Do_subscribe 2 ''b'' At_most_once 2,
        Do_publish ''b'', Do_drop 1, Do_publish ''a'', Do_publish ''b''] (mqtt_initial 2) [] =
     Ret (c, [[2], [], [2]])"
proof -
  let ?policy = "\<lambda>n b :: nat. if n < b then None else Some (2 * b + 1)"
  let ?ops = "[Do_subscribe 1 ''a'' Exactly_once (1 :: nat), Do_subscribe 2 ''b'' At_most_once 2,
        Do_publish ''b'', Do_drop 1, Do_publish ''a'', Do_publish ''b'']"
  have "mqtt_admissible ?policy ?ops [] 2" by simp
  from mqtt_client_refines_live [OF this] show ?thesis by (auto simp: numeral_eq_Suc)
qed

end
