(* ===== verification/Traffic.thy ===== *)
theory Traffic
  imports Mqtt Daemon Rest "HOL-Library.Sublist"
begin

text \<open>
  Traffic: the decoder of updates (src/airmap/codec/json/traffic.cpp), the text of their type
  (src/airmap/traffic.cpp), and the service and its monitors over MQTT (src/airmap/rest/traffic.cpp).
  Monitors are held weakly by the callbacks they leave with the client, so a callback is the
  number of a monitor that may be gone. Boost's conversion of a text to a \<open>double\<close> is a parameter:
  it says whether it succeeded and what the target holds afterwards.
\<close>

subsection \<open>Products of doubles\<close>

definition dbl_inf :: "double \<Rightarrow> bool" where
  "dbl_inf x \<longleftrightarrow> dbl_mag x = 2047 * 2 ^ 52"

text \<open>A finite double is \<open>m * 2 ^ (e - 1075)\<close>.\<close>

definition dbl_mantissa :: "double \<Rightarrow> nat" where
  "dbl_mantissa x =
     (let u = dbl_mag x in if u div 2 ^ 52 = 0 then u else u mod 2 ^ 52 + 2 ^ 52)"

definition dbl_exponent :: "double \<Rightarrow> int" where
  "dbl_exponent x = max 1 (int (dbl_mag x div 2 ^ 52)) - 1075"

text \<open>\<open>x * y\<close>, rounded once; the payload and sign of a NaN are those of a quiet NaN.\<close>

definition dbl_mul :: "double \<Rightarrow> double \<Rightarrow> double" where
  "dbl_mul x y =
     (let neg = (dbl_neg x \<noteq> dbl_neg y);
          s = (if neg then 2 ^ 63 else 0 :: nat);
          e = dbl_exponent x + dbl_exponent y
      in if dbl_nan x \<or> dbl_nan y \<or> dbl_inf x \<and> dbl_mag y = 0 \<or> dbl_mag x = 0 \<and> dbl_inf y
         then word_of_nat (2047 * 2 ^ 52 + 2 ^ 51)
         else if dbl_inf x \<or> dbl_inf y then word_of_nat (s + 2047 * 2 ^ 52)
         else dbl_of_ratio neg (dbl_mantissa x * dbl_mantissa y * 2 ^ nat e) (2 ^ nat (- e)))"

definition metres_per_foot :: double where
  "metres_per_foot = dbl_of_ratio False 3048 10000"

definition metres_per_second_per_knot :: double where
  "metres_per_second_per_knot = dbl_of_ratio False 514444 1000000"

lemma metres_per_foot: "metres_per_foot = 0x3FD381D7DBF487FD"
  by (simp add: metres_per_foot_def rounding_defs bitlen.simps)

lemma dbl_mul_ten_feet: "dbl_mul 0x4024000000000000 metres_per_foot = 0x4008624DD2F1A9FC"
proof -
  have x: "dbl_mantissa 0x4024000000000000 = 0x14000000000000" "dbl_exponent 0x4024000000000000 = -49"
    "dbl_mag 0x4024000000000000 = 0x4024000000000000" "\<not> dbl_neg 0x4024000000000000"
    by (simp_all add: dbl_mantissa_def dbl_exponent_def dbl_mag_def dbl_neg_def)
  have y: "dbl_mantissa 0x3FD381D7DBF487FD = 0x1381D7DBF487FD" "dbl_exponent 0x3FD381D7DBF487FD = -54"
    "dbl_mag 0x3FD381D7DBF487FD = 0x3FD381D7DBF487FD" "\<not> dbl_neg 0x3FD381D7DBF487FD"
    by (simp_all add: dbl_mantissa_def dbl_exponent_def dbl_mag_def dbl_neg_def)
  have "dbl_of_ratio False (0x14000000000000 * 0x1381D7DBF487FD) (2 ^ 103) = 0x4008624DD2F1A9FC"
    by (simp add: dbl_of_ratio_def round_bits_def exponent_of_def round_even_def Let_def bitlen.simps)
  then show ?thesis
    unfolding metres_per_foot by (simp add: dbl_mul_def dbl_nan_def dbl_inf_def x y)
qed

subsection \<open>Updates\<close>

definition show_traffic_type :: "traffic_type \<Rightarrow> string" where
  "show_traffic_type t =
     (case t of
        Traffic_unknown \<Rightarrow> ''unknown''
      | Traffic_situational_awareness \<Rightarrow> ''situation-awareness''
      | Traffic_alert \<Rightarrow> ''alert'')"

definition json_get_int64 :: "json \<Rightarrow> 64 word cpp" where
  "json_get_int64 j =
     (case j of
        J_unsigned w \<Rightarrow> Ret w
      | J_integer w \<Rightarrow> Ret w
      | J_float x \<Rightarrow>
          (case dbl_truncate x of
             Some i \<Rightarrow> if - (2 ^ 63) \<le> i \<and> i < 2 ^ 63 then Ret (word_of_int i) else UB
           | None \<Rightarrow> UB)
      | _ \<Rightarrow> Throw Json_type_error)"

type_synonym text_to_double = "string \<Rightarrow> double option \<Rightarrow> bool \<times> double option"
type_synonym text_to_int = "string \<Rightarrow> 64 word option"

definition lexical_cast_double :: "text_to_double \<Rightarrow> string \<Rightarrow> double cpp" where
  "lexical_cast_double conv s =
     (case conv s None of
        (True, Some x) \<Rightarrow> Ret x
      | (True, None) \<Rightarrow> UB
      | (False, _) \<Rightarrow> Throw Bad_lexical_cast)"

definition lexical_cast_int64 :: "text_to_int \<Rightarrow> string \<Rightarrow> 64 word cpp" where
  "lexical_cast_int64 conv s = (case conv s of Some i \<Rightarrow> Ret i | None \<Rightarrow> Throw Bad_lexical_cast)"

text \<open>
  The decoder. The object starts default-initialised: its texts are empty and its numbers
  indeterminate. One text variable serves all numeric members, so a missing member is read as
  the one before it. \<open>j["properties"]\<close> is the constant access. The copy of an indeterminate
  number into the result is undefined.
\<close>

definition decode_traffic_update :: "text_to_double \<Rightarrow> text_to_int \<Rightarrow> json \<Rightarrow> traffic_update cpp" where
  "decode_traffic_update conv convi j =
     cbind (json_member ''id'' json_get_string [] j) (\<lambda>ident.
     cbind (cbind (json_subscript ''properties'' j) (json_member ''aircraft_id'' json_get_string []))
       (\<lambda>aircraft.
     cbind (json_member ''direction'' (\<lambda>v. cmap Some (json_get_double v)) None j) (\<lambda>direction.
     cbind (json_member ''latitude'' json_get_string [] j) (\<lambda>s1.
     cbind (lexical_cast_double conv s1) (\<lambda>latitude.
     cbind (json_member ''longitude'' json_get_string s1 j) (\<lambda>s2.
     cbind (lexical_cast_double conv s2) (\<lambda>longitude.
     cbind (json_member ''altitude'' json_get_string s2 j) (\<lambda>s3.
     let altitude = snd (conv s3 None) in
     cbind (json_member ''ground_speed_kts'' json_get_string s3 j) (\<lambda>s4.
     let speed = snd (conv s4 None) in
     cbind (json_member ''true_heading'' json_get_string s4 j) (\<lambda>s5.
     let heading = snd (conv s5 None) in
     cbind (json_member ''recorded_time'' json_get_string [] j) (\<lambda>tss.
     cbind (lexical_cast_int64 convi tss) (\<lambda>recorded.
     cbind (json_member_uninit ''timestamp'' json_get_int64 j) (\<lambda>ts.
     cbind (deref altitude) (\<lambda>altitude.
     cbind (deref speed) (\<lambda>speed.
     cbind (deref heading) (\<lambda>heading.
     cbind (deref direction) (\<lambda>direction.
       Ret \<lparr>tu_id = ident, tu_aircraft_id = aircraft, tu_latitude = latitude, tu_longitude = longitude,
            tu_altitude = dbl_mul altitude metres_per_foot,
            tu_ground_speed = dbl_mul speed metres_per_second_per_knot,
            tu_heading = heading, tu_direction = direction,
            tu_recorded = from_seconds_since_epoch (seconds recorded),
            tu_timestamp = from_milliseconds_since_epoch (milliseconds ts)\<rparr>)))))))))))))))))"

definition decode_traffic_updates ::
  "text_to_double \<Rightarrow> text_to_int \<Rightarrow> json \<Rightarrow> traffic_update list cpp" where
  "decode_traffic_updates conv convi j = cmapM (decode_traffic_update conv convi) (json_elements j)"

text \<open>A missing member between two others is read as the one before it.\<close>

lemma decode_reuses_longitude:
  assumes "json_find ''longitude'' j = Some (J_string s)" "json_find ''altitude'' j = None"
    and "decode_traffic_update conv convi j = Ret u"
  shows "\<exists>x. snd (conv s None) = Some x \<and> tu_altitude u = dbl_mul x metres_per_foot"
  using assms(3)
  by (auto simp: decode_traffic_update_def cbind_eq_Ret Let_def json_member_missing [OF assms(2)]
      json_member_found [OF assms(1)] json_get_string_def)

subsection \<open>Monitors\<close>

record traffic_monitor =
  tm_flight_id :: string
  tm_sa :: "16 word"
  tm_alert :: "16 word"
  tm_subscribers :: "nat list"

definition sa_topic :: "string \<Rightarrow> string cpp" where
  "sa_topic flight_id = sprintf ''uav/traffic/sa/%s'' [flight_id]"

definition alert_topic :: "string \<Rightarrow> string cpp" where
  "alert_topic flight_id = sprintf ''uav/traffic/alert/%s'' [flight_id]"

type_synonym monitors = "(nat \<times> traffic_monitor) list"

text \<open>\<open>Monitor::create\<close> and \<open>finalize\<close>: monitor \<open>m\<close>, given the identifiers of its two subscribes.\<close>

definition traffic_monitor_create ::
  "rehash_policy \<Rightarrow> 16 word \<Rightarrow> 16 word \<Rightarrow> string \<Rightarrow> nat \<Rightarrow> nat mqtt_client \<times> monitors \<Rightarrow>
   (nat mqtt_client \<times> monitors) cpp" where
  "traffic_monitor_create policy pid1 pid2 flight_id m cm =
     (let (c, ms) = cm in
      cbind (sa_topic flight_id) (\<lambda>sa.
      let c1 = mqtt_subscribe policy pid1 sa Exactly_once m c in
      cbind (alert_topic flight_id) (\<lambda>al.
      let c2 = mqtt_subscribe policy pid2 al Exactly_once m c1 in
        Ret (c2, put m \<lparr>tm_flight_id = flight_id, tm_sa = pid1, tm_alert = pid2, tm_subscribers = []\<rparr> ms))))"

text \<open>The destructor: the members go in the reverse order of their declaration.\<close>

definition traffic_monitor_destroy ::
  "nat \<Rightarrow> nat mqtt_client \<times> monitors \<Rightarrow> (nat mqtt_client \<times> monitors) cpp" where
  "traffic_monitor_destroy m cm =
     (let (c, ms) = cm in
      cbind (deref (map_of ms m)) (\<lambda>mon.
      cbind (subscription_destroy (tm_alert mon) c) (\<lambda>c1.
      cbind (subscription_destroy (tm_sa mon) c1) (\<lambda>c2. Ret (c2, del m ms)))))"

definition traffic_monitor_subscribe :: "nat \<Rightarrow> traffic_monitor \<Rightarrow> traffic_monitor" where
  "traffic_monitor_subscribe k mon = mon\<lparr>tm_subscribers := fan_subscribe k (tm_subscribers mon)\<rparr>"

definition traffic_monitor_unsubscribe :: "nat \<Rightarrow> traffic_monitor \<Rightarrow> traffic_monitor" where
  "traffic_monitor_unsubscribe k mon = mon\<lparr>tm_subscribers := fan_unsubscribe k (tm_subscribers mon)\<rparr>"

definition traffic_type_of_topic :: "string \<Rightarrow> traffic_type" where
  "traffic_type_of_topic topic =
     (if prefix ''uav/traffic/sa'' topic then Traffic_situational_awareness
      else if prefix ''uav/traffic/alert'' topic then Traffic_alert
      else Traffic_unknown)"

text \<open>
  \<open>json::parse(contents)["traffic"]\<close> is the access to a value that may be changed: null becomes
  an object and a missing member null.
\<close>

definition json_subscript_mutable :: "string \<Rightarrow> json \<Rightarrow> json cpp" where
  "json_subscript_mutable k j =
     (case j of
        J_null \<Rightarrow> Ret J_null
      | J_object m \<Rightarrow> Ret (case smap_get key_less k m of None \<Rightarrow> J_null | Some v \<Rightarrow> v)
      | _ \<Rightarrow> Throw Json_type_error)"

type_synonym delivery = "nat \<times> traffic_type \<times> traffic_update list"

definition traffic_monitor_handle_publish ::
  "(string \<Rightarrow> json cpp) \<Rightarrow> text_to_double \<Rightarrow> text_to_int \<Rightarrow> string \<Rightarrow> string \<Rightarrow> traffic_monitor \<Rightarrow>
   delivery list cpp" where
  "traffic_monitor_handle_publish parse conv convi topic contents mon =
     cbind (cbind (parse contents) (json_subscript_mutable ''traffic'')) (\<lambda>j.
     cbind (decode_traffic_updates conv convi j) (\<lambda>us.
       Ret (map (\<lambda>k. (k, traffic_type_of_topic topic, us)) (tm_subscribers mon))))"

text \<open>A publish at the client: each callback locks its monitor and does nothing if it is gone.\<close>

definition traffic_publish ::
  "(string \<Rightarrow> json cpp) \<Rightarrow> text_to_double \<Rightarrow> text_to_int \<Rightarrow> string \<Rightarrow> string \<Rightarrow>
   nat mqtt_client \<times> monitors \<Rightarrow> delivery list cpp" where
  "traffic_publish parse conv convi topic contents cm =
     cmap concat (cmapM (\<lambda>m.
       case map_of (snd cm) m of
         None \<Rightarrow> Ret []
       | Some mon \<Rightarrow> traffic_monitor_handle_publish parse conv convi topic contents mon)
     (mqtt_handle_publish topic (fst cm)))"

text \<open>\<open>Traffic::monitor\<close>: the credentials of the connection and what its callback is given.\<close>

record traffic_params =
  tp_flight_id :: string
  tp_authorization :: string

definition traffic_credentials :: "traffic_params \<Rightarrow> mqtt_credentials" where
  "traffic_credentials p = \<lparr>mq_username = tp_flight_id p, mq_password = tp_authorization p\<rparr>"

definition traffic_connected ::
  "rehash_policy \<Rightarrow> 16 word \<Rightarrow> 16 word \<Rightarrow> traffic_params \<Rightarrow> err + nat mqtt_client \<Rightarrow>
   (err + nat mqtt_client \<times> monitors) cpp" where
  "traffic_connected policy pid1 pid2 p r =
     (case r of
        Inr c \<Rightarrow> cmap Inr (traffic_monitor_create policy pid1 pid2 (tp_flight_id p) 0 (c, []))
      | Inl e \<Rightarrow> Ret (Inl e))"


subsection \<open>From the broker to the subscribers\<close>

lemma sa_topic_eq: "sa_topic f = Ret (''uav/traffic/sa/'' @ f)"
  by (simp add: sa_topic_def cmap_def)

lemma alert_topic_eq: "alert_topic f = Ret (''uav/traffic/alert/'' @ f)"
  by (simp add: alert_topic_def cmap_def)

lemma fold_fan_subscribe: "fold fan_subscribe ks (sorted_list_of_set (set js)) = sorted_list_of_set (set (js @ ks))"
proof (induction ks arbitrary: js)
  case (Cons k ks)
  have "fan_subscribe k (sorted_list_of_set (set js)) = sorted_list_of_set (set (js @ [k]))"
    by (cases "k \<in> set js") (simp_all add: fan_subscribe_def insert_absorb)
  then show ?case using Cons.IH [of "js @ [k]"] by simp
qed simp

lemma fold_traffic_subscribe:
  "fold traffic_monitor_subscribe ks mon = mon\<lparr>tm_subscribers := fold fan_subscribe ks (tm_subscribers mon)\<rparr>"
  by (induction ks arbitrary: mon) (simp_all add: traffic_monitor_subscribe_def)

lemma traffic_type_of_topics:
  "traffic_type_of_topic (''uav/traffic/sa/'' @ f) = Traffic_situational_awareness"
  "traffic_type_of_topic (''uav/traffic/alert/'' @ f) = Traffic_alert"
  by (simp_all add: traffic_type_of_topic_def)

lemma traffic_publish_one:
  assumes "mqtt_handle_publish topic c = [0]"
  shows "traffic_publish parse conv convi topic contents (c, [(0, mon)]) =
           traffic_monitor_handle_publish parse conv convi topic contents mon"
  by (simp add: traffic_publish_def assms cmap_def)

text \<open>What one monitor hands out for one publish, with the set of its subscribers spelled out.\<close>

definition traffic_deliveries ::
  "(string \<Rightarrow> json cpp) \<Rightarrow> text_to_double \<Rightarrow> text_to_int \<Rightarrow> string \<Rightarrow> traffic_type \<Rightarrow> nat set \<Rightarrow>
   delivery list cpp" where
  "traffic_deliveries parse conv convi contents type K =
     cbind (cbind (parse contents) (json_subscript_mutable ''traffic'')) (\<lambda>j.
     cmap (\<lambda>us. map (\<lambda>k. (k, type, us)) (sorted_list_of_set K)) (decode_traffic_updates conv convi j))"

text \<open>
  C28. Once the broker has accepted a connection, its monitor passes every publish on the two
  topics of its flight to each subscriber once, with the type of the topic and the updates
  decoded from the contents, ignores all other topics, and leaves no subscription behind when
  it is destroyed. The two identifiers differ in their lower eight bits, and the second
  subscribe does not rehash.
\<close>

theorem traffic_reaches_subscribers:
  assumes "(ucast pid1 :: 8 word) \<noteq> ucast pid2"
    and "policy 1 (case policy 0 b of None \<Rightarrow> b | Some b' \<Rightarrow> b') = None"
  shows "\<exists>c mon. traffic_connected policy pid1 pid2 p (Inr (mqtt_initial b)) = Ret (Inr (c, [(0, mon)])) \<and>
    (\<forall>ks topic contents. traffic_publish parse conv convi topic contents (c, [(0, fold traffic_monitor_subscribe ks mon)]) =
       (if topic = ''uav/traffic/sa/'' @ tp_flight_id p
        then traffic_deliveries parse conv convi contents Traffic_situational_awareness (set ks)
        else if topic = ''uav/traffic/alert/'' @ tp_flight_id p
        then traffic_deliveries parse conv convi contents Traffic_alert (set ks)
        else Ret [])) \<and>
    (\<forall>ks. \<exists>c'. traffic_monitor_destroy 0 (c, [(0, fold traffic_monitor_subscribe ks mon)]) = Ret (c', []) \<and>
       mc_topics c' = [] \<and> mc_subs c' = [])"
proof -
  let ?sa = "''uav/traffic/sa/'' @ tp_flight_id p" and ?al = "''uav/traffic/alert/'' @ tp_flight_id p"
  let ?c1 = "mqtt_subscribe policy pid1 ?sa Exactly_once (0 :: nat) (mqtt_initial b)"
  let ?c = "mqtt_subscribe policy pid2 ?al Exactly_once (0 :: nat) ?c1"
  let ?mon = "\<lparr>tm_flight_id = tp_flight_id p, tm_sa = pid1, tm_alert = pid2, tm_subscribers = []\<rparr>"
  let ?m = "\<lambda>ks. fold traffic_monitor_subscribe ks ?mon"
  let ?l = "[(pid1, ?sa, 0 :: nat), (pid2, ?al, 0)]"
  have a1: "mqtt_accepts policy pid1 (mqtt_initial b) []" by (simp add: mqtt_accepts_def)
  have "mc_buckets ?c1 = (case policy 0 b of None \<Rightarrow> b | Some b' \<Rightarrow> b')"
    using mqtt_subscribe_buckets [OF mqtt_abs_initial, of policy pid1 ?sa Exactly_once 0 b]
    by (simp add: mqtt_initial_def cong: option.case_cong)
  then have "mqtt_accepts policy pid2 ?c1 ([] @ [(pid1, ?sa, 0)])"
    using assms by (simp add: mqtt_accepts_def)
  with mqtt.holds_two [OF mqtt_abs_initial a1] have holds: "mqtt_abs ?c ?l" by simp
  have made: "traffic_connected policy pid1 pid2 p (Inr (mqtt_initial b)) = Ret (Inr (?c, [(0, ?mon)]))"
    by (simp add: traffic_connected_def traffic_monitor_create_def sa_topic_eq alert_topic_eq cmap_def)
  have subs: "tm_subscribers (?m ks) = sorted_list_of_set (set ks)" for ks
    using fold_fan_subscribe [of ks "[]"] by (simp add: fold_traffic_subscribe)
  have del: "mqtt_handle_publish topic ?c = (if topic = ?sa \<or> topic = ?al then [0] else [])" for topic
    using mqtt.delivered [OF holds, of topic] by auto
  have known: "traffic_publish parse conv convi topic contents (?c, [(0, ?m ks)]) =
      traffic_deliveries parse conv convi contents (traffic_type_of_topic topic) (set ks)"
    if "topic = ?sa \<or> topic = ?al" for ks topic contents
  proof -
    have "mqtt_handle_publish topic ?c = [0]" using del [of topic] that by simp
    from traffic_publish_one [OF this] show ?thesis
      by (simp add: traffic_monitor_handle_publish_def traffic_deliveries_def subs cmap_def)
  qed
  have unknown: "traffic_publish parse conv convi topic contents (?c, [(0, ?m ks)]) = Ret []"
    if "topic \<noteq> ?sa" "topic \<noteq> ?al" for ks topic contents
    using del [of topic] that by (simp add: traffic_publish_def cmap_def)
  have "pid1 \<noteq> pid2" using assms(1) by auto
  then obtain c1 c2 where "subscription_destroy pid2 ?c = Ret c1" "subscription_destroy pid1 c1 = Ret c2"
    "mqtt_abs c2 []"
    using mqtt.destroy_two [of ?c "[]" pid1 ?sa 0 pid2 ?al] holds by auto
  then have gone: "\<exists>c'. traffic_monitor_destroy 0 (?c, [(0, ?m ks)]) = Ret (c', []) \<and>
       mc_topics c' = [] \<and> mc_subs c' = []" for ks
    by (simp add: traffic_monitor_destroy_def fold_traffic_subscribe del_def mqtt_abs_def
        mqtt_keys_ok_def mqtt_subs_ok_def)
  have diff: "?sa \<noteq> ?al" by simp
  have pub: "traffic_publish parse conv convi topic contents (?c, [(0, ?m ks)]) =
       (if topic = ?sa
        then traffic_deliveries parse conv convi contents Traffic_situational_awareness (set ks)
        else if topic = ?al
        then traffic_deliveries parse conv convi contents Traffic_alert (set ks)
        else Ret [])" for ks topic contents
    using known [of topic contents ks] unknown [of topic contents ks] diff
    by (cases "topic = ?sa"; cases "topic = ?al") (simp_all only: traffic_type_of_topics if_True if_False simp_thms)
  show ?thesis
    by (rule exI [of _ ?c], rule exI [of _ ?mon], rule conjI [OF made conjI], (rule allI)+, rule pub, rule allI, rule gone)
qed

theorem traffic_reaches_subscribers_witness:
  "\<exists>c mon. traffic_connected (\<lambda>n b. if Suc n < b then None else Some (2 * b + 3)) 1 2
       \<lparr>tp_flight_id = ''f'', tp_authorization = ''a''\<rparr> (Inr (mqtt_initial 1)) = Ret (Inr (c, [(0, mon)])) \<and>
     traffic_publish (\<lambda>_. Ret J_null) (\<lambda>_ _. (True, Some 0)) (\<lambda>_. Some 0) ''uav/traffic/alert/f'' ''{}''
       (c, [(0, fold traffic_monitor_subscribe [7, 4, 7] mon)]) = Ret [(4, Traffic_alert, []), (7, Traffic_alert, [])]"
proof -
  let ?policy = "\<lambda>n b :: nat. if Suc n < b then None else Some (2 * b + 3)"
  let ?p = "\<lparr>tp_flight_id = ''f'', tp_authorization = ''a''\<rparr>"
  have "(ucast (1 :: 16 word) :: 8 word) \<noteq> ucast (2 :: 16 word)"
    "?policy 1 (case ?policy 0 1 of None \<Rightarrow> 1 | Some b' \<Rightarrow> b') = None" by simp_all
  from traffic_reaches_subscribers [where policy = ?policy, OF this,
    where p = ?p and parse = "\<lambda>_. Ret J_null" and conv = "\<lambda>_ _. (True, Some 0)" and convi = "\<lambda>_. Some 0"]
  obtain c mon where made: "traffic_connected ?policy 1 2 ?p (Inr (mqtt_initial 1)) = Ret (Inr (c, [(0, mon)]))"
    and pub: "\<And>ks topic contents. traffic_publish (\<lambda>_. Ret J_null) (\<lambda>_ _. (True, Some 0)) (\<lambda>_. Some 0) topic contents
      (c, [(0, fold traffic_monitor_subscribe ks mon)]) =
       (if topic = ''uav/traffic/sa/'' @ tp_flight_id ?p
        then traffic_deliveries (\<lambda>_. Ret J_null) (\<lambda>_ _. (True, Some 0)) (\<lambda>_. Some 0) contents
               Traffic_situational_awareness (set ks)
        else if topic = ''uav/traffic/alert/'' @ tp_flight_id ?p
        then traffic_deliveries (\<lambda>_. Ret J_null) (\<lambda>_ _. (True, Some 0)) (\<lambda>_. Some 0) contents
               Traffic_alert (set ks)
        else Ret [])"
    by blast
  have sorted: "sorted_list_of_set {7, 4, 7 :: nat} = [4, 7]"
    using sorted_list_of_set.idem_if_sorted_distinct [of "[4, 7 :: nat]"] by (simp add: insert_commute)
  have "traffic_deliveries (\<lambda>_. Ret J_null) (\<lambda>_ _. (True, Some 0)) (\<lambda>_. Some 0) ''{}'' Traffic_alert {7, 4, 7} =
      Ret [(4, Traffic_alert, []), (7, Traffic_alert, [])]"
    by (simp add: traffic_deliveries_def json_subscript_mutable_def decode_traffic_updates_def
        json_elements_def cmap_def sorted)
  with made pub [of "''uav/traffic/alert/f''" "''{}''" "[7, 4, 7]"] show ?thesis by auto
qed

end
