(* ===== verification/Json_Lexer.thy ===== *)
theory Json_Lexer
  imports Json
begin

text \<open>
  The lexical analysis of src/nlohmann/json.hpp (class \<open>lexer\<close>). The input is the list of bytes
  not read yet; reading past the end gives the end of file again and again, so the empty list
  stands for it, and \<open>unget\<close> leaves a byte in the list. Positions and error messages, which only
  go into the text of an exception, are not kept.
\<close>

subsection \<open>Tokens\<close>

datatype lexer_token =
    T_true
  | T_false
  | T_null
  | T_string string
  | T_unsigned "64 word"
  | T_integer "64 word"
  | T_float double
  | T_begin_array
  | T_begin_object
  | T_end_array
  | T_end_object
  | T_name_separator
  | T_value_separator
  | T_parse_error
  | T_end_of_input

subsection \<open>Strings\<close>

definition code_of :: "char \<Rightarrow> nat" where
  "code_of c = of_char c"

definition hex_digit_value :: "char \<Rightarrow> nat option" where
  "hex_digit_value c =
     (let n = code_of c
      in if 0x30 \<le> n \<and> n \<le> 0x39 then Some (n - 0x30)
         else if 0x41 \<le> n \<and> n \<le> 0x46 then Some (n - 0x41 + 10)
         else if 0x61 \<le> n \<and> n \<le> 0x66 then Some (n - 0x61 + 10)
         else None)"

text \<open>\<open>get_codepoint\<close>: four hexadecimal digits; \<open>None\<close> is its \<open>-1\<close>.\<close>

definition get_codepoint :: "string \<Rightarrow> (nat \<times> string) option" where
  "get_codepoint s =
     (case s of
        a # b # c # d # s' \<Rightarrow>
          (case (hex_digit_value a, hex_digit_value b, hex_digit_value c, hex_digit_value d) of
             (Some w, Some x, Some y, Some z) \<Rightarrow> Some (w * 0x1000 + x * 0x100 + y * 0x10 + z, s')
           | _ \<Rightarrow> None)
      | _ \<Rightarrow> None)"

text \<open>The bytes of a code point.\<close>

definition utf8_bytes :: "nat \<Rightarrow> string" where
  "utf8_bytes n =
     (if n < 0x80 then [char_of n]
      else if n \<le> 0x7FF then [char_of (0xC0 + n div 2 ^ 6), char_of (0x80 + n mod 2 ^ 6)]
      else if n \<le> 0xFFFF
      then [char_of (0xE0 + n div 2 ^ 12), char_of (0x80 + n div 2 ^ 6 mod 2 ^ 6), char_of (0x80 + n mod 2 ^ 6)]
      else [char_of (0xF0 + n div 2 ^ 18), char_of (0x80 + n div 2 ^ 12 mod 2 ^ 6),
            char_of (0x80 + n div 2 ^ 6 mod 2 ^ 6), char_of (0x80 + n mod 2 ^ 6)])"

definition unescape_unicode :: "string \<Rightarrow> (string \<times> string) option" where
  "unescape_unicode s =
     (case get_codepoint s of
        None \<Rightarrow> None
      | Some (n1, s1) \<Rightarrow>
          if 0xD800 \<le> n1 \<and> n1 \<le> 0xDBFF then
            (case s1 of
               c # d # s2 \<Rightarrow>
                 if c = CHR 0x5C \<and> d = CHR ''u'' then
                   (case get_codepoint s2 of
                      None \<Rightarrow> None
                    | Some (n2, s3) \<Rightarrow>
                        if 0xDC00 \<le> n2 \<and> n2 \<le> 0xDFFF
                        then Some (utf8_bytes (n1 * 2 ^ 10 + n2 - 0x35FDC00), s3) else None)
                 else None
             | _ \<Rightarrow> None)
          else if 0xDC00 \<le> n1 \<and> n1 \<le> 0xDFFF then None
          else Some (utf8_bytes n1, s1))"

text \<open>What follows a backslash.\<close>

definition unescape :: "string \<Rightarrow> (string \<times> string) option" where
  "unescape s =
     (case s of
        [] \<Rightarrow> None
      | c # s' \<Rightarrow>
          if c = CHR 0x22 then Some ([CHR 0x22], s')
          else if c = CHR 0x5C then Some ([CHR 0x5C], s')
          else if c = CHR ''/'' then Some (''/'', s')
          else if c = CHR ''b'' then Some ([CHR 0x08], s')
          else if c = CHR ''f'' then Some ([CHR 0x0C], s')
          else if c = CHR ''n'' then Some ([CHR 0x0A], s')
          else if c = CHR ''r'' then Some ([CHR 0x0D], s')
          else if c = CHR ''t'' then Some ([CHR 0x09], s')
          else if c = CHR ''u'' then unescape_unicode s'
          else None)"

text \<open>The ranges of the bytes that must follow a first byte above \<open>0x7F\<close>.\<close>

definition utf8_tail :: "nat \<Rightarrow> (nat \<times> nat) list option" where
  "utf8_tail n =
     (if 0xC2 \<le> n \<and> n \<le> 0xDF then Some [(0x80, 0xBF)]
      else if n = 0xE0 then Some [(0xA0, 0xBF), (0x80, 0xBF)]
      else if 0xE1 \<le> n \<and> n \<le> 0xEC \<or> n = 0xEE \<or> n = 0xEF then Some [(0x80, 0xBF), (0x80, 0xBF)]
      else if n = 0xED then Some [(0x80, 0x9F), (0x80, 0xBF)]
      else if n = 0xF0 then Some [(0x90, 0xBF), (0x80, 0xBF), (0x80, 0xBF)]
      else if 0xF1 \<le> n \<and> n \<le> 0xF3 then Some [(0x80, 0xBF), (0x80, 0xBF), (0x80, 0xBF)]
      else if n = 0xF4 then Some [(0x80, 0x8F), (0x80, 0xBF), (0x80, 0xBF)]
      else None)"

fun match_bytes :: "(nat \<times> nat) list \<Rightarrow> string \<Rightarrow> (string \<times> string) option" where
  "match_bytes [] s = Some ([], s)"
| "match_bytes (r # rs) [] = None"
| "match_bytes (r # rs) (c # s) =
     (if fst r \<le> code_of c \<and> code_of c \<le> snd r
      then map_option (\<lambda>(t, s'). (c # t, s')) (match_bytes rs s) else None)"

lemma match_bytes_append: "match_bytes rs s = Some (t, s') \<Longrightarrow> s = t @ s' \<and> length t = length rs"
  by (induction rs s arbitrary: t rule: match_bytes.induct) (auto split: if_splits)

lemma get_codepoint_shorter: "get_codepoint s = Some (n, s') \<Longrightarrow> length s' < length s"
  by (auto simp: get_codepoint_def split: list.splits option.splits)

lemma unescape_shorter: "unescape s = Some (t, s') \<Longrightarrow> length s' < length s"
  by (auto simp: unescape_def unescape_unicode_def split: list.splits if_splits option.splits
      dest!: get_codepoint_shorter)

text \<open>\<open>scan_string\<close> after the opening quote; \<open>acc\<close> is the buffer \<open>yytext\<close>.\<close>

function scan_string :: "string \<Rightarrow> string \<Rightarrow> (string \<times> string) option" where
  "scan_string acc s =
     (case s of
        [] \<Rightarrow> None
      | c # s1 \<Rightarrow>
          if c = CHR 0x22 then Some (acc, s1)
          else if c = CHR 0x5C then
            (case unescape s1 of None \<Rightarrow> None | Some (t, s2) \<Rightarrow> scan_string (acc @ t) s2)
          else if code_of c < 0x20 then None
          else if code_of c < 0x80 then scan_string (acc @ [c]) s1
          else
            (case utf8_tail (code_of c) of
               None \<Rightarrow> None
             | Some rs \<Rightarrow>
                 (case match_bytes rs s1 of
                    None \<Rightarrow> None
                  | Some (t, s2) \<Rightarrow> scan_string (acc @ c # t) s2)))"
  by pat_completeness auto
termination
  by (relation "measure (\<lambda>(acc, s). length s)")
     (auto dest!: match_bytes_append unescape_shorter)

declare scan_string.simps [simp del]

subsection \<open>Numbers\<close>

datatype number_state =
    N_minus | N_zero | N_any1 | N_decimal1 | N_decimal2 | N_exponent | N_sign | N_any2

datatype number_move = Go number_state | Done | Bad

definition is_digit :: "char \<Rightarrow> bool" where
  "is_digit c \<longleftrightarrow> 0x30 \<le> code_of c \<and> code_of c \<le> 0x39"

definition is_e :: "char \<Rightarrow> bool" where
  "is_e c \<longleftrightarrow> c = CHR ''e'' \<or> c = CHR ''E''"

text \<open>The state machine; the end of file takes the default branch.\<close>

definition number_default :: "number_state \<Rightarrow> number_move" where
  "number_default st =
     (case st of
        N_minus \<Rightarrow> Bad | N_decimal1 \<Rightarrow> Bad | N_exponent \<Rightarrow> Bad | N_sign \<Rightarrow> Bad | _ \<Rightarrow> Done)"

definition number_step :: "number_state \<Rightarrow> char \<Rightarrow> number_move" where
  "number_step st c =
     (case st of
        N_minus \<Rightarrow> if c = CHR ''0'' then Go N_zero else if is_digit c then Go N_any1 else Bad
      | N_zero \<Rightarrow> if c = CHR ''.'' then Go N_decimal1 else if is_e c then Go N_exponent else Done
      | N_any1 \<Rightarrow>
          if is_digit c then Go N_any1
          else if c = CHR ''.'' then Go N_decimal1 else if is_e c then Go N_exponent else Done
      | N_decimal1 \<Rightarrow> if is_digit c then Go N_decimal2 else Bad
      | N_decimal2 \<Rightarrow> if is_digit c then Go N_decimal2 else if is_e c then Go N_exponent else Done
      | N_exponent \<Rightarrow>
          if c = CHR ''+'' \<or> c = CHR ''-'' then Go N_sign else if is_digit c then Go N_any2 else Bad
      | N_sign \<Rightarrow> if is_digit c then Go N_any2 else Bad
      | N_any2 \<Rightarrow> if is_digit c then Go N_any2 else Done)"

datatype number_type = Number_unsigned | Number_integer | Number_float

definition number_type_in :: "number_state \<Rightarrow> number_type \<Rightarrow> number_type" where
  "number_type_in st ty =
     (case st of N_decimal1 \<Rightarrow> Number_float | N_exponent \<Rightarrow> Number_float | N_minus \<Rightarrow> Number_integer | _ \<Rightarrow> ty)"

fun number_loop ::
  "number_state \<Rightarrow> number_type \<Rightarrow> string \<Rightarrow> string \<Rightarrow> (number_type \<times> string \<times> string) option" where
  "number_loop st ty acc [] = (if number_default st = Done then Some (ty, acc, []) else None)"
| "number_loop st ty acc (c # s) =
     (case number_step st c of
        Go st' \<Rightarrow> number_loop st' (number_type_in st' ty) (acc @ [c]) s
      | Done \<Rightarrow> Some (ty, acc, c # s)
      | Bad \<Rightarrow> None)"


text \<open>
  \<open>strtod\<close> on a number of the grammar: digits, a fraction and an exponent, rounded once. The
  decimal point is that of the \<open>C\<close> locale.
\<close>

definition signed_digits :: "string \<Rightarrow> int" where
  "signed_digits s =
     (if s \<noteq> [] \<and> hd s = CHR ''-'' then - int (read_nat (tl s))
      else if s \<noteq> [] \<and> hd s = CHR ''+'' then int (read_nat (tl s))
      else int (read_nat s))"

definition strtod :: "string \<Rightarrow> double" where
  "strtod t =
     (let neg = (t \<noteq> [] \<and> hd t = CHR ''-'');
          u = (if neg then tl t else t);
          whole = takeWhile is_digit u; r = dropWhile is_digit u;
          point = (r \<noteq> [] \<and> hd r = CHR ''.'');
          fraction = (if point then takeWhile is_digit (tl r) else []);
          r2 = (if point then dropWhile is_digit (tl r) else r);
          e = (if r2 \<noteq> [] \<and> is_e (hd r2) then signed_digits (tl r2) else 0) - int (length fraction);
          m = read_nat (whole @ fraction)
      in dbl_of_ratio neg (m * 10 ^ nat e) (10 ^ nat (- e)))"

definition convert_number :: "number_type \<Rightarrow> string \<Rightarrow> lexer_token" where
  "convert_number ty t =
     (case ty of
        Number_unsigned \<Rightarrow>
          (let n = read_nat t in if n < 2 ^ 64 then T_unsigned (word_of_nat n) else T_float (strtod t))
      | Number_integer \<Rightarrow>
          (let n = read_nat (tl t)
           in if n \<le> 2 ^ 63 then T_integer (word_of_int (- int n)) else T_float (strtod t))
      | Number_float \<Rightarrow> T_float (strtod t))"

text \<open>\<open>scan_number\<close>, given the first character, a minus sign or a digit.\<close>

definition scan_number :: "char \<Rightarrow> string \<Rightarrow> lexer_token \<times> string" where
  "scan_number c s =
     (let st = (if c = CHR ''-'' then N_minus else if c = CHR ''0'' then N_zero else N_any1)
      in case number_loop st (number_type_in st Number_unsigned) [c] s of
           None \<Rightarrow> (T_parse_error, s)
         | Some (ty, t, s') \<Rightarrow> (convert_number ty t, s'))"

subsection \<open>The scanner\<close>

definition scan_literal :: "string \<Rightarrow> lexer_token \<Rightarrow> string \<Rightarrow> lexer_token \<times> string" where
  "scan_literal word t s =
     (if take (length word) s = word then (t, drop (length word) s) else (T_parse_error, s))"

definition is_space :: "char \<Rightarrow> bool" where
  "is_space c \<longleftrightarrow> c = CHR 0x20 \<or> c = CHR 0x09 \<or> c = CHR 0x0A \<or> c = CHR 0x0D"

definition scan_token :: "char \<Rightarrow> string \<Rightarrow> lexer_token \<times> string" where
  "scan_token c s =
     (if c = CHR ''['' then (T_begin_array, s)
      else if c = CHR '']'' then (T_end_array, s)
      else if c = CHR ''{'' then (T_begin_object, s)
      else if c = CHR ''}'' then (T_end_object, s)
      else if c = CHR '':'' then (T_name_separator, s)
      else if c = CHR '','' then (T_value_separator, s)
      else if c = CHR ''t'' then scan_literal ''rue'' T_true s
      else if c = CHR ''f'' then scan_literal ''alse'' T_false s
      else if c = CHR ''n'' then scan_literal ''ull'' T_null s
      else if c = CHR 0x22 then
        (case scan_string [] s of None \<Rightarrow> (T_parse_error, s) | Some (t, s') \<Rightarrow> (T_string t, s'))
      else if c = CHR ''-'' \<or> is_digit c then scan_number c s
      else if c = CHR 0x00 then (T_end_of_input, s)
      else (T_parse_error, s))"

definition scan :: "string \<Rightarrow> lexer_token \<times> string" where
  "scan s =
     (case dropWhile is_space s of
        [] \<Rightarrow> (T_end_of_input, [])
      | c # s' \<Rightarrow> scan_token c s')"

end
