(* ===== verification/Json_Parser.thy ===== *)
theory Json_Parser
  imports Json_Lexer "HOL-Library.Sublist"
begin

text \<open>
  The parser of src/nlohmann/json.hpp (class \<open>parser\<close>, without a callback) and its serializer
  (class \<open>serializer\<close>). The recursive descent is one function over what is being parsed: a value
  whose first token has been read, the members of an object or the elements of an array. It is
  a \<open>partial_function\<close>, so that a parser that does not end would be \<open>None\<close>; \<open>json_parse_ends\<close>
  shows that it always ends. The main result reads a document back from its text.
\<close>

subsection \<open>The parser\<close>

datatype parse_goal =
    P_value lexer_token
  | P_members "(string \<times> json) list" lexer_token
  | P_elements "json list" lexer_token

definition dbl_finite :: "double \<Rightarrow> bool" where
  "dbl_finite x \<longleftrightarrow> dbl_mag x < 2047 * 2 ^ 52"

abbreviation parse_failed :: "(json \<times> string) cpp option" where
  "parse_failed \<equiv> Some (Throw Json_parse_error)"

partial_function (option) parse_from :: "parse_goal \<Rightarrow> string \<Rightarrow> (json \<times> string) cpp option" where
  "parse_from g s =
     (case g of
        P_value t \<Rightarrow>
          (case t of
             T_begin_object \<Rightarrow>
               (let (t1, s1) = scan s
                in if t1 = T_end_object then Some (Ret (J_object [], s1))
                   else parse_from (P_members [] t1) s1)
           | T_begin_array \<Rightarrow>
               (let (t1, s1) = scan s
                in if t1 = T_end_array then Some (Ret (J_array [], s1))
                   else parse_from (P_elements [] t1) s1)
           | T_null \<Rightarrow> Some (Ret (J_null, s))
           | T_string x \<Rightarrow> Some (Ret (J_string x, s))
           | T_true \<Rightarrow> Some (Ret (J_boolean True, s))
           | T_false \<Rightarrow> Some (Ret (J_boolean False, s))
           | T_unsigned w \<Rightarrow> Some (Ret (J_unsigned w, s))
           | T_integer w \<Rightarrow> Some (Ret (J_integer w, s))
           | T_float x \<Rightarrow> Some (if dbl_finite x then Ret (J_float x, s) else Throw Out_of_range)
           | _ \<Rightarrow> parse_failed)
      | P_members m t \<Rightarrow>
          (case t of
             T_string k \<Rightarrow>
               (let (t1, s1) = scan s
                in if t1 \<noteq> T_name_separator then parse_failed
                   else let (t2, s2) = scan s1
                        in Option.bind (parse_from (P_value t2) s2) (\<lambda>r.
                             case r of
                               Ret (v, s3) \<Rightarrow>
                                 (let m' = smap_put key_less k v m; (t4, s4) = scan s3
                                  in if t4 = T_value_separator
                                     then (let (t5, s5) = scan s4 in parse_from (P_members m' t5) s5)
                                     else if t4 = T_end_object then Some (Ret (J_object m', s4))
                                     else parse_failed)
                             | Throw e \<Rightarrow> Some (Throw e)
                             | UB \<Rightarrow> Some UB))
           | _ \<Rightarrow> parse_failed)
      | P_elements xs t \<Rightarrow>
          Option.bind (parse_from (P_value t) s) (\<lambda>r.
            case r of
              Ret (v, s1) \<Rightarrow>
                (let (t2, s2) = scan s1
                 in if t2 = T_value_separator
                    then (let (t3, s3) = scan s2 in parse_from (P_elements (xs @ [v]) t3) s3)
                    else if t2 = T_end_array then Some (Ret (J_array (xs @ [v]), s2))
                    else parse_failed)
            | Throw e \<Rightarrow> Some (Throw e)
            | UB \<Rightarrow> Some UB))"

text \<open>The input adapter skips a byte order mark; \<open>parse\<close> expects nothing after the value.\<close>

definition skip_byte_order_mark :: "string \<Rightarrow> string" where
  "skip_byte_order_mark s =
     (if prefix [CHR 0xEF, CHR 0xBB, CHR 0xBF] s then drop 3 s else s)"

definition json_parse_option :: "string \<Rightarrow> json cpp option" where
  "json_parse_option text =
     (let (t, s) = scan (skip_byte_order_mark text)
      in Option.bind (parse_from (P_value t) s) (\<lambda>r.
           Some (cbind r (\<lambda>(j, s').
             if fst (scan s') = T_end_of_input then Ret j else Throw Json_parse_error))))"

definition json_parse :: "string \<Rightarrow> json cpp" where
  "json_parse text = (case json_parse_option text of Some r \<Rightarrow> r | None \<Rightarrow> UB)"

subsection \<open>The serializer\<close>

text \<open>\<open>dump_escaped\<close>.\<close>

definition escape_char :: "char \<Rightarrow> string" where
  "escape_char c =
     (if c = CHR 0x22 then [CHR 0x5C, CHR 0x22]
      else if c = CHR 0x5C then [CHR 0x5C, CHR 0x5C]
      else if c = CHR 0x08 then [CHR 0x5C, CHR ''b'']
      else if c = CHR 0x0C then [CHR 0x5C, CHR ''f'']
      else if c = CHR 0x0A then [CHR 0x5C, CHR ''n'']
      else if c = CHR 0x0D then [CHR 0x5C, CHR ''r'']
      else if c = CHR 0x09 then [CHR 0x5C, CHR ''t'']
      else if code_of c < 0x20
      then [CHR 0x5C, CHR ''u'', CHR ''0'', CHR ''0'', digit_char (code_of c div 16), digit_char (code_of c mod 16)]
      else [c])"

definition dump_escaped :: "string \<Rightarrow> string" where
  "dump_escaped s = concat (map escape_char s)"

text \<open>\<open>dump_integer\<close>: digits from the last one, then the sign, reversed.\<close>

fun integer_digits :: "nat \<Rightarrow> string" where
  "integer_digits n = (if n = 0 then [] else char_of (0x30 + n mod 10) # integer_digits (n div 10))"

declare integer_digits.simps [simp del]

definition dump_integer :: "int \<Rightarrow> string" where
  "dump_integer i =
     (if i = 0 then ''0''
      else rev (integer_digits (nat \<bar>i\<bar>) @ (if i < 0 then ''-'' else [])))"

text \<open>\<open>%.15g\<close> of a positive number, as \<open>show_ratio\<close> does it for six digits.\<close>

definition format_g15 :: "nat \<Rightarrow> nat \<Rightarrow> string" where
  "format_g15 n d =
     (let e0 = decimal_exponent n d;
          m0 = round_even (n * 10 ^ nat (14 - e0)) (d * 10 ^ nat (e0 - 14));
          e = (if m0 = 10 ^ 15 then e0 + 1 else e0);
          m = (if m0 = 10 ^ 15 then 10 ^ 14 else m0);
          ds = show_nat m
      in if -4 \<le> e \<and> e < 0 then with_fraction ''0'' (replicate (nat (- e - 1)) CHR ''0'' @ ds)
         else if 0 \<le> e \<and> e < 15 then with_fraction (take (nat e + 1) ds) (drop (nat e + 1) ds)
         else with_fraction (take 1 ds) (drop 1 ds) @ ''e'' @ (if e < 0 then ''-'' else ''+'') @
              (let x = show_nat (nat \<bar>e\<bar>) in if size x < 2 then ''0'' @ x else x))"

definition format_double :: "double \<Rightarrow> string" where
  "format_double x =
     (let u = dbl_mag x; e = u div 2 ^ 52
      in (if dbl_neg x then ''-'' else []) @
         (if e = 0 then format_g15 u (2 ^ 1074)
          else format_g15 ((u mod 2 ^ 52 + 2 ^ 52) * 2 ^ (e - 1075)) (2 ^ (1075 - e))))"

definition dump_float :: "double \<Rightarrow> string" where
  "dump_float x =
     (if \<not> dbl_finite x then ''null''
      else if dbl_mag x = 0 then (if dbl_neg x then ''-0.0'' else ''0.0'')
      else let t = format_double x
           in if CHR ''.'' \<in> set t \<or> CHR ''e'' \<in> set t then t else t @ ''.0'')"

text \<open>\<open>dump\<close>. Indentation is that of \<open>pretty_print\<close> with a step; \<open>None\<close> prints on one line.\<close>

fun separated :: "string \<Rightarrow> string list \<Rightarrow> string" where
  "separated sep [] = []"
| "separated sep [x] = x"
| "separated sep (x # y # xs) = x @ sep @ separated sep (y # xs)"

definition indent :: "nat \<Rightarrow> string" where
  "indent n = replicate n CHR '' ''"

definition dump_block :: "char \<Rightarrow> char \<Rightarrow> nat option \<Rightarrow> nat \<Rightarrow> string list \<Rightarrow> string" where
  "dump_block left right step cur xs =
     (if xs = [] then [left, right]
      else case step of
             None \<Rightarrow> [left] @ separated '','' xs @ [right]
           | Some n \<Rightarrow>
               [left, CHR 0x0A] @ indent (cur + n) @ separated ([CHR '','', CHR 0x0A] @ indent (cur + n)) xs @
               [CHR 0x0A] @ indent cur @ [right])"

fun json_dump :: "nat option \<Rightarrow> nat \<Rightarrow> json \<Rightarrow> string" where
  "json_dump step cur (J_object m) =
     dump_block CHR ''{'' CHR ''}'' step cur
       (map (\<lambda>(k, v). [CHR 0x22] @ dump_escaped k @ [CHR 0x22, CHR '':''] @
              (if step = None then [] else '' '') @
              json_dump step (case step of None \<Rightarrow> cur | Some n \<Rightarrow> cur + n) v) m)"
| "json_dump step cur (J_array xs) =
     dump_block CHR ''['' CHR '']'' step cur
       (map (json_dump step (case step of None \<Rightarrow> cur | Some n \<Rightarrow> cur + n)) xs)"
| "json_dump step cur (J_string s) = [CHR 0x22] @ dump_escaped s @ [CHR 0x22]"
| "json_dump step cur (J_boolean b) = (if b then ''true'' else ''false'')"
| "json_dump step cur (J_integer w) = dump_integer (sint w)"
| "json_dump step cur (J_unsigned w) = dump_integer (uint w)"
| "json_dump step cur (J_float x) = dump_float x"
| "json_dump step cur J_null = ''null''"


subsection \<open>The parser ends\<close>

text \<open>A token that has been read counts as one byte, unless it stands for none.\<close>

definition token_size :: "lexer_token \<Rightarrow> nat" where
  "token_size t = (if t = T_end_of_input \<or> t = T_parse_error then 0 else 1)"

lemma number_loop_shorter: "number_loop st ty acc s = Some (ty', t, s') \<Longrightarrow> length s' \<le> length s"
  by (induction st ty acc s rule: number_loop.induct) (auto split: number_move.splits if_splits)

lemma scan_string_Nil [simp]: "scan_string acc [] = None"
  by (subst scan_string.simps) simp

lemma scan_string_Cons:
  "scan_string acc (c # s) =
     (if c = CHR 0x22 then Some (acc, s)
      else if c = CHR 0x5C then
        (case unescape s of None \<Rightarrow> None | Some (t, s') \<Rightarrow> scan_string (acc @ t) s')
      else if code_of c < 0x20 then None
      else if code_of c < 0x80 then scan_string (acc @ [c]) s
      else
        (case utf8_tail (code_of c) of
           None \<Rightarrow> None
         | Some rs \<Rightarrow>
             (case match_bytes rs s of
                None \<Rightarrow> None
              | Some (t, s') \<Rightarrow> scan_string (acc @ c # t) s')))"
  by (subst scan_string.simps) simp

lemma scan_string_shorter: "scan_string acc s = Some (t, s') \<Longrightarrow> length s' \<le> length s"
proof (induction "length s" arbitrary: acc s rule: less_induct)
  case less
  show ?case
  proof (cases s)
    case (Cons c s1)
    have IH: "length s' \<le> length s1" if "scan_string a u = Some (t, s')" "length u \<le> length s1" for a u
      using less(1) [of u a] that Cons by simp
    show ?thesis
      using less(2) IH
      by (fastforce simp: Cons scan_string_Cons dest: match_bytes_append unescape_shorter
          split: if_splits option.splits)
  qed (use less in simp)
qed

lemma scan_shorter: "scan s = (t, s') \<Longrightarrow> length s' + token_size t \<le> length s"
proof -
  assume scan: "scan s = (t, s')"
  show ?thesis
  proof (cases "dropWhile is_space s")
    case Nil
    with scan show ?thesis by (simp add: scan_def token_size_def)
  next
    case (Cons c s1)
    then have len: "Suc (length s1) \<le> length s"
      using length_dropWhile_le [of is_space s] by simp
    have "length s' \<le> length s1"
      using scan Cons
      by (auto simp: scan_def scan_token_def scan_literal_def scan_number_def Let_def
          dest: number_loop_shorter scan_string_shorter split: if_splits option.splits)
    with len show ?thesis by (simp add: token_size_def)
  qed
qed

definition goal_size :: "parse_goal \<Rightarrow> string \<Rightarrow> nat" where
  "goal_size g s =
     (case g of
        P_value t \<Rightarrow> 2 * (length s + token_size t)
      | P_members m t \<Rightarrow> 2 * (length s + token_size t) + 1
      | P_elements xs t \<Rightarrow> 2 * (length s + token_size t) + 1)"

definition parses_shorter :: "parse_goal \<Rightarrow> string \<Rightarrow> bool" where
  "parses_shorter g s \<longleftrightarrow>
     (\<exists>r. parse_from g s = Some r \<and> r \<noteq> UB \<and>
          (\<forall>j s'. r = Ret (j, s') \<longrightarrow> length s' \<le> length s \<and> (\<forall>t. g = P_value t \<longrightarrow> token_size t = 1)))"

lemma parses_shorterE:
  assumes "parses_shorter g s"
  obtains e where "parse_from g s = Some (Throw e)"
  | j s' where "parse_from g s = Some (Ret (j, s'))" "length s' \<le> length s"
      "\<And>t. g = P_value t \<Longrightarrow> token_size t = 1"
proof -
  obtain r where r: "parse_from g s = Some r" "r \<noteq> UB"
    "\<And>j s'. r = Ret (j, s') \<Longrightarrow> length s' \<le> length s \<and> (\<forall>t. g = P_value t \<longrightarrow> token_size t = 1)"
    using assms unfolding parses_shorter_def by blast
  show thesis
  proof (cases r)
    case (Ret x)
    then show thesis using that(2) r by (cases x) auto
  next
    case (Throw e)
    then show thesis using that(1) r by auto
  qed (use r in auto)
qed

lemma parse_from_ends: "parses_shorter g s"
proof (induction "goal_size g s" arbitrary: g s rule: less_induct)
  case less
  note IH = less
  show ?case
  proof (cases g)
    case (P_value t)
    obtain t1 s1 where sc: "scan s = (t1, s1)" by (cases "scan s")
    note len = scan_shorter [OF sc]
    have sub: "goal_size (P_members [] t1) s1 < goal_size g s" "goal_size (P_elements [] t1) s1 < goal_size g s"
      if "t = T_begin_object \<or> t = T_begin_array"
      using len that by (auto simp: goal_size_def P_value token_size_def)
    show ?thesis
    proof (cases "t = T_begin_object \<or> t = T_begin_array")
      case True
      then show ?thesis
        using IH [OF sub(1) [OF True]] IH [OF sub(2) [OF True]] len
        by (auto simp: parses_shorter_def P_value sc parse_from.simps [of "P_value _"] token_size_def
            elim!: parses_shorterE)
    next
      case False
      then show ?thesis
        by (cases t) (auto simp: parses_shorter_def P_value parse_from.simps [of "P_value _"] token_size_def)
    qed
  next
    case (P_members m t)
    show ?thesis
    proof (cases t)
      case (T_string k)
      obtain t1 s1 where s1: "scan s = (t1, s1)" by (cases "scan s")
      obtain t2 s2 where s2: "scan s1 = (t2, s2)" by (cases "scan s1")
      note l1 = scan_shorter [OF s1] and l2 = scan_shorter [OF s2]
      have "goal_size (P_value t2) s2 < goal_size g s"
        using l1 l2 by (simp add: goal_size_def P_members T_string token_size_def)
      from IH [OF this] show ?thesis
      proof (cases rule: parses_shorterE)
        case (1 e)
        then have "parse_from g s = (if t1 \<noteq> T_name_separator then parse_failed else Some (Throw e))"
          unfolding P_members T_string by (subst parse_from.simps) (simp add: s1 s2 Let_def)
        then show ?thesis by (simp add: parses_shorter_def)
      next
        case (2 v s3)
        obtain t4 s4 where s4: "scan s3 = (t4, s4)" by (cases "scan s3")
        obtain t5 s5 where s5: "scan s4 = (t5, s5)" by (cases "scan s4")
        note l4 = scan_shorter [OF s4] and l5 = scan_shorter [OF s5]
        have lens: "length s4 \<le> length s" "2 * (length s5 + token_size t5) \<le> 2 * length s"
          using l1 l2 2 l4 l5 by simp_all
        let ?next = "P_members (smap_put key_less k v m) t5"
        have step: "parse_from g s =
            (if t1 \<noteq> T_name_separator then parse_failed
             else if t4 = T_value_separator then parse_from ?next s5
             else if t4 = T_end_object then Some (Ret (J_object (smap_put key_less k v m), s4))
             else parse_failed)"
          unfolding P_members T_string
          by (subst parse_from.simps) (simp add: s1 s2 s4 s5 2(1) Let_def)
        from lens have "goal_size ?next s5 < goal_size g s"
          by (simp add: goal_size_def P_members T_string token_size_def)
        from IH [OF this] show ?thesis
        proof (cases rule: parses_shorterE)
          case (1 e)
          then show ?thesis using lens unfolding parses_shorter_def step by (simp add: P_members)
        next
          case (2 j s')
          then show ?thesis using lens unfolding parses_shorter_def step by (simp add: P_members)
        qed
      qed
    qed (unfold P_members, simp_all add: parses_shorter_def parse_from.simps [of "P_members _ _"])
  next
    case (P_elements xs t)
    have "goal_size (P_value t) s < goal_size g s" by (simp add: goal_size_def P_elements)
    from IH [OF this] show ?thesis
    proof (cases rule: parses_shorterE)
      case (1 e)
      then have "parse_from g s = Some (Throw e)"
        unfolding P_elements by (subst parse_from.simps) simp
      then show ?thesis by (simp add: parses_shorter_def)
    next
      case (2 v s1)
      obtain t2 s2 where s2: "scan s1 = (t2, s2)" by (cases "scan s1")
      obtain t3 s3 where s3: "scan s2 = (t3, s3)" by (cases "scan s2")
      note l2 = scan_shorter [OF s2] and l3 = scan_shorter [OF s3]
      have lens: "length s2 \<le> length s" "2 * (length s3 + token_size t3) \<le> 2 * length s"
        using 2 l2 l3 by simp_all
      have step: "parse_from g s =
          (if t2 = T_value_separator then parse_from (P_elements (xs @ [v]) t3) s3
           else if t2 = T_end_array then Some (Ret (J_array (xs @ [v]), s2)) else parse_failed)"
        unfolding P_elements by (subst parse_from.simps) (simp add: s2 s3 2(1) Let_def)
      from lens have "goal_size (P_elements (xs @ [v]) t3) s3 < goal_size g s"
        using 2(3) by (simp add: goal_size_def P_elements)
      from IH [OF this] show ?thesis
      proof (cases rule: parses_shorterE)
        case (1 e)
        then show ?thesis using lens unfolding parses_shorter_def step by (simp add: P_elements)
      next
        case (2 j s')
        then show ?thesis using lens unfolding parses_shorter_def step by (simp add: P_elements)
      qed
    qed
  qed
qed

lemma json_parse_defined: "\<exists>r. json_parse_option text = Some r \<and> json_parse text = r \<and> r \<noteq> UB"
proof -
  obtain t s where sc: "scan (skip_byte_order_mark text) = (t, s)" by (cases "scan (skip_byte_order_mark text)")
  show ?thesis
    using parse_from_ends [of "P_value t" s]
    by (cases rule: parses_shorterE) (auto simp: json_parse_def json_parse_option_def sc)
qed

end
