(* ===== verification/Json_Text.thy ===== *)
theory Json_Text
  imports Json_Parser
begin

text \<open>
  A JSON document is read back from its text. \<open>reads text j\<close> says that a text, after any white
  space and before a delimiter, is scanned and parsed as \<open>j\<close>; the lemmas show it for strings,
  integers, floating point numbers, arrays and objects. The result is \<open>json_norm\<close> of the
  document: integers that are not negative come back as unsigned, numbers that are not finite as
  null, and other numbers with the fifteen digits that are written.
\<close>

subsection \<open>Well-formed text\<close>

function utf8_ok :: "string \<Rightarrow> bool" where
  "utf8_ok s =
     (case s of
        [] \<Rightarrow> True
      | c # s1 \<Rightarrow>
          if code_of c < 0x80 then utf8_ok s1
          else (case utf8_tail (code_of c) of
                  None \<Rightarrow> False
                | Some rs \<Rightarrow> (case match_bytes rs s1 of None \<Rightarrow> False | Some (t, s2) \<Rightarrow> utf8_ok s2)))"
  by pat_completeness auto
termination
  by (relation "measure length") (auto dest!: match_bytes_append)

declare utf8_ok.simps [simp del]

fun json_norm :: "json \<Rightarrow> json" where
  "json_norm (J_integer w) = (if sint w < 0 then J_integer w else J_unsigned w)"
| "json_norm (J_float x) = (if dbl_finite x then J_float (strtod (dump_float x)) else J_null)"
| "json_norm (J_array xs) = J_array (map json_norm xs)"
| "json_norm (J_object m) = J_object (map (\<lambda>(k, v). (k, json_norm v)) m)"
| "json_norm j = j"

fun json_writable :: "json \<Rightarrow> bool" where
  "json_writable (J_string s) = utf8_ok s"
| "json_writable (J_float x) = (dbl_finite x \<longrightarrow> dbl_finite (strtod (dump_float x)))"
| "json_writable (J_array xs) = list_all json_writable xs"
| "json_writable (J_object m) =
     (list_all (\<lambda>(k, v). utf8_ok k \<and> json_writable v) m \<and> smap_sorted key_less m)"
| "json_writable j = True"

definition ends :: "string \<Rightarrow> bool" where
  "ends s \<longleftrightarrow> s = [] \<or> hd s \<in> {CHR '','', CHR '']'', CHR ''}'', CHR 0x0A}"

definition reads :: "string \<Rightarrow> json \<Rightarrow> bool" where
  "reads text j \<longleftrightarrow>
     (\<forall>sp rest. list_all is_space sp \<longrightarrow> ends rest \<longrightarrow>
       (\<exists>t s. scan (sp @ text @ rest) = (t, s) \<and> t \<noteq> T_end_array \<and>
              parse_from (P_value t) s = Some (Ret (j, rest))))"

lemma dropWhile_spaces: "list_all p sp \<Longrightarrow> dropWhile p (sp @ s) = dropWhile p s"
  by (induction sp) auto

lemma scan_spaces: "list_all is_space sp \<Longrightarrow> scan (sp @ s) = scan s"
  by (simp add: scan_def dropWhile_spaces)

lemma scan_char: "\<not> is_space c \<Longrightarrow> scan (c # s) = scan_token c s"
  by (simp add: scan_def)

text \<open>A text that starts with a character of its own is scanned by \<open>scan_token\<close>.\<close>

lemma readsI:
  assumes "text = c # w" "\<not> is_space c"
    and "\<And>rest. ends rest \<Longrightarrow> \<exists>t s. scan_token c (w @ rest) = (t, s) \<and> t \<noteq> T_end_array \<and>
           parse_from (P_value t) s = Some (Ret (j, rest))"
  shows "reads text j"
  unfolding reads_def using assms by (auto simp: scan_spaces scan_char)

subsection \<open>Strings\<close>

lemma utf8_ok_Cons:
  "utf8_ok (c # s) =
     (if code_of c < 0x80 then utf8_ok s
      else (case utf8_tail (code_of c) of
              None \<Rightarrow> False
            | Some rs \<Rightarrow> (case match_bytes rs s of None \<Rightarrow> False | Some (t, s') \<Rightarrow> utf8_ok s')))"
  by (subst utf8_ok.simps) simp

lemma match_bytes_rest: "match_bytes rs s = Some (t, s') \<Longrightarrow> match_bytes rs (t @ u) = Some (t, u)"
  by (induction rs s arbitrary: t rule: match_bytes.induct) (auto split: if_splits)

lemma match_bytes_high:
  "match_bytes rs s = Some (t, s') \<Longrightarrow> list_all (\<lambda>r. 0x80 \<le> fst r) rs \<Longrightarrow> list_all (\<lambda>c. 0x80 \<le> code_of c) t"
  by (induction rs s arbitrary: t rule: match_bytes.induct) (auto split: if_splits)

lemma utf8_tail_high: "utf8_tail n = Some rs \<Longrightarrow> list_all (\<lambda>r. 0x80 \<le> fst r) rs"
  by (auto simp: utf8_tail_def split: if_splits)

lemma code_of_char: "n < 256 \<Longrightarrow> code_of (char_of n) = n"
  by (simp add: code_of_def)

lemma code_of_less: "code_of c < 256"
  by (simp add: code_of_def)

lemma char_of_code: "char_of (code_of c) = c"
  by (simp add: code_of_def)

lemma code_consts:
  "code_of CHR 0x22 = 0x22" "code_of CHR 0x5C = 0x5C" "code_of CHR 0x08 = 0x08" "code_of CHR 0x0C = 0x0C"
  "code_of CHR 0x0A = 0x0A" "code_of CHR 0x0D = 0x0D" "code_of CHR 0x09 = 0x09"
  by (simp_all add: code_of_def)

lemma code_neq: "code_of c \<noteq> code_of d \<Longrightarrow> c \<noteq> d"
  by (rule notI) simp

lemma high_neq:
  assumes "0x80 \<le> code_of c"
  shows "c \<noteq> CHR 0x22 \<and> c \<noteq> CHR 0x5C \<and> c \<noteq> CHR 0x08 \<and> c \<noteq> CHR 0x0C \<and> c \<noteq> CHR 0x0A \<and>
         c \<noteq> CHR 0x0D \<and> c \<noteq> CHR 0x09 \<and> \<not> code_of c < 0x20"
  using assms by (intro conjI code_neq) (simp_all add: code_consts)

lemma escape_high: "0x80 \<le> code_of c \<Longrightarrow> escape_char c = [c]"
  using high_neq [of c] by (simp add: escape_char_def)

lemma dump_escaped_append: "dump_escaped (s @ t) = dump_escaped s @ dump_escaped t"
  by (simp add: dump_escaped_def)

lemma dump_escaped_Cons: "dump_escaped (c # s) = escape_char c @ dump_escaped s"
  by (simp add: dump_escaped_def)

lemma dump_escaped_high: "list_all (\<lambda>c. 0x80 \<le> code_of c) t \<Longrightarrow> dump_escaped t = t"
  by (induction t) (simp_all add: dump_escaped_def escape_high)

lemma hex_value_digit: "d < 16 \<Longrightarrow> hex_digit_value (digit_char d) = Some d"
proof -
  have "\<forall>d \<in> set [0..<16]. hex_digit_value (digit_char d) = Some d" by code_simp
  then show "d < 16 \<Longrightarrow> hex_digit_value (digit_char d) = Some d" by simp
qed

lemma unescape_control:
  assumes "code_of c < 0x20"
  shows "unescape (CHR ''u'' # CHR ''0'' # CHR ''0'' # digit_char (code_of c div 16) #
           digit_char (code_of c mod 16) # s) = Some ([c], s)"
proof -
  have zero: "hex_digit_value CHR ''0'' = Some 0" by (simp add: hex_digit_value_def code_of_def)
  have "hex_digit_value (digit_char (code_of c div 16)) = Some (code_of c div 16)"
    "hex_digit_value (digit_char (code_of c mod 16)) = Some (code_of c mod 16)"
    using assms by (simp_all add: hex_value_digit)
  then have "get_codepoint (CHR ''0'' # CHR ''0'' # digit_char (code_of c div 16) #
      digit_char (code_of c mod 16) # s) = Some (code_of c, s)"
    by (simp add: get_codepoint_def zero)
  then show ?thesis
    using assms by (simp add: unescape_def unescape_unicode_def utf8_bytes_def char_of_code)
qed

lemma scan_escaped_char:
  assumes "code_of c < 0x80"
  shows "scan_string acc (escape_char c @ s) = scan_string (acc @ [c]) s"
proof (cases "escape_char c = [c]")
  case True
  then have "c \<noteq> CHR 0x22" "c \<noteq> CHR 0x5C" "\<not> code_of c < 0x20"
    by (auto simp: escape_char_def split: if_splits)
  with True assms show ?thesis by (simp add: scan_string_Cons)
next
  case False
  then show ?thesis
    using unescape_control [of c s] by (auto simp: escape_char_def scan_string_Cons unescape_def split: if_splits)
qed

lemma scan_dumped_string:
  "utf8_ok s \<Longrightarrow> scan_string acc (dump_escaped s @ CHR 0x22 # rest) = Some (acc @ s, rest)"
proof (induction "length s" arbitrary: acc s rule: less_induct)
  case less
  show ?case
  proof (cases s)
    case Nil
    then show ?thesis by (simp add: dump_escaped_def scan_string_Cons)
  next
    case (Cons c s1)
    show ?thesis
    proof (cases "code_of c < 0x80")
      case True
      then have "utf8_ok s1" using less(2) by (simp add: Cons utf8_ok_Cons)
      with less(1) [of s1 "acc @ [c]"] show ?thesis
        by (simp add: Cons dump_escaped_Cons scan_escaped_char True)
    next
      case False
      obtain rs t s2 where rs: "utf8_tail (code_of c) = Some rs" and t: "match_bytes rs s1 = Some (t, s2)"
        and ok: "utf8_ok s2"
        using less(2) False by (auto simp: Cons utf8_ok_Cons split: option.splits)
      have s1: "s1 = t @ s2" using match_bytes_append [OF t] by simp
      have high: "dump_escaped t = t" "escape_char c = [c]"
        using dump_escaped_high [OF match_bytes_high [OF t utf8_tail_high [OF rs]]] escape_high [of c] False
        by simp_all
      have neq: "c \<noteq> CHR 0x22" "c \<noteq> CHR 0x5C" "\<not> code_of c < 0x20" using False high_neq [of c] by simp_all
      have "scan_string acc (c # t @ dump_escaped s2 @ CHR 0x22 # rest) =
          scan_string (acc @ c # t) (dump_escaped s2 @ CHR 0x22 # rest)"
        using False rs neq match_bytes_rest [OF t] by (simp add: scan_string_Cons)
      with less(1) [of s2 "acc @ c # t"] ok show ?thesis
        by (simp add: Cons s1 dump_escaped_Cons dump_escaped_append high)
    qed
  qed
qed

lemma scan_quoted:
  "utf8_ok s \<Longrightarrow> scan_token CHR 0x22 (dump_escaped s @ CHR 0x22 # rest) = (T_string s, rest)"
  by (simp add: scan_token_def scan_dumped_string)

lemma not_space_quote [simp]: "\<not> is_space CHR 0x22"
  by (simp add: is_space_def)

lemma reads_string: "utf8_ok s \<Longrightarrow> reads (json_dump step cur (J_string s)) (J_string s)"
  by (intro readsI [of _ "CHR 0x22" "dump_escaped s @ [CHR 0x22]"])
     (simp_all add: scan_quoted parse_from.simps)

subsection \<open>Numbers\<close>

lemma digit_cases: "is_digit c \<Longrightarrow> c \<in> set ''0123456789''"
proof -
  assume "is_digit c"
  then have "code_of c \<in> set [48..<58]"
    unfolding set_upt atLeastLessThan_iff is_digit_def by linarith
  moreover have "\<forall>n \<in> set [48..<58]. (char_of n :: char) \<in> set ''0123456789''" by code_simp
  ultimately have "char_of (code_of c) \<in> set ''0123456789''" by blast
  then show ?thesis by (simp add: char_of_code)
qed

lemma scan_token_digit: "is_digit c \<Longrightarrow> scan_token c s = scan_number c s"
  using digit_cases [of c] by (auto simp: scan_token_def is_digit_def code_of_def)

lemma scan_token_minus: "scan_token CHR ''-'' s = scan_number CHR ''-'' s"
  by (simp add: scan_token_def)

lemma digit_not_space: "is_digit c \<Longrightarrow> \<not> is_space c"
  using digit_cases [of c] by (auto simp: is_space_def)

lemma minus_not_space: "\<not> is_space CHR ''-''"
  by (simp add: is_space_def)

lemma number_loop_digits:
  "list_all is_digit w \<Longrightarrow> st \<in> {N_any1, N_decimal2, N_any2} \<Longrightarrow>
   number_loop st ty acc (w @ s) = number_loop st ty (acc @ w) s"
proof (induction w arbitrary: acc)
  case (Cons c w)
  then have "number_step st c = Go st" "number_type_in st ty = ty"
    by (auto simp: number_step_def number_type_in_def)
  with Cons show ?case by simp
qed simp

lemma ends_Cons: "ends (c # s) \<Longrightarrow> \<not> is_digit c \<and> \<not> is_e c \<and> c \<noteq> CHR ''.''"
  by (auto simp: ends_def is_digit_def is_e_def code_of_def)

lemma number_loop_ends:
  assumes "ends rest" "number_default st = Done"
  shows "number_loop st ty acc rest = Some (ty, acc, rest)"
proof (cases rest)
  case (Cons c s)
  then have "number_step st c = Done"
    using ends_Cons [of c s] assms by (cases st) (simp_all add: number_step_def number_default_def)
  with Cons show ?thesis by simp
qed (use assms in simp)

text \<open>A whole number: one digit, or several of which the first is not zero.\<close>

definition whole_text :: "string \<Rightarrow> bool" where
  "whole_text t \<longleftrightarrow> (\<exists>c w. t = c # w \<and> is_digit c \<and> list_all is_digit w \<and> (c = CHR ''0'' \<longrightarrow> w = []))"

lemma is_digit_code: "is_digit c \<longleftrightarrow> (of_char c :: nat) \<in> {48..57}"
  by (simp add: is_digit_def code_of_def)

lemma show_nat_all_digits: "list_all is_digit (show_nat n)"
  using show_nat_digits [of n] by (simp add: list_all_iff is_digit_code)

lemma digit_char_zero: "d < 10 \<Longrightarrow> digit_char d = CHR ''0'' \<Longrightarrow> d = 0"
  using of_digit_char [of d] by simp

lemma whole_text_show_nat: "whole_text (show_nat n) \<and> (0 < n \<longrightarrow> hd (show_nat n) \<noteq> CHR ''0'')"
proof (induction n rule: less_induct)
  case (less n)
  show ?case
  proof (cases "n < 10")
    case True
    then show ?thesis
      by (auto simp: show_nat_def base_digits.simps [of 10 n] whole_text_def is_digit_code of_digit_char
          dest: digit_char_zero)
  next
    case False
    then have eq: "show_nat n = show_nat (n div 10) @ [digit_char (n mod 10)]"
      by (simp add: show_nat_def base_digits.simps [of 10 n])
    have "is_digit (digit_char (n mod 10))" by (simp add: is_digit_code of_digit_char)
    moreover have "whole_text (show_nat (n div 10))" "hd (show_nat (n div 10)) \<noteq> CHR ''0''"
      using less [of "n div 10"] False by simp_all
    ultimately show ?thesis by (auto simp: eq whole_text_def)
  qed
qed

lemma number_loop_whole:
  assumes "whole_text t"
  shows "\<exists>c w st. t = c # w \<and> is_digit c \<and> st \<in> {N_zero, N_any1} \<and>
    (\<forall>ty s. number_loop N_minus ty acc (t @ s) = number_loop st ty (acc @ t) s) \<and>
    (\<forall>s. scan_number c (w @ s) =
       (case number_loop st Number_unsigned t s of
          None \<Rightarrow> (T_parse_error, w @ s) | Some (ty, u, s') \<Rightarrow> (convert_number ty u, s')))"
proof -
  obtain c w where t: "t = c # w" and c: "is_digit c" and w: "list_all is_digit w"
    and zero: "c = CHR ''0'' \<longrightarrow> w = []"
    using assms by (auto simp: whole_text_def)
  define st where "st = (if c = CHR ''0'' then N_zero else N_any1)"
  have loop: "number_loop st ty (u @ [c]) (w @ s) = number_loop st ty (u @ t) s" for ty u s
    using number_loop_digits [OF w, of N_any1 ty "u @ [c]" s] zero by (auto simp: t st_def)
  have step: "number_step N_minus c = Go st" "number_type_in st ty = ty" for ty
    using c by (auto simp: number_step_def number_type_in_def st_def)
  have "number_loop N_minus ty acc (t @ s) = number_loop st ty (acc @ t) s" for ty s
    using loop [of ty acc s] by (simp add: t step)
  moreover have "c \<noteq> CHR ''-''" using digit_cases [OF c] by auto
  then have "scan_number c (w @ s) =
       (case number_loop st Number_unsigned t s of
          None \<Rightarrow> (T_parse_error, w @ s) | Some (ty, u, s') \<Rightarrow> (convert_number ty u, s'))" for s
    using loop [of Number_unsigned "[]" s] step(2) by (simp add: scan_number_def flip: st_def)
  moreover have "st \<in> {N_zero, N_any1}" by (simp add: st_def)
  ultimately show ?thesis using t c by blast
qed

text \<open>The signed number \<open>sg @ t\<close> followed by \<open>s\<close>, and what the loop makes of it.\<close>

lemma reads_number:
  assumes "whole_text t"
    and loop: "\<And>st rest acc ty. st \<in> {N_zero, N_any1} \<Longrightarrow> ends rest \<Longrightarrow>
      number_loop st ty acc (u @ rest) = Some (f ty, acc @ u, rest)"
    and conv: "\<And>s. parse_from (P_value (convert_number (f (if neg then Number_integer else Number_unsigned))
      ((if neg then ''-'' else []) @ t @ u))) s = Some (Ret (j, s))"
  shows "reads ((if neg then ''-'' else []) @ t @ u) j"
proof -
  have no_end: "convert_number ty x \<noteq> T_end_array" for ty x
    by (auto simp: convert_number_def Let_def split: number_type.splits)
  show ?thesis
  proof (cases neg)
    case True
    obtain st where st: "st \<in> {N_zero, N_any1}"
      "\<And>ty s. number_loop N_minus ty ''-'' (t @ s) = number_loop st ty (''-'' @ t) s"
      using number_loop_whole [OF assms(1), of "''-''"] by blast
    have "scan_token CHR ''-'' (t @ u @ rest) = (convert_number (f Number_integer) (''-'' @ t @ u), rest)"
      if "ends rest" for rest
      using st(2) [of Number_integer "u @ rest"] loop [OF st(1) that, of Number_integer "''-'' @ t"]
      by (simp add: scan_token_minus scan_number_def number_type_in_def)
    then show ?thesis
      using conv no_end True by (intro readsI [of _ "CHR ''-''" "t @ u"]) (auto simp: minus_not_space)
  next
    case False
    obtain c w st where t: "t = c # w" "is_digit c" and st: "st \<in> {N_zero, N_any1}"
      "\<And>s. scan_number c (w @ s) =
       (case number_loop st Number_unsigned t s of
          None \<Rightarrow> (T_parse_error, w @ s) | Some (ty, u, s') \<Rightarrow> (convert_number ty u, s'))"
      using number_loop_whole [OF assms(1), of "[]"] by blast
    have "scan_token c (w @ u @ rest) = (convert_number (f Number_unsigned) (t @ u), rest)"
      if "ends rest" for rest
      using st(2) [of "u @ rest"] loop [OF st(1) that, of Number_unsigned t]
      by (simp add: scan_token_digit t)
    then show ?thesis
      using conv no_end False t by (intro readsI [of _ c "w @ u"]) (auto simp: digit_not_space)
  qed
qed

text \<open>Integers.\<close>

lemma rev_integer_digits: "0 < n \<Longrightarrow> rev (integer_digits n) = show_nat n"
proof (induction n rule: less_induct)
  case (less n)
  have "\<forall>d \<in> set [0..<10]. char_of (0x30 + d) = digit_char d" by code_simp
  then have last: "char_of (0x30 + n mod 10) = digit_char (n mod 10)" by simp
  show ?case
  proof (cases "n < 10")
    case True
    then show ?thesis
      using less(2) last by (simp add: integer_digits.simps [of n] integer_digits.simps [of 0] show_nat_def base_digits.simps [of 10 n])
  next
    case False
    then have "show_nat n = show_nat (n div 10) @ [digit_char (n mod 10)]"
      by (simp add: show_nat_def base_digits.simps [of 10 n])
    with less False last show ?thesis by (simp add: integer_digits.simps [of n])
  qed
qed

lemma dump_integer_eq: "dump_integer i = (if i < 0 then ''-'' else []) @ show_nat (nat \<bar>i\<bar>)"
  by (auto simp: dump_integer_def rev_integer_digits show_nat_def base_digits.simps [of 10 0] digit_char_def)

lemma number_loop_nothing:
  "st \<in> {N_zero, N_any1} \<Longrightarrow> ends rest \<Longrightarrow> number_loop st ty acc ([] @ rest) = Some (ty, acc @ [], rest)"
  using number_loop_ends [of rest st ty acc] by (auto simp: number_default_def)

lemma reads_nonneg:
  assumes "0 \<le> i" "i < 2 ^ 64"
  shows "reads (dump_integer i) (J_unsigned (word_of_int i))"
proof -
  have conv: "convert_number Number_unsigned (show_nat (nat i)) = T_unsigned (word_of_int i)"
  proof -
    have "nat i < 2 ^ 64" using assms by (simp add: nat_less_iff)
    moreover have "(word_of_nat (nat i) :: 64 word) = word_of_int i" using assms(1) by (rule of_nat_nat)
    ultimately show ?thesis by (simp add: convert_number_def)
  qed
  have "reads ((if False then ''-'' else []) @ show_nat (nat i) @ []) (J_unsigned (word_of_int i))"
    using whole_text_show_nat [of "nat i"] conv
    by (intro reads_number [where f = "\<lambda>ty. ty"] number_loop_nothing) (simp_all add: parse_from.simps)
  with assms show ?thesis by (simp add: dump_integer_eq)
qed

lemma reads_negative:
  assumes "i < 0" "- (2 ^ 63) \<le> i"
  shows "reads (dump_integer i) (J_integer (word_of_int i))"
proof -
  have conv: "convert_number Number_integer (''-'' @ show_nat (nat (- i))) = T_integer (word_of_int i)"
    using assms by (simp add: convert_number_def nat_le_iff)
  have "reads ((if True then ''-'' else []) @ show_nat (nat (- i)) @ []) (J_integer (word_of_int i))"
    using whole_text_show_nat [of "nat (- i)"] conv
    by (intro reads_number [where f = "\<lambda>ty. ty"] number_loop_nothing) (simp_all add: parse_from.simps)
  with assms show ?thesis by (simp add: dump_integer_eq)
qed

lemma reads_integer: "reads (json_dump step cur (J_integer w)) (json_norm (J_integer w))"
proof -
  have "- (2 ^ 63) \<le> sint w" "sint w < 2 ^ 63"
    using sint_greater_eq [of w] sint_less [of w] by simp_all
  then show ?thesis
    using reads_negative [of "sint w"] reads_nonneg [of "sint w"] by (cases "sint w < 0") simp_all
qed

lemma reads_unsigned: "reads (json_dump step cur (J_unsigned w)) (J_unsigned w)"
proof -
  have "uint w < 2 ^ 64" using uint_lt2p [of w] by simp
  then show ?thesis using reads_nonneg [of "uint w"] by simp
qed

text \<open>Floating point numbers: a fraction, an exponent, or both, follow the whole number.\<close>

definition fraction_text :: "string \<Rightarrow> bool" where
  "fraction_text t \<longleftrightarrow> t = [] \<or> (\<exists>d w. t = CHR ''.'' # d # w \<and> is_digit d \<and> list_all is_digit w)"

definition exponent_text :: "string \<Rightarrow> bool" where
  "exponent_text t \<longleftrightarrow>
     t = [] \<or> (\<exists>sg d w. t = CHR ''e'' # sg # d # w \<and> sg \<in> {CHR ''+'', CHR ''-''} \<and> is_digit d \<and> list_all is_digit w)"

lemma number_loop_exponent:
  assumes "exponent_text t" "ends rest" "st \<in> {N_zero, N_any1, N_decimal2}"
  shows "number_loop st ty acc (t @ rest) = Some (if t = [] then ty else Number_float, acc @ t, rest)"
proof (cases "t = []")
  case True
  then show ?thesis using number_loop_ends [OF assms(2), of st ty acc] assms(3) by (auto simp: number_default_def)
next
  case False
  then obtain sg d w where t: "t = CHR ''e'' # sg # d # w" and sg: "sg \<in> {CHR ''+'', CHR ''-''}"
    and d: "is_digit d" and w: "list_all is_digit w"
    using assms(1) by (auto simp: exponent_text_def)
  have e: "number_step st CHR ''e'' = Go N_exponent"
    using assms(3) by (auto simp: number_step_def is_e_def is_digit_def code_of_def)
  have s: "number_step N_exponent sg = Go N_sign" "number_step N_sign d = Go N_any2"
    using sg d by (auto simp: number_step_def)
  have "number_loop st ty acc (t @ rest) =
      number_loop N_any2 Number_float (acc @ [CHR ''e'', sg, d]) (w @ rest)"
    by (simp add: t e s number_type_in_def)
  also have "\<dots> = number_loop N_any2 Number_float (acc @ t) rest"
    using number_loop_digits [OF w, of N_any2 Number_float "acc @ [CHR ''e'', sg, d]" rest] by (simp add: t)
  also have "\<dots> = Some (Number_float, acc @ t, rest)"
    by (rule number_loop_ends [OF assms(2)]) (simp add: number_default_def)
  finally show ?thesis using False by simp
qed

lemma number_loop_float:
  assumes "fraction_text f" "exponent_text e" "f \<noteq> [] \<or> e \<noteq> []" "ends rest" "st \<in> {N_zero, N_any1}"
  shows "number_loop st ty acc ((f @ e) @ rest) = Some (Number_float, acc @ (f @ e), rest)"
proof (cases "f = []")
  case True
  then show ?thesis using number_loop_exponent [OF assms(2,4), of st ty acc] assms(3,5) by auto
next
  case False
  then obtain d w where f: "f = CHR ''.'' # d # w" and d: "is_digit d" and w: "list_all is_digit w"
    using assms(1) by (auto simp: fraction_text_def)
  have p: "number_step st CHR ''.'' = Go N_decimal1" "number_step N_decimal1 d = Go N_decimal2"
    using assms(5) d by (auto simp: number_step_def is_digit_def code_of_def)
  have "number_loop st ty acc ((f @ e) @ rest) =
      number_loop N_decimal2 Number_float (acc @ [CHR ''.'', d]) (w @ e @ rest)"
    by (simp add: f p number_type_in_def)
  also have "\<dots> = number_loop N_decimal2 Number_float (acc @ f) (e @ rest)"
    using number_loop_digits [OF w, of N_decimal2 Number_float "acc @ [CHR ''.'', d]" "e @ rest"] by (simp add: f)
  also have "\<dots> = Some (Number_float, (acc @ f) @ e, rest)"
    using number_loop_exponent [OF assms(2,4), of N_decimal2 Number_float "acc @ f"] by simp
  finally show ?thesis by simp
qed

lemma reads_float_text:
  assumes "whole_text t" "fraction_text f" "exponent_text e" "f \<noteq> [] \<or> e \<noteq> []"
    and "dbl_finite (strtod ((if neg then ''-'' else []) @ t @ f @ e))"
  shows "reads ((if neg then ''-'' else []) @ t @ f @ e) (J_float (strtod ((if neg then ''-'' else []) @ t @ f @ e)))"
  using assms(5)
  by (intro reads_number [OF assms(1), where f = "\<lambda>_. Number_float" and u = "f @ e"]
      number_loop_float [OF assms(2-4)]) (simp_all add: parse_from.simps convert_number_def)

text \<open>What \<open>%.15g\<close> writes.\<close>

definition general_text :: "string \<Rightarrow> bool" where
  "general_text t \<longleftrightarrow> (\<exists>w f e. t = w @ f @ e \<and> whole_text w \<and> fraction_text f \<and> exponent_text e)"

lemma strip_zeros_digits: "list_all is_digit t \<Longrightarrow> list_all is_digit (strip_zeros t)"
  by (auto simp: strip_zeros_def list_all_iff dest!: set_dropWhileD)

lemma with_fraction_text:
  assumes "whole_text w" "list_all is_digit t"
  shows "\<exists>f. with_fraction w t = w @ f \<and> fraction_text f"
  using strip_zeros_digits [OF assms(2)]
  by (cases "strip_zeros t") (auto simp: with_fraction_def fraction_text_def Let_def)

lemma whole_text_take: "whole_text t \<Longrightarrow> whole_text (take (Suc k) t)"
  using set_take_subset by (fastforce simp: whole_text_def list_all_iff)

lemma whole_text_digits: "whole_text t \<Longrightarrow> list_all is_digit t"
  by (auto simp: whole_text_def)

lemma exponent_text_show:
  "exponent_text (''e'' @ (if neg then ''-'' else ''+'') @
     (let x = show_nat k in if size x < 2 then ''0'' @ x else x))"
proof -
  obtain d w where x: "show_nat k = d # w" "is_digit d" "list_all is_digit w"
    using whole_text_show_nat [of k] by (auto simp: whole_text_def)
  have "is_digit CHR ''0''" by (simp add: is_digit_def code_of_def)
  with x show ?thesis by (auto simp: exponent_text_def Let_def)
qed

lemma general_text_format: "general_text (format_g15 n d)"
proof -
  let ?zeros = "\<lambda>k. replicate k CHR ''0''"
  have zeros: "list_all is_digit (?zeros k)" for k
    by (simp add: list_all_iff is_digit_def code_of_def)
  have zero: "whole_text ''0''" by (simp add: whole_text_def is_digit_def code_of_def)
  have none: "exponent_text []" by (simp add: exponent_text_def)
  have no_exp: "general_text (with_fraction w t)" if "whole_text w" "list_all is_digit t" for w t
    using with_fraction_text [OF that] that(1) none unfolding general_text_def by (metis append_Nil2)
  define m where "m = (if round_even (n * 10 ^ nat (14 - decimal_exponent n d)) (d * 10 ^ nat (decimal_exponent n d - 14)) = 10 ^ 15
      then 10 ^ 14 else round_even (n * 10 ^ nat (14 - decimal_exponent n d)) (d * 10 ^ nat (decimal_exponent n d - 14)))"
  define e where "e = (if round_even (n * 10 ^ nat (14 - decimal_exponent n d)) (d * 10 ^ nat (decimal_exponent n d - 14)) = 10 ^ 15
      then decimal_exponent n d + 1 else decimal_exponent n d)"
  have ds: "whole_text (show_nat m)" "list_all is_digit (show_nat m)"
    using whole_text_show_nat [of m] show_nat_all_digits by auto
  have fmt: "format_g15 n d =
     (if -4 \<le> e \<and> e < 0 then with_fraction ''0'' (?zeros (nat (- e - 1)) @ show_nat m)
      else if 0 \<le> e \<and> e < 15 then with_fraction (take (Suc (nat e)) (show_nat m)) (drop (nat e + 1) (show_nat m))
      else with_fraction (take 1 (show_nat m)) (drop 1 (show_nat m)) @ ''e'' @ (if e < 0 then ''-'' else ''+'') @
           (let x = show_nat (nat \<bar>e\<bar>) in if size x < 2 then ''0'' @ x else x))"
    by (simp only: format_g15_def Let_def flip: m_def e_def) simp
  have dropped: "list_all is_digit (drop k (show_nat m))" for k
    using ds(2) by (auto simp: list_all_iff dest: in_set_dropD)
  have "general_text (with_fraction (take 1 (show_nat m)) (drop 1 (show_nat m)) @ ''e'' @
      (if e < 0 then ''-'' else ''+'') @ (let x = show_nat (nat \<bar>e\<bar>) in if size x < 2 then ''0'' @ x else x))"
    using with_fraction_text [OF whole_text_take [OF ds(1), of 0] dropped [of 1]]
      exponent_text_show [of "e < 0" "nat \<bar>e\<bar>"] whole_text_take [OF ds(1), of 0]
    unfolding general_text_def by (metis One_nat_def append.assoc)
  moreover have "general_text (with_fraction ''0'' (?zeros (nat (- e - 1)) @ show_nat m))"
    using no_exp [OF zero] zeros ds(2) by simp
  moreover have "general_text (with_fraction (take (Suc (nat e)) (show_nat m)) (drop (nat e + 1) (show_nat m)))"
    by (rule no_exp [OF whole_text_take [OF ds(1)] dropped])
  ultimately show ?thesis unfolding fmt by (simp split del: if_split) (simp split: if_split)
qed

lemma general_text_double:
  "\<exists>neg w f e. format_double x = (if neg then ''-'' else []) @ w @ f @ e \<and>
     whole_text w \<and> fraction_text f \<and> exponent_text e"
proof -
  obtain n d where "format_double x = (if dbl_neg x then ''-'' else []) @ format_g15 n d"
    by (cases "dbl_mag x div 2 ^ 52 = 0") (auto simp: format_double_def Let_def)
  moreover obtain w f e where "format_g15 n d = w @ f @ e" "whole_text w" "fraction_text f" "exponent_text e"
    using general_text_format [of n d] by (auto simp: general_text_def)
  ultimately show ?thesis by (intro exI [of _ "dbl_neg x"] exI [of _ w] exI [of _ f] exI [of _ e]) simp
qed

lemma digits_plain: "list_all is_digit t \<Longrightarrow> CHR ''.'' \<notin> set t \<and> CHR ''e'' \<notin> set t"
  by (auto simp: list_all_iff is_digit_def code_of_def)

lemma point_zero: "fraction_text ''.0''"
  by (simp add: fraction_text_def is_digit_def code_of_def)

lemma dump_float_text:
  assumes "dbl_finite x"
  shows "\<exists>neg w f e. dump_float x = (if neg then ''-'' else []) @ w @ f @ e \<and>
     whole_text w \<and> fraction_text f \<and> exponent_text e \<and> (f \<noteq> [] \<or> e \<noteq> [])"
proof (cases "dbl_mag x = 0")
  case True
  have "whole_text ''0''" "exponent_text []"
    by (simp_all add: whole_text_def is_digit_def code_of_def exponent_text_def)
  with True assms point_zero show ?thesis
    by (intro exI [of _ "dbl_neg x"] exI [of _ "''0''"] exI [of _ "''.0''"] exI [of _ "[]"]) (simp add: dump_float_def)
next
  case False
  obtain neg w f e where t: "format_double x = (if neg then ''-'' else []) @ w @ f @ e"
    and w: "whole_text w" and f: "fraction_text f" and e: "exponent_text e"
    using general_text_double [of x] by blast
  show ?thesis
  proof (cases "f = [] \<and> e = []")
    case True
    then have "CHR ''.'' \<notin> set (format_double x) \<and> CHR ''e'' \<notin> set (format_double x)"
      using digits_plain [OF whole_text_digits [OF w]] by (simp add: t)
    then have "dump_float x = (if neg then ''-'' else []) @ w @ ''.0'' @ []"
      using assms False True by (simp add: dump_float_def t)
    then show ?thesis using w point_zero e True by blast
  next
    case False
    then have "CHR ''.'' \<in> set (f @ e) \<or> CHR ''e'' \<in> set (f @ e)"
      using f e by (auto simp: fraction_text_def exponent_text_def)
    then have "dump_float x = (if neg then ''-'' else []) @ w @ f @ e"
      using assms \<open>dbl_mag x \<noteq> 0\<close> by (auto simp: dump_float_def t)
    then show ?thesis using w f e False by blast
  qed
qed

lemma reads_literal:
  assumes "\<And>rest. scan_token c (w @ rest) = (t, rest)" "\<not> is_space c" "t \<noteq> T_end_array"
    and "\<And>s. parse_from (P_value t) s = Some (Ret (j, s))"
  shows "reads (c # w) j"
  using assms by (intro readsI [of _ c w]) auto

lemma reads_null: "reads ''null'' J_null"
  by (rule reads_literal [where t = T_null])
     (simp_all add: scan_token_def scan_literal_def is_space_def parse_from.simps is_digit_def code_of_def)

lemma reads_true: "reads ''true'' (J_boolean True)"
  by (rule reads_literal [where t = T_true])
     (simp_all add: scan_token_def scan_literal_def is_space_def parse_from.simps)

lemma reads_false: "reads ''false'' (J_boolean False)"
  by (rule reads_literal [where t = T_false])
     (simp_all add: scan_token_def scan_literal_def is_space_def parse_from.simps)

lemma reads_float:
  assumes "json_writable (J_float x)"
  shows "reads (json_dump step cur (J_float x)) (json_norm (J_float x))"
proof (cases "dbl_finite x")
  case True
  obtain neg w f e where t: "dump_float x = (if neg then ''-'' else []) @ w @ f @ e"
    and parts: "whole_text w" "fraction_text f" "exponent_text e" "f \<noteq> [] \<or> e \<noteq> []"
    using dump_float_text [OF True] by blast
  have "dbl_finite (strtod (dump_float x))" using assms True by simp
  then show ?thesis
    using reads_float_text [OF parts, of neg] True unfolding t by (simp add: t)
qed (simp add: dump_float_def reads_null)

subsection \<open>Arrays and objects\<close>

lemma scan_punctuation:
  "scan (CHR '','' # s) = (T_value_separator, s)" "scan (CHR '']'' # s) = (T_end_array, s)"
  "scan (CHR ''}'' # s) = (T_end_object, s)" "scan (CHR '':'' # s) = (T_name_separator, s)"
  by (simp_all add: scan_def is_space_def scan_token_def)

lemma scan_punctuation_spaced:
  "list_all is_space sp \<Longrightarrow> scan (sp @ CHR '']'' # s) = (T_end_array, s)"
  "list_all is_space sp \<Longrightarrow> scan (sp @ CHR ''}'' # s) = (T_end_object, s)"
  by (simp_all add: scan_spaces scan_punctuation)

text \<open>Closing white space: none, or a line feed and an indentation.\<close>

definition closing :: "string \<Rightarrow> bool" where
  "closing w \<longleftrightarrow> list_all is_space w \<and> (w = [] \<or> hd w = CHR 0x0A)"

lemma closing_ends:
  "closing w \<Longrightarrow> c \<in> {CHR '']'', CHR ''}''} \<Longrightarrow> ends (w @ c # rest)"
  by (cases w) (auto simp: closing_def ends_def)

lemma ends_comma: "ends (CHR '','' # s)"
  by (simp add: ends_def)

lemma parse_elements_reads:
  assumes "list_all2 reads texts js" "texts \<noteq> []" "list_all is_space w" "closing v" "list_all is_space sp"
  shows "\<exists>t s. scan (sp @ separated (CHR '','' # w) texts @ v @ CHR '']'' # rest) = (t, s) \<and> t \<noteq> T_end_array \<and>
               parse_from (P_elements acc t) s = Some (Ret (J_array (acc @ js), rest))"
  using assms(1,2,5)
proof (induction texts arbitrary: js acc sp)
  case (Cons x texts)
  obtain j js' where js: "js = j # js'" and x: "reads x j" and xs: "list_all2 reads texts js'"
    using Cons.prems(1) by (auto simp: list_all2_Cons1)
  show ?case
  proof (cases texts)
    case Nil
    obtain t s where "scan (sp @ x @ v @ CHR '']'' # rest) = (t, s)" "t \<noteq> T_end_array"
      "parse_from (P_value t) s = Some (Ret (j, v @ CHR '']'' # rest))"
      using x closing_ends [OF assms(4), of "CHR '']''" rest] Cons.prems(3) unfolding reads_def by blast
    moreover have "list_all is_space v" using assms(4) by (simp add: closing_def)
    ultimately show ?thesis
      using xs by (simp add: Nil js parse_from.simps [of "P_elements _ _"] scan_punctuation_spaced)
  next
    case (Cons y ys)
    let ?more = "w @ separated (CHR '','' # w) texts @ v @ CHR '']'' # rest"
    obtain t s where t: "scan (sp @ x @ CHR '','' # ?more) = (t, s)" "t \<noteq> T_end_array"
      "parse_from (P_value t) s = Some (Ret (j, CHR '','' # ?more))"
      using x ends_comma Cons.prems(3) unfolding reads_def by blast
    obtain t' s' where t': "scan ?more = (t', s')" "t' \<noteq> T_end_array"
      "parse_from (P_elements (acc @ [j]) t') s' = Some (Ret (J_array ((acc @ [j]) @ js'), rest))"
      using Cons.IH [OF xs _ assms(3), of "acc @ [j]"] Cons by blast
    have "parse_from (P_elements acc t) s = Some (Ret (J_array (acc @ js), rest))"
      by (subst parse_from.simps) (simp add: t(3) scan_punctuation t'(1,3) js)
    with t show ?thesis by (simp add: Cons)
  qed
qed simp

lemma smap_put_last: "smap_sorted key_less (m @ [(k, v)]) \<Longrightarrow> smap_put key_less k v' m = m @ [(k, v')]"
  by (induction m) (auto simp: smap_sorted_def sorted_wrt_append)

definition member_text :: "string \<Rightarrow> string \<Rightarrow> string \<Rightarrow> string" where
  "member_text sp k text = [CHR 0x22] @ dump_escaped k @ [CHR 0x22, CHR '':''] @ sp @ text"

lemma scan_member:
  assumes "utf8_ok k" "list_all is_space sp"
  shows "scan (sp @ member_text sp' k x @ rest) = (T_string k, CHR '':'' # sp' @ x @ rest)"
  using assms by (simp add: scan_spaces member_text_def scan_char scan_quoted)

lemma parse_members_reads:
  assumes "list_all (\<lambda>(k, x, j). utf8_ok k \<and> reads x j) ms" "ms \<noteq> []"
    and "smap_sorted key_less (acc @ map (\<lambda>(k, x, j). (k, j)) ms)"
    and sp: "list_all is_space w" "closing v" "list_all is_space sp" "list_all is_space sp'"
  shows "\<exists>k s. scan (sp @ separated (CHR '','' # w) (map (\<lambda>(k, x, j). member_text sp' k x) ms) @ v @ CHR ''}'' # rest) =
           (T_string k, s) \<and>
         parse_from (P_members acc (T_string k)) s = Some (Ret (J_object (acc @ map (\<lambda>(k, x, j). (k, j)) ms), rest))"
  using assms(1-3) sp(3)
proof (induction ms arbitrary: acc sp)
  case (Cons e ms)
  obtain k x j where e: "e = (k, x, j)" by (cases e)
  have k: "utf8_ok k" and x: "reads x j" using Cons.prems(1) by (simp_all add: e)
  have put: "smap_put key_less k j acc = acc @ [(k, j)]"
    using Cons.prems(3) by (intro smap_put_last [of _ _ j]) (simp add: e smap_sorted_def sorted_wrt_append)
  show ?case
  proof (cases ms)
    case Nil
    let ?tail = "v @ CHR ''}'' # rest"
    obtain t s where t: "scan (sp' @ x @ ?tail) = (t, s)"
      "parse_from (P_value t) s = Some (Ret (j, ?tail))"
      using x closing_ends [OF sp(2), of "CHR ''}''" rest] sp(4) unfolding reads_def by blast
    have "list_all is_space v" using sp(2) by (simp add: closing_def)
    then have "parse_from (P_members acc (T_string k)) (CHR '':'' # sp' @ x @ ?tail) =
        Some (Ret (J_object (acc @ [(k, j)]), rest))"
      by (subst parse_from.simps) (simp add: scan_punctuation t scan_punctuation_spaced put)
    then show ?thesis
      using scan_member [OF k Cons.prems(4), of sp' x ?tail] by (simp add: Nil e)
  next
    case (Cons e' ms')
    let ?more = "w @ separated (CHR '','' # w) (map (\<lambda>(k, x, j). member_text sp' k x) ms) @ v @ CHR ''}'' # rest"
    obtain t s where t: "scan (sp' @ x @ CHR '','' # ?more) = (t, s)"
      "parse_from (P_value t) s = Some (Ret (j, CHR '','' # ?more))"
      using x ends_comma sp(4) unfolding reads_def by blast
    have "list_all (\<lambda>(k, x, j). utf8_ok k \<and> reads x j) ms" "ms \<noteq> []"
      "smap_sorted key_less ((acc @ [(k, j)]) @ map (\<lambda>(k, x, j). (k, j)) ms)"
      using Cons.prems(1,3) Cons by (simp_all add: e)
    from Cons.IH [OF this sp(1)] obtain k' s' where k': "scan ?more = (T_string k', s')"
      "parse_from (P_members (acc @ [(k, j)]) (T_string k')) s' =
        Some (Ret (J_object ((acc @ [(k, j)]) @ map (\<lambda>(k, x, j). (k, j)) ms), rest))"
      by blast
    have "parse_from (P_members acc (T_string k)) (CHR '':'' # sp' @ x @ CHR '','' # ?more) =
        Some (Ret (J_object (acc @ (k, j) # map (\<lambda>(k, x, j). (k, j)) ms), rest))"
      by (subst parse_from.simps) (simp add: scan_punctuation t k' put)
    then show ?thesis
      using scan_member [OF k Cons.prems(4), of sp' x "CHR '','' # ?more"] by (simp add: Cons e)
  qed
qed simp

subsection \<open>Documents\<close>


lemma indent_spaces: "list_all is_space (indent n)"
  by (simp add: indent_def list_all_iff is_space_def)

lemma newline_indent_spaces: "list_all is_space (CHR 0x0A # indent n)"
  using indent_spaces [of n] by (simp add: is_space_def)

text \<open>White space between the parts of a block, for both ways of printing.\<close>

definition block_space :: "nat option \<Rightarrow> nat \<Rightarrow> string" where
  "block_space step cur = (case step of None \<Rightarrow> [] | Some n \<Rightarrow> CHR 0x0A # indent (cur + n))"

definition block_end :: "nat option \<Rightarrow> nat \<Rightarrow> string" where
  "block_end step cur = (case step of None \<Rightarrow> [] | Some n \<Rightarrow> CHR 0x0A # indent cur)"

lemma block_spaces: "list_all is_space (block_space step cur)" "closing (block_end step cur)"
  using indent_spaces newline_indent_spaces
  by (simp_all add: block_space_def block_end_def closing_def split: option.splits)

lemma dump_block_eq:
  "xs \<noteq> [] \<Longrightarrow> dump_block l r step cur xs =
     [l] @ block_space step cur @ separated (CHR '','' # block_space step cur) xs @ block_end step cur @ [r]"
  by (simp add: dump_block_def block_space_def block_end_def split: option.splits)

lemma reads_array:
  assumes "list_all2 reads texts js"
  shows "reads (dump_block CHR ''['' CHR '']'' step cur texts) (J_array js)"
proof (cases "texts = []")
  case True
  then have "js = []" using assms by simp
  with True show ?thesis
    by (intro readsI [of _ "CHR ''[''" "'']''"])
       (simp_all add: dump_block_def scan_token_def is_space_def parse_from.simps [of "P_value _"] scan_punctuation)
next
  case False
  let ?inner = "\<lambda>rest. block_space step cur @ separated (CHR '','' # block_space step cur) texts @
      block_end step cur @ CHR '']'' # rest"
  show ?thesis
  proof (rule readsI [where c = "CHR ''[''" and w = "?inner []"])
    fix rest assume "ends rest"
    obtain t s where "scan (?inner rest) = (t, s)" "t \<noteq> T_end_array"
      "parse_from (P_elements [] t) s = Some (Ret (J_array js, rest))"
      using parse_elements_reads [OF assms False block_spaces(1,2) block_spaces(1), of step cur step cur step cur rest "[]"]
      by auto
    then have "scan_token CHR ''['' (?inner [] @ rest) = (T_begin_array, ?inner rest) \<and> T_begin_array \<noteq> T_end_array \<and>
        parse_from (P_value T_begin_array) (?inner rest) = Some (Ret (J_array js, rest))"
      by (simp add: scan_token_def parse_from.simps [of "P_value _"])
    then show "\<exists>t s. scan_token CHR ''['' (?inner [] @ rest) = (t, s) \<and> t \<noteq> T_end_array \<and>
        parse_from (P_value t) s = Some (Ret (J_array js, rest))" by blast
  qed (simp_all add: dump_block_eq [OF False] is_space_def)
qed

lemma reads_object:
  assumes "list_all (\<lambda>(k, x, j). utf8_ok k \<and> reads x j) ms"
    and "smap_sorted key_less (map (\<lambda>(k, x, j). (k, j)) ms)" and sp: "list_all is_space sp"
  shows "reads (dump_block CHR ''{'' CHR ''}'' step cur (map (\<lambda>(k, x, j). member_text sp k x) ms))
           (J_object (map (\<lambda>(k, x, j). (k, j)) ms))"
proof (cases "ms = []")
  case True
  then show ?thesis
    by (intro readsI [of _ "CHR ''{''" "''}''"])
       (simp_all add: dump_block_def scan_token_def is_space_def parse_from.simps [of "P_value _"] scan_punctuation)
next
  case False
  let ?texts = "map (\<lambda>(k, x, j). member_text sp k x) ms"
  let ?inner = "\<lambda>rest. block_space step cur @ separated (CHR '','' # block_space step cur) ?texts @
      block_end step cur @ CHR ''}'' # rest"
  show ?thesis
  proof (rule readsI [where c = "CHR ''{''" and w = "?inner []"])
    fix rest assume "ends rest"
    obtain k s where "scan (?inner rest) = (T_string k, s)"
      "parse_from (P_members [] (T_string k)) s = Some (Ret (J_object (map (\<lambda>(k, x, j). (k, j)) ms), rest))"
      using parse_members_reads [OF assms(1) False, of "[]" "block_space step cur" "block_end step cur"
          "block_space step cur" sp rest] assms(2) block_spaces sp by auto
    then have "scan_token CHR ''{'' (?inner [] @ rest) = (T_begin_object, ?inner rest) \<and> T_begin_object \<noteq> T_end_array \<and>
        parse_from (P_value T_begin_object) (?inner rest) = Some (Ret (J_object (map (\<lambda>(k, x, j). (k, j)) ms), rest))"
      by (simp add: scan_token_def parse_from.simps [of "P_value _"])
    then show "\<exists>t s. scan_token CHR ''{'' (?inner [] @ rest) = (t, s) \<and> t \<noteq> T_end_array \<and>
        parse_from (P_value t) s = Some (Ret (J_object (map (\<lambda>(k, x, j). (k, j)) ms), rest))" by blast
  qed (simp_all add: dump_block_eq False is_space_def)
qed

lemma smap_sorted_map_snd: "smap_sorted lt (map (\<lambda>(k, v). (k, f v)) m) = smap_sorted lt m"
  by (simp add: smap_sorted_def sorted_wrt_map case_prod_unfold)

lemma reads_dump: "json_writable j \<Longrightarrow> reads (json_dump step cur j) (json_norm j)"
proof (induction j arbitrary: cur)
  case (J_array xs)
  let ?cur = "case step of None \<Rightarrow> cur | Some n \<Rightarrow> cur + n"
  have "list_all2 reads (map (json_dump step ?cur) xs) (map json_norm xs)"
    using J_array by (auto simp: list_all2_conv_all_nth list_all_length)
  then show ?case using reads_array [of _ _ step cur] by simp
next
  case (J_object m)
  let ?cur = "case step of None \<Rightarrow> cur | Some n \<Rightarrow> cur + n"
  let ?sp = "if step = None then [] else '' ''"
  let ?ms = "map (\<lambda>(k, v). (k, json_dump step ?cur v, json_norm v)) m"
  have "list_all (\<lambda>(k, x, j). utf8_ok k \<and> reads x j) ?ms"
    using J_object by (fastforce simp: list_all_iff)
  moreover have "smap_sorted key_less (map (\<lambda>(k, x, j). (k, j)) ?ms)"
    using J_object.prems by (simp add: comp_def case_prod_unfold smap_sorted_map_snd [unfolded case_prod_unfold])
  moreover have "list_all is_space ?sp" by (simp add: is_space_def)
  ultimately have "reads (dump_block CHR ''{'' CHR ''}'' step cur (map (\<lambda>(k, x, j). member_text ?sp k x) ?ms))
      (J_object (map (\<lambda>(k, x, j). (k, j)) ?ms))"
    by (rule reads_object)
  then show ?case by (simp add: member_text_def comp_def case_prod_unfold)
next
  case (J_boolean b)
  then show ?case using reads_true reads_false by simp
next
  case (J_integer w)
  then show ?case using reads_integer by blast
next
  case (J_unsigned w)
  then show ?case using reads_unsigned by simp
next
  case (J_float x)
  then show ?case using reads_float by blast
next
  case (J_string s)
  then show ?case using reads_string by simp
next
  case J_null
  then show ?case using reads_null by simp
qed

text \<open>Documents whose numbers survive fifteen digits are equal to what is read back.\<close>

fun json_exact :: "json \<Rightarrow> bool" where
  "json_exact (J_float x) = (dbl_finite x \<and> strtod (dump_float x) = x)"
| "json_exact (J_array xs) = list_all json_exact xs"
| "json_exact (J_object m) = list_all (\<lambda>(k, v). json_exact v) m"
| "json_exact j = True"

lemma dbl_finite_not_nan: "dbl_finite x \<Longrightarrow> \<not> dbl_nan x"
  by (simp add: dbl_finite_def dbl_nan_def)

lemma json_norm_eq: "json_exact j \<Longrightarrow> json_eq j (json_norm j)"
proof (induction j)
  case (J_array xs)
  then show ?case by (auto simp: list_all2_conv_all_nth list_all_length)
next
  case (J_object m)
  have "json_eq (snd e) (json_norm (snd e))" if "e \<in> set m" for e
    using J_object that by (cases e) (fastforce simp: list_all_iff)
  then show ?case by (auto simp: list_all2_conv_all_nth case_prod_unfold)
qed (auto simp: dbl_eq_refl_iff dbl_finite_not_nan)

lemma parse_from_error: "parse_from (P_value T_parse_error) s = parse_failed"
  by (simp add: parse_from.simps)

lemma dump_no_mark: "reads text j \<Longrightarrow> skip_byte_order_mark text = text"
proof (rule ccontr)
  assume reads: "reads text j" and "skip_byte_order_mark text \<noteq> text"
  then obtain s where "text = CHR 0xEF # s" by (auto simp: skip_byte_order_mark_def prefix_def split: if_splits)
  then have "scan ([] @ text @ []) = (T_parse_error, s)"
    by (simp add: scan_def is_space_def scan_token_def is_digit_def code_of_def)
  moreover have "list_all is_space []" "ends []" by (simp_all add: ends_def)
  ultimately show False
    using reads unfolding reads_def by (metis Pair_inject cpp.distinct(1) option.inject parse_from_error)
qed

lemma json_parse_dump:
  assumes "json_writable j"
  shows "json_parse (json_dump step 0 j) = Ret (json_norm j)"
proof -
  have reads: "reads (json_dump step 0 j) (json_norm j)" by (rule reads_dump [OF assms])
  have "list_all is_space []" "ends []" by (simp_all add: ends_def)
  with reads obtain t s where "scan ([] @ json_dump step 0 j @ []) = (t, s)"
    "parse_from (P_value t) s = Some (Ret (json_norm j, []))"
    unfolding reads_def by blast
  then show ?thesis
    by (simp add: json_parse_def json_parse_option_def dump_no_mark [OF reads] scan_def [of "[]"])
qed

text \<open>
  C24. Every document with valid UTF-8 texts and sorted members is read back from its text, printed
  on one line or indented: integers that are not negative come back as unsigned, numbers with
  fifteen digits, and the result is equal to the document when these digits determine its
  numbers.
\<close>

theorem json_text_round_trip:
  assumes "json_writable j"
  shows "json_parse (json_dump step 0 j) = Ret (json_norm j) \<and> (json_exact j \<longrightarrow> json_eq j (json_norm j))"
  using json_parse_dump [OF assms] json_norm_eq [of j] by blast

definition sample_document :: json where
  "sample_document =
     J_object [(''a'', J_array [J_integer (- 7), J_unsigned 300, J_null, J_float 0x3FD0000000000000]),
               (''b'', J_string [CHR 0x22, CHR 0x0A, CHR 0xC3, CHR 0xA9, CHR 0x01])]"

lemma quarter_format: "format_g15 (2 ^ 52) (2 ^ 54) = ''0.25''"
  by (simp add: format_g15_def printing_defs)

lemma quarter_text: "dump_float 0x3FD0000000000000 = ''0.25''"
  using quarter_format
  by (simp add: dump_float_def format_double_def dbl_finite_def dbl_mag_def dbl_neg_def Let_def)

lemma quarter_value: "strtod ''0.25'' = 0x3FD0000000000000"
proof -
  have digits: "is_digit CHR ''0''" "is_digit CHR ''2''" "is_digit CHR ''5''" "\<not> is_digit CHR ''.''"
    by (simp_all add: is_digit_def code_of_def)
  have "read_nat ''025'' = 25" by (simp add: read_nat_def)
  then have "strtod ''0.25'' = dbl_of_ratio False 25 100" by (simp add: strtod_def digits Let_def)
  also have "\<dots> = 0x3FD0000000000000" by (simp add: rounding_defs bitlen.simps)
  finally show ?thesis .
qed

theorem json_text_round_trip_witness:
  "json_parse (json_dump (Some 2) 0 sample_document) = Ret (json_norm sample_document) \<and>
   json_eq sample_document (json_norm sample_document)"
proof -
  have "utf8_ok [CHR 0x22, CHR 0x0A, CHR 0xC3, CHR 0xA9, CHR 0x01]"
    by (simp add: utf8_ok.simps code_of_def utf8_tail_def)
  moreover have "utf8_ok ''a''" "utf8_ok ''b''" by (simp_all add: utf8_ok.simps code_of_def)
  moreover have "smap_sorted key_less [(''a'', x), (''b'', y)]" for x y :: json
    by (simp add: smap_sorted_def char_less_def)
  ultimately have "json_writable sample_document" "json_exact sample_document"
    by (simp_all add: sample_document_def quarter_text quarter_value dbl_finite_def dbl_mag_def)
  with json_text_round_trip [of sample_document "Some 2"] show ?thesis by blast
qed

text \<open>A text that is not UTF-8 is written as it is and cannot be read back.\<close>

lemma invalid_text_unreadable:
  "json_parse (json_dump None 0 (J_string [CHR 0xFF])) = Throw Json_parse_error"
  by (simp add: json_parse_def json_parse_option_def skip_byte_order_mark_def dump_escaped_def escape_char_def
      code_of_def scan_def is_space_def scan_token_def scan_string_Cons utf8_tail_def parse_from.simps)

text \<open>Anything may follow a byte zero.\<close>

lemma zero_ends_input: "json_parse (''null'' @ CHR 0x00 # s) = Ret J_null"
  by (simp add: json_parse_def json_parse_option_def skip_byte_order_mark_def scan_def is_space_def
      scan_token_def scan_literal_def parse_from.simps is_digit_def code_of_def)

end
