(* ===== verification/Cli.thy ===== *)
theory Cli
  imports Text_Enum Json_Parser
begin

text \<open>
  The command-line library (src/airmap/util/cli.h and cli.cpp): tables, texts of limited length,
  the conversion of flags, and commands. The option parser is Boost.Program_options, a
  parameter that returns either an error or what it stores: the command, the values of the flags
  in the order they are notified, whether help was asked for, and the arguments it passes on.
\<close>

subsection \<open>Tables\<close>

text \<open>The iterator \<open>current_column_\<close> is the index of the column it stands at.\<close>

record tab_writer =
  tw_fill :: char
  tw_separator :: char
  tw_widths :: "nat list"
  tw_current :: nat
  tw_table :: "string list list"

definition new_tab_writer :: tab_writer where
  "new_tab_writer =
     \<lparr>tw_fill = CHR '' '', tw_separator = CHR '' '', tw_widths = [], tw_current = 0, tw_table = [[]]\<rparr>"

definition tab_fill_with :: "char \<Rightarrow> tab_writer \<Rightarrow> tab_writer" where
  "tab_fill_with c w = w\<lparr>tw_fill := c\<rparr>"

definition tab_separate_columns_with :: "char \<Rightarrow> tab_writer \<Rightarrow> tab_writer" where
  "tab_separate_columns_with c w = w\<lparr>tw_separator := c\<rparr>"

definition tab_write :: "string \<Rightarrow> tab_writer \<Rightarrow> tab_writer cpp" where
  "tab_write cell w =
     (let w1 = (if tw_current w = length (tw_widths w)
                then w\<lparr>tw_widths := tw_widths w @ [0], tw_current := length (tw_widths w)\<rparr> else w)
      in if length (tw_widths w1) \<le> tw_current w1 \<or> tw_table w1 = [] then UB
         else Ret (w1\<lparr>tw_widths := (tw_widths w1)[tw_current w1 := max (tw_widths w1 ! tw_current w1) (length cell)],
                      tw_table := butlast (tw_table w1) @ [last (tw_table w1) @ [cell]],
                      tw_current := Suc (tw_current w1)\<rparr>))"

definition tab_new_line :: "tab_writer \<Rightarrow> tab_writer" where
  "tab_new_line w = w\<lparr>tw_table := tw_table w @ [[]], tw_current := 0\<rparr>"

definition tab_write_bool :: "bool \<Rightarrow> tab_writer \<Rightarrow> tab_writer cpp" where
  "tab_write_bool b = tab_write (if b then ''true'' else ''false'')"

text \<open>\<open>out << std::left << std::setw(n) << std::setfill(c) << s\<close>.\<close>

definition pad :: "char \<Rightarrow> nat \<Rightarrow> string \<Rightarrow> string" where
  "pad c n s = s @ replicate (n - length s) c"

fun tab_row :: "char \<Rightarrow> char \<Rightarrow> nat list \<Rightarrow> nat \<Rightarrow> string list \<Rightarrow> string cpp" where
  "tab_row fill sep widths i [] = Ret []"
| "tab_row fill sep widths i (cell # cells) =
     (if i < length widths
      then cbind (tab_row fill sep widths (Suc i) cells) (\<lambda>t.
             Ret ((if i = 0 then [] else [sep]) @ pad fill (widths ! i) cell @ t))
      else UB)"

fun tab_rows :: "tab_writer \<Rightarrow> bool \<Rightarrow> string list list \<Rightarrow> string cpp" where
  "tab_rows w first [] = Ret []"
| "tab_rows w first (row # rows) =
     cbind (tab_row (tw_fill w) (tw_separator w) (tw_widths w) 0 row) (\<lambda>t.
     cbind (tab_rows w False rows) (\<lambda>ts. Ret ((if first then [] else [CHR 0x0A]) @ t @ ts)))"

definition tab_flush :: "tab_writer \<Rightarrow> string cpp" where
  "tab_flush w = tab_rows w True (tw_table w)"

text \<open>What the writer promises: rows of cells, every column as wide as its widest cell.\<close>

datatype tab_op = Tab_cell string | Tab_new_line

fun tab_run :: "tab_op list \<Rightarrow> tab_writer \<Rightarrow> tab_writer cpp" where
  "tab_run [] w = Ret w"
| "tab_run (Tab_cell c # ops) w = cbind (tab_write c w) (tab_run ops)"
| "tab_run (Tab_new_line # ops) w = tab_run ops (tab_new_line w)"

fun rows_of :: "tab_op list \<Rightarrow> string list list \<Rightarrow> string list list" where
  "rows_of [] rows = rows"
| "rows_of (Tab_cell c # ops) rows = rows_of ops (butlast rows @ [last rows @ [c]])"
| "rows_of (Tab_new_line # ops) rows = rows_of ops (rows @ [[]])"

definition column_width :: "string list list \<Rightarrow> nat \<Rightarrow> nat" where
  "column_width rows i = Max (insert 0 ((\<lambda>row. length (row ! i)) ` {row \<in> set rows. i < length row}))"

definition table_text :: "char \<Rightarrow> char \<Rightarrow> string list list \<Rightarrow> string" where
  "table_text fill sep rows =
     separated [CHR 0x0A]
       (map (\<lambda>row. separated [sep] (map (\<lambda>i. pad fill (column_width rows i) (row ! i)) [0..<length row])) rows)"

subsection \<open>The writer does what it promises\<close>

definition tab_ok :: "tab_writer \<Rightarrow> bool" where
  "tab_ok w \<longleftrightarrow>
     tw_table w \<noteq> [] \<and> tw_current w = length (last (tw_table w)) \<and>
     (\<forall>row \<in> set (tw_table w). length row \<le> length (tw_widths w)) \<and>
     (\<forall>i < length (tw_widths w). tw_widths w ! i = column_width (tw_table w) i)"

lemma tab_ok_initial: "tab_ok new_tab_writer"
  by (simp add: tab_ok_def new_tab_writer_def)

lemma column_width_new_line: "column_width (rows @ [[]]) i = column_width rows i"
proof -
  have "{row \<in> set (rows @ [[]]). i < length row} = {row \<in> set rows. i < length row}" by auto
  then show ?thesis by (simp add: column_width_def)
qed

lemma tab_ok_new_line: "tab_ok w \<Longrightarrow> tab_ok (tab_new_line w)"
  by (auto simp: tab_ok_def tab_new_line_def column_width_new_line)

text \<open>A cell at the end of the last row changes the width of its own column only.\<close>

lemma column_width_cell:
  "column_width (rs @ [row @ [c]]) i =
     (if i = length row then max (column_width (rs @ [row]) i) (length c) else column_width (rs @ [row]) i)"
proof -
  let ?S = "\<lambda>rows. (\<lambda>row. length (row ! i)) ` {row \<in> set rows. i < length row}"
  have fin: "finite (?S rows)" for rows :: "string list list" by simp
  have split: "?S (rs @ [r]) = ?S rs \<union> (if i < length r then {length (r ! i)} else {})" for r
    by auto
  consider "i < length row" | "i = length row" | "length row < i" by linarith
  then show ?thesis
  proof cases
    case 1
    then show ?thesis unfolding column_width_def split by (simp add: nth_append)
  next
    case 2
    then have "?S (rs @ [row @ [c]]) = insert (length c) (?S rs)" "?S (rs @ [row]) = ?S rs"
      unfolding split by simp_all
    then have "Max (insert 0 (?S (rs @ [row @ [c]]))) = max (length c) (Max (insert 0 (?S rs)))"
      "Max (insert 0 (?S (rs @ [row]))) = Max (insert 0 (?S rs))"
      using fin [of rs] by (simp_all only: insert_commute [of 0] Max_insert finite_insert insert_not_empty simp_thms)
    with 2 show ?thesis by (simp only: column_width_def max.commute if_True simp_thms)
  next
    case 3
    then show ?thesis unfolding column_width_def split by simp
  qed
qed

lemma tab_write_ok:
  assumes "tab_ok w"
  shows "\<exists>w'. tab_write c w = Ret w' \<and> tab_ok w' \<and>
     tw_table w' = butlast (tw_table w) @ [last (tw_table w) @ [c]] \<and>
     tw_fill w' = tw_fill w \<and> tw_separator w' = tw_separator w"
proof -
  obtain rs row where t: "tw_table w = rs @ [row]"
    using assms unfolding tab_ok_def by (metis append_butlast_last_id)
  have cur: "tw_current w = length row"
    and rows: "\<forall>r \<in> set rs. length r \<le> length (tw_widths w)" "length row \<le> length (tw_widths w)"
    and width: "\<And>i. i < length (tw_widths w) \<Longrightarrow> tw_widths w ! i = column_width (rs @ [row]) i"
    using assms by (simp_all add: tab_ok_def t)
  let ?ws = "if length row = length (tw_widths w) then tw_widths w @ [0] else tw_widths w"
  have len: "length row < length ?ws" using rows(2) by auto
  have none: "column_width (rs @ [row]) (length row) = 0" if "length row = length (tw_widths w)"
  proof -
    have "{r \<in> set (rs @ [row]). length row < length r} = {}" using rows that by auto
    then show ?thesis unfolding column_width_def by (simp only: image_empty Max_singleton)
  qed
  have ws: "?ws ! i = column_width (rs @ [row]) i" if "i < length ?ws" for i
    using that width [of i] none by (auto simp: nth_append less_Suc_eq)
  let ?w = "w\<lparr>tw_widths := ?ws[length row := max (?ws ! length row) (length c)],
      tw_table := rs @ [row @ [c]], tw_current := Suc (length row)\<rparr>"
  have "tab_write c w = Ret ?w"
    using len by (auto simp: tab_write_def t cur Let_def)
  moreover have "tab_ok ?w"
    using rows len ws by (auto simp: tab_ok_def column_width_cell nth_list_update)
  ultimately show ?thesis by (simp add: t)
qed

lemma tab_run_ok:
  assumes "tab_ok w"
  shows "\<exists>w'. tab_run ops w = Ret w' \<and> tab_ok w' \<and> tw_table w' = rows_of ops (tw_table w) \<and>
     tw_fill w' = tw_fill w \<and> tw_separator w' = tw_separator w"
  using assms
proof (induction ops arbitrary: w)
  case (Cons x ops)
  show ?case
  proof (cases x)
    case (Tab_cell c)
    obtain w1 where "tab_write c w = Ret w1" "tab_ok w1"
      "tw_table w1 = butlast (tw_table w) @ [last (tw_table w) @ [c]]"
      "tw_fill w1 = tw_fill w" "tw_separator w1 = tw_separator w"
      using tab_write_ok [OF Cons.prems, of c] by blast
    with Cons.IH [of w1] Tab_cell show ?thesis by simp
  next
    case Tab_new_line
    with Cons.IH [OF tab_ok_new_line [OF Cons.prems]] show ?thesis by (simp add: tab_new_line_def)
  qed
qed simp

lemma separated_Cons: "separated sep (x # xs) = x @ (if xs = [] then [] else sep @ separated sep xs)"
  by (cases xs) simp_all

lemma tab_row_text:
  assumes "i + length cells \<le> length widths"
  shows "tab_row fill sep widths i cells =
     Ret ((if i = 0 \<or> cells = [] then [] else [sep]) @
          separated [sep] (map (\<lambda>k. pad fill (widths ! (i + k)) (cells ! k)) [0..<length cells]))"
  using assms
proof (induction cells arbitrary: i)
  case (Cons c cells)
  have "map (\<lambda>k. pad fill (widths ! (i + k)) ((c # cells) ! k)) [0..<length (c # cells)] =
      pad fill (widths ! i) c # map (\<lambda>k. pad fill (widths ! (Suc i + k)) (cells ! k)) [0..<length cells]"
    by (simp add: map_upt_Suc del: upt_Suc)
  with Cons.IH [of "Suc i"] Cons.prems show ?case by (simp add: separated_Cons del: upt_Suc)
qed simp

lemma tab_rows_text:
  assumes "\<And>row. row \<in> set rows \<Longrightarrow> tab_row (tw_fill w) (tw_separator w) (tw_widths w) 0 row = Ret (f row)"
  shows "tab_rows w first rows = Ret ((if first \<or> rows = [] then [] else [CHR 0x0A]) @ separated [CHR 0x0A] (map f rows))"
  using assms
proof (induction rows arbitrary: first)
  case (Cons r rows)
  then have "tab_rows w False rows = Ret ((if rows = [] then [] else [CHR 0x0A]) @ separated [CHR 0x0A] (map f rows))"
    by simp
  with Cons.prems show ?case by (simp add: separated_Cons)
qed simp

lemma tab_flush_ok:
  assumes "tab_ok w"
  shows "tab_flush w = Ret (table_text (tw_fill w) (tw_separator w) (tw_table w))"
proof -
  have "tab_row (tw_fill w) (tw_separator w) (tw_widths w) 0 row =
      Ret (separated [tw_separator w]
        (map (\<lambda>i. pad (tw_fill w) (column_width (tw_table w) i) (row ! i)) [0..<length row]))"
    if "row \<in> set (tw_table w)" for row
  proof -
    have len: "length row \<le> length (tw_widths w)" using assms that by (simp add: tab_ok_def)
    then have "map (\<lambda>i. pad (tw_fill w) (tw_widths w ! i) (row ! i)) [0..<length row] =
        map (\<lambda>i. pad (tw_fill w) (column_width (tw_table w) i) (row ! i)) [0..<length row]"
      using assms by (intro map_cong) (auto simp: tab_ok_def)
    with tab_row_text [of 0 row "tw_widths w" "tw_fill w" "tw_separator w"] len show ?thesis by simp
  qed
  from tab_rows_text [OF this] show ?thesis by (simp add: tab_flush_def table_text_def)
qed

text \<open>
  C29. Whatever cells and lines are written, the writer stays well-formed, never reads a width
  that is not there, and prints the table with every cell padded to the widest of its column.
\<close>

theorem tab_writer_aligns:
  "\<exists>w. tab_run ops new_tab_writer = Ret w \<and> tab_ok w \<and>
     tab_flush (tab_separate_columns_with sep (tab_fill_with fill w)) =
       Ret (table_text fill sep (rows_of ops [[]])) \<and>
     (\<forall>row \<in> set (rows_of ops [[]]). \<forall>i \<in> {..<length row}.
        length (pad fill (column_width (rows_of ops [[]]) i) (row ! i)) = column_width (rows_of ops [[]]) i)"
proof -
  obtain w where w: "tab_run ops new_tab_writer = Ret w" "tab_ok w" "tw_table w = rows_of ops [[]]"
    using tab_run_ok [OF tab_ok_initial, of ops] by (auto simp: new_tab_writer_def)
  let ?w = "tab_separate_columns_with sep (tab_fill_with fill w)"
  have "tab_ok ?w" using w(2) by (simp add: tab_ok_def tab_separate_columns_with_def tab_fill_with_def)
  from tab_flush_ok [OF this]
  have flush: "tab_flush ?w = Ret (table_text fill sep (rows_of ops [[]]))"
    using w(3) by (simp add: tab_separate_columns_with_def tab_fill_with_def)
  have "length (row ! i) \<le> column_width rows i" if "row \<in> set rows" "i < length row" for rows row i
    using that by (auto simp: column_width_def intro!: Max_ge)
  then show ?thesis using w flush by (auto simp: pad_def)
qed

theorem tab_writer_aligns_witness:
  "\<exists>w. tab_run [Tab_cell ''one'', Tab_cell ''two'', Tab_new_line, Tab_cell ''1''] new_tab_writer = Ret w \<and>
     tab_flush (tab_separate_columns_with CHR ''|'' (tab_fill_with CHR ''*'' w)) =
       Ret (table_text CHR ''*'' CHR ''|'' [[''one'', ''two''], [''1'']])"
  using tab_writer_aligns
    [of "[Tab_cell ''one'', Tab_cell ''two'', Tab_new_line, Tab_cell ''1'']" "CHR ''|''" "CHR ''*''"]
  by auto

lemma table_example:
  "table_text CHR ''*'' CHR ''|'' [[''one'', ''two''], [''1'', ''2'']] = ''one|two'' @ CHR 0x0A # ''1**|2**''"
proof -
  have "{row. (row = [''one'', ''two''] \<or> row = [''1'', ''2'']) \<and> i < length row} =
      (if i < 2 then {[''one'', ''two''], [''1'', ''2'']} else {})" for i
    by auto
  then show ?thesis by (simp add: table_text_def column_width_def pad_def upt_rec numeral_2_eq_2)
qed

subsection \<open>Texts of limited length and flags\<close>

text \<open>\<open>SizeConstrainedString\<close> and its output, padded to the limit.\<close>

definition size_constrained :: "nat \<Rightarrow> string \<Rightarrow> string cpp" where
  "size_constrained limit s =
     (if limit < length s then Throw (Logic_error (''Max size exceeded '' @ show_nat limit)) else Ret s)"

definition show_constrained :: "nat \<Rightarrow> string \<Rightarrow> string" where
  "show_constrained limit s = pad CHR '' '' limit s"

definition name_limit :: nat where "name_limit = 40"
definition usage_limit :: nat where "usage_limit = 80"
definition description_limit :: nat where "description_limit = 100"

text \<open>
  \<open>Codec::decode\<close>. A stream yields the next word only; a text without a word leaves the string
  empty. A boolean is the prefix \<open>true\<close> of what follows the white space.
\<close>

definition codec_decode_string :: "string \<Rightarrow> string" where
  "codec_decode_string s = next_word s"

definition codec_decode_bool :: "string \<Rightarrow> bool" where
  "codec_decode_bool s = prefix ''true'' (dropWhile is_space_char s)"

lemma flag_text_is_cut: "codec_decode_string ''two words'' = ''two''"
  by (simp add: codec_decode_string_def next_word_def is_space_char_def)

text \<open>A flag; \<open>fl_notify\<close> is the change a value makes to what the command's flags refer to.\<close>

record 'e flag =
  fl_name :: string
  fl_description :: string
  fl_notify :: "string \<Rightarrow> 'e \<Rightarrow> 'e"

text \<open>\<open>TypedReferenceFlag\<close> and \<open>OptionalTypedReferenceFlag\<close>.\<close>

definition typed_reference_flag ::
  "string \<Rightarrow> string \<Rightarrow> (string \<Rightarrow> 'a) \<Rightarrow> ('a \<Rightarrow> 'e \<Rightarrow> 'e) \<Rightarrow> 'e flag" where
  "typed_reference_flag name desc decode assign =
     \<lparr>fl_name = name, fl_description = desc, fl_notify = \<lambda>s e. assign (decode s) e\<rparr>"

definition optional_typed_reference_flag ::
  "string \<Rightarrow> string \<Rightarrow> (string \<Rightarrow> 'a) \<Rightarrow> ('a option \<Rightarrow> 'e \<Rightarrow> 'e) \<Rightarrow> 'e flag" where
  "optional_typed_reference_flag name desc decode assign =
     \<lparr>fl_name = name, fl_description = desc, fl_notify = \<lambda>s e. assign (Some (decode s)) e\<rparr>"

subsection \<open>Commands\<close>

text \<open>
  \<open>commands_\<close> is a map sorted by name, \<open>flags_\<close> a set in some order. \<open>Help_command\<close> is the
  command every \<open>CommandWithSubcommands\<close> adds for itself. An action gets the environment its
  flags write to and the arguments that are left.
\<close>

type_synonym 'e action = "'e \<Rightarrow> string list \<Rightarrow> (int \<times> string \<times> 'e) cpp"

datatype 'e command =
    Command_with_subcommands string string string "(string \<times> 'e command) list" "'e flag list"
  | Command_with_action string string string "'e flag list" "'e action"
  | Help_command

fun command_name :: "'e command \<Rightarrow> string" where
  "command_name (Command_with_subcommands n u d cs fs) = n"
| "command_name (Command_with_action n u d fs a) = n"
| "command_name Help_command = ''help''"

fun command_description :: "'e command \<Rightarrow> string" where
  "command_description (Command_with_subcommands n u d cs fs) = d"
| "command_description (Command_with_action n u d fs a) = d"
| "command_description Help_command = ''prints a short help message''"

definition command_with_subcommands :: "string \<Rightarrow> string \<Rightarrow> string \<Rightarrow> 'e command" where
  "command_with_subcommands n u d = Command_with_subcommands n u d [(''help'', Help_command)] []"

definition add_command :: "'e command \<Rightarrow> 'e command \<Rightarrow> 'e command" where
  "add_command c cmd =
     (case cmd of
        Command_with_subcommands n u d cs fs \<Rightarrow>
          Command_with_subcommands n u d (smap_put key_less (command_name c) c cs) fs
      | _ \<Rightarrow> cmd)"

abbreviation newline :: string where
  "newline \<equiv> [CHR 0x0A]"

definition help_header :: "string \<Rightarrow> string \<Rightarrow> string" where
  "help_header name text =
     ''NAME:'' @ newline @ ''    '' @ name @ '' - '' @ text @ newline @ newline @
     ''USAGE:'' @ newline @ ''    '' @ name @ '' [command options] [arguments...]'' @ newline"

definition help_options :: "'e flag list \<Rightarrow> string" where
  "help_options fs =
     (if fs = [] then []
      else newline @ ''OPTIONS:'' @ newline @
           concat (map (\<lambda>f. ''    --'' @ show_constrained name_limit (fl_name f) @ '' '' @
                           show_constrained description_limit (fl_description f) @ newline) fs))"

definition help_commands :: "(string \<times> 'e command) list \<Rightarrow> string" where
  "help_commands cs =
     (if cs = [] then []
      else newline @ ''COMMANDS:'' @ newline @
           concat (map (\<lambda>(k, c). ''    '' @ show_constrained name_limit (command_name c) @ '' '' @
                           show_constrained description_limit (command_description c) @ newline) cs))"

text \<open>The help of a command; the argument is the command whose help a \<open>Help_command\<close> prints.\<close>

fun command_help :: "string \<Rightarrow> 'e command \<Rightarrow> string" where
  "command_help outer (Command_with_subcommands n u d cs fs) =
     help_header n u @ help_options fs @ help_commands cs"
| "command_help outer (Command_with_action n u d fs a) = help_header n d @ help_options fs"
| "command_help outer Help_command = outer"

text \<open>What Boost.Program_options returns: an error's text, or the parts that are used.\<close>

record parsed_options =
  po_command :: string
  po_help :: bool
  po_values :: "(string \<times> string) list"
  po_rest :: "string list"

type_synonym option_parser = "bool \<Rightarrow> string list \<Rightarrow> string list \<Rightarrow> string + parsed_options"

definition notify_flags :: "'e flag list \<Rightarrow> (string \<times> string) list \<Rightarrow> 'e \<Rightarrow> 'e" where
  "notify_flags fs kvs e =
     fold (\<lambda>(k, v) e. case find (\<lambda>f. fl_name f = k) fs of None \<Rightarrow> e | Some f \<Rightarrow> fl_notify f v e) kvs e"

lemma command_size: "map_of cs k = Some c \<Longrightarrow> size c < Suc (size_list (size_prod (\<lambda>_. 0) size) cs)"
proof -
  assume "map_of cs k = Some c"
  then have "(k, c) \<in> set cs" by (rule map_of_SomeD)
  then have "size_prod (\<lambda>_. 0) size (k, c) \<le> size_list (size_prod (\<lambda>_. 0) size) cs"
    by (intro size_list_estimation') auto
  then show ?thesis by simp
qed

text \<open>
  \<open>run\<close>: the exit code, what is printed, and the environment. A command found by the parser that
  is not in the map is a null pointer, inserted by \<open>operator[]\<close>. An error of the parser is
  caught; any other exception of an action is not.
\<close>

function command_run ::
  "option_parser \<Rightarrow> string \<Rightarrow> 'e command \<Rightarrow> string list \<Rightarrow> 'e \<Rightarrow> (int \<times> string \<times> 'e) cpp" where
  "command_run parse outer (Command_with_subcommands n u d cs fs) args e =
     (let help = command_help outer (Command_with_subcommands n u d cs fs) in
      case args of
        [] \<Rightarrow> Ret (1, help, e)
      | arg # _ \<Rightarrow>
          if map_of cs arg = None
          then Ret (1, newline @ ''airmap: invalid command -- '' @ arg @ newline @ newline @ help, e)
          else
            (case parse True (map fl_name fs) args of
               Inl msg \<Rightarrow> Ret (1, msg @ newline @ help, e)
             | Inr p \<Rightarrow>
                 (case map_of cs (po_command p) of
                    None \<Rightarrow> UB
                  | Some c \<Rightarrow> command_run parse help c (po_rest p) (notify_flags fs (po_values p) e))))"
| "command_run parse outer (Command_with_action n u d fs action) args e =
     (let help = command_help outer (Command_with_action n u d fs action) in
      case parse False (map fl_name fs) args of
        Inl msg \<Rightarrow> Ret (1, msg @ newline @ help, e)
      | Inr p \<Rightarrow>
          (let e' = notify_flags fs (po_values p) e
           in if po_help p then Ret (0, help, e') else action e' (po_rest p)))"
| "command_run parse outer Help_command args e = Ret (1, outer, e)"
  by pat_completeness auto
termination
  by (relation "measure (\<lambda>(parse, outer, c, args, e). size c)") (auto dest: command_size)

lemma unknown_command:
  "map_of cs arg = None \<Longrightarrow>
   \<exists>text. command_run parse outer (Command_with_subcommands n u d cs fs) (arg # args) e = Ret (1, text, e)"
  by simp

text \<open>
  With a parser that takes the first argument as the command, dispatching never meets a command
  that is not there.
\<close>

lemma dispatch_known:
  assumes "map_of cs arg = Some c" "parse True (map fl_name fs) (arg # args) = Inr p" "po_command p = arg"
  shows "command_run parse outer (Command_with_subcommands n u d cs fs) (arg # args) e =
     command_run parse (command_help outer (Command_with_subcommands n u d cs fs)) c (po_rest p)
       (notify_flags fs (po_values p) e)"
  using assms by simp

end
