(* ===== verification/Record_Json.thy ===== *)
theory Record_Json
  imports Plan_Json
begin

text \<open>
  The decoders of pilots, aircraft, flights and rulesets (src/airmap/codec/json/pilot.cpp,
  aircraft.cpp, flight.cpp, ruleset.cpp) and of the responses of the flight service
  (flights.cpp). \<open>j.get<T>()\<close> decodes into a \<open>T\<close> that is default-initialised: a member without
  initialiser has no value (\<open>None\<close> in \<open>json_member_opt\<close>) until it is decoded, and the result is
  copied into its place, which reads every member (\<open>deref\<close>). \<open>parse_iso\<close> reads an instant.
\<close>

subsection \<open>Members\<close>

definition json_member_opt :: "string \<Rightarrow> (json \<Rightarrow> 'a cpp) \<Rightarrow> json \<Rightarrow> 'a option cpp" where
  "json_member_opt k dec j = json_member k (\<lambda>v. cmap Some (dec v)) None j"

text \<open>\<open>for (element : j) { v.push_back(T{}); v.back() = element; }\<close> on an empty vector.\<close>

definition decode_vector :: "(json \<Rightarrow> 'a cpp) \<Rightarrow> json \<Rightarrow> 'a list cpp" where
  "decode_vector dec j = cmapM dec (json_elements j)"

text \<open>The arithmetic types without an overload of their own: 32 bits, unsigned and signed.\<close>

definition json_get_uint32 :: "json \<Rightarrow> 32 word cpp" where
  "json_get_uint32 j =
     (case j of
        J_unsigned w \<Rightarrow> Ret (ucast w)
      | J_integer w \<Rightarrow> Ret (ucast w)
      | J_float x \<Rightarrow>
          (case dbl_truncate x of
             Some i \<Rightarrow> if 0 \<le> i \<and> i < 2 ^ 32 then Ret (word_of_int i) else UB
           | None \<Rightarrow> UB)
      | J_boolean b \<Rightarrow> Ret (of_bool b)
      | _ \<Rightarrow> Throw Json_type_error)"

definition json_get_int32 :: "json \<Rightarrow> 32 word cpp" where
  "json_get_int32 j =
     (case j of
        J_unsigned w \<Rightarrow> Ret (ucast w)
      | J_integer w \<Rightarrow> Ret (ucast w)
      | J_float x \<Rightarrow>
          (case dbl_truncate x of
             Some i \<Rightarrow> if - (2 ^ 31) \<le> i \<and> i < 2 ^ 31 then Ret (word_of_int i) else UB
           | None \<Rightarrow> UB)
      | J_boolean b \<Rightarrow> Ret (of_bool b)
      | _ \<Rightarrow> Throw Json_type_error)"

definition json_get_time :: "(string \<Rightarrow> date_time cpp) \<Rightarrow> json \<Rightarrow> date_time cpp" where
  "json_get_time parse_iso j = cbind (json_get_string j) parse_iso"

text \<open>\<open>std::map<std::string, std::string>\<close>.\<close>

definition json_get_text_map :: "json \<Rightarrow> (string \<times> string) list cpp" where
  "json_get_text_map j =
     (case j of
        J_object m \<Rightarrow> cmapM (\<lambda>(k, v). cmap (Pair k) (json_get_string v)) m
      | _ \<Rightarrow> Throw Json_type_error)"

subsection \<open>Aircraft\<close>

definition decode_manufacturer :: "json \<Rightarrow> (string \<times> string) cpp" where
  "decode_manufacturer j =
     cbind (json_member ''id'' json_get_string [] j) (\<lambda>i.
     cbind (json_member ''name'' json_get_string [] j) (\<lambda>n. Ret (i, n)))"

definition decode_manufacturers :: "json \<Rightarrow> (string \<times> string) list cpp" where
  "decode_manufacturers j = decode_vector decode_manufacturer j"

definition decode_aircraft_model :: "json \<Rightarrow> aircraft_model cpp" where
  "decode_aircraft_model j =
     cbind (json_member ''id'' json_get_string [] j) (\<lambda>i.
     cbind (json_member ''name'' json_get_string [] j) (\<lambda>n.
     cbind (json_member ''manufacturer'' decode_manufacturer ([], []) j) (\<lambda>m.
       Ret \<lparr>am_id = i, am_name = n, am_manufacturer_id = fst m, am_manufacturer_name = snd m\<rparr>)))"

definition decode_aircraft_models :: "json \<Rightarrow> aircraft_model list cpp" where
  "decode_aircraft_models j = decode_vector decode_aircraft_model j"

text \<open>\<open>Pilot::Aircraft\<close>.\<close>

definition decode_aircraft :: "(string \<Rightarrow> date_time cpp) \<Rightarrow> json \<Rightarrow> aircraft cpp" where
  "decode_aircraft parse_iso j =
     (let a = aircraft_of_id [] in
     cbind (json_member ''id'' json_get_string (ac_id a) j) (\<lambda>i.
     cbind (json_member ''nickname'' json_get_string (ac_nick_name a) j) (\<lambda>n.
     cbind (json_member ''created_at'' (json_get_time parse_iso) (ac_created_at a) j) (\<lambda>c.
     cbind (json_member ''model'' decode_aircraft_model (ac_model a) j) (\<lambda>m.
       Ret \<lparr>ac_id = i, ac_nick_name = n, ac_model = m, ac_created_at = c\<rparr>)))))"

definition decode_aircrafts :: "(string \<Rightarrow> date_time cpp) \<Rightarrow> json \<Rightarrow> aircraft list cpp" where
  "decode_aircrafts parse_iso j = decode_vector (decode_aircraft parse_iso) j"

subsection \<open>Pilots\<close>

definition decode_verification_status :: "json \<Rightarrow> (bool \<times> bool) cpp" where
  "decode_verification_status j =
     cbind (json_member_opt ''email'' json_get_bool j) (\<lambda>e.
     cbind (json_member_opt ''phone'' json_get_bool j) (\<lambda>p.
     cbind (deref e) (\<lambda>e. cbind (deref p) (\<lambda>p. Ret (e, p)))))"

definition decode_flight_statistics :: "(string \<Rightarrow> date_time cpp) \<Rightarrow> json \<Rightarrow> (64 word \<times> date_time) cpp" where
  "decode_flight_statistics parse_iso j =
     cbind (json_member_opt ''total'' json_get_uint64 j) (\<lambda>n.
     cbind (json_member ''last_flight_time'' (json_get_time parse_iso) Not_a_date_time j) (\<lambda>t.
     cbind (deref n) (\<lambda>n. Ret (n, t))))"

definition decode_aircraft_statistics :: "json \<Rightarrow> 64 word cpp" where
  "decode_aircraft_statistics j = cbind (json_member_opt ''total'' json_get_uint64 j) deref"

definition decode_statistics ::
  "(string \<Rightarrow> date_time cpp) \<Rightarrow> json \<Rightarrow> ((64 word \<times> date_time) \<times> 64 word) cpp" where
  "decode_statistics parse_iso j =
     cbind (json_member_opt ''flight'' (decode_flight_statistics parse_iso) j) (\<lambda>f.
     cbind (json_member_opt ''aircraft'' decode_aircraft_statistics j) (\<lambda>a.
     cbind (deref f) (\<lambda>f. cbind (deref a) (\<lambda>a. Ret (f, a)))))"

definition decode_pilot :: "(string \<Rightarrow> date_time cpp) \<Rightarrow> json \<Rightarrow> pilot cpp" where
  "decode_pilot parse_iso j =
     cbind (json_member ''id'' json_get_string [] j) (\<lambda>i.
     cbind (json_member ''first_name'' json_get_string [] j) (\<lambda>fn.
     cbind (json_member ''last_name'' json_get_string [] j) (\<lambda>ln.
     cbind (json_member ''username'' json_get_string [] j) (\<lambda>un.
     cbind (json_member ''picture_url'' (decode_optional json_get_string) None j) (\<lambda>pu.
     cbind (json_member ''created_at'' (json_get_time parse_iso) Not_a_date_time j) (\<lambda>c.
     cbind (json_member_opt ''verification_status'' decode_verification_status j) (\<lambda>vs.
     cbind (json_member_opt ''statistics'' (decode_statistics parse_iso) j) (\<lambda>st.
     cbind (json_member ''app_metadata'' json_get_text_map [] j) (\<lambda>app.
     cbind (json_member ''user_metadata'' json_get_text_map [] j) (\<lambda>user.
     cbind (deref vs) (\<lambda>(email, phone).
     cbind (deref st) (\<lambda>((flights, last), aircraft).
       Ret \<lparr>pi_id = i, pi_first_name = fn, pi_last_name = ln, pi_user_name = un, pi_picture_url = pu,
            pi_verified_email = email, pi_verified_phone = phone, pi_flights_total = flights,
            pi_last_flight_time = last, pi_aircraft_total = aircraft, pi_metadata_app = app,
            pi_metadata_user = user, pi_created_at = c\<rparr>))))))))))))"

subsection \<open>Flights\<close>

text \<open>
  \<open>pilot_id\<close> and \<open>aircraft_id\<close> override the identifiers of the nested objects. A pilot that is
  not in the document keeps members without a value.
\<close>

definition decode_flight :: "(string \<Rightarrow> date_time cpp) \<Rightarrow> json \<Rightarrow> flight cpp" where
  "decode_flight parse_iso j =
     cbind (json_member ''id'' json_get_string [] j) (\<lambda>i.
     cbind (json_member_opt ''latitude'' json_get_float j) (\<lambda>lat.
     cbind (json_member_opt ''longitude'' json_get_float j) (\<lambda>lon.
     cbind (json_member_opt ''max_altitude'' json_get_float j) (\<lambda>alt.
     cbind (json_member ''geometry'' decode_geometry G_invalid j) (\<lambda>g.
     cbind (json_member ''created_at'' (json_get_time parse_iso) Not_a_date_time j) (\<lambda>c.
     cbind (json_member ''start_time'' (json_get_time parse_iso) Not_a_date_time j) (\<lambda>t1.
     cbind (json_member ''end_time'' (json_get_time parse_iso) Not_a_date_time j) (\<lambda>t2.
     cbind (json_member_opt ''pilot'' (decode_pilot parse_iso) j) (\<lambda>p.
     cbind (json_member_opt ''pilot_id'' json_get_string j) (\<lambda>pid.
     cbind (json_member ''aircraft'' (decode_aircraft parse_iso) (aircraft_of_id []) j) (\<lambda>a.
     cbind (json_member ''aircraft_id'' json_get_string (ac_id a) j) (\<lambda>aid.
     cbind (json_member ''flight_plan_id'' (decode_optional json_get_string) None j) (\<lambda>fp.
     cbind (deref lat) (\<lambda>lat. cbind (deref lon) (\<lambda>lon. cbind (deref alt) (\<lambda>alt. cbind (deref p) (\<lambda>p.
       Ret \<lparr>fl_id = i, fl_flight_plan_id = fp,
            fl_pilot = (case pid of None \<Rightarrow> p | Some k \<Rightarrow> p\<lparr>pi_id := k\<rparr>),
            fl_aircraft = a\<lparr>ac_id := aid\<rparr>, fl_latitude = lat, fl_longitude = lon,
            fl_max_altitude = alt, fl_geometry = g, fl_created_at = c, fl_start_time = t1,
            fl_end_time = t2\<rparr>)))))))))))))))))"

definition decode_flights :: "(string \<Rightarrow> date_time cpp) \<Rightarrow> json \<Rightarrow> flight list cpp" where
  "decode_flights parse_iso j = decode_vector (decode_flight parse_iso) j"

record flight_page =
  pg_limit :: "32 word"
  pg_total :: "32 word"
  pg_flights :: "flight list"

definition decode_paging :: "json \<Rightarrow> (32 word \<times> 32 word) cpp" where
  "decode_paging j =
     cbind (json_member_opt ''limit'' json_get_uint32 j) (\<lambda>l.
     cbind (json_member_opt ''total'' json_get_uint32 j) (\<lambda>t.
     cbind (deref l) (\<lambda>l. cbind (deref t) (\<lambda>t. Ret (l, t)))))"

definition decode_flight_page :: "(string \<Rightarrow> date_time cpp) \<Rightarrow> json \<Rightarrow> flight_page cpp" where
  "decode_flight_page parse_iso j =
     cbind (json_member_opt ''paging'' decode_paging j) (\<lambda>p.
     cbind (json_member ''results'' (decode_flights parse_iso) [] j) (\<lambda>fs.
     cbind (deref p) (\<lambda>p. Ret \<lparr>pg_limit = fst p, pg_total = snd p, pg_flights = fs\<rparr>)))"

definition decode_end_flight :: "(string \<Rightarrow> date_time cpp) \<Rightarrow> json \<Rightarrow> date_time cpp" where
  "decode_end_flight parse_iso j = json_member ''end_time'' (json_get_time parse_iso) Not_a_date_time j"

definition decode_delete_flight :: "json \<Rightarrow> string cpp" where
  "decode_delete_flight j = json_member ''id'' json_get_string [] j"

definition decode_start_comms :: "json \<Rightarrow> string cpp" where
  "decode_start_comms j = json_member ''key'' json_get_string [] j"

definition decode_end_comms :: "json \<Rightarrow> unit cpp" where
  "decode_end_comms j = Ret ()"

subsection \<open>Rulesets\<close>

definition decode_enum :: "(string \<Rightarrow> 'e \<Rightarrow> 'e) \<Rightarrow> 'e \<Rightarrow> json \<Rightarrow> 'e cpp" where
  "decode_enum select zero j = cbind (json_get_string j) (lexical_cast_enum select zero)"

definition decode_feature_type :: "json \<Rightarrow> feature_type cpp" where
  "decode_feature_type = decode_enum feature_type_select FT_unknown"

definition decode_measurement :: "json \<Rightarrow> measurement cpp" where
  "decode_measurement = decode_enum measurement_select ME_unknown"

definition decode_feature_unit :: "json \<Rightarrow> feature_unit cpp" where
  "decode_feature_unit = decode_enum feature_unit_select FU_unknown"

definition decode_rule_status :: "json \<Rightarrow> rule_status cpp" where
  "decode_rule_status = decode_enum rule_status_select RS_unknown"

definition decode_selection_type :: "json \<Rightarrow> selection_type cpp" where
  "decode_selection_type = decode_enum selection_type_select ST_pickone"

definition decode_region :: "json \<Rightarrow> region cpp" where
  "decode_region = decode_enum region_select RG_national"

definition decode_feature :: "json \<Rightarrow> feature cpp" where
  "decode_feature j =
     cbind (json_member ''id'' json_get_int32 (- 1) j) (\<lambda>i.
     cbind (json_member ''code'' (decode_optional json_get_string) None j) (\<lambda>c.
     cbind (json_member ''flight_feature'' json_get_string [] j) (\<lambda>n.
     cbind (json_member ''description'' json_get_string [] j) (\<lambda>d.
     cbind (json_member_opt ''status'' decode_rule_status j) (\<lambda>st.
     cbind (json_member ''input_type'' decode_feature_type FT_unknown j) (\<lambda>t.
     cbind (json_member ''measurement_type'' decode_measurement ME_unknown j) (\<lambda>m.
     cbind (json_member ''measurement_unit'' decode_feature_unit FU_unknown j) (\<lambda>u.
     cbind (json_member_opt ''is_calculated'' json_get_bool j) (\<lambda>calc.
     cbind (deref st) (\<lambda>st. cbind (deref calc) (\<lambda>calc.
       Ret \<lparr>feat_id = i, feat_name = n, feat_code = c, feat_description = d, feat_status = st,
            feat_type = t, feat_measurement = m, feat_unit = u, feat_is_calculated = calc\<rparr>)))))))))))"

definition decode_rule_features :: "json \<Rightarrow> feature list cpp" where
  "decode_rule_features j = decode_vector decode_feature j"

definition decode_rule :: "json \<Rightarrow> rule cpp" where
  "decode_rule j =
     cbind (json_member ''short_text'' json_get_string [] j) (\<lambda>t.
     cbind (json_member ''description'' json_get_string [] j) (\<lambda>d.
     cbind (json_member_opt ''status'' decode_rule_status j) (\<lambda>st.
     cbind (json_member_opt ''display_order'' json_get_int32 j) (\<lambda>ord.
     cbind (json_member ''flight_features'' decode_rule_features [] j) (\<lambda>fs.
     cbind (deref st) (\<lambda>st. cbind (deref ord) (\<lambda>ord.
       Ret \<lparr>rule_status_of = st, rule_short_text = t, rule_description = d,
            rule_display_order = ord, rule_features = fs\<rparr>)))))))"

definition decode_rules :: "json \<Rightarrow> rule list cpp" where
  "decode_rules j = decode_vector decode_rule j"

definition decode_jurisdiction :: "json \<Rightarrow> jurisdiction cpp" where
  "decode_jurisdiction j =
     cbind (json_member_opt ''id'' json_get_uint64 j) (\<lambda>i.
     cbind (json_member ''name'' json_get_string [] j) (\<lambda>n.
     cbind (json_member_opt ''region'' decode_region j) (\<lambda>r.
     cbind (deref i) (\<lambda>i. cbind (deref r) (\<lambda>r.
       Ret \<lparr>jur_id = i, jur_name = n, jur_region = r\<rparr>)))))"

definition decode_ruleset :: "json \<Rightarrow> ruleset cpp" where
  "decode_ruleset j =
     cbind (json_member ''id'' json_get_string [] j) (\<lambda>i.
     cbind (json_member_opt ''selection_type'' decode_selection_type j) (\<lambda>st.
     cbind (json_member ''name'' json_get_string [] j) (\<lambda>n.
     cbind (json_member ''short_name'' json_get_string [] j) (\<lambda>sn.
     cbind (json_member ''description'' json_get_string [] j) (\<lambda>d.
     cbind (json_member_opt ''default'' json_get_bool j) (\<lambda>def.
     cbind (json_member_opt ''jurisdiction'' decode_jurisdiction j) (\<lambda>jd.
     cbind (json_member ''airspace_types'' json_get_text_list [] j) (\<lambda>types.
     cbind (json_member ''rules'' decode_rules [] j) (\<lambda>rules.
     cbind (deref st) (\<lambda>st. cbind (deref def) (\<lambda>def. cbind (deref jd) (\<lambda>jd.
       Ret \<lparr>rs_id = i, rs_selection_type = st, rs_name = n, rs_short_name = sn, rs_description = d,
            rs_is_default = def, rs_jurisdiction = jd, rs_airspace_types = types,
            rs_rules = rules\<rparr>))))))))))))"

definition decode_rulesets :: "json \<Rightarrow> ruleset list cpp" where
  "decode_rulesets j = decode_vector decode_ruleset j"

end
