(* ===== verification/Evaluation.thy ===== *)
theory Evaluation
  imports Airspace Text_Enum
begin

text \<open>
  What the services say about an area or a plan: the status of an area with its weather
  (include/airmap/status.h, src/airmap/status.cpp), advisories (advisory.h), the evaluation of
  a plan (evaluation.h, evaluation.cpp) and the briefing of a plan (flight_plan.h). The texts of
  the four enumerations are interpretations of \<open>text_enum\<close>. \<open>..._named\<close> is the choice an
  \<open>operator>>\<close> makes, \<open>None\<close> for a word it does not know.
\<close>

subsection \<open>Enumerations\<close>

datatype status_color = Color_green | Color_yellow | Color_orange | Color_red

datatype authorization_status =
    Auth_accepted | Auth_rejected | Auth_pending | Auth_accepted_upon_submission
  | Auth_rejected_upon_submission

datatype validation_status = Validation_valid | Validation_invalid | Validation_unknown

datatype evaluation_failure = Failure_validation | Failure_authorization | Failure_rulesets

definition select_named :: "(string \<Rightarrow> 'e option) \<Rightarrow> string \<Rightarrow> 'e \<Rightarrow> 'e" where
  "select_named named s e = (case named s of None \<Rightarrow> e | Some x \<Rightarrow> x)"

fun color_text :: "status_color \<Rightarrow> string" where
  "color_text Color_green = ''green''"
| "color_text Color_yellow = ''yellow''"
| "color_text Color_orange = ''orange''"
| "color_text Color_red = ''red''"

definition color_named :: "string \<Rightarrow> status_color option" where
  "color_named s =
     (if s = ''green'' then Some Color_green
      else if s = ''yellow'' then Some Color_yellow
      else if s = ''orange'' then Some Color_orange
      else if s = ''red'' then Some Color_red
      else None)"

fun authorization_text :: "authorization_status \<Rightarrow> string" where
  "authorization_text Auth_accepted = ''accepted''"
| "authorization_text Auth_rejected = ''rejected''"
| "authorization_text Auth_pending = ''pending''"
| "authorization_text Auth_accepted_upon_submission = ''accepted_upon_submission''"
| "authorization_text Auth_rejected_upon_submission = ''rejected_upon_submission''"

definition authorization_named :: "string \<Rightarrow> authorization_status option" where
  "authorization_named s =
     (if s = ''accepted'' then Some Auth_accepted
      else if s = ''rejected'' then Some Auth_rejected
      else if s = ''pending'' then Some Auth_pending
      else if s = ''accepted_upon_submission'' then Some Auth_accepted_upon_submission
      else if s = ''rejected_upon_submission'' then Some Auth_rejected_upon_submission
      else None)"

fun validation_text :: "validation_status \<Rightarrow> string" where
  "validation_text Validation_valid = ''valid''"
| "validation_text Validation_invalid = ''invalid''"
| "validation_text Validation_unknown = ''unknown''"

definition validation_named :: "string \<Rightarrow> validation_status option" where
  "validation_named s =
     (if s = ''valid'' then Some Validation_valid
      else if s = ''invalid'' then Some Validation_invalid
      else if s = ''unknown'' then Some Validation_unknown
      else None)"

fun failure_text :: "evaluation_failure \<Rightarrow> string" where
  "failure_text Failure_validation = ''validation''"
| "failure_text Failure_authorization = ''authorization''"
| "failure_text Failure_rulesets = ''rulesets''"

definition failure_named :: "string \<Rightarrow> evaluation_failure option" where
  "failure_named s =
     (if s = ''validation'' then Some Failure_validation
      else if s = ''authorization'' then Some Failure_authorization
      else if s = ''rulesets'' then Some Failure_rulesets
      else None)"

interpretation color_io: text_enum color_text "select_named color_named"
proof
  show "is_word (color_text e)" for e
    by (cases e) (simp_all add: is_word_def is_space_char_def)
  show "select_named color_named (color_text e) e0 = e" for e e0
    by (cases e) (simp_all add: select_named_def color_named_def)
qed

interpretation authorization_io: text_enum authorization_text "select_named authorization_named"
proof
  show "is_word (authorization_text e)" for e
    by (cases e) (simp_all add: is_word_def is_space_char_def)
  show "select_named authorization_named (authorization_text e) e0 = e" for e e0
    by (cases e) (simp_all add: select_named_def authorization_named_def)
qed

interpretation validation_io: text_enum validation_text "select_named validation_named"
proof
  show "is_word (validation_text e)" for e
    by (cases e) (simp_all add: is_word_def is_space_char_def)
  show "select_named validation_named (validation_text e) e0 = e" for e e0
    by (cases e) (simp_all add: select_named_def validation_named_def)
qed

interpretation failure_io: text_enum failure_text "select_named failure_named"
proof
  show "is_word (failure_text e)" for e
    by (cases e) (simp_all add: is_word_def is_space_char_def)
  show "select_named failure_named (failure_text e) e0 = e" for e e0
    by (cases e) (simp_all add: select_named_def failure_named_def)
qed

subsection \<open>Status reports and advisories\<close>

record status_advisory =
  sa_airspace :: airspace
  sa_color :: status_color

record status_wind =
  sw_heading :: "32 word"
  sw_speed :: "32 word"
  sw_gusting :: "32 word"

record status_weather =
  we_condition :: string
  we_icon :: string
  we_wind :: status_wind
  we_temperature :: "32 word"
  we_humidity :: float32
  we_visibility :: "32 word"
  we_precipitation :: "32 word"

record status_report =
  sr_max_safe_distance :: "32 word"
  sr_advisory_color :: status_color
  sr_advisories :: "status_advisory list"
  sr_weather :: status_weather

definition status_weather_default :: status_weather where
  "status_weather_default =
     \<lparr>we_condition = [], we_icon = [], we_wind = \<lparr>sw_heading = 0, sw_speed = 0, sw_gusting = 0\<rparr>,
      we_temperature = 0, we_humidity = 0, we_visibility = 0, we_precipitation = 0\<rparr>"

record airspace_advisory =
  aa_advisory :: status_advisory
  aa_color :: status_color
  aa_rule_id :: "32 word"
  aa_ruleset_id :: string

record advisory_wind =
  aw_heading :: "32 word"
  aw_speed :: float32
  aw_gusting :: "32 word"

record advisory_weather =
  ae_condition :: string
  ae_icon :: string
  ae_wind :: advisory_wind
  ae_temperature :: float32
  ae_humidity :: float32
  ae_visibility :: float32
  ae_precipitation :: float32
  ae_timezone :: string
  ae_time :: date_time
  ae_dew_point :: float32
  ae_mslp :: float32

subsection \<open>Evaluations and briefings\<close>

record authority =
  au_id :: string
  au_name :: string

record authorization =
  az_status :: authorization_status
  az_authority :: authority
  az_message :: string

record validation_feature =
  vf_code :: string
  vf_description :: string

record validation =
  va_status :: validation_status
  va_data :: string
  va_message :: string
  va_feature :: validation_feature
  va_authority :: authority

record evaluation =
  ev_rulesets :: "ruleset list"
  ev_validations :: "validation list"
  ev_authorizations :: "authorization list"
  ev_failures :: "evaluation_failure list"

record advisory_status =
  ad_color :: status_color
  ad_advisories :: "status_advisory list"

record briefing =
  bf_created_at :: date_time
  bf_airspace :: advisory_status
  bf_evaluation :: evaluation

end
