(* ===== verification/Airspace_Json.thy ===== *)
theory Airspace_Json
  imports Record_Json Evaluation
begin

text \<open>
  The decoders of airspaces with their details and rules (src/airmap/codec/json/airspace.cpp,
  rule.cpp), status reports (status.cpp), advisories (advisory.cpp), evaluations
  (evaluation.cpp) and briefings (flight_plan.cpp), in the conventions of Record_Json. An
  enumeration whose decoder does nothing has no value to copy (\<open>decode_untouched\<close>).
  \<open>lexical_float\<close> is \<open>boost::lexical_cast<float>\<close>.
\<close>

subsection \<open>Rules and details\<close>

definition decode_untouched :: "json \<Rightarrow> 'e cpp" where
  "decode_untouched j = UB"

definition decode_basic_rule :: "json \<Rightarrow> basic_rule cpp" where
  "decode_basic_rule j =
     cbind (json_member_opt ''type'' decode_untouched j) (\<lambda>t.
     cbind (json_member ''id'' json_get_string [] j) (\<lambda>i.
     cbind (json_member ''name'' json_get_string [] j) (\<lambda>n.
     cbind (json_member ''description'' json_get_string [] j) (\<lambda>d.
     cbind (json_member ''jurisdiction'' json_get_string [] j) (\<lambda>jd.
     cbind (deref t) (\<lambda>t.
       Ret \<lparr>br_type = t, br_id = i, br_name = n, br_description = d, br_jurisdiction = jd\<rparr>))))))"

definition decode_basic_rules :: "json \<Rightarrow> basic_rule list cpp" where
  "decode_basic_rules j = decode_vector decode_basic_rule j"

text \<open>The length of a runway is a number or a text; anything else leaves it without a value.\<close>

definition decode_runway_length :: "(string \<Rightarrow> float32 cpp) \<Rightarrow> json \<Rightarrow> float32 option cpp" where
  "decode_runway_length lexical_float l =
     (case l of
        J_integer _ \<Rightarrow> cmap Some (json_get_float l)
      | J_unsigned _ \<Rightarrow> cmap Some (json_get_float l)
      | J_float _ \<Rightarrow> cmap Some (json_get_float l)
      | J_string s \<Rightarrow> cmap Some (lexical_float s)
      | _ \<Rightarrow> Ret None)"

definition decode_runway :: "(string \<Rightarrow> float32 cpp) \<Rightarrow> json \<Rightarrow> runway cpp" where
  "decode_runway lexical_float j =
     cbind (json_member ''name'' json_get_string [] j) (\<lambda>n.
     cbind (json_subscript ''length'' j) (\<lambda>l.
     cbind (decode_runway_length lexical_float l) (\<lambda>len.
     cbind (json_member_opt ''bearing'' json_get_float j) (\<lambda>b.
     cbind (deref len) (\<lambda>len. cbind (deref b) (\<lambda>b.
       Ret \<lparr>rw_name = n, rw_length = len, rw_bearing = b\<rparr>))))))"

definition decode_runways :: "(string \<Rightarrow> float32 cpp) \<Rightarrow> json \<Rightarrow> runway list cpp" where
  "decode_runways lexical_float j = decode_vector (decode_runway lexical_float) j"

definition decode_airport :: "(string \<Rightarrow> float32 cpp) \<Rightarrow> json \<Rightarrow> airport cpp" where
  "decode_airport lexical_float j =
     cbind (json_member ''iata'' json_get_string [] j) (\<lambda>iata.
     cbind (json_member ''icao'' json_get_string [] j) (\<lambda>icao.
     cbind (json_member ''paved'' json_get_bool False j) (\<lambda>paved.
     cbind (json_member ''phone'' json_get_string [] j) (\<lambda>phone.
     cbind (json_member ''tower'' json_get_bool False j) (\<lambda>tower.
     cbind (json_member ''runways'' (decode_runways lexical_float) [] j) (\<lambda>rws.
     cbind (json_member ''elevation'' json_get_float 0 j) (\<lambda>elev.
     cbind (json_member ''longest_runway'' json_get_float 0 j) (\<lambda>longest.
     cbind (json_member ''use'' decode_untouched Use_public j) (\<lambda>use.
       Ret \<lparr>ap_iata = iata, ap_icao = icao, ap_paved = paved, ap_phone = phone, ap_tower = tower,
            ap_runways = rws, ap_elevation = elev, ap_longest_runway = longest,
            ap_instrument_approach_procedure = False, ap_use = use\<rparr>)))))))))"

definition decode_controlled_airspace :: "json \<Rightarrow> string cpp" where
  "decode_controlled_airspace j = json_member ''airspace_classification'' json_get_string [] j"

definition decode_special_use_airspace :: "json \<Rightarrow> 32 word cpp" where
  "decode_special_use_airspace j = cbind (json_subscript ''type'' j) decode_untouched"

definition decode_flight_restriction :: "json \<Rightarrow> flight_restriction cpp" where
  "decode_flight_restriction j =
     cbind (json_member ''url'' json_get_string [] j) (\<lambda>u.
     cbind (json_member_opt ''type'' decode_untouched j) (\<lambda>t.
     cbind (json_member ''notam_reason'' json_get_string [] j) (\<lambda>r.
     cbind (deref t) (\<lambda>t. Ret \<lparr>fr_url = u, fr_type = t, fr_reason = r\<rparr>))))"

definition decode_wildfire :: "json \<Rightarrow> string cpp" where
  "decode_wildfire j = json_member ''date_effective'' json_get_string [] j"

definition decode_heliport :: "json \<Rightarrow> heliport cpp" where
  "decode_heliport j =
     cbind (json_member ''faa'' json_get_string [] j) (\<lambda>f.
     cbind (json_member ''phone'' json_get_string [] j) (\<lambda>p.
     cbind (json_member_opt ''usage'' decode_untouched j) (\<lambda>u.
     cbind (deref u) (\<lambda>u. Ret \<lparr>hp_faa_id = f, hp_phone = p, hp_usage = u\<rparr>))))"

definition decode_power_plant :: "json \<Rightarrow> power_plant cpp" where
  "decode_power_plant j =
     cbind (json_member ''tech'' json_get_string [] j) (\<lambda>t.
     cbind (json_member_opt ''plant_code'' json_get_uint64 j) (\<lambda>c.
     cbind (deref c) (\<lambda>c. Ret \<lparr>pw_technology = t, pw_code = c\<rparr>)))"

text \<open>The details without members: their decoders do nothing.\<close>

definition decode_empty_details :: "airspace_details \<Rightarrow> json \<Rightarrow> airspace_details cpp" where
  "decode_empty_details d j = Ret d"

text \<open>A word that is none of the twelve leaves the type without a value.\<close>

definition decode_airspace_type :: "json \<Rightarrow> airspace_type cpp" where
  "decode_airspace_type j =
     cbind (json_get_string j) (\<lambda>t.
       if t = ''airport'' then Ret AT_airport
       else if t = ''controlled_airspace'' then Ret AT_controlled_airspace
       else if t = ''special_use_airspace'' then Ret AT_special_use_airspace
       else if t = ''tfr'' then Ret AT_tfr
       else if t = ''wildfire'' then Ret AT_wildfire
       else if t = ''park'' then Ret AT_park
       else if t = ''power_plant'' then Ret AT_power_plant
       else if t = ''heliport'' then Ret AT_heliport
       else if t = ''prison'' then Ret AT_prison
       else if t = ''school'' then Ret AT_school
       else if t = ''hospital'' then Ret AT_hospital
       else if t = ''fire'' then Ret AT_fire
       else if t = ''wildfire'' then Ret AT_wildfire
       else UB)"

subsection \<open>Airspaces\<close>

definition decode_related_geometry :: "json \<Rightarrow> related_geometry cpp" where
  "decode_related_geometry j =
     cbind (json_member ''id'' json_get_string [] j) (\<lambda>i.
     cbind (json_member ''geometry'' decode_geometry G_invalid j) (\<lambda>g.
       Ret \<lparr>rg_id = i, rg_geometry = g\<rparr>))"

text \<open>\<open>it.key()\<close> throws on a value that is no object, unless there is nothing to visit.\<close>

definition decode_related_geometries :: "json \<Rightarrow> (string \<times> related_geometry) list cpp" where
  "decode_related_geometries j =
     (case j of
        J_object m \<Rightarrow>
          cfold (\<lambda>(k, v) rgs. cmap (\<lambda>r. smap_put key_less k r rgs) (decode_related_geometry v)) m []
      | _ \<Rightarrow> if json_elements j = [] then Ret [] else Throw Json_type_error)"

definition decode_details :: "(string \<Rightarrow> float32 cpp) \<Rightarrow> airspace_type \<Rightarrow> json \<Rightarrow> airspace_details cpp" where
  "decode_details lexical_float t p =
     (if t = AT_airport then cmap D_airport (decode_airport lexical_float p)
      else if t = AT_controlled_airspace then cmap D_controlled_airspace (decode_controlled_airspace p)
      else if t = AT_special_use_airspace then cmap D_special_use_airspace (decode_special_use_airspace p)
      else if t = AT_tfr then cmap D_tfr (decode_flight_restriction p)
      else if t = AT_wildfire then cmap D_wildfire (decode_wildfire p)
      else if t = AT_park then decode_empty_details D_park p
      else if t = AT_power_plant then cmap D_power_plant (decode_power_plant p)
      else if t = AT_heliport then cmap D_heliport (decode_heliport p)
      else if t = AT_prison then decode_empty_details D_prison p
      else if t = AT_school then decode_empty_details D_school p
      else if t = AT_hospital then decode_empty_details D_hospital p
      else if t = AT_fire then decode_empty_details D_fire p
      else if t = AT_emergency then decode_empty_details D_emergency p
      else Ret D_invalid)"

text \<open>\<open>if (j.count(k) > 0 && !j[k].is_null()) set(dec(j[k]))\<close>, and the same without the second test.\<close>

definition set_if_present :: "string \<Rightarrow> (json \<Rightarrow> 'a cpp) \<Rightarrow> ('a \<Rightarrow> 's \<Rightarrow> 's cpp) \<Rightarrow> json \<Rightarrow> 's \<Rightarrow> 's cpp" where
  "set_if_present k dec upd j s =
     (if 0 < json_count k j
      then cbind (json_subscript k j) (\<lambda>v. if v = J_null then Ret s else cbind (dec v) (\<lambda>x. upd x s))
      else Ret s)"

definition set_if_counted :: "string \<Rightarrow> (json \<Rightarrow> 'a cpp) \<Rightarrow> ('a \<Rightarrow> 's \<Rightarrow> 's cpp) \<Rightarrow> json \<Rightarrow> 's \<Rightarrow> 's cpp" where
  "set_if_counted k dec upd j s =
     (if 0 < json_count k j then cbind (json_subscript k j) (\<lambda>v. cbind (dec v) (\<lambda>x. upd x s)) else Ret s)"

definition put_airspace_geometry :: "geometry \<Rightarrow> airspace \<Rightarrow> airspace cpp" where
  "put_airspace_geometry g a =
     cbind (geometry_reset (as_geometry a)) (\<lambda>g0.
     cbind (set_geometry g0 (geometry_construct_from g)) (\<lambda>g1. Ret (a\<lparr>as_geometry := g1\<rparr>)))"

text \<open>
  \<open>switch (j["type"].get<Type>())\<close>: the details come from \<open>j["properties"]\<close>; a type without a case
  changes nothing.
\<close>

definition decode_airspace_details :: "(string \<Rightarrow> float32 cpp) \<Rightarrow> json \<Rightarrow> airspace \<Rightarrow> airspace cpp" where
  "decode_airspace_details lexical_float j a =
     set_if_counted ''type'' decode_airspace_type (\<lambda>t a.
       if t \<notin> set airspace_flags then Ret a
       else cbind (json_subscript ''properties'' j) (\<lambda>p.
            cbind (decode_details lexical_float t p) (\<lambda>d.
              Ret (a\<lparr>as_details := set_details d (as_details a)\<rparr>)))) j a"

text \<open>The body of the decoder, on the airspace \<open>a\<close>.\<close>

definition decode_airspace ::
  "(string \<Rightarrow> date_time cpp) \<Rightarrow> (string \<Rightarrow> float32 cpp) \<Rightarrow> json \<Rightarrow> airspace \<Rightarrow> airspace cpp" where
  "decode_airspace parse_iso lexical_float j a =
     cbind (cbind (json_subscript ''id'' j) json_get_string) (\<lambda>i.
     cbind (set_if_present ''name'' json_get_string (\<lambda>x a. Ret (a\<lparr>as_name := x\<rparr>)) j (a\<lparr>as_id := i\<rparr>)) (\<lambda>a.
     cbind (set_if_present ''country'' json_get_string (\<lambda>x a. Ret (a\<lparr>as_country := x\<rparr>)) j a) (\<lambda>a.
     cbind (set_if_present ''state'' json_get_string (\<lambda>x a. Ret (a\<lparr>as_state := x\<rparr>)) j a) (\<lambda>a.
     cbind (set_if_present ''city'' json_get_string (\<lambda>x a. Ret (a\<lparr>as_city := x\<rparr>)) j a) (\<lambda>a.
     cbind (set_if_counted ''geometry'' decode_geometry put_airspace_geometry j a) (\<lambda>a.
     cbind (set_if_counted ''related_geometry'' decode_related_geometries
              (\<lambda>x a. Ret (a\<lparr>as_related := x\<rparr>)) j a) (\<lambda>a.
     cbind (set_if_counted ''rules'' decode_basic_rules (\<lambda>x a. Ret (a\<lparr>as_rules := x\<rparr>)) j a) (\<lambda>a.
     cbind (set_if_present ''last_updated'' (json_get_time parse_iso)
              (\<lambda>x a. Ret (a\<lparr>as_last_updated := x\<rparr>)) j a)
       (decode_airspace_details lexical_float j)))))))))"

text \<open>
  \<open>v.push_back(Airspace{}); v.back() = element;\<close>: the element is decoded into an airspace of its
  own (1), which is assigned to the last one of the vector (0).
\<close>

definition decode_airspace_element ::
  "(string \<Rightarrow> date_time cpp) \<Rightarrow> (string \<Rightarrow> float32 cpp) \<Rightarrow> json \<Rightarrow> airspace cpp" where
  "decode_airspace_element parse_iso lexical_float j =
     cbind (decode_airspace parse_iso lexical_float j airspace_default) (\<lambda>a.
     cbind (airspace_assign ((\<lambda>_. airspace_default)(1 := a)) 0 1) (\<lambda>st. Ret (st 0)))"

definition decode_airspaces ::
  "(string \<Rightarrow> date_time cpp) \<Rightarrow> (string \<Rightarrow> float32 cpp) \<Rightarrow> json \<Rightarrow> airspace list cpp" where
  "decode_airspaces parse_iso lexical_float j =
     decode_vector (decode_airspace_element parse_iso lexical_float) j"

subsection \<open>Status reports\<close>

text \<open>\<open>ss >> color\<close>: an unknown word leaves the color without a value.\<close>

definition decode_color :: "json \<Rightarrow> status_color cpp" where
  "decode_color j = cbind (json_get_string j) (\<lambda>s. deref (color_named (next_word s)))"

text \<open>The color and the airspace are read in place.\<close>

definition decode_status_advisory ::
  "(string \<Rightarrow> date_time cpp) \<Rightarrow> (string \<Rightarrow> float32 cpp) \<Rightarrow> json \<Rightarrow> status_advisory cpp" where
  "decode_status_advisory parse_iso lexical_float j =
     cbind (json_member_opt ''color'' decode_color j) (\<lambda>c.
     cbind (decode_airspace parse_iso lexical_float j airspace_default) (\<lambda>a.
     cbind (deref c) (\<lambda>c. Ret \<lparr>sa_airspace = a, sa_color = c\<rparr>)))"

definition decode_status_advisories ::
  "(string \<Rightarrow> date_time cpp) \<Rightarrow> (string \<Rightarrow> float32 cpp) \<Rightarrow> json \<Rightarrow> status_advisory list cpp" where
  "decode_status_advisories parse_iso lexical_float j =
     decode_vector (decode_status_advisory parse_iso lexical_float) j"

definition decode_status_wind :: "json \<Rightarrow> status_wind cpp" where
  "decode_status_wind j =
     cbind (json_member ''heading'' json_get_uint32 0 j) (\<lambda>h.
     cbind (json_member ''speed'' json_get_uint32 0 j) (\<lambda>s.
     cbind (json_member ''gusting'' json_get_uint32 0 j) (\<lambda>g.
       Ret \<lparr>sw_heading = h, sw_speed = s, sw_gusting = g\<rparr>)))"

definition decode_status_weather :: "json \<Rightarrow> status_weather cpp" where
  "decode_status_weather j =
     (let w = status_weather_default in
     cbind (json_member ''condition'' json_get_string (we_condition w) j) (\<lambda>c.
     cbind (json_member ''icon'' json_get_string (we_icon w) j) (\<lambda>i.
     cbind (json_member ''wind'' decode_status_wind (we_wind w) j) (\<lambda>wi.
     cbind (json_member ''humidity'' json_get_float (we_humidity w) j) (\<lambda>h.
     cbind (json_member ''visibility'' json_get_uint32 (we_visibility w) j) (\<lambda>v.
     cbind (json_member ''precipitation'' json_get_uint32 (we_precipitation w) j) (\<lambda>p.
     cbind (json_member ''temperature'' json_get_int32 (we_temperature w) j) (\<lambda>t.
       Ret \<lparr>we_condition = c, we_icon = i, we_wind = wi, we_temperature = t, we_humidity = h,
            we_visibility = v, we_precipitation = p\<rparr>))))))))"

definition decode_status_report ::
  "(string \<Rightarrow> date_time cpp) \<Rightarrow> (string \<Rightarrow> float32 cpp) \<Rightarrow> json \<Rightarrow> status_report cpp" where
  "decode_status_report parse_iso lexical_float j =
     cbind (json_member ''max_safe_distance'' json_get_uint32 0 j) (\<lambda>d.
     cbind (json_member_opt ''advisory_color'' decode_color j) (\<lambda>c.
     cbind (json_member ''advisories'' (decode_status_advisories parse_iso lexical_float) [] j) (\<lambda>as.
     cbind (json_member ''weather'' decode_status_weather status_weather_default j) (\<lambda>w.
     cbind (deref c) (\<lambda>c.
       Ret \<lparr>sr_max_safe_distance = d, sr_advisory_color = c, sr_advisories = as, sr_weather = w\<rparr>)))))"

subsection \<open>Advisories\<close>

definition decode_airspace_advisory ::
  "(string \<Rightarrow> date_time cpp) \<Rightarrow> (string \<Rightarrow> float32 cpp) \<Rightarrow> json \<Rightarrow> airspace_advisory cpp" where
  "decode_airspace_advisory parse_iso lexical_float j =
     cbind (json_member_opt ''color'' decode_color j) (\<lambda>c.
     cbind (json_member_opt ''rule_id'' json_get_uint32 j) (\<lambda>r.
     cbind (json_member ''ruleset_id'' json_get_string [] j) (\<lambda>rs.
     cbind (decode_status_advisory parse_iso lexical_float j) (\<lambda>a.
     cbind (deref c) (\<lambda>c. cbind (deref r) (\<lambda>r.
       Ret \<lparr>aa_advisory = a, aa_color = c, aa_rule_id = r, aa_ruleset_id = rs\<rparr>))))))"

definition decode_airspace_advisories ::
  "(string \<Rightarrow> date_time cpp) \<Rightarrow> (string \<Rightarrow> float32 cpp) \<Rightarrow> json \<Rightarrow> airspace_advisory list cpp" where
  "decode_airspace_advisories parse_iso lexical_float j =
     cbind (json_subscript ''advisories'' j)
       (decode_vector (decode_airspace_advisory parse_iso lexical_float))"

definition decode_advisory_wind :: "json \<Rightarrow> advisory_wind cpp" where
  "decode_advisory_wind j =
     cbind (json_member ''heading'' json_get_uint32 0 j) (\<lambda>h.
     cbind (json_member ''speed'' json_get_float 0 j) (\<lambda>s.
     cbind (json_member ''gusting'' json_get_uint32 0 j) (\<lambda>g.
       Ret \<lparr>aw_heading = h, aw_speed = s, aw_gusting = g\<rparr>)))"

text \<open>The constant \<open>operator[]\<close> of an array does not check the index.\<close>

definition json_element :: "nat \<Rightarrow> json \<Rightarrow> json cpp" where
  "json_element i j =
     (case j of J_array xs \<Rightarrow> if i < length xs then Ret (xs ! i) else UB | _ \<Rightarrow> Throw Json_type_error)"

text \<open>Everything comes from the first report, except the dew point.\<close>

definition decode_advisory_weather :: "(string \<Rightarrow> date_time cpp) \<Rightarrow> json \<Rightarrow> advisory_weather cpp" where
  "decode_advisory_weather parse_iso j =
     cbind (cbind (json_subscript ''weather'' j) (json_element 0)) (\<lambda>jw.
     cbind (json_member ''condition'' json_get_string [] jw) (\<lambda>c.
     cbind (json_member ''icon'' json_get_string [] jw) (\<lambda>i.
     cbind (json_member ''wind'' decode_advisory_wind \<lparr>aw_heading = 0, aw_speed = 0, aw_gusting = 0\<rparr> jw) (\<lambda>w.
     cbind (json_member ''humidity'' json_get_float 0 jw) (\<lambda>h.
     cbind (json_member ''visibility'' json_get_float 0 jw) (\<lambda>v.
     cbind (json_member ''precipitation'' json_get_float 0 jw) (\<lambda>p.
     cbind (json_member ''temperature'' json_get_float 0 jw) (\<lambda>t.
     cbind (json_member ''timezone'' json_get_string [] jw) (\<lambda>tz.
     cbind (json_member ''time'' (json_get_time parse_iso) Not_a_date_time jw) (\<lambda>tm.
     cbind (json_member ''dew_point'' json_get_float 0 j) (\<lambda>dp.
     cbind (json_member ''mslp'' json_get_float 0 jw) (\<lambda>ms.
       Ret \<lparr>ae_condition = c, ae_icon = i, ae_wind = w, ae_temperature = t, ae_humidity = h,
            ae_visibility = v, ae_precipitation = p, ae_timezone = tz, ae_time = tm,
            ae_dew_point = dp, ae_mslp = ms\<rparr>))))))))))))"

subsection \<open>Evaluations and briefings\<close>

definition decode_authority :: "json \<Rightarrow> authority cpp" where
  "decode_authority j =
     cbind (json_member ''name'' json_get_string [] j) (\<lambda>n.
     cbind (json_member ''id'' json_get_string [] j) (\<lambda>i. Ret \<lparr>au_id = i, au_name = n\<rparr>))"

definition decode_authorization_status :: "json \<Rightarrow> authorization_status cpp" where
  "decode_authorization_status = decode_enum (select_named authorization_named) Auth_accepted"

definition decode_authorization :: "json \<Rightarrow> authorization cpp" where
  "decode_authorization j =
     cbind (json_member_opt ''status'' decode_authorization_status j) (\<lambda>s.
     cbind (json_member ''authority'' decode_authority \<lparr>au_id = [], au_name = []\<rparr> j) (\<lambda>a.
     cbind (json_member ''message'' json_get_string [] j) (\<lambda>m.
     cbind (deref s) (\<lambda>s. Ret \<lparr>az_status = s, az_authority = a, az_message = m\<rparr>))))"

definition decode_authorizations :: "json \<Rightarrow> authorization list cpp" where
  "decode_authorizations j = decode_vector decode_authorization j"

definition decode_validation_feature :: "json \<Rightarrow> validation_feature cpp" where
  "decode_validation_feature j =
     cbind (json_member ''code'' json_get_string [] j) (\<lambda>c.
     cbind (json_member ''description'' json_get_string [] j) (\<lambda>d.
       Ret \<lparr>vf_code = c, vf_description = d\<rparr>))"

definition decode_validation_status :: "json \<Rightarrow> validation_status cpp" where
  "decode_validation_status = decode_enum (select_named validation_named) Validation_valid"

definition decode_validation :: "json \<Rightarrow> validation cpp" where
  "decode_validation j =
     cbind (json_member_opt ''status'' decode_validation_status j) (\<lambda>s.
     cbind (json_member ''data'' json_get_string [] j) (\<lambda>d.
     cbind (json_member ''message'' json_get_string [] j) (\<lambda>m.
     cbind (json_member ''feature'' decode_validation_feature \<lparr>vf_code = [], vf_description = []\<rparr> j) (\<lambda>f.
     cbind (json_member ''authority'' decode_authority \<lparr>au_id = [], au_name = []\<rparr> j) (\<lambda>a.
     cbind (deref s) (\<lambda>s.
       Ret \<lparr>va_status = s, va_data = d, va_message = m, va_feature = f, va_authority = a\<rparr>))))))"

definition decode_validations :: "json \<Rightarrow> validation list cpp" where
  "decode_validations j = decode_vector decode_validation j"

definition decode_failure :: "json \<Rightarrow> evaluation_failure cpp" where
  "decode_failure = decode_enum (select_named failure_named) Failure_validation"

definition decode_failures :: "json \<Rightarrow> evaluation_failure list cpp" where
  "decode_failures j = decode_vector decode_failure j"

definition decode_evaluation :: "json \<Rightarrow> evaluation cpp" where
  "decode_evaluation j =
     cbind (json_member ''rulesets'' decode_rulesets [] j) (\<lambda>rs.
     cbind (json_member ''validations'' decode_validations [] j) (\<lambda>vs.
     cbind (json_member ''authorizations'' decode_authorizations [] j) (\<lambda>as.
     cbind (json_member ''failures'' decode_failures [] j) (\<lambda>fs.
       Ret \<lparr>ev_rulesets = rs, ev_validations = vs, ev_authorizations = as, ev_failures = fs\<rparr>))))"

definition decode_advisory_status ::
  "(string \<Rightarrow> date_time cpp) \<Rightarrow> (string \<Rightarrow> float32 cpp) \<Rightarrow> json \<Rightarrow> advisory_status cpp" where
  "decode_advisory_status parse_iso lexical_float j =
     cbind (json_member_opt ''color'' decode_color j) (\<lambda>c.
     cbind (json_member ''advisories'' (decode_status_advisories parse_iso lexical_float) [] j) (\<lambda>as.
     cbind (deref c) (\<lambda>c. Ret \<lparr>ad_color = c, ad_advisories = as\<rparr>)))"

text \<open>The evaluation is read in place, from the document of the briefing itself.\<close>

definition decode_briefing ::
  "(string \<Rightarrow> date_time cpp) \<Rightarrow> (string \<Rightarrow> float32 cpp) \<Rightarrow> json \<Rightarrow> briefing cpp" where
  "decode_briefing parse_iso lexical_float j =
     cbind (json_member ''created_at'' (json_get_time parse_iso) Not_a_date_time j) (\<lambda>t.
     cbind (json_member_opt ''airspace'' (decode_advisory_status parse_iso lexical_float) j) (\<lambda>a.
     cbind (decode_evaluation j) (\<lambda>e.
     cbind (deref a) (\<lambda>a. Ret \<lparr>bf_created_at = t, bf_airspace = a, bf_evaluation = e\<rparr>))))"

subsection \<open>Facts\<close>

text \<open>Decoders that cannot return.\<close>

lemma json_member_opt_untouched:
  "json_member_opt k decode_untouched j \<noteq> Ret (Some t)"
  by (auto simp: json_member_opt_def json_member_def json_at_def decode_untouched_def cmap_def split: json.splits option.splits)

lemma decode_basic_rule_never: "decode_basic_rule j \<noteq> Ret r"
  using json_member_opt_untouched by (fastforce simp: decode_basic_rule_def cbind_eq_Ret)

lemma decode_basic_rules_empty: "decode_basic_rules j = Ret rs \<Longrightarrow> rs = []"
  using decode_basic_rule_never
  by (cases "json_elements j") (auto simp: decode_basic_rules_def decode_vector_def cbind_eq_Ret)

lemma decode_flight_restriction_never: "decode_flight_restriction j \<noteq> Ret r"
  using json_member_opt_untouched by (fastforce simp: decode_flight_restriction_def cbind_eq_Ret)

lemma decode_heliport_never: "decode_heliport j \<noteq> Ret r"
  using json_member_opt_untouched by (fastforce simp: decode_heliport_def cbind_eq_Ret)

lemma decode_special_use_airspace_never: "decode_special_use_airspace j \<noteq> Ret r"
  by (simp add: decode_special_use_airspace_def cbind_eq_Ret decode_untouched_def)

definition readable_types :: "airspace_type list" where
  "readable_types =
     [AT_airport, AT_controlled_airspace, AT_wildfire, AT_park, AT_power_plant, AT_prison,
      AT_school, AT_hospital, AT_fire]"

lemma type_texts:
  "airspace_types_text AT_airport = ''airport''"
  "airspace_types_text AT_controlled_airspace = ''controlled_airspace''"
  "airspace_types_text AT_special_use_airspace = ''special_use_airspace''"
  "airspace_types_text AT_tfr = ''tfr''"
  "airspace_types_text AT_wildfire = ''wildfire''"
  "airspace_types_text AT_park = ''park''"
  "airspace_types_text AT_power_plant = ''power_plant''"
  "airspace_types_text AT_heliport = ''heliport''"
  "airspace_types_text AT_prison = ''prison''"
  "airspace_types_text AT_school = ''school''"
  "airspace_types_text AT_hospital = ''hospital''"
  "airspace_types_text AT_fire = ''fire''"
  by (simp_all add: airspace_types_text_def write_type_def airspace_type_and_def AT_invalid_def Let_def)

lemma decode_airspace_type_text:
  assumes "decode_airspace_type v = Ret t"
  shows "v = J_string (airspace_types_text t) \<and> t \<in> set airspace_flags \<and> t \<noteq> AT_emergency"
proof -
  obtain s where v: "v = J_string s"
    using assms by (cases v) (simp_all add: decode_airspace_type_def json_get_string_def)
  have "t \<in> set airspace_flags \<and> t \<noteq> AT_emergency \<and> s = airspace_types_text t"
    using assms
    by (simp add: v decode_airspace_type_def json_get_string_def airspace_flags_def type_texts split: if_splits)
  then show ?thesis by (simp add: v)
qed

lemma decode_details_kind:
  assumes "decode_details lexical_float t p = Ret d" "t \<in> set airspace_flags" "t \<noteq> AT_emergency"
  shows "details_kind d = t \<and> t \<in> set readable_types"
  using assms decode_flight_restriction_never [of p] decode_heliport_never [of p]
    decode_special_use_airspace_never [of p]
  by (auto simp: decode_details_def airspace_flags_def readable_types_def decode_empty_details_def
      cmap_def cbind_eq_Ret split: if_splits)

text \<open>An optional step keeps what its setter keeps.\<close>

lemma set_if_present_keeps:
  assumes "set_if_present k dec upd j s = Ret s'" "P s"
    and "\<And>v x. dec v = Ret x \<Longrightarrow> upd x s = Ret s' \<Longrightarrow> P s'"
  shows "P s'"
  using assms(1,2) by (auto simp: set_if_present_def cbind_eq_Ret split: if_splits intro: assms(3))

lemma set_if_counted_keeps:
  assumes "set_if_counted k dec upd j s = Ret s'" "P s"
    and "\<And>v x. dec v = Ret x \<Longrightarrow> upd x s = Ret s' \<Longrightarrow> P s'"
  shows "P s'"
  using assms(1,2) by (auto simp: set_if_counted_def cbind_eq_Ret split: if_splits intro: assms(3))

text \<open>An airspace whose details are still missing.\<close>

definition airspace_open :: "airspace \<Rightarrow> bool" where
  "airspace_open a \<longleftrightarrow>
     geometry_wf (as_geometry a) \<and> uleak (as_geometry a) = [] \<and>
     as_details a = as_details airspace_default \<and> as_rules a = []"

lemma airspace_open_updates:
  "airspace_open (a\<lparr>as_id := x\<rparr>) \<longleftrightarrow> airspace_open a" "airspace_open (a\<lparr>as_name := x\<rparr>) \<longleftrightarrow> airspace_open a"
  "airspace_open (a\<lparr>as_country := x\<rparr>) \<longleftrightarrow> airspace_open a"
  "airspace_open (a\<lparr>as_state := x\<rparr>) \<longleftrightarrow> airspace_open a" "airspace_open (a\<lparr>as_city := x\<rparr>) \<longleftrightarrow> airspace_open a"
  "airspace_open (a\<lparr>as_related := rgs\<rparr>) \<longleftrightarrow> airspace_open a"
  "airspace_open (a\<lparr>as_last_updated := tm\<rparr>) \<longleftrightarrow> airspace_open a"
  "airspace_open a \<Longrightarrow> airspace_open (a\<lparr>as_rules := []\<rparr>)"
  by (simp_all add: airspace_open_def)

lemma put_airspace_geometry_open:
  assumes "put_airspace_geometry g a = Ret a'" "airspace_open a"
  shows "airspace_open a'"
proof -
  obtain g0 where g0: "geometry_reset (as_geometry a) = Ret g0" "utag g0 = GT_invalid" "geometry_wf g0"
    "uleak g0 = []"
    using geometry_reset_ok [of "as_geometry a"] assms(2) by (auto simp: airspace_open_def)
  have "geometry_wf (geometry_construct_from g)"
    by (simp add: geometry_construct_from_def geometry_set_def geometry_default_def place_def raw_def
        uwf_def geometry_trivial_def)
  from set_geometry_ok [OF g0(3,2) this] g0 assms show ?thesis
    by (auto simp: put_airspace_geometry_def airspace_open_def)
qed

definition type_as_decoded :: "json \<Rightarrow> airspace \<Rightarrow> bool" where
  "type_as_decoded j a =
     (case json_find ''type'' j of
        None \<Rightarrow> utag (as_details a) = AT_invalid
      | Some v \<Rightarrow> utag (as_details a) \<in> set readable_types \<and>
                  v = J_string (airspace_types_text (utag (as_details a))))"

lemma decode_airspace_details_ok:
  assumes "decode_airspace_details lexical_float j a = Ret a'" "airspace_open a"
  shows "airspace_wf a' \<and> airspace_leaks a' = ([], []) \<and> as_rules a' = [] \<and> type_as_decoded j a'"
proof (cases "json_find ''type'' j")
  case None
  with assms(1) json_count_find [of "''type''" j] have "a' = a"
    by (simp add: decode_airspace_details_def set_if_counted_def)
  with assms(2) None airspace_default_ok show ?thesis
    by (auto simp: airspace_open_def airspace_wf_def airspace_leaks_def type_as_decoded_def
        airspace_default_def raw_def)
next
  case (Some v)
  from assms(1) json_count_find [of "''type''" j] json_subscript_found [OF Some] Some
  obtain t where t: "decode_airspace_type v = Ret t"
    and rest: "(if t \<notin> set airspace_flags then Ret a
       else cbind (json_subscript ''properties'' j) (\<lambda>p.
            cbind (decode_details lexical_float t p) (\<lambda>d.
              Ret (a\<lparr>as_details := set_details d (as_details a)\<rparr>)))) = Ret a'"
    by (auto simp: decode_airspace_details_def set_if_counted_def cbind_eq_Ret)
  note tt = decode_airspace_type_text [OF t]
  with rest obtain p d where d: "decode_details lexical_float t p = Ret d"
    "a' = a\<lparr>as_details := set_details d (as_details a)\<rparr>"
    by (auto simp: cbind_eq_Ret)
  from decode_details_kind [OF d(1)] tt have k: "details_kind d = t" "t \<in> set readable_types" by auto
  then have "d \<noteq> D_invalid" by (auto simp: readable_types_def AT_invalid_def)
  with assms(2) k tt show ?thesis
    by (auto simp: d(2) airspace_open_def airspace_wf_def airspace_leaks_def type_as_decoded_def Some
        set_details_def place_def airspace_default_def raw_def uwf_def)
qed

lemma decode_airspace_ok:
  assumes "decode_airspace parse_iso lexical_float j airspace_default = Ret a"
  shows "airspace_wf a \<and> airspace_leaks a = ([], []) \<and> as_rules a = [] \<and> type_as_decoded j a"
proof -
  from assms obtain i a1 a2 a3 a4 a5 a6 a7 a8 where
    s1: "set_if_present ''name'' json_get_string (\<lambda>x a. Ret (a\<lparr>as_name := x\<rparr>)) j
           (airspace_default\<lparr>as_id := i\<rparr>) = Ret a1"
    and s2: "set_if_present ''country'' json_get_string (\<lambda>x a. Ret (a\<lparr>as_country := x\<rparr>)) j a1 = Ret a2"
    and s3: "set_if_present ''state'' json_get_string (\<lambda>x a. Ret (a\<lparr>as_state := x\<rparr>)) j a2 = Ret a3"
    and s4: "set_if_present ''city'' json_get_string (\<lambda>x a. Ret (a\<lparr>as_city := x\<rparr>)) j a3 = Ret a4"
    and s5: "set_if_counted ''geometry'' decode_geometry put_airspace_geometry j a4 = Ret a5"
    and s6: "set_if_counted ''related_geometry'' decode_related_geometries
              (\<lambda>x a. Ret (a\<lparr>as_related := x\<rparr>)) j a5 = Ret a6"
    and s7: "set_if_counted ''rules'' decode_basic_rules (\<lambda>x a. Ret (a\<lparr>as_rules := x\<rparr>)) j a6 = Ret a7"
    and s8: "set_if_present ''last_updated'' (json_get_time parse_iso)
              (\<lambda>x a. Ret (a\<lparr>as_last_updated := x\<rparr>)) j a7 = Ret a8"
    and s9: "decode_airspace_details lexical_float j a8 = Ret a"
    by (auto simp: decode_airspace_def cbind_eq_Ret)
  have "airspace_open airspace_default"
    using geometry_default_ok by (simp add: airspace_open_def airspace_default_def geometry_default_def raw_def)
  then have o0: "airspace_open (airspace_default\<lparr>as_id := i\<rparr>)" by (simp add: airspace_open_updates)
  have o1: "airspace_open a1"
    by (rule set_if_present_keeps [where P = airspace_open, OF s1 o0]) (use o0 in \<open>auto simp: airspace_open_updates\<close>)
  have o2: "airspace_open a2"
    by (rule set_if_present_keeps [where P = airspace_open, OF s2 o1]) (use o1 in \<open>auto simp: airspace_open_updates\<close>)
  have o3: "airspace_open a3"
    by (rule set_if_present_keeps [where P = airspace_open, OF s3 o2]) (use o2 in \<open>auto simp: airspace_open_updates\<close>)
  have o4: "airspace_open a4"
    by (rule set_if_present_keeps [where P = airspace_open, OF s4 o3]) (use o3 in \<open>auto simp: airspace_open_updates\<close>)
  have o5: "airspace_open a5"
    by (rule set_if_counted_keeps [where P = airspace_open, OF s5 o4]) (use o4 in \<open>auto intro: put_airspace_geometry_open\<close>)
  have o6: "airspace_open a6"
    by (rule set_if_counted_keeps [where P = airspace_open, OF s6 o5]) (use o5 in \<open>auto simp: airspace_open_updates\<close>)
  have o7: "airspace_open a7"
    by (rule set_if_counted_keeps [where P = airspace_open, OF s7 o6]) (use o6 in \<open>auto simp: airspace_open_updates dest!: decode_basic_rules_empty\<close>)
  have o8: "airspace_open a8"
    by (rule set_if_present_keeps [where P = airspace_open, OF s8 o7]) (use o7 in \<open>auto simp: airspace_open_updates\<close>)
  from decode_airspace_details_ok [OF s9 o8] show ?thesis .
qed

lemma type_as_decoded_value:
  assumes "airspace_wf a" "airspace_wf b" "airspace_value a = airspace_value b"
  shows "type_as_decoded j a \<longleftrightarrow> type_as_decoded j b"
proof -
  have "uval AT_invalid (as_details a) = uval AT_invalid (as_details b)"
    using assms(3) by (simp add: airspace_value_def)
  moreover have "details_wf (as_details a)" "details_wf (as_details b)"
    using assms(1,2) by (simp_all add: airspace_wf_def)
  ultimately have "utag (as_details a) = utag (as_details b)"
    by (auto simp: uwf_def uval_def split: if_splits option.splits)
  then show ?thesis by (cases "json_find ''type'' j") (simp_all add: type_as_decoded_def)
qed

lemma decode_airspace_element_ok:
  assumes "decode_airspace_element parse_iso lexical_float j = Ret a"
  shows "airspace_wf a \<and> airspace_leaks a = ([], []) \<and> as_rules a = [] \<and> type_as_decoded j a"
proof -
  from assms obtain b st where b: "decode_airspace parse_iso lexical_float j airspace_default = Ret b"
    and st: "airspace_assign ((\<lambda>_. airspace_default)(1 := b)) 0 1 = Ret st" "a = st 0"
    by (auto simp: decode_airspace_element_def cbind_eq_Ret)
  note ok = decode_airspace_ok [OF b]
  have "airspace_wf airspace_default" by (rule airspace_default_ok)
  with airspace_assign_value [of "(\<lambda>_. airspace_default)(1 := b)" 0 1] ok st
  have a: "airspace_wf a" "airspace_value a = airspace_value b" "airspace_leaks a = airspace_leaks airspace_default"
    by auto
  then have "as_rules a = as_rules b" by (simp add: airspace_value_def airspace_base.truncate_def)
  moreover have "airspace_leaks airspace_default = ([], [])"
    by (simp add: airspace_leaks_def airspace_default_def geometry_default_def raw_def)
  ultimately show ?thesis using a ok type_as_decoded_value [of a b j] by simp
qed

lemma cmapM_list_all2:
  "cmapM f xs = Ret ys \<Longrightarrow> (\<And>x y. f x = Ret y \<Longrightarrow> P x y) \<Longrightarrow> list_all2 P xs ys"
  by (induction xs arbitrary: ys) (auto simp: cbind_eq_Ret)

text \<open>
  C30. The decoder of a list of airspaces yields one airspace per element, each one well-formed,
  with nothing abandoned by the assignment that stores it, without rules, and of the type the
  element names, if it names one. The types are the nine readable ones: an element that is a
  temporary flight restriction, a special use airspace, a heliport or an emergency, or that has
  a rule, is never decoded.
\<close>

theorem decoded_airspaces_well_formed:
  assumes "decode_airspaces parse_iso lexical_float j = Ret as"
  shows "list_all2 (\<lambda>v a. airspace_wf a \<and> airspace_leaks a = ([], []) \<and> as_rules a = [] \<and> type_as_decoded v a)
           (json_elements j) as"
  using assms unfolding decode_airspaces_def decode_vector_def
  by (rule cmapM_list_all2) (rule decode_airspace_element_ok)

definition park_document :: json where
  "park_document =
     J_array [J_object [(''id'', J_string ''p1''), (''properties'', J_null), (''type'', J_string ''park'')]]"

definition park_airspace :: airspace where
  "park_airspace = airspace_default\<lparr>as_id := ''p1'', as_details := set_details D_park (as_details airspace_default)\<rparr>"

lemma park_decoded: "decode_airspace parse_iso lexical_float
   (J_object [(''id'', J_string ''p1''), (''properties'', J_null), (''type'', J_string ''park'')]) airspace_default =
     Ret park_airspace"
  by (simp add: decode_airspace_def set_if_present_def set_if_counted_def json_count_def json_subscript_def
      json_get_string_def decode_airspace_details_def decode_airspace_type_def airspace_flags_def
      decode_details_def decode_empty_details_def park_airspace_def char_less_def)

lemma park_document_decoded: "returns (decode_airspaces parse_iso lexical_float park_document)"
proof -
  have wf: "airspace_wf park_airspace"
    using decode_airspace_ok [OF park_decoded] by simp
  have "airspace_wf airspace_default" by (rule airspace_default_ok)
  with wf obtain a where "airspace_assign ((\<lambda>_. airspace_default)(1 := park_airspace)) 0 1 =
      Ret (((\<lambda>_. airspace_default)(1 := park_airspace))(0 := a))"
    using airspace_assign_value [of "(\<lambda>_. airspace_default)(1 := park_airspace)" 0 1] by auto
  then show ?thesis
    by (simp add: decode_airspaces_def decode_vector_def park_document_def json_elements_def
        decode_airspace_element_def park_decoded)
qed

theorem decoded_airspaces_well_formed_witness:
  "\<exists>as. decode_airspaces (\<lambda>_. UB) (\<lambda>_. UB) park_document = Ret as \<and>
     list_all2 (\<lambda>v a. airspace_wf a \<and> airspace_leaks a = ([], []) \<and> as_rules a = [] \<and> type_as_decoded v a)
       (json_elements park_document) as"
proof (cases "decode_airspaces (\<lambda>_. UB) (\<lambda>_. UB) park_document")
  case (Ret as)
  from decoded_airspaces_well_formed [OF Ret] Ret show ?thesis by simp
qed (use park_document_decoded [of "\<lambda>_. UB" "\<lambda>_. UB"] in simp_all)

text \<open>The flight restriction of a document, which the decoder loses.\<close>

lemma restriction_not_decoded:
  assumes "json_find ''type'' j = Some (J_string ''tfr'')"
  shows "\<not> returns (decode_airspace parse_iso lexical_float j airspace_default)"
proof (cases "decode_airspace parse_iso lexical_float j airspace_default")
  case (Ret a)
  from decode_airspace_ok [OF this] assms show ?thesis
    by (auto simp: type_as_decoded_def readable_types_def type_texts)
qed simp_all

subsection \<open>Evaluations and flights\<close>

lemma json_member_opt_Some:
  "json_member_opt k dec j = Ret (Some x) \<longleftrightarrow> (\<exists>v. json_find k j = Some v \<and> v \<noteq> J_null \<and> dec v = Ret x)"
proof (cases "json_find k j")
  case None
  then show ?thesis by (simp add: json_member_opt_def json_member_missing)
next
  case (Some v)
  then show ?thesis
    using json_count_find [of k j] json_at_found [OF Some]
    by (auto simp: json_member_opt_def json_member_def cmap_def cbind_eq_Ret)
qed

text \<open>
  An authorization that is decoded counts as accepted exactly when its status is a text of
  one word that is not the name of one of the four other states: a status the library does not
  know is an acceptance.
\<close>

lemma unknown_authorization_is_accepted:
  assumes "decode_authorization j = Ret a"
  shows "\<exists>s. json_find ''status'' j = Some (J_string s) \<and> is_word s \<and>
     (az_status a = Auth_accepted \<longleftrightarrow>
        s \<notin> {''rejected'', ''pending'', ''accepted_upon_submission'', ''rejected_upon_submission''})"
proof -
  from assms obtain st where st: "json_member_opt ''status'' decode_authorization_status j = Ret (Some st)"
    and a: "az_status a = st"
    by (auto simp: decode_authorization_def cbind_eq_Ret)
  then obtain v where v: "json_find ''status'' j = Some v" "decode_authorization_status v = Ret st"
    by (auto simp: json_member_opt_Some)
  then obtain s where s: "v = J_string s" "is_word s" "st = select_named authorization_named s Auth_accepted"
    by (cases v)
       (auto simp: decode_authorization_status_def decode_enum_def json_get_string_def lexical_cast_enum_def
         split: if_splits)
  have "st = Auth_accepted \<longleftrightarrow>
      s \<notin> {''rejected'', ''pending'', ''accepted_upon_submission'', ''rejected_upon_submission''}"
    by (simp add: s(3) select_named_def authorization_named_def)
  with v(1) s(1,2) a show ?thesis by simp
qed

definition denied_document :: json where
  "denied_document = J_object [(''status'', J_string ''denied'')]"

lemma unknown_authorization_is_accepted_witness:
  "\<exists>a. decode_authorization denied_document = Ret a \<and> az_status a = Auth_accepted \<and>
     (\<exists>s. json_find ''status'' denied_document = Some (J_string s) \<and> is_word s \<and>
       (az_status a = Auth_accepted \<longleftrightarrow>
          s \<notin> {''rejected'', ''pending'', ''accepted_upon_submission'', ''rejected_upon_submission''}))"
proof -
  let ?a = "\<lparr>az_status = Auth_accepted, az_authority = \<lparr>au_id = [], au_name = []\<rparr>, az_message = []\<rparr>"
  have d: "decode_authorization denied_document = Ret ?a"
    by (simp add: decode_authorization_def denied_document_def json_member_opt_def json_member_def
        json_count_def json_at_def decode_authorization_status_def decode_enum_def json_get_string_def
        lexical_cast_enum_def is_word_def is_space_char_def select_named_def authorization_named_def
        char_less_def cmap_def)
  from unknown_authorization_is_accepted [OF d] d show ?thesis by auto
qed

text \<open>A flight whose document has no pilot is never handed out: its pilot has members without a value.\<close>

lemma flight_without_pilot:
  assumes "json_find ''pilot'' j = None"
  shows "\<not> returns (decode_flight parse_iso j)"
proof (cases "decode_flight parse_iso j")
  case (Ret f)
  then obtain p where "json_member_opt ''pilot'' (decode_pilot parse_iso) j = Ret (Some p)"
    by (auto simp: decode_flight_def cbind_eq_Ret)
  with assms show ?thesis by (simp add: json_member_opt_Some)
qed simp_all

text \<open>The dew point of a report is not read.\<close>

lemma dew_point_lost:
  assumes "decode_advisory_weather parse_iso j = Ret w" "json_find ''dew_point'' j = None"
  shows "ae_dew_point w = 0"
  using assms by (auto simp: decode_advisory_weather_def cbind_eq_Ret json_member_missing)

end
