(* ===== verification/Simulation.thy ===== *)
theory Simulation
  imports Record_Json Traffic
begin

text \<open>
  Simulated vehicles: the ruler (src/airmap/util/cheap_ruler.cpp), the walk along a polygon
  (telemetry_simulator.cpp), and scenarios with their decoder, simulator and runner
  (scenario_simulator.cpp). Sums and quotients of doubles round once, as products do (Traffic).
  The functions of <cmath>, whose results the standard leaves to the implementation, are a
  parameter. Iterators into the outer ring are positions, the end of the ring is its length;
  a copied simulator has the same positions in its own ring.
\<close>

subsection \<open>Sums and quotients of doubles\<close>

definition dbl_quiet :: double where
  "dbl_quiet = word_of_nat (2047 * 2 ^ 52 + 2 ^ 51)"

definition dbl_neg_of :: "double \<Rightarrow> double" where
  "dbl_neg_of x = word_of_nat ((if dbl_neg x then 0 else 2 ^ 63) + dbl_mag x)"

definition dbl_scaled :: "int \<Rightarrow> double \<Rightarrow> int" where
  "dbl_scaled e x =
     (if dbl_neg x then - 1 else 1) * int (dbl_mantissa x) * 2 ^ nat (dbl_exponent x - e)"

definition dbl_add :: "double \<Rightarrow> double \<Rightarrow> double" where
  "dbl_add x y =
     (let e = min (dbl_exponent x) (dbl_exponent y); n = dbl_scaled e x + dbl_scaled e y
      in if dbl_nan x \<or> dbl_nan y \<or> dbl_inf x \<and> dbl_inf y \<and> dbl_neg x \<noteq> dbl_neg y then dbl_quiet
         else if dbl_inf x then x
         else if dbl_inf y then y
         else if n = 0 then (if dbl_neg x \<and> dbl_neg y then 2 ^ 63 else 0)
         else dbl_of_ratio (n < 0) (nat \<bar>n\<bar> * 2 ^ nat e) (2 ^ nat (- e)))"

definition dbl_sub :: "double \<Rightarrow> double \<Rightarrow> double" where
  "dbl_sub x y = dbl_add x (dbl_neg_of y)"

definition dbl_div :: "double \<Rightarrow> double \<Rightarrow> double" where
  "dbl_div x y =
     (let neg = (dbl_neg x \<noteq> dbl_neg y); s = (if neg then 2 ^ 63 else 0 :: nat);
          e = dbl_exponent x - dbl_exponent y
      in if dbl_nan x \<or> dbl_nan y \<or> dbl_inf x \<and> dbl_inf y \<or> dbl_mag x = 0 \<and> dbl_mag y = 0
         then dbl_quiet
         else if dbl_inf x \<or> dbl_mag y = 0 then word_of_nat (s + 2047 * 2 ^ 52)
         else if dbl_inf y then word_of_nat s
         else dbl_of_ratio neg (dbl_mantissa x * 2 ^ nat e) (dbl_mantissa y * 2 ^ nat (- e)))"

text \<open>A literal of the source.\<close>

abbreviation dbl_lit :: "nat \<Rightarrow> nat \<Rightarrow> double" where
  "dbl_lit n d \<equiv> dbl_of_ratio False n d"

definition dbl_pi :: double where
  "dbl_pi = dbl_lit 314159265358979323846 (10 ^ 20)"

subsection \<open>The ruler\<close>

record libm =
  lm_cos :: "double \<Rightarrow> double"
  lm_sin :: "double \<Rightarrow> double"
  lm_atan2 :: "double \<Rightarrow> double \<Rightarrow> double"
  lm_sqrt :: "double \<Rightarrow> double"
  lm_floor :: "double \<Rightarrow> double"

record ruler =
  ru_kx :: double
  ru_ky :: double

definition cheap_ruler :: "libm \<Rightarrow> double \<Rightarrow> ruler" where
  "cheap_ruler lm lat =
     (let two = dbl_lit 2 1;
          c = lm_cos lm (dbl_div (dbl_mul (lm_floor lm lat) dbl_pi) (dbl_lit 180 1));
          c2 = dbl_sub (dbl_mul (dbl_mul two c) c) (dbl_lit 1 1);
          c3 = dbl_sub (dbl_mul (dbl_mul two c) c2) c;
          c4 = dbl_sub (dbl_mul (dbl_mul two c) c3) c2;
          c5 = dbl_sub (dbl_mul (dbl_mul two c) c4) c3
      in \<lparr>ru_kx = dbl_mul (dbl_lit 1000 1)
            (dbl_add (dbl_sub (dbl_mul (dbl_lit 11141513 100000) c) (dbl_mul (dbl_lit 9455 100000) c3))
                     (dbl_mul (dbl_lit 12 100000) c5)),
          ru_ky = dbl_mul (dbl_lit 1000 1)
            (dbl_add (dbl_sub (dbl_lit 11113209 100000) (dbl_mul (dbl_lit 56605 100000) c2))
                     (dbl_mul (dbl_lit 12 10000) c4))\<rparr>)"

definition ruler_dx :: "ruler \<Rightarrow> coordinate \<Rightarrow> coordinate \<Rightarrow> double" where
  "ruler_dx r p1 p2 = dbl_mul (dbl_sub (longitude p2) (longitude p1)) (ru_kx r)"

definition ruler_dy :: "ruler \<Rightarrow> coordinate \<Rightarrow> coordinate \<Rightarrow> double" where
  "ruler_dy r p1 p2 = dbl_mul (dbl_sub (latitude p2) (latitude p1)) (ru_ky r)"

definition ruler_bearing :: "libm \<Rightarrow> ruler \<Rightarrow> coordinate \<Rightarrow> coordinate \<Rightarrow> double" where
  "ruler_bearing lm r p1 p2 =
     (let dx = ruler_dx r p1 p2; dy = ruler_dy r p1 p2
      in if \<not> (dbl_less dx 0 \<or> dbl_less 0 dx) then 0
         else if \<not> (dbl_less dy 0 \<or> dbl_less 0 dy) then 0
         else let b = dbl_add (dbl_div (dbl_mul (lm_atan2 lm (dbl_neg_of dy) dx) (dbl_lit 180 1)) dbl_pi)
                        (dbl_lit 90 1)
              in if dbl_less (dbl_lit 180 1) b then dbl_sub b (dbl_lit 360 1) else b)"

definition ruler_distance :: "libm \<Rightarrow> ruler \<Rightarrow> coordinate \<Rightarrow> coordinate \<Rightarrow> double" where
  "ruler_distance lm r p1 p2 =
     (let dx = ruler_dx r p1 p2; dy = ruler_dy r p1 p2
      in lm_sqrt lm (dbl_add (dbl_mul dx dx) (dbl_mul dy dy)))"

definition ruler_destination :: "libm \<Rightarrow> ruler \<Rightarrow> coordinate \<Rightarrow> double \<Rightarrow> double \<Rightarrow> coordinate" where
  "ruler_destination lm r c distance bearing =
     (let a = dbl_div (dbl_mul (dbl_sub (dbl_lit 90 1) bearing) dbl_pi) (dbl_lit 180 1)
      in c\<lparr>longitude := dbl_add (longitude c) (dbl_div (dbl_mul (lm_cos lm a) distance) (ru_kx r)),
          latitude := dbl_add (latitude c) (dbl_div (dbl_mul (lm_sin lm a) distance) (ru_ky r))\<rparr>)"

subsection \<open>The walk along a polygon\<close>

record telemetry_simulator =
  tm_polygon :: polygon_shape
  tm_begin :: nat
  tm_end :: nat
  tm_ruler :: ruler
  tm_start_time :: date_time
  tm_bearing :: double
  tm_length :: double
  tm_current :: coordinate
  tm_time :: date_time

text \<open>\<open>*it\<close> for an iterator into the outer ring.\<close>

definition ring_at :: "polygon_shape \<Rightarrow> nat \<Rightarrow> coordinate cpp" where
  "ring_at p i = (if i < length (outer_ring p) then Ret (outer_ring p ! i) else UB)"

text \<open>The clock is read twice: \<open>t1\<close> and \<open>t2\<close>.\<close>

definition simulator_create ::
  "libm \<Rightarrow> date_time \<Rightarrow> date_time \<Rightarrow> polygon_shape \<Rightarrow> telemetry_simulator cpp" where
  "simulator_create lm t1 t2 p =
     cbind (ring_at p 0) (\<lambda>b. cbind (ring_at p 1) (\<lambda>e.
       let r = cheap_ruler lm (latitude b)
       in Ret \<lparr>tm_polygon = p, tm_begin = 0, tm_end = 1, tm_ruler = r, tm_start_time = t1,
               tm_bearing = ruler_bearing lm r b e, tm_length = ruler_distance lm r b e,
               tm_current = b, tm_time = t2\<rparr>))"

text \<open>The segment after the current one, back to the first after the last.\<close>

definition next_segment :: "libm \<Rightarrow> date_time \<Rightarrow> telemetry_simulator \<Rightarrow> telemetry_simulator cpp" where
  "next_segment lm clock s =
     (let b = tm_end s; e = tm_end s + 1;
          (b, e) = (if e = length (outer_ring (tm_polygon s)) then (0, 1) else (b, e))
      in cbind (ring_at (tm_polygon s) b) (\<lambda>p1. cbind (ring_at (tm_polygon s) e) (\<lambda>p2.
           let r = cheap_ruler lm (latitude p1)
           in Ret (s\<lparr>tm_begin := b, tm_end := e, tm_ruler := r, tm_length := ruler_distance lm r p1 p2,
                     tm_bearing := ruler_bearing lm r p1 p2, tm_start_time := clock, tm_current := p1\<rparr>))))"

text \<open>Two metres per second, from the position and the time of the last update.\<close>

definition simulator_update ::
  "libm \<Rightarrow> date_time \<Rightarrow> date_time \<Rightarrow> telemetry_simulator \<Rightarrow> (coordinate \<times> telemetry_simulator) cpp" where
  "simulator_update lm clock now s =
     cbind (ring_at (tm_polygon s) (tm_begin s)) (\<lambda>b.
     cbind (if dbl_less (tm_length s) (ruler_distance lm (tm_ruler s) b (tm_current s))
            then next_segment lm clock s else Ret s) (\<lambda>s.
     cbind (deref (dt_minus now (tm_time s))) (\<lambda>dt.
       let way = dbl_mul (dbl_div (dbl_of_int (sint (dur_total_milliseconds dt))) (dbl_lit 1000 1)) (dbl_lit 2 1);
           c = ruler_destination lm (tm_ruler s) (tm_current s) way (tm_bearing s)
       in Ret (c, s\<lparr>tm_current := c, tm_time := now\<rparr>))))"

subsection \<open>Scenarios\<close>

record scenario_user =
  us_username :: string
  us_password :: string
  us_client_id :: string

record participant =
  pt_id :: "32 word"
  pt_aircraft :: aircraft
  pt_pilot :: pilot
  pt_user :: "scenario_user option"
  pt_geometry :: geometry
  pt_velocity :: double
  pt_authentication :: "string option"
  pt_flight :: "flight option"
  pt_monitor :: "nat option"
  pt_encryption_key :: "string option"

record scenario =
  sc_name :: string
  sc_description :: string
  sc_participants :: "participant list"
  sc_duration :: "64 word option"

definition decode_scenario_user :: "json \<Rightarrow> scenario_user cpp" where
  "decode_scenario_user j =
     cbind (json_member ''username'' json_get_string [] j) (\<lambda>u.
     cbind (json_member ''password'' json_get_string [] j) (\<lambda>p.
     cbind (json_member ''client_id'' json_get_string [] j) (\<lambda>c.
       Ret \<lparr>us_username = u, us_password = p, us_client_id = c\<rparr>)))"

definition decode_participant :: "(string \<Rightarrow> date_time cpp) \<Rightarrow> json \<Rightarrow> participant cpp" where
  "decode_participant parse_iso j =
     cbind (json_member_opt ''id'' json_get_uint32 j) (\<lambda>i.
     cbind (json_member ''aircraft'' (decode_aircraft parse_iso) (aircraft_of_id []) j) (\<lambda>a.
     cbind (json_member_opt ''pilot'' (decode_pilot parse_iso) j) (\<lambda>p.
     cbind (json_member ''user'' (decode_optional decode_scenario_user) None j) (\<lambda>u.
     cbind (json_member ''geometry'' decode_geometry G_invalid j) (\<lambda>g.
     cbind (json_member_opt ''velocity'' json_get_double j) (\<lambda>v.
     cbind (deref i) (\<lambda>i. cbind (deref p) (\<lambda>p. cbind (deref v) (\<lambda>v.
       Ret \<lparr>pt_id = i, pt_aircraft = a, pt_pilot = p, pt_user = u, pt_geometry = g, pt_velocity = v,
            pt_authentication = None, pt_flight = None, pt_monitor = None, pt_encryption_key = None\<rparr>)))))))))"

definition decode_participants :: "(string \<Rightarrow> date_time cpp) \<Rightarrow> json \<Rightarrow> participant list cpp" where
  "decode_participants parse_iso j = decode_vector (decode_participant parse_iso) j"

definition decode_scenario :: "(string \<Rightarrow> date_time cpp) \<Rightarrow> json \<Rightarrow> scenario cpp" where
  "decode_scenario parse_iso j =
     cbind (json_member ''name'' json_get_string [] j) (\<lambda>n.
     cbind (json_member ''description'' json_get_string [] j) (\<lambda>d.
     cbind (json_member ''participants'' (decode_participants parse_iso) [] j) (\<lambda>ps.
     cbind (json_member ''duration'' (decode_optional decode_seconds) None j) (\<lambda>t.
       Ret \<lparr>sc_name = n, sc_description = d, sc_participants = ps, sc_duration = t\<rparr>))))"

text \<open>\<open>details_for_polygon()\<close> of a geometry.\<close>

definition polygon_of :: "geometry \<Rightarrow> polygon_shape cpp" where
  "polygon_of g = (case g of G_polygon p \<Rightarrow> Ret p | _ \<Rightarrow> UB)"

record scenario_simulator =
  si_participants :: "participant list"
  si_state :: "telemetry_simulator list"
  si_last_update :: date_time

text \<open>\<open>clock i\<close> holds the two times that are read for participant \<open>i\<close>.\<close>

definition scenario_simulator_create ::
  "libm \<Rightarrow> (nat \<Rightarrow> date_time \<times> date_time) \<Rightarrow> scenario \<Rightarrow> scenario_simulator cpp" where
  "scenario_simulator_create lm clock sc =
     cbind (cmapM (\<lambda>(i, p). cbind (polygon_of (pt_geometry p))
                      (simulator_create lm (fst (clock i)) (snd (clock i))))
              (enumerate 0 (sc_participants sc))) (\<lambda>st.
       Ret \<lparr>si_participants = sc_participants sc, si_state = st, si_last_update = Not_a_date_time\<rparr>)"

definition scenario_simulator_start :: "date_time \<Rightarrow> scenario_simulator \<Rightarrow> scenario_simulator" where
  "scenario_simulator_start now s = s\<lparr>si_last_update := now\<rparr>"

definition vector_at :: "'a list \<Rightarrow> nat \<Rightarrow> 'a cpp" where
  "vector_at xs i = (if i < length xs then Ret (xs ! i) else Throw Out_of_range)"

text \<open>What the enumerator is called with, in order, and the simulator afterwards.\<close>

definition update_participant ::
  "libm \<Rightarrow> (nat \<Rightarrow> date_time) \<Rightarrow> date_time \<Rightarrow> scenario_simulator \<Rightarrow> nat \<Rightarrow>
   ((participant \<times> coordinate) \<times> telemetry_simulator) cpp" where
  "update_participant lm clock now s i =
     cbind (vector_at (si_participants s) i) (\<lambda>p. cbind (vector_at (si_state s) i) (\<lambda>t.
     cbind (simulator_update lm (clock i) now t) (\<lambda>(c, t'). Ret ((p, c), t'))))"

definition scenario_simulator_update ::
  "libm \<Rightarrow> (nat \<Rightarrow> date_time) \<Rightarrow> date_time \<Rightarrow> scenario_simulator \<Rightarrow>
   ((participant \<times> coordinate) list \<times> scenario_simulator) cpp" where
  "scenario_simulator_update lm clock now s =
     cbind (cmapM (update_participant lm clock now s) [0..<length (si_participants s)]) (\<lambda>rs.
       Ret (map fst rs, s\<lparr>si_state := map snd rs @ drop (length rs) (si_state s), si_last_update := now\<rparr>))"

subsection \<open>The runner\<close>

text \<open>
  \<open>su_worker\<close> is the simulator of a thread that has been started and not joined. Assigning to
  a thread that is still joinable ends the program.
\<close>

record runner =
  su_frequency :: "32 word"
  su_running :: bool
  su_worker :: "scenario_simulator option"

definition runner_create :: "32 word \<Rightarrow> runner" where
  "runner_create f = \<lparr>su_frequency = f, su_running = False, su_worker = None\<rparr>"

definition runner_start :: "date_time \<Rightarrow> scenario_simulator \<Rightarrow> runner \<Rightarrow> runner cpp" where
  "runner_start now sim r =
     (if su_running r then Ret r
      else case su_worker r of
             Some _ \<Rightarrow> Throw Assertion_failed
           | None \<Rightarrow> Ret (r\<lparr>su_running := True, su_worker := Some (scenario_simulator_start now sim)\<rparr>))"

definition runner_stop :: "runner \<Rightarrow> runner" where
  "runner_stop r = r\<lparr>su_running := False\<rparr>"

text \<open>One turn of the loop of the thread; \<open>1000 / frequency\<close> milliseconds pass before the next.\<close>

definition runner_turn ::
  "libm \<Rightarrow> (nat \<Rightarrow> date_time) \<Rightarrow> date_time \<Rightarrow> runner \<Rightarrow>
   (((participant \<times> coordinate) list \<times> 32 word) option \<times> runner) cpp" where
  "runner_turn lm clock now r =
     (case su_worker r of
        None \<Rightarrow> Ret (None, r)
      | Some sim \<Rightarrow>
          if \<not> su_running r then Ret (None, r)
          else cbind (scenario_simulator_update lm clock now sim) (\<lambda>(out, sim').
               if su_frequency r = 0 then UB
               else Ret (Some (out, 1000 div su_frequency r), r\<lparr>su_worker := Some sim'\<rparr>)))"

subsection \<open>Facts\<close>

text \<open>The iterators of a simulator are two neighbours inside its ring.\<close>

definition on_ring :: "telemetry_simulator \<Rightarrow> bool" where
  "on_ring s \<longleftrightarrow> tm_end s = Suc (tm_begin s) \<and> tm_end s < length (outer_ring (tm_polygon s))"

lemma ring_at_inside: "i < length (outer_ring p) \<Longrightarrow> \<exists>c. ring_at p i = Ret c"
  by (simp add: ring_at_def)

lemma simulator_create_iff: "returns (simulator_create lm t1 t2 p) \<longleftrightarrow> 2 \<le> length (outer_ring p)"
  by (cases "outer_ring p"; cases "tl (outer_ring p)") (auto simp: simulator_create_def ring_at_def Let_def)

lemma simulator_create_on_ring:
  "simulator_create lm t1 t2 p = Ret s \<Longrightarrow> on_ring s \<and> tm_time s = t2 \<and> tm_polygon s = p"
  by (auto simp: simulator_create_def ring_at_def Let_def on_ring_def split: if_splits)

lemma next_segment_on_ring:
  assumes "on_ring s"
  shows "\<exists>s'. next_segment lm clock s = Ret s' \<and> on_ring s' \<and> tm_time s' = tm_time s \<and>
           tm_polygon s' = tm_polygon s"
  using assms by (auto simp: next_segment_def on_ring_def ring_at_def Let_def)

lemma simulator_update_on_ring:
  assumes "on_ring s" "tm_time s = At t0"
  shows "\<exists>c s'. simulator_update lm clock (At t) s = Ret (c, s') \<and> on_ring s' \<and> tm_time s' = At t \<and>
           tm_polygon s' = tm_polygon s"
proof -
  obtain b where b: "ring_at (tm_polygon s) (tm_begin s) = Ret b"
    using ring_at_inside [of "tm_begin s" "tm_polygon s"] assms(1) by (auto simp: on_ring_def)
  let ?far = "dbl_less (tm_length s) (ruler_distance lm (tm_ruler s) b (tm_current s))"
  have "\<exists>s1. (if ?far then next_segment lm clock s else Ret s) = Ret s1 \<and> on_ring s1 \<and>
      tm_time s1 = At t0 \<and> tm_polygon s1 = tm_polygon s"
    using next_segment_on_ring [OF assms(1), of lm clock] assms by (cases ?far) simp_all
  then obtain s1 where s1: "(if ?far then next_segment lm clock s else Ret s) = Ret s1"
    and ok: "on_ring s1" "tm_time s1 = At t0" "tm_polygon s1 = tm_polygon s" by blast
  show ?thesis
    unfolding simulator_update_def b cbind.simps s1 using ok
    by (simp add: Let_def on_ring_def)
qed

text \<open>A run of updates, each with the clock and the time it is given.\<close>

fun simulator_updates ::
  "libm \<Rightarrow> (date_time \<times> date_time) list \<Rightarrow> telemetry_simulator \<Rightarrow> (coordinate list \<times> telemetry_simulator) cpp" where
  "simulator_updates lm [] s = Ret ([], s)"
| "simulator_updates lm ((clock, now) # ts) s =
     cbind (simulator_update lm clock now s) (\<lambda>(c, s1).
     cbind (simulator_updates lm ts s1) (\<lambda>(cs, s2). Ret (c # cs, s2)))"

lemma simulator_updates_on_ring:
  assumes "on_ring s" "tm_time s = At t0" "list_all (\<lambda>(_, now). now \<noteq> Not_a_date_time) ts"
  shows "\<exists>cs s'. simulator_updates lm ts s = Ret (cs, s') \<and> length cs = length ts \<and> on_ring s' \<and>
           tm_polygon s' = tm_polygon s"
  using assms
proof (induction ts arbitrary: s t0)
  case (Cons x ts)
  obtain clock now where x: "x = (clock, now)" by (cases x)
  with Cons.prems(3) obtain t where t: "now = At t" by (cases now) auto
  from simulator_update_on_ring [OF Cons.prems(1,2), of lm clock t] obtain c s1 where
    s1: "simulator_update lm clock (At t) s = Ret (c, s1)" "on_ring s1" "tm_time s1 = At t"
    "tm_polygon s1 = tm_polygon s" by blast
  from Cons.IH [OF s1(2,3)] Cons.prems(3) s1 x t show ?case by auto
qed simp

end
