(* ===== verification/Scenario_Run.thy ===== *)
theory Scenario_Run
  imports Simulation
begin

text \<open>
  The command that simulates a scenario (src/airmap/cmds/airmap/cmd/simulate_scenario.cpp): every
  participant logs in, creates a flight, monitors traffic and starts communications; when all
  have their keys the simulation starts, and after the duration of the scenario every flight is
  ended. A callback is one function over the state; the calls that are under way are part of
  it, and are answered in any order. Log lines are not modelled.
\<close>

subsection \<open>State\<close>

datatype scenario_callback =
    SC_password | SC_anonymous | SC_status | SC_create | SC_monitor | SC_comms | SC_timer
  | SC_end_comms | SC_end_flight

datatype scenario_request =
    To_service rest_call
  | To_traffic string string
  | After duration

record scenario_call =
  sk_callback :: scenario_callback
  sk_participant :: nat
  sk_request :: scenario_request

text \<open>
  \<open>sx_simulation\<close> holds the participants the simulation was started with, \<open>sx_stops\<close> the
  codes the context was stopped with (\<open>True\<close> for success).
\<close>

record scenario_run =
  sx_participants :: "participant list"
  sx_duration :: "64 word option"
  sx_key_counter :: "32 word"
  sx_runner :: runner
  sx_simulation :: "participant list option"
  sx_calls :: "scenario_call list"
  sx_stops :: "bool list"

text \<open>What the callbacks read from outside: clocks, the name of the device, the mathematics.\<close>

record scenario_env =
  se_libm :: libm
  se_now :: date_time
  se_clock :: "nat \<Rightarrow> date_time \<times> date_time"
  se_device :: string

definition scenario_run_create :: "scenario \<Rightarrow> scenario_run" where
  "scenario_run_create sc =
     \<lparr>sx_participants = sc_participants sc,
      sx_duration = Some (case sc_duration sc of None \<Rightarrow> 60 | Some d \<Rightarrow> d),
      sx_key_counter = 0, sx_runner = runner_create 5, sx_simulation = None, sx_calls = [],
      sx_stops = []\<rparr>"

definition ask :: "scenario_callback \<Rightarrow> nat \<Rightarrow> scenario_request \<Rightarrow> scenario_run \<Rightarrow> scenario_run" where
  "ask cb i r s = s\<lparr>sx_calls := sx_calls s @ [\<lparr>sk_callback = cb, sk_participant = i, sk_request = r\<rparr>]\<rparr>"

definition stop_with :: "bool \<Rightarrow> scenario_run \<Rightarrow> scenario_run" where
  "stop_with b s = s\<lparr>sx_stops := sx_stops s @ [b]\<rparr>"

text \<open>The participant behind an iterator.\<close>

definition participant_at :: "nat \<Rightarrow> scenario_run \<Rightarrow> participant cpp" where
  "participant_at i s = (if i < length (sx_participants s) then Ret (sx_participants s ! i) else UB)"

definition collect :: "nat \<Rightarrow> (participant \<Rightarrow> participant) \<Rightarrow> scenario_run \<Rightarrow> scenario_run cpp" where
  "collect i f s = cbind (participant_at i s) (\<lambda>p. Ret (s\<lparr>sx_participants := (sx_participants s)[i := f p]\<rparr>))"

definition collect_authentication_for :: "nat \<Rightarrow> string \<Rightarrow> scenario_run \<Rightarrow> scenario_run cpp" where
  "collect_authentication_for i a s = collect i (\<lambda>p. p\<lparr>pt_authentication := Some a\<rparr>) s"

definition collect_flight_id_for :: "nat \<Rightarrow> flight \<Rightarrow> scenario_run \<Rightarrow> scenario_run cpp" where
  "collect_flight_id_for i f s = collect i (\<lambda>p. p\<lparr>pt_flight := Some f\<rparr>) s"

definition collect_traffic_monitor_for :: "nat \<Rightarrow> nat \<Rightarrow> scenario_run \<Rightarrow> scenario_run cpp" where
  "collect_traffic_monitor_for i m s = collect i (\<lambda>p. p\<lparr>pt_monitor := Some m\<rparr>) s"

text \<open>Whether the number of keys has reached the number of participants.\<close>

definition collect_key_for :: "nat \<Rightarrow> string \<Rightarrow> scenario_run \<Rightarrow> (bool \<times> scenario_run) cpp" where
  "collect_key_for i key s =
     cbind (collect i (\<lambda>p. p\<lparr>pt_encryption_key := Some key\<rparr>) s) (\<lambda>s1.
       let n = sx_key_counter s1 + 1
       in Ret (length (sx_participants s1) = unat n, s1\<lparr>sx_key_counter := n\<rparr>))"

subsection \<open>Requests\<close>

definition request_authentication_for :: "scenario_env \<Rightarrow> nat \<Rightarrow> scenario_run \<Rightarrow> scenario_run cpp" where
  "request_authentication_for e i s =
     cbind (participant_at i s) (\<lambda>p.
       case pt_user p of
         Some u \<Rightarrow> Ret (ask SC_password i (To_service (On_auth (Password_call
           \<lparr>au_oauth = \<lparr>oc_username = us_username u, oc_password = us_password u,
                        oc_client_id = us_client_id u, oc_device_id = se_device e\<rparr>,
            au_grant_type = Grant_password, au_scope = Scope_open_id_offline_access, au_connection = Username_password_authentication\<rparr>))) s)
       | None \<Rightarrow> Ret (ask SC_anonymous i (To_service (On_auth (Anonymous_call (pi_id (pt_pilot p))))) s))"

text \<open>\<open>coordinates[0]\<close> of an outer ring.\<close>

definition first_corner :: "polygon_shape \<Rightarrow> coordinate cpp" where
  "first_corner p = (if outer_ring p = [] then UB else Ret (outer_ring p ! 0))"

definition request_flight_status_for :: "scenario_env \<Rightarrow> nat \<Rightarrow> scenario_run \<Rightarrow> scenario_run cpp" where
  "request_flight_status_for e i s =
     cbind (participant_at i s) (\<lambda>p. cbind (polygon_of (pt_geometry p)) (\<lambda>g. cbind (first_corner g) (\<lambda>c.
       Ret (ask SC_status i (To_service (On_status (Status_by_polygon_call
         \<lparr>sp_latitude = Some (float_of_dbl (latitude c)), sp_longitude = Some (float_of_dbl (longitude c)),
          sp_types = None, sp_ignored_types = None, sp_weather = Some True,
          sp_flight_date_time = Some (se_now e), sp_geometry = Some (pt_geometry p),
          sp_buffer = None\<rparr>))) s))))"

definition request_create_flight_for :: "scenario_env \<Rightarrow> nat \<Rightarrow> scenario_run \<Rightarrow> scenario_run cpp" where
  "request_create_flight_for e i s =
     cbind (participant_at i s) (\<lambda>p. cbind (polygon_of (pt_geometry p)) (\<lambda>g.
     cbind (deref (pt_authentication p)) (\<lambda>a. cbind (deref (sx_duration s)) (\<lambda>d. cbind (first_corner g) (\<lambda>c.
       Ret (ask SC_create i (To_service (On_flights (Flight_by_polygon_call
         \<lparr>cf_authorization = a, cf_latitude = Some (float_of_dbl (latitude c)),
          cf_longitude = Some (float_of_dbl (longitude c)), cf_max_altitude = flt_of_ratio False 121 1,
          cf_aircraft_id = ac_id (pt_aircraft p), cf_start_time = se_now e,
          cf_end_time = dt_plus (se_now e) (seconds d), cf_is_public = True,
          cf_give_digital_notice = True, cf_buffer = flt_of_ratio False 100 1,
          cf_geometry = Some (pt_geometry p)\<rparr>))) s))))))"

definition request_traffic_monitoring_for :: "nat \<Rightarrow> scenario_run \<Rightarrow> scenario_run cpp" where
  "request_traffic_monitoring_for i s =
     cbind (participant_at i s) (\<lambda>p. cbind (deref (pt_flight p)) (\<lambda>f. cbind (deref (pt_authentication p)) (\<lambda>a.
       Ret (ask SC_monitor i (To_traffic (fl_id f) a) s))))"

definition request_start_flight_comms_for :: "nat \<Rightarrow> scenario_run \<Rightarrow> scenario_run cpp" where
  "request_start_flight_comms_for i s =
     cbind (participant_at i s) (\<lambda>p. cbind (deref (pt_authentication p)) (\<lambda>a. cbind (deref (pt_flight p)) (\<lambda>f.
       Ret (ask SC_comms i (To_service (On_flights (Start_comms_call a (fl_id f)))) s))))"

definition request_end_flight_comms_for :: "nat \<Rightarrow> scenario_run \<Rightarrow> scenario_run cpp" where
  "request_end_flight_comms_for i s =
     cbind (participant_at i s) (\<lambda>p. cbind (deref (pt_authentication p)) (\<lambda>a. cbind (deref (pt_flight p)) (\<lambda>f.
       Ret (ask SC_end_comms i (To_service (On_flights (End_comms_call a (fl_id f)))) s))))"

definition request_end_flight_for :: "nat \<Rightarrow> scenario_run \<Rightarrow> scenario_run cpp" where
  "request_end_flight_for i s =
     cbind (participant_at i s) (\<lambda>p. cbind (deref (pt_authentication p)) (\<lambda>a. cbind (deref (pt_flight p)) (\<lambda>f.
       Ret (ask SC_end_flight i (To_service (On_flights (End_flight_call a (fl_id f)))) s))))"

subsection \<open>Answers\<close>

text \<open>The two handlers of an authentication have the same body.\<close>

definition handle_authenticated_result_for ::
  "scenario_env \<Rightarrow> nat \<Rightarrow> err + string \<Rightarrow> scenario_run \<Rightarrow> scenario_run cpp" where
  "handle_authenticated_result_for e i r s =
     (case r of
        Inl _ \<Rightarrow> Ret (stop_with False s)
      | Inr a \<Rightarrow> cbind (collect_authentication_for i a s) (\<lambda>s.
          cbind (request_flight_status_for e i s) (request_create_flight_for e i)))"

definition handle_flight_status_result_for :: "err + unit \<Rightarrow> scenario_run \<Rightarrow> scenario_run cpp" where
  "handle_flight_status_result_for r s = Ret s"

definition handle_create_flight_result_for ::
  "nat \<Rightarrow> err + flight \<Rightarrow> scenario_run \<Rightarrow> scenario_run cpp" where
  "handle_create_flight_result_for i r s =
     (case r of
        Inl _ \<Rightarrow> Ret (stop_with False s)
      | Inr f \<Rightarrow> cbind (collect_flight_id_for i f s) (\<lambda>s.
          cbind (request_traffic_monitoring_for i s) (\<lambda>s.
          cbind (request_start_flight_comms_for i s) (\<lambda>s.
          cbind (deref (sx_duration s)) (\<lambda>d. Ret (ask SC_timer i (After (seconds d)) s))))))"

text \<open>Both branches name the flight in a log line.\<close>

definition handle_traffic_monitoring_result_for ::
  "nat \<Rightarrow> err + nat \<Rightarrow> scenario_run \<Rightarrow> scenario_run cpp" where
  "handle_traffic_monitoring_result_for i r s =
     cbind (participant_at i s) (\<lambda>p. cbind (deref (pt_flight p)) (\<lambda>_.
       case r of
         Inl _ \<Rightarrow> Ret (stop_with False s)
       | Inr m \<Rightarrow> collect_traffic_monitor_for i m s))"

definition handle_start_flight_comms_result_for ::
  "scenario_env \<Rightarrow> nat \<Rightarrow> err + string \<Rightarrow> scenario_run \<Rightarrow> scenario_run cpp" where
  "handle_start_flight_comms_result_for e i r s =
     (case r of
        Inl _ \<Rightarrow> cbind (participant_at i s) (\<lambda>p. cbind (deref (pt_flight p)) (\<lambda>_. Ret (stop_with False s)))
      | Inr key \<Rightarrow> cbind (collect_key_for i key s) (\<lambda>(complete, s).
          if \<not> complete then Ret s
          else cbind (scenario_simulator_create (se_libm e) (se_clock e)
                        \<lparr>sc_name = [], sc_description = [], sc_participants = sx_participants s,
                         sc_duration = sx_duration s\<rparr>) (\<lambda>sim.
               cbind (runner_start (se_now e) sim (sx_runner s)) (\<lambda>ru.
                 Ret (s\<lparr>sx_runner := ru, sx_simulation := Some (sx_participants s)\<rparr>)))))"

definition handle_end_flight_comms :: "nat \<Rightarrow> err + unit \<Rightarrow> scenario_run \<Rightarrow> scenario_run cpp" where
  "handle_end_flight_comms i r s =
     (case r of
        Inl _ \<Rightarrow> Ret (stop_with False s)
      | Inr _ \<Rightarrow> request_end_flight_for i s)"

definition handle_end_flight :: "nat \<Rightarrow> err + unit \<Rightarrow> scenario_run \<Rightarrow> scenario_run cpp" where
  "handle_end_flight i r s =
     (case r of
        Inl _ \<Rightarrow> Ret (stop_with False s)
      | Inr _ \<Rightarrow> cbind (participant_at i s) (\<lambda>p. cbind (deref (pt_flight p)) (\<lambda>_. Ret (stop_with True s))))"

subsection \<open>Runs\<close>

datatype scenario_answer =
    Answer_token "err + string"
  | Answer_status "err + unit"
  | Answer_flight "err + flight"
  | Answer_monitor "err + nat"
  | Answer_key "err + string"
  | Answer_done "err + unit"
  | Elapsed

text \<open>The callback of a call, on the answer it is bound to; \<open>None\<close> if they do not fit.\<close>

definition complete_call ::
  "scenario_env \<Rightarrow> scenario_callback \<Rightarrow> nat \<Rightarrow> scenario_answer \<Rightarrow> scenario_run \<Rightarrow> scenario_run cpp option" where
  "complete_call e cb i a s =
     (case a of
        Answer_token r \<Rightarrow>
          if cb = SC_password \<or> cb = SC_anonymous then Some (handle_authenticated_result_for e i r s) else None
      | Answer_status r \<Rightarrow> if cb = SC_status then Some (handle_flight_status_result_for r s) else None
      | Answer_flight r \<Rightarrow> if cb = SC_create then Some (handle_create_flight_result_for i r s) else None
      | Answer_monitor r \<Rightarrow> if cb = SC_monitor then Some (handle_traffic_monitoring_result_for i r s) else None
      | Answer_key r \<Rightarrow> if cb = SC_comms then Some (handle_start_flight_comms_result_for e i r s) else None
      | Elapsed \<Rightarrow> if cb = SC_timer then Some (request_end_flight_comms_for i s) else None
      | Answer_done r \<Rightarrow>
          if cb = SC_end_comms then Some (handle_end_flight_comms i r s)
          else if cb = SC_end_flight then Some (handle_end_flight i r s) else None)"

text \<open>What happens when the client has been created, and each answer after that.\<close>

definition scenario_begin :: "scenario_env \<Rightarrow> scenario_run \<Rightarrow> scenario_run cpp" where
  "scenario_begin e s = cfold (request_authentication_for e) [0..<length (sx_participants s)] s"

definition answer_call ::
  "scenario_env \<Rightarrow> nat \<Rightarrow> scenario_answer \<Rightarrow> scenario_run \<Rightarrow> scenario_run cpp option" where
  "answer_call e n a s =
     (if sx_stops s = [] \<and> n < length (sx_calls s)
      then complete_call e (sk_callback (sx_calls s ! n)) (sk_participant (sx_calls s ! n)) a
             (s\<lparr>sx_calls := take n (sx_calls s) @ drop (Suc n) (sx_calls s)\<rparr>)
      else None)"

inductive scenario_reach :: "scenario \<Rightarrow> scenario_run \<Rightarrow> bool" for sc where
  begun: "scenario_begin e (scenario_run_create sc) = Ret s \<Longrightarrow> scenario_reach sc s"
| answered: "scenario_reach sc s \<Longrightarrow> answer_call e n a s = Some (Ret s') \<Longrightarrow> scenario_reach sc s'"

subsection \<open>What a participant announces\<close>

text \<open>A double that is converted to a 32-bit integer; the default component sends no parameters.\<close>

definition dbl_to_int32 :: "double \<Rightarrow> 32 word cpp" where
  "dbl_to_int32 x =
     (case dbl_truncate x of
        Some i \<Rightarrow> if - (2 ^ 31) \<le> i \<and> i < 2 ^ 31 then Ret (word_of_int i) else UB
      | None \<Rightarrow> UB)"

definition mavlink_position_at :: "date_time \<Rightarrow> participant \<Rightarrow> coordinate \<Rightarrow> mav_message cpp" where
  "mavlink_position_at now p c =
     cbind (deref (milliseconds_since_epoch now)) (\<lambda>ms.
     cbind (dbl_to_int32 (dbl_mul (latitude c) (dbl_lit (10 ^ 7) 1))) (\<lambda>lat.
     cbind (dbl_to_int32 (dbl_mul (longitude c) (dbl_lit (10 ^ 7) 1))) (\<lambda>lon.
       Ret \<lparr>mm_sysid = ucast (pt_id p), mm_payload = Global_position_int
              \<lparr>gp_time_boot_ms = ucast ms, gp_lat = lat, gp_lon = lon, gp_alt = 100000,
               gp_relative_alt = 100000, gp_vx = 0, gp_vy = 0, gp_vz = 100, gp_hdg = 18000\<rparr>\<rparr>)))"

text \<open>The waypoints carry the command in the field of the mission type.\<close>

definition announce_waypoint :: "8 word \<Rightarrow> 8 word \<Rightarrow> nat \<times> coordinate \<Rightarrow> mav_message" where
  "announce_waypoint nav sysid x =
     \<lparr>mm_sysid = sysid, mm_payload = Mission_item
        \<lparr>mi_seq = of_nat (fst x), mi_command = 0, mi_x = float_of_dbl (latitude (snd x)),
         mi_y = float_of_dbl (longitude (snd x)), mi_z = flt_of_ratio False 100 1,
         mi_mission_type = nav\<rparr>\<rparr>"

definition announce_participant :: "8 word \<Rightarrow> date_time \<Rightarrow> participant \<Rightarrow> mav_message list cpp" where
  "announce_participant nav now p =
     cbind (polygon_of (pt_geometry p)) (\<lambda>g. cbind (vector_at (outer_ring g) 0) (\<lambda>c.
     cbind (mavlink_position_at now p c) (\<lambda>pos.
       Ret ([pos, \<lparr>mm_sysid = ucast (pt_id p), mm_payload = Mission_count (of_nat (length (outer_ring g)))\<rparr>] @
            map (announce_waypoint nav (ucast (pt_id p))) (enumerate 0 (outer_ring g)) @
            [\<lparr>mm_sysid = ucast (pt_id p), mm_payload = Heartbeat MS_active\<rparr>]))))"

definition announce_scenario :: "8 word \<Rightarrow> date_time \<Rightarrow> scenario \<Rightarrow> mav_message list cpp" where
  "announce_scenario nav now sc = cmap concat (cmapM (announce_participant nav now) (sc_participants sc))"

text \<open>What the simulation does with a position: telemetry for a flight with its key, and a message.\<close>

definition scenario_telemetry ::
  "date_time \<Rightarrow> participant \<times> coordinate \<Rightarrow> ((flight \<times> string \<times> telemetry_update list) option \<times> mav_message) cpp" where
  "scenario_telemetry now x =
     cbind (case (pt_flight (fst x), pt_encryption_key (fst x)) of
              (Some f, Some key) \<Rightarrow>
                cbind (deref (milliseconds_since_epoch now)) (\<lambda>ms.
                  Ret (Some (f, key, [Update_position
                    \<lparr>tp_timestamp = ms, tp_latitude = latitude (snd x), tp_longitude = longitude (snd x),
                     tp_altitude_msl = dbl_of_int 100, tp_altitude_gl = dbl_of_int 100,
                     tp_horizontal_accuracy = dbl_of_int 2\<rparr>])))
            | _ \<Rightarrow> Ret None) (\<lambda>t.
     cbind (mavlink_position_at now (fst x) (snd x)) (\<lambda>m. Ret (t, m)))"

end
