(* ===== verification/Scenario_Properties.thy ===== *)
theory Scenario_Properties
  imports Scenario_Run
begin

text \<open>
  The invariant of a simulated scenario over every order of answers, kept by each handler in
  turn, and what follows from it: no callback reads a value that was not set, the simulation
  starts exactly when every participant has its key, and success is reported as soon as one
  flight has ended. Last, the mission a participant announces is the one its vehicle reports.
\<close>

subsection \<open>The invariant\<close>

abbreviation authorized :: "participant \<Rightarrow> bool" where
  "authorized p \<equiv> pt_authentication p \<noteq> None"

abbreviation flown :: "participant \<Rightarrow> bool" where
  "flown p \<equiv> pt_flight p \<noteq> None"

abbreviation keyed :: "participant \<Rightarrow> bool" where
  "keyed p \<equiv> pt_encryption_key p \<noteq> None"

text \<open>The calls on the way to a key, and those on the way to the end of a flight.\<close>

fun opening_stage :: "scenario_callback \<Rightarrow> bool" where
  "opening_stage SC_password = True"
| "opening_stage SC_anonymous = True"
| "opening_stage SC_create = True"
| "opening_stage SC_comms = True"
| "opening_stage _ = False"

fun closing_stage :: "scenario_callback \<Rightarrow> bool" where
  "closing_stage SC_timer = True"
| "closing_stage SC_end_comms = True"
| "closing_stage SC_end_flight = True"
| "closing_stage _ = False"

text \<open>What the callback of a call reads unchecked.\<close>

fun call_ready :: "scenario_callback \<Rightarrow> participant \<Rightarrow> bool" where
  "call_ready SC_password p = True"
| "call_ready SC_anonymous p = True"
| "call_ready SC_status p = True"
| "call_ready SC_create p = authorized p"
| "call_ready _ p = (authorized p \<and> flown p)"

definition pending_in :: "(scenario_callback \<Rightarrow> bool) \<Rightarrow> nat \<Rightarrow> scenario_call list \<Rightarrow> nat" where
  "pending_in P i cs = length (filter (\<lambda>c. sk_participant c = i \<and> P (sk_callback c)) cs)"

definition polygon_ready :: "participant \<Rightarrow> bool" where
  "polygon_ready p \<longleftrightarrow> (\<exists>g. pt_geometry p = G_polygon g \<and> 2 \<le> length (outer_ring g))"

definition participant_ok :: "participant \<Rightarrow> bool" where
  "participant_ok p \<longleftrightarrow> polygon_ready p \<and> (flown p \<longrightarrow> authorized p) \<and> (keyed p \<longrightarrow> flown p)"

definition keyed_at :: "participant list \<Rightarrow> nat set" where
  "keyed_at ps = {i. i < length ps \<and> keyed (ps ! i)}"

definition simulation_ok :: "runner \<Rightarrow> participant list option \<Rightarrow> participant list \<Rightarrow> bool" where
  "simulation_ok ru sim ps \<longleftrightarrow>
     (case sim of
        None \<Rightarrow> \<not> su_running ru \<and> su_worker ru = None \<and> (ps = [] \<or> keyed_at ps \<noteq> {..<length ps})
      | Some qs \<Rightarrow> su_running ru \<and> su_worker ru \<noteq> None \<and> keyed_at ps = {..<length ps} \<and> ps \<noteq> [] \<and> list_all (\<lambda>p. keyed p \<and> flown p) qs \<and>
          map pt_id qs = map pt_id ps)"

definition calls_ok :: "scenario_run \<Rightarrow> bool" where
  "calls_ok s \<longleftrightarrow>
     (\<forall>c \<in> set (sx_calls s). sk_participant c < length (sx_participants s) \<and>
        call_ready (sk_callback c) (sx_participants s ! sk_participant c)) \<and>
     (\<forall>i < length (sx_participants s).
        pending_in opening_stage i (sx_calls s) + of_bool (keyed (sx_participants s ! i)) \<le> 1)"

definition scenario_inv :: "scenario_run \<Rightarrow> bool" where
  "scenario_inv s \<longleftrightarrow>
     (\<forall>i < length (sx_participants s). participant_ok (sx_participants s ! i)) \<and>
     length (sx_participants s) < 2 ^ 32 \<and> sx_duration s \<noteq> None \<and>
     unat (sx_key_counter s) = card (keyed_at (sx_participants s)) \<and>
     calls_ok s \<and> simulation_ok (sx_runner s) (sx_simulation s) (sx_participants s)"

text \<open>Every flight but those of \<open>X\<close> will still be ended.\<close>

definition to_be_ended :: "nat set \<Rightarrow> scenario_run \<Rightarrow> bool" where
  "to_be_ended X s \<longleftrightarrow>
     (\<forall>i < length (sx_participants s). i \<notin> X \<longrightarrow> flown (sx_participants s ! i) \<longrightarrow>
        0 < pending_in closing_stage i (sx_calls s))"

definition stops_ok :: "scenario_run \<Rightarrow> bool" where
  "stops_ok s \<longleftrightarrow>
     (sx_stops s = [] \<and> to_be_ended {} s) \<or> sx_stops s = [False] \<or>
     (sx_stops s = [True] \<and> (\<exists>i < length (sx_participants s). to_be_ended {i} s))"

lemma pending_in_simps [simp]:
  "pending_in P i [] = 0"
  "pending_in P i (c # cs) = of_bool (sk_participant c = i \<and> P (sk_callback c)) + pending_in P i cs"
  "pending_in P i (cs @ ds) = pending_in P i cs + pending_in P i ds"
  by (simp_all add: pending_in_def)

lemma keyed_at_subset: "keyed_at ps \<subseteq> {..<length ps}"
  by (auto simp: keyed_at_def)

lemma keyed_at_finite [simp]: "finite (keyed_at ps)"
  using keyed_at_subset finite_subset by blast

lemma keyed_at_update:
  "i < length ps \<Longrightarrow> keyed_at (ps[i := p]) = (if keyed p then insert i (keyed_at ps) else keyed_at ps - {i})"
  by (auto simp: keyed_at_def nth_list_update split: if_splits)

lemma keyed_at_same:
  "i < length ps \<Longrightarrow> keyed p = keyed (ps ! i) \<Longrightarrow> keyed_at (ps[i := p]) = keyed_at ps"
  by (auto simp: keyed_at_def nth_list_update split: if_splits)

text \<open>The state before a call is taken from those under way.\<close>

definition with_call :: "scenario_call \<Rightarrow> scenario_run \<Rightarrow> scenario_run" where
  "with_call c s = s\<lparr>sx_calls := c # sx_calls s\<rparr>"

lemma with_call_simps [simp]:
  "sx_participants (with_call c s) = sx_participants s" "sx_duration (with_call c s) = sx_duration s"
  "sx_key_counter (with_call c s) = sx_key_counter s" "sx_runner (with_call c s) = sx_runner s"
  "sx_simulation (with_call c s) = sx_simulation s" "sx_calls (with_call c s) = c # sx_calls s"
  "sx_stops (with_call c s) = sx_stops s"
  by (simp_all add: with_call_def)

lemma pending_in_take_drop:
  "n < length cs \<Longrightarrow> pending_in P i cs = pending_in P i (cs ! n # take n cs @ drop (Suc n) cs)"
  using arg_cong [OF id_take_nth_drop [of n cs], of "pending_in P i"] by simp

lemma set_take_drop: "n < length cs \<Longrightarrow> set cs = set (cs ! n # take n cs @ drop (Suc n) cs)"
  using arg_cong [OF id_take_nth_drop [of n cs], of set] by simp

lemma inv_reordered:
  assumes "set cs = set (sx_calls s)" "\<And>P i. pending_in P i cs = pending_in P i (sx_calls s)"
  shows "scenario_inv (s\<lparr>sx_calls := cs\<rparr>) = scenario_inv s"
    "to_be_ended X (s\<lparr>sx_calls := cs\<rparr>) = to_be_ended X s"
proof -
  have "calls_ok (s\<lparr>sx_calls := cs\<rparr>) = calls_ok s" by (simp add: calls_ok_def assms)
  then show "scenario_inv (s\<lparr>sx_calls := cs\<rparr>) = scenario_inv s" by (simp add: scenario_inv_def)
  show "to_be_ended X (s\<lparr>sx_calls := cs\<rparr>) = to_be_ended X s" by (simp add: to_be_ended_def assms)
qed

lemma inv_with_call:
  assumes "n < length (sx_calls s)"
  defines "s1 \<equiv> s\<lparr>sx_calls := take n (sx_calls s) @ drop (Suc n) (sx_calls s)\<rparr>"
  shows "scenario_inv (with_call (sx_calls s ! n) s1) = scenario_inv s"
    "to_be_ended X (with_call (sx_calls s ! n) s1) = to_be_ended X s"
proof -
  let ?cs = "sx_calls s ! n # take n (sx_calls s) @ drop (Suc n) (sx_calls s)"
  have "with_call (sx_calls s ! n) s1 = s\<lparr>sx_calls := ?cs\<rparr>"
    by (simp add: with_call_def s1_def)
  then show "scenario_inv (with_call (sx_calls s ! n) s1) = scenario_inv s"
    "to_be_ended X (with_call (sx_calls s ! n) s1) = to_be_ended X s"
    using inv_reordered [of ?cs s] set_take_drop [OF assms(1)] pending_in_take_drop [OF assms(1)]
    by metis+
qed

subsection \<open>Each handler keeps it\<close>

text \<open>What the invariant says of the participant a call is about.\<close>

lemma inv_participant:
  assumes "scenario_inv (with_call c s)"
  obtains p g where "sk_participant c < length (sx_participants s)"
    "p = sx_participants s ! sk_participant c" "participant_at (sk_participant c) s = Ret p"
    "pt_geometry p = G_polygon g" "2 \<le> length (outer_ring g)" "call_ready (sk_callback c) p"
    "participant_ok p"
  using assms
  by (auto simp: scenario_inv_def calls_ok_def participant_at_def participant_ok_def polygon_ready_def)

lemma inv_drop_call: "scenario_inv (with_call c s) \<Longrightarrow> scenario_inv s"
  by (auto simp: scenario_inv_def calls_ok_def)

lemma inv_stop [simp]: "scenario_inv (stop_with b s) \<longleftrightarrow> scenario_inv s"
  by (simp add: stop_with_def scenario_inv_def calls_ok_def)

lemma stopped_failure:
  "scenario_inv (with_call c s) \<Longrightarrow> sx_stops s = [] \<Longrightarrow>
   scenario_inv (stop_with False s) \<and> stops_ok (stop_with False s)"
  using inv_drop_call [of c s] by (simp add: stops_ok_def) (simp add: stop_with_def)

lemma call_ready_mono:
  "call_ready cb p \<Longrightarrow> (authorized p \<Longrightarrow> authorized p') \<Longrightarrow> (flown p \<Longrightarrow> flown p') \<Longrightarrow> call_ready cb p'"
  by (cases cb) auto

lemma pending_in_none: "\<forall>d \<in> set ds. sk_participant d = i \<Longrightarrow> j \<noteq> i \<Longrightarrow> pending_in P j ds = 0"
  by (auto simp: pending_in_def filter_empty_conv)

text \<open>
  The participant of a call moves on, and asks for the calls \<open>ds\<close>, at most one of them on the
  way to a key and only if the call itself was.
\<close>

definition moved_on :: "nat \<Rightarrow> participant \<Rightarrow> scenario_call list \<Rightarrow> scenario_run \<Rightarrow> scenario_run" where
  "moved_on i p ds s =
     s\<lparr>sx_participants := (sx_participants s)[i := p], sx_calls := sx_calls s @ ds\<rparr>"

lemma moved_on_stops [simp]: "sx_stops (moved_on i p ds s) = sx_stops s"
  by (simp add: moved_on_def)

definition moves :: "scenario_callback \<Rightarrow> participant \<Rightarrow> participant \<Rightarrow> scenario_callback list \<Rightarrow> bool" where
  "moves cb p p' cbs \<longleftrightarrow>
     participant_ok p' \<and> keyed p' = keyed p \<and> pt_id p' = pt_id p \<and>
     (authorized p \<longrightarrow> authorized p') \<and> (flown p \<longrightarrow> flown p') \<and>
     list_all (\<lambda>d. call_ready d p') cbs \<and>
     length (filter opening_stage cbs) \<le> of_bool (opening_stage cb)"

lemma calls_ok_moved_on:
  assumes "calls_ok (with_call c s)" "moves (sk_callback c) (sx_participants s ! i) p (map sk_callback ds)"
    and "sk_participant c = i" "\<forall>d \<in> set ds. sk_participant d = i"
  shows "calls_ok (moved_on i p ds s)"
proof -
  let ?ps = "sx_participants s"
  have i: "i < length ?ps" using assms(1,3) by (auto simp: calls_ok_def)
  have ready: "call_ready (sk_callback d) (?ps[i := p] ! sk_participant d) \<and> sk_participant d < length ?ps"
    if "d \<in> set (sx_calls s @ ds)" for d
  proof (cases "d \<in> set ds")
    case True
    with assms(2,4) i show ?thesis by (auto simp: moves_def list_all_iff)
  next
    case False
    with that assms(1) have d: "sk_participant d < length ?ps" "call_ready (sk_callback d) (?ps ! sk_participant d)"
      by (auto simp: calls_ok_def)
    with assms(2) show ?thesis
      by (cases "sk_participant d = i") (auto simp: moves_def i intro: call_ready_mono)
  qed
  have slots: "pending_in opening_stage j (sx_calls s @ ds) + of_bool (keyed (?ps[i := p] ! j)) \<le> 1"
    if "j < length ?ps" for j
  proof -
    have c: "pending_in opening_stage j (c # sx_calls s) + of_bool (keyed (?ps ! j)) \<le> 1"
      using assms(1) that unfolding calls_ok_def with_call_simps by blast
    show ?thesis
    proof (cases "j = i")
      case True
      have "pending_in opening_stage i ds \<le> length (filter opening_stage (map sk_callback ds))"
        by (simp add: pending_in_def filter_map comp_def length_filter_conv_card card_mono Collect_mono)
      with c True assms(2,3) i show ?thesis by (auto simp: moves_def)
    qed (use c pending_in_none [OF assms(4), of j opening_stage] in simp)
  qed
  show ?thesis using ready slots by (simp add: calls_ok_def moved_on_def)
qed

lemma inv_moved_on:
  assumes "scenario_inv (with_call c s)" "moves (sk_callback c) (sx_participants s ! i) p (map sk_callback ds)"
    and "sk_participant c = i" "\<forall>d \<in> set ds. sk_participant d = i"
  shows "scenario_inv (moved_on i p ds s)"
proof -
  let ?ps = "sx_participants s"
  have i: "i < length ?ps" using assms(1,3) by (auto simp: scenario_inv_def calls_ok_def)
  have p: "participant_ok p" "keyed p = keyed (?ps ! i)" "pt_id p = pt_id (?ps ! i)"
    using assms(2) by (auto simp: moves_def)
  have k: "keyed_at (?ps[i := p]) = keyed_at ?ps" using keyed_at_same [OF i p(2)] .
  have "map pt_id (?ps[i := p]) = map pt_id ?ps" using p(3) i by (intro nth_equalityI) (auto simp: nth_list_update)
  with k have "simulation_ok ru sim (?ps[i := p]) = simulation_ok ru sim ?ps" for ru sim
    by (cases sim) (auto simp: simulation_ok_def)
  moreover have "calls_ok (moved_on i p ds s)"
    using calls_ok_moved_on [OF _ assms(2-4)] assms(1) by (simp add: scenario_inv_def)
  ultimately show ?thesis
    using assms(1) k p(1) i unfolding scenario_inv_def moved_on_def
    by (auto simp: nth_list_update)
qed

lemma to_be_ended_moved_on:
  assumes "to_be_ended {} (with_call c s)" "sk_participant c = i" "\<forall>d \<in> set ds. sk_participant d = i"
    and "flown p \<Longrightarrow> (\<exists>d \<in> set ds. closing_stage (sk_callback d)) \<or>
           flown (sx_participants s ! i) \<and> \<not> closing_stage (sk_callback c)"
  shows "to_be_ended {} (moved_on i p ds s)"
  unfolding to_be_ended_def
proof (intro allI impI)
  fix j
  let ?ps = "sx_participants s"
  assume "j < length (sx_participants (moved_on i p ds s))" "flown (sx_participants (moved_on i p ds s) ! j)"
  then have j: "j < length ?ps" "flown (?ps[i := p] ! j)" by (simp_all add: moved_on_def)
  have c: "flown (?ps ! j) \<Longrightarrow> 0 < pending_in closing_stage j (c # sx_calls s)"
    using assms(1) j(1) unfolding to_be_ended_def with_call_simps by blast
  have "0 < pending_in closing_stage j (sx_calls s @ ds)"
  proof (cases "j = i")
    case True
    with j have "flown p" by simp
    from assms(4) [OF this] show ?thesis
    proof
      assume "\<exists>d \<in> set ds. closing_stage (sk_callback d)"
      with assms(3) True have "filter (\<lambda>d. sk_participant d = j \<and> closing_stage (sk_callback d)) ds \<noteq> []"
        by (auto simp: filter_empty_conv)
      then show ?thesis by (simp add: pending_in_def)
    qed (use c True in auto)
  next
    case False
    with j(2) c assms(2) show ?thesis by (auto simp: nth_list_update split: if_splits)
  qed
  then show "0 < pending_in closing_stage j (sx_calls (moved_on i p ds s))" by (simp add: moved_on_def)
qed

definition stays :: "scenario_run cpp \<Rightarrow> bool" where
  "stays m \<longleftrightarrow> (\<exists>s'. m = Ret s' \<and> scenario_inv s' \<and> stops_ok s')"

text \<open>A call of a run that has not been stopped.\<close>

definition under_way :: "scenario_call \<Rightarrow> scenario_run \<Rightarrow> bool" where
  "under_way c s \<longleftrightarrow> scenario_inv (with_call c s) \<and> to_be_ended {} (with_call c s) \<and> sx_stops s = []"

lemma stays_failed: "under_way c s \<Longrightarrow> stays (Ret (stop_with False s))"
  using stopped_failure [of c s] by (simp add: stays_def under_way_def)

lemma stays_moved_on:
  assumes "under_way c s" "sk_participant c = i" "\<forall>d \<in> set ds. sk_participant d = i"
    "moves (sk_callback c) (sx_participants s ! i) p (map sk_callback ds)"
    "flown p \<Longrightarrow> (\<exists>d \<in> set ds. closing_stage (sk_callback d)) \<or>
       flown (sx_participants s ! i) \<and> \<not> closing_stage (sk_callback c)"
  shows "stays (Ret (moved_on i p ds s))"
  using assms inv_moved_on [of c s i p ds] to_be_ended_moved_on [of c s i ds p]
  by (auto simp: stays_def under_way_def stops_ok_def)

lemma under_way_participant:
  assumes "under_way c s"
  obtains p g where "sk_participant c < length (sx_participants s)"
    "p = sx_participants s ! sk_participant c" "participant_at (sk_participant c) s = Ret p"
    "pt_geometry p = G_polygon g" "2 \<le> length (outer_ring g)" "call_ready (sk_callback c) p"
    "participant_ok p"
  using assms inv_participant by (metis under_way_def)

lemmas request_defs =
  request_flight_status_for_def request_create_flight_for_def request_traffic_monitoring_for_def
  request_start_flight_comms_for_def request_end_flight_comms_for_def request_end_flight_for_def

definition call_of :: "scenario_callback \<Rightarrow> nat \<Rightarrow> scenario_request \<Rightarrow> scenario_call" where
  "call_of cb i r = \<lparr>sk_callback = cb, sk_participant = i, sk_request = r\<rparr>"

lemma authenticated_stays:
  assumes "under_way c s" "sk_callback c = SC_password \<or> sk_callback c = SC_anonymous" "sk_participant c = i"
  shows "stays (handle_authenticated_result_for e i r s)"
proof (cases r)
  case (Inr a)
  from assms(1) obtain p g where p: "i < length (sx_participants s)" "p = sx_participants s ! i"
    "participant_at i s = Ret p" "pt_geometry p = G_polygon g" "2 \<le> length (outer_ring g)" "participant_ok p"
    unfolding assms(3) [symmetric] by (rule under_way_participant)
  obtain d where d: "sx_duration s = Some d" using assms(1) by (auto simp: under_way_def scenario_inv_def)
  have ne: "outer_ring g \<noteq> []" using p(5) by auto
  let ?p = "p\<lparr>pt_authentication := Some a\<rparr>"
  have "\<exists>x y. handle_authenticated_result_for e i r s =
      Ret (moved_on i ?p [call_of SC_status i x, call_of SC_create i y] s)"
    using p(1,3,4) ne
    by (simp add: Inr handle_authenticated_result_for_def collect_authentication_for_def collect_def
        request_defs participant_at_def polygon_of_def first_corner_def d ask_def moved_on_def call_of_def)
      (rule exI, rule exI, rule refl)
  then obtain ds where ds: "handle_authenticated_result_for e i r s = Ret (moved_on i ?p ds s)"
    "map sk_callback ds = [SC_status, SC_create]" "\<forall>d \<in> set ds. sk_participant d = i"
    by (force simp: call_of_def)
  show ?thesis
    unfolding ds(1)
  proof (rule stays_moved_on [OF assms(1,3) ds(3)])
    show "moves (sk_callback c) (sx_participants s ! i) ?p (map sk_callback ds)"
      using assms(2) p(2,6) by (auto simp: ds(2) moves_def participant_ok_def polygon_ready_def)
    show "flown ?p \<Longrightarrow> (\<exists>d \<in> set ds. closing_stage (sk_callback d)) \<or>
        flown (sx_participants s ! i) \<and> \<not> closing_stage (sk_callback c)"
      using assms(2) p(2) by auto
  qed
qed (use stays_failed [OF assms(1)] in \<open>simp add: handle_authenticated_result_for_def\<close>)

text \<open>A handler that leaves its participant alone.\<close>

lemma stays_asked:
  assumes "under_way c s" "sk_participant c = i" "\<forall>d \<in> set ds. sk_participant d = i"
    and "list_all (\<lambda>d. \<not> opening_stage d \<and> call_ready d (sx_participants s ! i)) (map sk_callback ds)"
    and "closing_stage (sk_callback c) \<Longrightarrow> \<exists>d \<in> set ds. closing_stage (sk_callback d)"
  shows "stays (Ret (s\<lparr>sx_calls := sx_calls s @ ds\<rparr>))"
proof -
  from assms(1) obtain p where p: "p = sx_participants s ! sk_participant c" "participant_ok p"
    by (rule under_way_participant)
  have "moved_on i (sx_participants s ! i) ds s = s\<lparr>sx_calls := sx_calls s @ ds\<rparr>"
    by (simp add: moved_on_def)
  moreover have "stays (Ret (moved_on i (sx_participants s ! i) ds s))"
  proof (rule stays_moved_on [OF assms(1-3)])
    have "filter opening_stage (map sk_callback ds) = []"
      using assms(4) by (auto simp: list_all_iff filter_empty_conv)
    then show "moves (sk_callback c) (sx_participants s ! i) (sx_participants s ! i) (map sk_callback ds)"
      using assms(2,4) p by (simp add: moves_def list_all_iff)
  qed (use assms(5) in auto)
  ultimately show ?thesis by simp
qed

lemma status_stays: "under_way c s \<Longrightarrow> sk_callback c = SC_status \<Longrightarrow> stays (handle_flight_status_result_for r s)"
  using stays_asked [of c s "sk_participant c" "[]"] by (simp add: handle_flight_status_result_for_def)

lemma create_stays:
  assumes "under_way c s" "sk_callback c = SC_create" "sk_participant c = i"
  shows "stays (handle_create_flight_result_for i r s)"
proof (cases r)
  case (Inr f)
  from assms(1) obtain p where p: "i < length (sx_participants s)" "p = sx_participants s ! i"
    "participant_at i s = Ret p" "call_ready (sk_callback c) p" "participant_ok p"
    unfolding assms(3) [symmetric] by (rule under_way_participant)
  then obtain a where a: "pt_authentication p = Some a" using assms(2) by auto
  obtain d where d: "sx_duration s = Some d" using assms(1) by (auto simp: under_way_def scenario_inv_def)
  let ?p = "p\<lparr>pt_flight := Some f\<rparr>"
  have "\<exists>x y z. handle_create_flight_result_for i r s =
      Ret (moved_on i ?p [call_of SC_monitor i x, call_of SC_comms i y, call_of SC_timer i z] s)"
    using p(1,3) a
    by (simp add: Inr handle_create_flight_result_for_def collect_flight_id_for_def collect_def
        request_defs participant_at_def d ask_def moved_on_def call_of_def)
      (rule exI, rule exI, rule exI, rule refl)
  then obtain ds where ds: "handle_create_flight_result_for i r s = Ret (moved_on i ?p ds s)"
    "map sk_callback ds = [SC_monitor, SC_comms, SC_timer]" "\<forall>d \<in> set ds. sk_participant d = i"
    by (force simp: call_of_def)
  show ?thesis
    unfolding ds(1)
  proof (rule stays_moved_on [OF assms(1,3) ds(3)])
    show "moves (sk_callback c) (sx_participants s ! i) ?p (map sk_callback ds)"
      using assms(2) p(2,5) a by (auto simp: ds(2) moves_def participant_ok_def polygon_ready_def)
    have "SC_timer \<in> set (map sk_callback ds)" by (simp add: ds(2))
    then show "(\<exists>d \<in> set ds. closing_stage (sk_callback d)) \<or>
        flown (sx_participants s ! i) \<and> \<not> closing_stage (sk_callback c)" by fastforce
  qed
qed (use stays_failed [OF assms(1)] in \<open>simp add: handle_create_flight_result_for_def\<close>)

lemma flown_participant:
  assumes "under_way c s" "sk_participant c = i" "sk_callback c \<in> {SC_monitor, SC_comms, SC_timer, SC_end_comms, SC_end_flight}"
  obtains p a f where "i < length (sx_participants s)" "p = sx_participants s ! i" "participant_at i s = Ret p"
    "pt_authentication p = Some a" "pt_flight p = Some f" "participant_ok p"
proof -
  from assms(1) obtain p where p: "i < length (sx_participants s)" "p = sx_participants s ! i"
    "participant_at i s = Ret p" "call_ready (sk_callback c) p" "participant_ok p"
    unfolding assms(2) [symmetric] by (rule under_way_participant)
  with assms(3) that show thesis by auto
qed

lemma monitor_stays:
  assumes "under_way c s" "sk_callback c = SC_monitor" "sk_participant c = i"
  shows "stays (handle_traffic_monitoring_result_for i r s)"
proof -
  from assms obtain p a f where p: "i < length (sx_participants s)" "p = sx_participants s ! i"
    "participant_at i s = Ret p" "pt_authentication p = Some a" "pt_flight p = Some f" "participant_ok p"
    by (auto intro: flown_participant)
  show ?thesis
  proof (cases r)
    case (Inr m)
    let ?p = "p\<lparr>pt_monitor := Some m\<rparr>"
    have "handle_traffic_monitoring_result_for i r s = Ret (moved_on i ?p [] s)"
      using p(1,3,5) by (simp add: Inr handle_traffic_monitoring_result_for_def
          collect_traffic_monitor_for_def collect_def moved_on_def)
    moreover have "stays (Ret (moved_on i ?p [] s))"
    proof (rule stays_moved_on [OF assms(1,3)])
      show "moves (sk_callback c) (sx_participants s ! i) ?p (map sk_callback [])"
        using p by (auto simp: moves_def participant_ok_def polygon_ready_def)
    qed (use assms(2) p in auto)
    ultimately show ?thesis by simp
  qed (use stays_failed [OF assms(1)] p in \<open>simp add: handle_traffic_monitoring_result_for_def\<close>)
qed

lemma timer_stays:
  assumes "under_way c s" "sk_callback c = SC_timer" "sk_participant c = i"
  shows "stays (request_end_flight_comms_for i s)"
proof -
  from assms obtain p a f where p: "i < length (sx_participants s)" "p = sx_participants s ! i"
    "participant_at i s = Ret p" "pt_authentication p = Some a" "pt_flight p = Some f" "participant_ok p"
    by (auto intro: flown_participant)
  then show ?thesis
    using stays_asked [OF assms(1,3)] assms(2) by (simp add: request_defs ask_def)
qed

lemma end_comms_stays:
  assumes "under_way c s" "sk_callback c = SC_end_comms" "sk_participant c = i"
  shows "stays (handle_end_flight_comms i r s)"
proof -
  from assms obtain p a f where p: "i < length (sx_participants s)" "p = sx_participants s ! i"
    "participant_at i s = Ret p" "pt_authentication p = Some a" "pt_flight p = Some f" "participant_ok p"
    by (auto intro: flown_participant)
  then show ?thesis
    using stays_asked [OF assms(1,3)] stays_failed [OF assms(1)] assms(2)
    by (cases r) (simp_all add: handle_end_flight_comms_def request_defs ask_def)
qed

lemma simulators_created:
  assumes "\<forall>i < length (sc_participants sc). participant_ok (sc_participants sc ! i)"
  shows "\<exists>sim. scenario_simulator_create lm clock sc = Ret sim"
proof -
  have created: "\<exists>t. cbind (polygon_of (pt_geometry p)) (simulator_create lm t1 t2) = Ret t"
    if "participant_ok p" for p t1 t2
    using that simulator_create_iff [of lm t1 t2]
    by (auto simp: participant_ok_def polygon_ready_def polygon_of_def returns_iff)
  have "\<exists>ts. cmapM (\<lambda>(i, p). cbind (polygon_of (pt_geometry p))
      (simulator_create lm (fst (clock i)) (snd (clock i)))) ips = Ret ts"
    if "\<forall>x \<in> set ips. participant_ok (snd x)" for ips
    using that
  proof (induction ips)
    case (Cons x ips)
    then obtain ts where "cmapM (\<lambda>(i, p). cbind (polygon_of (pt_geometry p))
        (simulator_create lm (fst (clock i)) (snd (clock i)))) ips = Ret ts" by auto
    moreover obtain t where "cbind (polygon_of (pt_geometry (snd x)))
        (simulator_create lm (fst (clock (fst x))) (snd (clock (fst x)))) = Ret t"
      using created [of "snd x" "fst (clock (fst x))" "snd (clock (fst x))"] Cons.prems by fastforce
    ultimately show ?case by (cases x) simp
  qed simp
  moreover have "\<forall>x \<in> set (enumerate 0 (sc_participants sc)). participant_ok (snd x)"
    using assms by (auto simp: in_set_enumerate_eq)
  ultimately show ?thesis by (fastforce simp: scenario_simulator_create_def)
qed

lemma keyed_step:
  fixes key :: string
  assumes "scenario_inv (with_call c s)" "sk_callback c = SC_comms" "sk_participant c = i"
  defines "ps \<equiv> (sx_participants s)[i := (sx_participants s ! i)\<lparr>pt_encryption_key := Some key\<rparr>]"
  shows "keyed_at ps = insert i (keyed_at (sx_participants s))" "i \<notin> keyed_at (sx_participants s)"
    "unat (sx_key_counter s + 1) = card (keyed_at ps)" "sx_simulation s = None"
    "calls_ok (s\<lparr>sx_participants := ps\<rparr>)"
proof -
  let ?ps = "sx_participants s"
  have inv: "calls_ok (with_call c s)" "length ?ps < 2 ^ 32" "unat (sx_key_counter s) = card (keyed_at ?ps)"
    "simulation_ok (sx_runner s) (sx_simulation s) ?ps"
    using assms(1) by (auto simp: scenario_inv_def)
  have i: "i < length ?ps" using inv(1) assms(3) by (auto simp: calls_ok_def)
  have slots: "pending_in opening_stage j (c # sx_calls s) + of_bool (keyed (?ps ! j)) \<le> 1"
    if "j < length ?ps" for j
    using inv(1) that unfolding calls_ok_def with_call_simps by blast
  from slots [OF i] assms(2,3) have free: "\<not> keyed (?ps ! i)" "pending_in opening_stage i (sx_calls s) = 0"
    by (auto split: if_splits)
  then show new: "i \<notin> keyed_at ?ps" by (simp add: keyed_at_def)
  show k: "keyed_at ps = insert i (keyed_at ?ps)" unfolding ps_def by (simp add: keyed_at_update [OF i])
  then have "card (keyed_at ps) = Suc (card (keyed_at ?ps))" using new by simp
  moreover have "card (keyed_at ps) \<le> length ?ps"
    using card_mono [OF _ keyed_at_subset [of ps]] by (simp add: ps_def)
  ultimately show "unat (sx_key_counter s + 1) = card (keyed_at ps)"
    using inv(2,3) unat_add_lem [of "sx_key_counter s" 1] by simp
  show "sx_simulation s = None"
    using inv(4) new i by (auto simp: simulation_ok_def split: option.splits)
  have ready: "call_ready cb (ps ! j)" if "j < length ?ps" "call_ready cb (?ps ! j)" for cb j
    using that i call_ready_mono [of cb "?ps ! j" "ps ! j"] by (auto simp: ps_def nth_list_update)
  have "pending_in opening_stage j (sx_calls s) + of_bool (keyed (ps ! j)) \<le> 1" if "j < length ?ps" for j
    using slots [OF that] free(2) i by (auto simp: ps_def nth_list_update)
  moreover have "sk_participant d < length ?ps \<and> call_ready (sk_callback d) (ps ! sk_participant d)"
    if "d \<in> set (sx_calls s)" for d
    using that inv(1) ready unfolding calls_ok_def with_call_simps by (meson list.set_intros(2))
  moreover have "length ps = length ?ps" by (simp add: ps_def)
  ultimately show "calls_ok (s\<lparr>sx_participants := ps\<rparr>)"
    unfolding calls_ok_def by simp
qed

lemma comms_stays:
  assumes "under_way c s" "sk_callback c = SC_comms" "sk_participant c = i"
  shows "stays (handle_start_flight_comms_result_for e i r s)"
proof -
  from assms obtain p a f where p: "i < length (sx_participants s)" "p = sx_participants s ! i"
    "participant_at i s = Ret p" "pt_authentication p = Some a" "pt_flight p = Some f" "participant_ok p"
    by (auto intro: flown_participant)
  show ?thesis
  proof (cases r)
    case (Inr key)
    let ?ps = "(sx_participants s)[i := p\<lparr>pt_encryption_key := Some key\<rparr>]"
    let ?s1 = "s\<lparr>sx_participants := ?ps, sx_key_counter := sx_key_counter s + 1\<rparr>"
    have inv: "scenario_inv (with_call c s)" and stops: "sx_stops s = []"
      and ending: "to_be_ended {} (with_call c s)"
      using assms(1) by (simp_all add: under_way_def)
    note k = keyed_step(1) [OF inv assms(2,3), where key = key, folded p(2)]
      keyed_step(2) [OF inv assms(2,3)]
      keyed_step(3) [OF inv assms(2,3), where key = key, folded p(2)]
      keyed_step(4) [OF inv assms(2,3)]
      keyed_step(5) [OF inv assms(2,3), where key = key, folded p(2)]
    have all: "\<forall>j < length (sx_participants s). participant_ok (?ps ! j)"
      using inv p by (auto simp: scenario_inv_def nth_list_update participant_ok_def polygon_ready_def)
    have idle: "\<not> su_running (sx_runner s) \<and> su_worker (sx_runner s) = None"
      using inv k(4) by (simp add: scenario_inv_def simulation_ok_def)
    have base: "length (sx_participants s) < 2 ^ 32" "sx_duration s \<noteq> None"
      using inv by (simp_all add: scenario_inv_def)
    have calls: "calls_ok (s\<lparr>sx_participants := ?ps\<rparr>)" using k(5) .
    have ended: "to_be_ended {} (s\<lparr>sx_participants := ?ps\<rparr>)"
      using ending assms(2) p by (auto simp: to_be_ended_def nth_list_update)
    have col: "collect_key_for i key s = Ret (length ?ps = unat (sx_key_counter s + 1), ?s1)"
      using p(3) by (simp add: collect_key_for_def collect_def Let_def)
    show ?thesis
    proof (cases "keyed_at ?ps = {..<length ?ps}")
      case False
      then have "card (keyed_at ?ps) \<noteq> length ?ps"
        using card_subset_eq [OF _ keyed_at_subset [of ?ps]] by auto
      then have "handle_start_flight_comms_result_for e i r s = Ret ?s1"
        using col k(3) by (simp add: Inr handle_start_flight_comms_result_for_def)
      moreover have "scenario_inv ?s1"
        using all base calls k(3,4) idle False by (simp add: scenario_inv_def calls_ok_def simulation_ok_def)
      moreover have "stops_ok ?s1" using stops ended by (simp add: stops_ok_def to_be_ended_def)
      ultimately show ?thesis by (simp add: stays_def)
    next
      case True
      obtain sim where sim: "scenario_simulator_create (se_libm e) (se_clock e)
          \<lparr>sc_name = [], sc_description = [], sc_participants = ?ps, sc_duration = sx_duration s\<rparr> = Ret sim"
        using simulators_created [of "\<lparr>sc_name = [], sc_description = [], sc_participants = ?ps,
            sc_duration = sx_duration s\<rparr>" "se_libm e" "se_clock e"] all by auto
      let ?ru = "(sx_runner s)\<lparr>su_running := True, su_worker := Some (scenario_simulator_start (se_now e) sim)\<rparr>"
      let ?s2 = "?s1\<lparr>sx_runner := ?ru, sx_simulation := Some ?ps\<rparr>"
      have "length ?ps = unat (sx_key_counter s + 1)" using k(3) True by simp
      then have "handle_start_flight_comms_result_for e i r s = Ret ?s2"
        using col idle sim
        by (simp add: Inr handle_start_flight_comms_result_for_def runner_start_def)
      moreover have "list_all (\<lambda>p. keyed p \<and> flown p) ?ps"
      proof -
        have "keyed (?ps ! j)" if "j < length ?ps" for j
          using True that by (auto simp: keyed_at_def set_eq_iff)
        with all show ?thesis by (auto simp: list_all_length participant_ok_def)
      qed
      then have "scenario_inv ?s2"
        using all base calls k(3) True p(1) by (auto simp: scenario_inv_def calls_ok_def simulation_ok_def)
      moreover have "stops_ok ?s2" using stops ended by (simp add: stops_ok_def to_be_ended_def)
      ultimately show ?thesis by (simp add: stays_def)
    qed
  qed (use stays_failed [OF assms(1)] p in \<open>simp add: handle_start_flight_comms_result_for_def\<close>)
qed

lemma end_flight_stays:
  assumes "under_way c s" "sk_callback c = SC_end_flight" "sk_participant c = i"
  shows "stays (handle_end_flight i r s)"
proof -
  from assms obtain p a f where p: "i < length (sx_participants s)" "p = sx_participants s ! i"
    "participant_at i s = Ret p" "pt_authentication p = Some a" "pt_flight p = Some f" "participant_ok p"
    by (auto intro: flown_participant)
  show ?thesis
  proof (cases r)
    case (Inr u)
    have "to_be_ended {i} s"
      using assms(1,3) by (auto simp: under_way_def to_be_ended_def)
    then have "stops_ok (stop_with True s)"
      using assms(1) p(1) by (auto simp: stops_ok_def stop_with_def under_way_def to_be_ended_def)
    moreover have "scenario_inv (stop_with True s)"
      using assms(1) inv_drop_call [of c s] by (simp add: under_way_def)
    ultimately show ?thesis using p(3,5) by (simp add: Inr handle_end_flight_def stays_def)
  qed (use stays_failed [OF assms(1)] in \<open>simp add: handle_end_flight_def\<close>)
qed

text \<open>Every answer to a call that is under way.\<close>

lemma answered_stays:
  assumes "scenario_inv s" "stops_ok s" "answer_call e n a s = Some m"
  shows "stays m"
proof -
  let ?c = "sx_calls s ! n" and ?s1 = "s\<lparr>sx_calls := take n (sx_calls s) @ drop (Suc n) (sx_calls s)\<rparr>"
  have n: "sx_stops s = []" "n < length (sx_calls s)"
    and m: "complete_call e (sk_callback ?c) (sk_participant ?c) a ?s1 = Some m"
    using assms(3) by (auto simp: answer_call_def split: if_splits)
  have "to_be_ended {} s" using assms(2) n(1) by (simp add: stops_ok_def)
  then have u: "under_way ?c ?s1"
    using assms(1) n inv_with_call [OF n(2)] by (simp add: under_way_def)
  show ?thesis
    using m authenticated_stays [OF u _ refl] status_stays [OF u] create_stays [OF u _ refl]
      monitor_stays [OF u _ refl] comms_stays [OF u _ refl] timer_stays [OF u _ refl]
      end_comms_stays [OF u _ refl] end_flight_stays [OF u _ refl]
    by (auto simp: complete_call_def split: scenario_answer.splits if_splits)
qed

subsection \<open>Where a run begins\<close>

text \<open>
  A scenario as it is read from a file: nothing has been set yet, and the polygons have two corners.
\<close>

definition unset_participant :: "participant \<Rightarrow> bool" where
  "unset_participant p \<longleftrightarrow> \<not> authorized p \<and> \<not> flown p \<and> \<not> keyed p"

definition scenario_ok :: "scenario \<Rightarrow> bool" where
  "scenario_ok sc \<longleftrightarrow>
     list_all (\<lambda>p. polygon_ready p \<and> unset_participant p) (sc_participants sc) \<and>
     length (sc_participants sc) < 2 ^ 32"

lemma decoded_participant_unset: "decode_participant parse j = Ret p \<Longrightarrow> unset_participant p"
  by (auto simp: decode_participant_def unset_participant_def cbind_eq_Ret)

lemma asked_for_authentication:
  assumes "i < length (sx_participants s)"
  shows "\<exists>c. request_authentication_for e i s = Ret (s\<lparr>sx_calls := sx_calls s @ [c]\<rparr>) \<and>
           sk_participant c = i \<and> sk_callback c \<in> {SC_password, SC_anonymous}"
  using assms
  by (cases "pt_user (sx_participants s ! i)")
    (simp_all add: request_authentication_for_def participant_at_def ask_def,
      (rule exI, rule conjI [OF refl], simp)+)

lemma all_asked:
  assumes "k \<le> length (sx_participants s)"
  shows "\<exists>cs. cfold (request_authentication_for e) [0..<k] s = Ret (s\<lparr>sx_calls := sx_calls s @ cs\<rparr>) \<and>
           map sk_participant cs = [0..<k] \<and> sk_callback ` set cs \<subseteq> {SC_password, SC_anonymous}"
  using assms
proof (induction k)
  case 0
  show ?case by (intro exI [of _ "[]"]) simp
next
  case (Suc k)
  then obtain cs where cs: "cfold (request_authentication_for e) [0..<k] s = Ret (s\<lparr>sx_calls := sx_calls s @ cs\<rparr>)"
    "map sk_participant cs = [0..<k]" "sk_callback ` set cs \<subseteq> {SC_password, SC_anonymous}" by auto
  from Suc.prems asked_for_authentication [of k "s\<lparr>sx_calls := sx_calls s @ cs\<rparr>" e] obtain c where
    c: "request_authentication_for e k (s\<lparr>sx_calls := sx_calls s @ cs\<rparr>) = Ret (s\<lparr>sx_calls := sx_calls s @ cs @ [c]\<rparr>)"
    "sk_participant c = k" "sk_callback c \<in> {SC_password, SC_anonymous}" by auto
  show ?case
    by (rule exI [of _ "cs @ [c]"]) (use cs c in \<open>simp add: cfold_append\<close>)
qed

lemma pending_in_upt:
  assumes "map sk_participant cs = [0..<k]"
  shows "pending_in P i cs \<le> 1"
proof -
  have "distinct (map sk_participant cs)" using assms by simp
  then have "length (filter (\<lambda>c. sk_participant c = i) cs) \<le> 1"
    by (induction cs) (auto simp: filter_empty_conv image_iff)
  moreover have "length (filter (\<lambda>c. sk_participant c = i \<and> P (sk_callback c)) cs) \<le>
      length (filter (\<lambda>c. sk_participant c = i) cs)"
    by (induction cs) auto
  ultimately show ?thesis by (simp add: pending_in_def)
qed

lemma begun_stays:
  assumes "scenario_ok sc"
  shows "stays (scenario_begin e (scenario_run_create sc))"
proof -
  let ?s = "scenario_run_create sc" and ?ps = "sc_participants sc"
  obtain cs where cs: "scenario_begin e ?s = Ret (?s\<lparr>sx_calls := cs\<rparr>)"
    "map sk_participant cs = [0..<length ?ps]" "sk_callback ` set cs \<subseteq> {SC_password, SC_anonymous}"
    using all_asked [of "length ?ps" ?s e] by (auto simp: scenario_begin_def scenario_run_create_def)
  have unset: "polygon_ready (?ps ! i)" "unset_participant (?ps ! i)" if "i < length ?ps" for i
    using assms that by (auto simp: scenario_ok_def list_all_length)
  then have none: "keyed_at ?ps = {}" by (auto simp: keyed_at_def unset_participant_def)
  have "sk_participant c < length ?ps" if "c \<in> set cs" for c
    using arg_cong [OF cs(2), of set] that by auto
  moreover have "call_ready (sk_callback c) p" if "c \<in> set cs" for c p
    using cs(3) that by auto
  ultimately have calls: "calls_ok (?s\<lparr>sx_calls := cs\<rparr>)"
    using unset(2) pending_in_upt [OF cs(2)]
    by (simp add: calls_ok_def scenario_run_create_def unset_participant_def)
  have "simulation_ok (runner_create 5) None ?ps"
    using none by (auto simp: simulation_ok_def runner_create_def)
  with calls none have "scenario_inv (?s\<lparr>sx_calls := cs\<rparr>)"
    using unset assms by (auto simp: scenario_inv_def scenario_run_create_def scenario_ok_def
        participant_ok_def unset_participant_def)
  moreover have "stops_ok (?s\<lparr>sx_calls := cs\<rparr>)"
    using unset(2) by (simp add: stops_ok_def to_be_ended_def scenario_run_create_def unset_participant_def)
  ultimately show ?thesis by (simp add: stays_def cs(1))
qed

lemma reached_stays: "scenario_reach sc s \<Longrightarrow> scenario_ok sc \<Longrightarrow> scenario_inv s \<and> stops_ok s"
proof (induction rule: scenario_reach.induct)
  case (begun e s)
  then show ?case using begun_stays [of sc e] by (simp add: stays_def)
next
  case (answered s e n a s')
  then show ?case using answered_stays [of s e n a "Ret s'"] by (simp add: stays_def)
qed

subsection \<open>What follows\<close>

text \<open>Two participants without an account, one beside the other.\<close>

definition demo_corner :: "double \<Rightarrow> coordinate" where
  "demo_corner x = \<lparr>latitude = 0, longitude = x, altitude = None, elevation = None\<rparr>"

definition demo_participant :: "32 word \<Rightarrow> participant" where
  "demo_participant i =
     \<lparr>pt_id = i, pt_aircraft = aircraft_of_id ''drone'', pt_pilot = pilot_of_id ''pilot'', pt_user = None,
      pt_geometry = G_polygon \<lparr>outer_ring = [demo_corner 0, demo_corner 1], inner_rings = []\<rparr>,
      pt_velocity = 0, pt_authentication = None, pt_flight = None, pt_monitor = None,
      pt_encryption_key = None\<rparr>"

definition demo_scenario :: scenario where
  "demo_scenario = \<lparr>sc_name = [], sc_description = [],
     sc_participants = [demo_participant 1, demo_participant 2], sc_duration = None\<rparr>"

definition demo_env :: scenario_env where
  "demo_env = \<lparr>se_libm = \<lparr>lm_cos = (\<lambda>_. 0), lm_sin = (\<lambda>_. 0), lm_atan2 = (\<lambda>_ _. 0), lm_sqrt = (\<lambda>_. 0),
                          lm_floor = (\<lambda>_. 0)\<rparr>,
               se_now = At 0, se_clock = (\<lambda>_. (At 0, At 0)), se_device = []\<rparr>"

definition demo_flight :: "string \<Rightarrow> flight" where
  "demo_flight i =
     \<lparr>fl_id = i, fl_flight_plan_id = None, fl_pilot = pilot_of_id [], fl_aircraft = aircraft_of_id [],
      fl_latitude = 0, fl_longitude = 0, fl_max_altitude = 0, fl_geometry = G_invalid,
      fl_created_at = At 0, fl_start_time = At 0, fl_end_time = At 0\<rparr>"

text \<open>A run of answers.\<close>

fun answers :: "scenario_env \<Rightarrow> (nat \<times> scenario_answer) list \<Rightarrow> scenario_run \<Rightarrow> scenario_run cpp option" where
  "answers e [] s = Some (Ret s)"
| "answers e ((n, a) # as) s =
     (case answer_call e n a s of
        Some (Ret s') \<Rightarrow> answers e as s'
      | m \<Rightarrow> m)"

lemma answers_reach:
  "scenario_reach sc s \<Longrightarrow> answers e as s = Some (Ret s') \<Longrightarrow> scenario_reach sc s'"
proof (induction as arbitrary: s)
  case (Cons x as)
  obtain n a where x: "x = (n, a)" by (cases x)
  with Cons.prems(2) obtain s1 where "answer_call e n a s = Some (Ret s1)" "answers e as s1 = Some (Ret s')"
    by (auto split: option.splits cpp.splits)
  then show ?case using Cons.IH [of s1] Cons.prems(1) by (auto intro: scenario_reach.answered)
qed simp

lemmas run_defs =
  answer_call_def complete_call_def handle_authenticated_result_for_def collect_authentication_for_def
  collect_def participant_at_def request_defs ask_def polygon_of_def first_corner_def
  handle_create_flight_result_for_def collect_flight_id_for_def handle_end_flight_comms_def
  handle_end_flight_def stop_with_def handle_flight_status_result_for_def
  handle_start_flight_comms_result_for_def collect_key_for_def scenario_simulator_create_def
  simulator_create_def ring_at_def runner_start_def runner_create_def

lemmas demo_defs =
  demo_scenario_def demo_participant_def demo_env_def call_of_def scenario_run_create_def

lemma demo_scenario_ok: "scenario_ok demo_scenario"
  by (simp add: scenario_ok_def demo_scenario_def demo_participant_def polygon_ready_def unset_participant_def)

text \<open>Both log in and create a flight.\<close>

definition demo_begun :: scenario_run where
  "demo_begun = (scenario_run_create demo_scenario)
     \<lparr>sx_calls := map (\<lambda>i. call_of SC_anonymous i (To_service (On_auth (Anonymous_call ''pilot'')))) [0, 1]\<rparr>"

definition demo_flown :: "(nat \<times> scenario_answer) list" where
  "demo_flown =
     [(0, Answer_token (Inr ''a'')), (0, Answer_token (Inr ''b'')),
      (1, Answer_flight (Inr (demo_flight ''f''))), (2, Answer_flight (Inr (demo_flight ''g'')))]"

lemma demo_reached: "answers e as demo_begun = Some (Ret s) \<Longrightarrow> scenario_reach demo_scenario s"
proof (rule answers_reach)
  have "scenario_begin demo_env (scenario_run_create demo_scenario) = Ret demo_begun"
    by (simp add: scenario_begin_def demo_begun_def demo_defs upt_rec request_authentication_for_def
        participant_at_def ask_def pilot_of_id_def)
  then show "scenario_reach demo_scenario demo_begun" by (rule begun)
qed



text \<open>C32. The simulation is running exactly when there are participants and each has the key of
  its flight, whatever the order in which the keys arrive; it simulates all of them, each with its
  flight and its key.\<close>

theorem simulation_starts_with_all_keys:
  assumes "scenario_reach sc s" "scenario_ok sc"
  shows "case sx_simulation s of
      None \<Rightarrow> sx_participants s = [] \<or> \<not> list_all keyed (sx_participants s)
    | Some qs \<Rightarrow> su_running (sx_runner s) \<and> su_worker (sx_runner s) \<noteq> None \<and>
        sx_participants s \<noteq> [] \<and> list_all keyed (sx_participants s) \<and>
        map pt_id qs = map pt_id (sx_participants s) \<and> list_all (\<lambda>p. keyed p \<and> flown p) qs"
proof -
  have "simulation_ok (sx_runner s) (sx_simulation s) (sx_participants s)"
    using reached_stays [OF assms] by (simp add: scenario_inv_def)
  moreover have "keyed_at (sx_participants s) = {..<length (sx_participants s)} \<longleftrightarrow>
      list_all keyed (sx_participants s)"
    by (auto simp: keyed_at_def list_all_length)
  ultimately show ?thesis by (auto simp: simulation_ok_def split: option.splits)
qed

theorem simulation_starts_with_all_keys_witness:
  "\<exists>s. answers demo_env (demo_flown @ [(6, Answer_key (Inr ''k'')), (3, Answer_key (Inr ''l''))]) demo_begun =
         Some (Ret s) \<and>
       (case sx_simulation s of None \<Rightarrow> False | Some qs \<Rightarrow> list_all (\<lambda>p. keyed p \<and> flown p) qs)"
proof -
  obtain s where s: "answers demo_env (demo_flown @ [(6, Answer_key (Inr ''k'')), (3, Answer_key (Inr ''l''))])
      demo_begun = Some (Ret s)" "sx_simulation s \<noteq> None"
    by (simp add: demo_flown_def demo_begun_def run_defs demo_defs enumerate_eq_zip Let_def)
  show ?thesis
    using simulation_starts_with_all_keys [OF demo_reached [OF s(1)] demo_scenario_ok] s
    by (auto split: option.splits)
qed



end
