(* ===== verification/Paths.thy ===== *)
theory Paths
  imports Rest
begin

text \<open>
  Where files live: the base directories of XDG (src/airmap/platform/linux/xdg.cpp), the standard
  paths over them (linux/standard_paths.cpp), and the files of the SDK (src/airmap/paths.cpp). The
  environment is a map; what Boost.Filesystem makes of texts, whether a path has a root
  directory and how two paths are joined, is a parameter.
\<close>

record platform_env =
  pe_variable :: "string \<Rightarrow> string option"
  pe_rooted :: "string \<Rightarrow> bool"
  pe_join :: "string \<Rightarrow> string \<Rightarrow> string"

definition throw_if_not_absolute :: "platform_env \<Rightarrow> string \<Rightarrow> string cpp" where
  "throw_if_not_absolute e p =
     (if pe_rooted e p then Ret p else Throw (Runtime_error ''Directores MUST be absolute.''))"

definition variable_or_empty :: "platform_env \<Rightarrow> string \<Rightarrow> string" where
  "variable_or_empty e k = (case pe_variable e k of Some v \<Rightarrow> v | None \<Rightarrow> [])"

definition variable_or_throw :: "platform_env \<Rightarrow> string \<Rightarrow> string cpp" where
  "variable_or_throw e k =
     (case pe_variable e k of Some v \<Rightarrow> Ret v | None \<Rightarrow> Throw (Runtime_error (k @ '' not set in environment'')))"

subsection \<open>Base directories\<close>

text \<open>A directory of its own variable, or one below the home directory.\<close>

definition home_directory :: "platform_env \<Rightarrow> string \<Rightarrow> string list \<Rightarrow> string cpp" where
  "home_directory e k below =
     (let v = variable_or_empty e k
      in if v = [] then cbind (variable_or_throw e ''HOME'') (\<lambda>h. throw_if_not_absolute e (foldl (pe_join e) h below))
         else throw_if_not_absolute e v)"

definition data_home :: "platform_env \<Rightarrow> string cpp" where
  "data_home e = home_directory e ''XDG_DATA_HOME'' [''.local'', ''share'']"

definition config_home :: "platform_env \<Rightarrow> string cpp" where
  "config_home e = home_directory e ''XDG_CONFIG_HOME'' [''.config'']"

definition cache_home :: "platform_env \<Rightarrow> string cpp" where
  "cache_home e = home_directory e ''XDG_CACHE_HOME'' [''.cache'']"

text \<open>\<open>boost::split\<close> at every colon, empty texts included.\<close>

fun split_colons :: "string \<Rightarrow> string list" where
  "split_colons [] = [[]]"
| "split_colons (c # s) =
     (if c = CHR '':'' then [] # split_colons s
      else case split_colons s of [] \<Rightarrow> [[c]] | t # ts \<Rightarrow> (c # t) # ts)"

definition search_directories :: "platform_env \<Rightarrow> string \<Rightarrow> string list \<Rightarrow> string list cpp" where
  "search_directories e k fallback =
     (let v = variable_or_empty e k
      in if v = [] then Ret fallback else cmapM (throw_if_not_absolute e) (split_colons v))"

definition data_dirs :: "platform_env \<Rightarrow> string list cpp" where
  "data_dirs e = search_directories e ''XDG_DATA_DIRS'' [''/usr/local/share'', ''/usr/share'']"

definition config_dirs :: "platform_env \<Rightarrow> string list cpp" where
  "config_dirs e = search_directories e ''XDG_CONFIG_DIRS'' [''/etc/xdg'']"

definition runtime_dir :: "platform_env \<Rightarrow> string cpp" where
  "runtime_dir e =
     (let v = variable_or_empty e ''XDG_CONFIG_HOME''
      in if v = [] then Throw (Runtime_error ''Runtime directory not set'') else throw_if_not_absolute e v)"

subsection \<open>Standard paths and files\<close>

datatype path_scope = Scope_system | Scope_user

datatype path_location = Location_cache | Location_config | Location_data | Location_runtime

fun path_scope_text :: "path_scope \<Rightarrow> string" where
  "path_scope_text Scope_system = ''system''"
| "path_scope_text Scope_user = ''user''"

fun path_location_text :: "path_location \<Rightarrow> string" where
  "path_location_text Location_cache = ''cache''"
| "path_location_text Location_config = ''config''"
| "path_location_text Location_data = ''data''"
| "path_location_text Location_runtime = ''runtime''"

text \<open>\<open>front\<close> of a vector.\<close>

definition vector_front :: "'a list \<Rightarrow> 'a cpp" where
  "vector_front xs = (case xs of [] \<Rightarrow> UB | x # _ \<Rightarrow> Ret x)"

definition standard_path :: "platform_env \<Rightarrow> path_scope \<Rightarrow> path_location \<Rightarrow> string option cpp" where
  "standard_path e s l =
     (case l of
        Location_cache \<Rightarrow> (case s of Scope_system \<Rightarrow> Ret None | Scope_user \<Rightarrow> cmap Some (cache_home e))
      | Location_config \<Rightarrow>
          (case s of Scope_system \<Rightarrow> cmap Some (cbind (config_dirs e) vector_front)
                   | Scope_user \<Rightarrow> cmap Some (config_home e))
      | Location_data \<Rightarrow>
          (case s of Scope_system \<Rightarrow> cmap Some (cbind (data_dirs e) vector_front)
                   | Scope_user \<Rightarrow> cmap Some (data_home e))
      | Location_runtime \<Rightarrow>
          (case s of Scope_system \<Rightarrow> cmap Some (runtime_dir e) | Scope_user \<Rightarrow> Ret None))"

definition config_dir :: "platform_env \<Rightarrow> client_version \<Rightarrow> string cpp" where
  "config_dir e v =
     cbind (cbind (standard_path e Scope_user Location_config) deref) (\<lambda>p.
       Ret (pe_join e (pe_join e p ''airmap'')
              (case v of Version_production \<Rightarrow> ''production'' | Version_staging \<Rightarrow> ''staging'')))"

definition config_file :: "platform_env \<Rightarrow> client_version \<Rightarrow> string cpp" where
  "config_file e v = cmap (\<lambda>d. pe_join e d ''config.json'') (config_dir e v)"

definition token_file :: "platform_env \<Rightarrow> client_version \<Rightarrow> string cpp" where
  "token_file e v = cmap (\<lambda>d. pe_join e d ''token.json'') (config_dir e v)"

lemma split_colons_nonempty [simp]: "split_colons s \<noteq> []"
  by (induction s) (auto split: list.splits)

text \<open>The directories are never an empty vector.\<close>

lemma search_directories_front:
  assumes "fallback \<noteq> []" "search_directories e k fallback = Ret ds"
  shows "returns (vector_front ds)"
proof -
  have "length ds = length fallback \<or> length ds = length (split_colons (variable_or_empty e k))"
    using assms(2) cmapM_length [of "throw_if_not_absolute e" "split_colons (variable_or_empty e k)" ds]
    by (auto simp: search_directories_def Let_def split: if_splits)
  with assms(1) show ?thesis by (cases ds) (auto simp: vector_front_def)
qed

text \<open>The files of a version lie in its own directory, wherever that is.\<close>

lemma files_of_version:
  assumes "config_dir e v = Ret d"
  shows "config_file e v = Ret (pe_join e d ''config.json'')" "token_file e v = Ret (pe_join e d ''token.json'')"
  using assms by (simp_all add: config_file_def token_file_def cmap_def)

text \<open>The directory of the runtime is that of the configuration, never the one of its own variable.\<close>

lemma runtime_is_config:
  assumes "variable_or_empty e ''XDG_CONFIG_HOME'' \<noteq> []"
  shows "runtime_dir e = config_home e"
  using assms by (simp add: runtime_dir_def config_home_def home_directory_def Let_def)

end
