(* ===== verification/Updates_Stream.thy ===== *)
theory Updates_Stream
  imports Daemon
begin

text \<open>
  The stream of traffic updates from the monitor to its clients: the codec between updates and
  their messages (src/airmap/codec/grpc/{traffic,date_time}.cpp; the messages are those of
  interfaces/grpc/airmap/*.proto, a message inside another may be absent), and the client's
  side of the call (src/airmap/monitor/grpc/client.cpp over grpc/client/executor.cpp). The gRPC
  runtime is what completes the operations.
\<close>

subsection \<open>Messages\<close>

record pb_timestamp =
  ts_seconds :: "64 word"
  ts_nanos :: "32 word"

record pb_position =
  po_latitude :: "double option"
  po_longitude :: "double option"

record pb_traffic =
  pt_track :: "string option"
  pt_aircraft_id :: string
  pt_position :: "pb_position option"
  pt_ground_speed :: "double option"
  pt_heading :: "double option"
  pt_direction :: "double option"
  pt_recorded :: "pb_timestamp option"
  pt_generated :: "pb_timestamp option"

text \<open>The count of an unsigned type; \<open>special\<close> is what Boost counts for a special duration.\<close>

definition encode_timestamp :: "64 word \<Rightarrow> date_time \<Rightarrow> pb_timestamp" where
  "encode_timestamp special t =
     (let us = (case microseconds_since_epoch t of Some u \<Rightarrow> u | None \<Rightarrow> special);
          s = us div 1000000
      in \<lparr>ts_seconds = s, ts_nanos = ucast (1000 * (us - s * 1000000))\<rparr>)"

text \<open>Signed arithmetic of 64 bits, where an overflow is undefined.\<close>

definition int64 :: "int \<Rightarrow> int cpp" where
  "int64 i = (if - (2 ^ 63) \<le> i \<and> i < 2 ^ 63 then Ret i else UB)"

definition decode_timestamp :: "pb_timestamp \<Rightarrow> date_time cpp" where
  "decode_timestamp ts =
     cbind (int64 (sint (ts_seconds ts) * 1000)) (\<lambda>a. cbind (int64 (a * 1000)) (\<lambda>b.
     cbind (int64 (b + sint (ts_nanos ts) sdiv 1000)) (\<lambda>us.
       Ret (from_microseconds_since_epoch (microseconds (word_of_int us))))))"

definition encode_update :: "64 word \<Rightarrow> traffic_update \<Rightarrow> pb_traffic" where
  "encode_update special u =
     \<lparr>pt_track = Some (tu_id u), pt_aircraft_id = tu_aircraft_id u,
      pt_position = Some \<lparr>po_latitude = Some (tu_latitude u), po_longitude = Some (tu_longitude u)\<rparr>,
      pt_ground_speed = Some (tu_ground_speed u), pt_heading = Some (tu_heading u),
      pt_direction = Some (tu_direction u), pt_recorded = Some (encode_timestamp special (tu_recorded u)),
      pt_generated = Some (encode_timestamp special (tu_timestamp u))\<rparr>"

text \<open>
  \<open>stale\<close> is the object that is decoded into, with what its members without initialiser hold:
  the altitude always stays, the position if there is none. The clock gives absent times.
\<close>

definition value_or_zero :: "double option \<Rightarrow> double" where
  "value_or_zero x = (case x of Some v \<Rightarrow> v | None \<Rightarrow> 0)"

definition decode_update ::
  "traffic_update \<Rightarrow> date_time \<Rightarrow> date_time \<Rightarrow> pb_traffic \<Rightarrow> traffic_update cpp" where
  "decode_update stale now1 now2 m =
     cbind (case pt_recorded m of Some t \<Rightarrow> decode_timestamp t | None \<Rightarrow> Ret now1) (\<lambda>recorded.
     cbind (case pt_generated m of Some t \<Rightarrow> decode_timestamp t | None \<Rightarrow> Ret now2) (\<lambda>generated.
       Ret \<lparr>tu_id = (case pt_track m of Some i \<Rightarrow> i | None \<Rightarrow> ''n/a''), tu_aircraft_id = pt_aircraft_id m,
            tu_latitude = (case pt_position m of Some p \<Rightarrow> value_or_zero (po_latitude p) | None \<Rightarrow> tu_latitude stale),
            tu_longitude = (case pt_position m of Some p \<Rightarrow> value_or_zero (po_longitude p) | None \<Rightarrow> tu_longitude stale),
            tu_altitude = tu_altitude stale, tu_ground_speed = value_or_zero (pt_ground_speed m),
            tu_heading = value_or_zero (pt_heading m), tu_direction = value_or_zero (pt_direction m),
            tu_recorded = recorded, tu_timestamp = generated\<rparr>))"

definition countable_time :: "date_time \<Rightarrow> bool" where
  "countable_time t = (case t of At i \<Rightarrow> 0 \<le> i \<and> i < 2 ^ 63 | Not_a_date_time \<Rightarrow> False)"

lemma sint_small32:
  assumes "0 \<le> k" "k < 2 ^ 31"
  shows "sint (ucast (word_of_int k :: 64 word) :: 32 word) = k"
proof -
  have "uint (word_of_int k :: 64 word) = k" using assms by (simp add: uint_word_of_int take_bit_int_eq_self)
  then have "uint (ucast (word_of_int k :: 64 word) :: 32 word) = k"
    using assms by (simp add: unsigned_ucast_eq take_bit_int_eq_self)
  then show ?thesis using assms by (subst sint_uint) (simp add: signed_take_bit_int_eq_self)
qed

lemma timestamp_round_trip:
  assumes "countable_time t"
  shows "decode_timestamp (encode_timestamp special t) = Ret t"
proof -
  obtain i where t: "t = At i" and i: "0 \<le> i" "i < 2 ^ 63"
    using assms by (auto simp: countable_time_def split: date_time.splits)
  let ?u = "word_of_int i :: 64 word" and ?q = "i div 1000000"
  have u: "uint ?u = i" using i by (simp add: uint_word_of_int take_bit_int_eq_self)
  have q: "?u div 1000000 = word_of_int ?q" by (simp add: word_div_def u)
  have "?u - word_of_int ?q * 1000000 = word_of_int (i - ?q * 1000000)" by simp
  then have r: "1000 * (?u - word_of_int ?q * 1000000) = word_of_int (1000 * (i mod 1000000))"
    by (simp add: minus_div_mult_eq_mod)
  have "encode_timestamp special t =
      \<lparr>ts_seconds = word_of_int ?q, ts_nanos = ucast (word_of_int (1000 * (i mod 1000000)) :: 64 word)\<rparr>"
    using r by (simp add: t encode_timestamp_def microseconds_since_epoch_def epoch_def
        dur_total_microseconds_def q Let_def)
  moreover have "sint (word_of_int ?q :: 64 word) = ?q" using i by (intro sint_word_of_int_small) auto
  moreover have "0 \<le> i mod 1000000" "i mod 1000000 < 1000000" by simp_all
  then have "sint (ucast (word_of_int (1000 * (i mod 1000000)) :: 64 word) :: 32 word) = 1000 * (i mod 1000000)"
    by (intro sint_small32) auto
  moreover have "1000 * (i mod 1000000) sdiv 1000 = i mod 1000000" by (simp add: sdiv_nonneg)
  moreover have "?q * 1000000 + i mod 1000000 = i" by simp
  moreover have "?q * 1000000 \<le> i" by (metis div_mult_mod_eq le_add_same_cancel1 pos_mod_sign zero_less_numeral)
  moreover have "sint (word_of_int i :: 64 word) = i" using i by (rule sint_word_of_int_small)
  moreover have "0 \<le> ?q" using i by simp
  ultimately show ?thesis
    using i by (simp add: decode_timestamp_def int64_def from_microseconds_since_epoch_def microseconds_def
        epoch_def t)
qed

text \<open>An update arrives as it was sent but for its altitude, which the messages do not carry.\<close>

lemma update_round_trip:
  assumes "countable_time (tu_recorded u)" "countable_time (tu_timestamp u)"
  shows "decode_update stale now1 now2 (encode_update special u) = Ret (u\<lparr>tu_altitude := tu_altitude stale\<rparr>)"
  using assms by (simp add: decode_update_def encode_update_def timestamp_round_trip value_or_zero_def)

text \<open>A time before 1970 is sent as a count of seconds whose microseconds overflow.\<close>

lemma early_time_undefined: "decode_timestamp (encode_timestamp special (At (- 1))) = UB"
  by (simp add: encode_timestamp_def decode_timestamp_def microseconds_since_epoch_def epoch_def
      dur_total_microseconds_def int64_def Let_def)

subsection \<open>The client's side\<close>

datatype invocation_state = Ready | Streaming | Finished

fun invocation_state_text :: "invocation_state \<Rightarrow> string" where
  "invocation_state_text Ready = ''ready''"
| "invocation_state_text Streaming = ''streaming''"
| "invocation_state_text Finished = ''ready''"

text \<open>What the invocation has the context do: the callback of \<open>connect_to_updates\<close>, or a delivery.\<close>

datatype client_task = Connected | Connection_failed | Deliver "traffic_update list"

text \<open>
  \<open>ConnectToUpdatesInvocation::proceed\<close> with the result of the operation that was under way and
  the message it has read; \<open>None\<close>: the invocation is deleted. Every other branch starts the
  next operation.
\<close>

definition client_proceed ::
  "(pb_traffic \<Rightarrow> traffic_update cpp) \<Rightarrow> bool \<Rightarrow> pb_traffic list \<Rightarrow> invocation_state \<Rightarrow>
   (invocation_state option \<times> client_task list) cpp" where
  "client_proceed dec ok element s =
     (case s of
        Ready \<Rightarrow> Ret (if ok then (Some Streaming, [Connected]) else (Some Finished, [Connection_failed]))
      | Streaming \<Rightarrow>
          if ok then cbind (cmapM dec element) (\<lambda>us. Ret (Some Streaming, [Deliver us]))
          else Ret (Some Finished, [])
      | Finished \<Rightarrow> Ret (None, []))"

text \<open>\<open>Executor::run\<close>: the completions of one invocation; a completion after its deletion uses a dead object.\<close>

fun client_run ::
  "(pb_traffic \<Rightarrow> traffic_update cpp) \<Rightarrow> (bool \<times> pb_traffic list) list \<Rightarrow> invocation_state option \<Rightarrow>
   (invocation_state option \<times> client_task list) cpp" where
  "client_run dec [] s = Ret (s, [])"
| "client_run dec ((ok, element) # cs) None = UB"
| "client_run dec ((ok, element) # cs) (Some s) =
     cbind (client_proceed dec ok element s) (\<lambda>(s, ts).
       cbind (client_run dec cs s) (\<lambda>(s, ts'). Ret (s, ts @ ts')))"

text \<open>\<open>UpdateStreamImpl\<close>: the receivers are a set, kept like the subscribers of a fan-out.\<close>

definition write_update :: "traffic_update list \<Rightarrow> nat list \<Rightarrow> (nat \<times> traffic_update list) list" where
  "write_update us receivers = map (\<lambda>k. (k, us)) receivers"

lemma client_run_reads:
  assumes "list_all2 (\<lambda>es us. cmapM dec es = Ret us) ess uss"
  shows "client_run dec (map (Pair True) ess @ cs) (Some Streaming) =
    cbind (client_run dec cs (Some Streaming)) (\<lambda>(s, ts). Ret (s, map Deliver uss @ ts))"
  using assms
proof (induction rule: list_all2_induct)
  case (Cons es us ess uss)
  then show ?case
    by (cases "client_run dec cs (Some Streaming)") (auto simp: client_proceed_def)
qed (cases "client_run dec cs (Some Streaming)", auto)

definition countable_times :: "traffic_update \<Rightarrow> bool" where
  "countable_times u \<longleftrightarrow> countable_time (tu_recorded u) \<and> countable_time (tu_timestamp u)"

lemma cmapM_updates:
  "list_all countable_times us \<Longrightarrow>
   cmapM (decode_update stale now1 now2) (map (encode_update special) us) =
     Ret (map (\<lambda>u. u\<lparr>tu_altitude := tu_altitude stale\<rparr>) us)"
  by (rule cmapM_map_Ret) (auto simp: list_all_iff countable_times_def update_round_trip)



end
