(* ===== verification/Monitor_Service.thy ===== *)
theory Monitor_Service
  imports Updates_Stream
begin

text \<open>
  The monitor's side of the stream of updates (src/airmap/monitor/grpc/service.cpp over
  grpc/server/executor.cpp): one invocation waits for a client while others stream to theirs.
  The gRPC runtime completes operations, the executor takes the completions and has the context
  proceed with them, and the traffic monitor hands updates to the streams in between. Invocations are
  addresses. Of one stream gRPC allows one operation at a time; a second is undefined.
\<close>

subsection \<open>Invocations\<close>

record invocation =
  iv_state :: invocation_state
  iv_operation :: bool

record monitor_service =
  ms_invocations :: "nat \<rightharpoonup> invocation"
  ms_next :: nat
  ms_subscribers :: "nat list"
  ms_written :: "(nat \<times> pb_traffic list) list"
  ms_tasks :: "(nat \<times> bool) list"
  ms_serving :: bool

definition start_operation :: "nat \<Rightarrow> monitor_service \<Rightarrow> monitor_service cpp" where
  "start_operation i s =
     (case ms_invocations s i of
        None \<Rightarrow> UB
      | Some v \<Rightarrow>
          if iv_operation v then UB
          else Ret (s\<lparr>ms_invocations := (ms_invocations s)(i \<mapsto> v\<lparr>iv_operation := True\<rparr>)\<rparr>))"

definition set_invocation_state :: "nat \<Rightarrow> invocation_state \<Rightarrow> monitor_service \<Rightarrow> monitor_service" where
  "set_invocation_state i st s =
     s\<lparr>ms_invocations := (ms_invocations s)(i := map_option (\<lambda>v. v\<lparr>iv_state := st\<rparr>) (ms_invocations s i))\<rparr>"

text \<open>\<open>start_listening\<close>: a new invocation, which requests the next call.\<close>

definition start_listening :: "monitor_service \<Rightarrow> monitor_service" where
  "start_listening s =
     s\<lparr>ms_invocations := (ms_invocations s)(ms_next s \<mapsto> \<lparr>iv_state = Ready, iv_operation = True\<rparr>),
       ms_next := Suc (ms_next s)\<rparr>"

definition start_service :: monitor_service where
  "start_service = start_listening
     \<lparr>ms_invocations = Map.empty, ms_next = 0, ms_subscribers = [], ms_written = [], ms_tasks = [], ms_serving = True\<rparr>"

definition proceed :: "nat \<Rightarrow> bool \<Rightarrow> monitor_service \<Rightarrow> monitor_service cpp" where
  "proceed i ok s =
     (case ms_invocations s i of
        None \<Rightarrow> UB
      | Some v \<Rightarrow>
          (case iv_state v of
             Ready \<Rightarrow>
               (let s1 = start_listening s
                in if ok
                   then Ret ((set_invocation_state i Streaming s1)\<lparr>ms_subscribers := fan_subscribe i (ms_subscribers s1)\<rparr>)
                   else start_operation i (set_invocation_state i Finished s1))
           | Streaming \<Rightarrow>
               if ok then Ret s
               else start_operation i
                 (set_invocation_state i Finished (s\<lparr>ms_subscribers := fan_unsubscribe i (ms_subscribers s)\<rparr>))
           | Finished \<Rightarrow> Ret (s\<lparr>ms_invocations := (ms_invocations s)(i := None)\<rparr>)))"

text \<open>\<open>Subscriber::handle_update\<close> for every stream.\<close>

definition stream_update :: "64 word \<Rightarrow> traffic_update list \<Rightarrow> nat \<Rightarrow> monitor_service \<Rightarrow> monitor_service cpp" where
  "stream_update special us i s =
     cbind (start_operation i s) (\<lambda>s.
       Ret (s\<lparr>ms_written := ms_written s @ [(i, map (encode_update special) us)]\<rparr>))"

definition stream_updates :: "64 word \<Rightarrow> traffic_update list \<Rightarrow> monitor_service \<Rightarrow> monitor_service cpp" where
  "stream_updates special us s = cfold (stream_update special us) (ms_subscribers s) s"

text \<open>\<open>Executor::run\<close> with one completion: after a failed one it returns.\<close>

definition run_completion :: "nat \<Rightarrow> bool \<Rightarrow> monitor_service \<Rightarrow> monitor_service" where
  "run_completion i ok s =
     s\<lparr>ms_invocations := (ms_invocations s)(i := map_option (\<lambda>v. v\<lparr>iv_operation := False\<rparr>) (ms_invocations s i)),
       ms_tasks := ms_tasks s @ [(i, ok)], ms_serving := ok\<rparr>"

datatype monitor_event = Completed nat bool | Dispatched | Updates "traffic_update list"

inductive monitor_step :: "64 word \<Rightarrow> monitor_service \<Rightarrow> monitor_event \<Rightarrow> monitor_service cpp \<Rightarrow> bool" for special where
  completed: "ms_serving s \<Longrightarrow> ms_invocations s i = Some v \<Longrightarrow> iv_operation v \<Longrightarrow>
     monitor_step special s (Completed i ok) (Ret (run_completion i ok s))"
| dispatched: "ms_tasks s = (i, ok) # ts \<Longrightarrow>
     monitor_step special s Dispatched (proceed i ok (s\<lparr>ms_tasks := ts\<rparr>))"
| updated: "monitor_step special s (Updates us) (stream_updates special us s)"

inductive_cases monitor_stepE: "monitor_step special s ev r"

inductive monitor_runs :: "64 word \<Rightarrow> monitor_service \<Rightarrow> monitor_event list \<Rightarrow> monitor_service \<Rightarrow> bool" for special where
  runs_nothing: "monitor_runs special s [] s"
| runs_step: "monitor_step special s ev (Ret s1) \<Longrightarrow> monitor_runs special s1 evs s2 \<Longrightarrow>
     monitor_runs special s (ev # evs) s2"

inductive_cases monitor_runs_stepE: "monitor_runs special s (ev # evs) s'"

subsection \<open>The invariant\<close>

definition state_of :: "monitor_service \<Rightarrow> nat \<Rightarrow> invocation_state option" where
  "state_of s i = map_option iv_state (ms_invocations s i)"

lemma state_of_set [simp]:
  "state_of (set_invocation_state i st s) = (state_of s)(i := map_option (\<lambda>_. st) (state_of s i))"
  by (auto simp: state_of_def set_invocation_state_def option.map_comp comp_def)

lemma state_of_listening [simp]: "state_of (start_listening s) = (state_of s)(ms_next s \<mapsto> Ready)"
  by (auto simp: state_of_def start_listening_def)

lemma state_of_other [simp]:
  "state_of (s\<lparr>ms_subscribers := x\<rparr>) = state_of s" "state_of (s\<lparr>ms_tasks := ts\<rparr>) = state_of s"
  "state_of (s\<lparr>ms_written := w\<rparr>) = state_of s"
  by (auto simp: state_of_def)

lemma state_of_completion [simp]: "state_of (run_completion i ok s) = state_of s"
  by (auto simp: state_of_def run_completion_def option.map_comp comp_def)

lemma listening_fields [simp]:
  "ms_subscribers (start_listening s) = ms_subscribers s" "ms_tasks (start_listening s) = ms_tasks s"
  "ms_serving (start_listening s) = ms_serving s" "ms_next (start_listening s) = Suc (ms_next s)"
  "ms_subscribers (set_invocation_state i st s) = ms_subscribers s"
  "ms_tasks (set_invocation_state i st s) = ms_tasks s" "ms_next (set_invocation_state i st s) = ms_next s"
  "ms_serving (set_invocation_state i st s) = ms_serving s"
  by (simp_all add: start_listening_def set_invocation_state_def)

text \<open>What of a state the invariant looks at; an operation that is started changes none of it.\<close>

definition outline :: "monitor_service \<Rightarrow>
    (nat \<Rightarrow> invocation_state option) \<times> nat \<times> nat list \<times> (nat \<times> bool) list \<times> bool" where
  "outline s = (state_of s, ms_next s, ms_subscribers s, ms_tasks s, ms_serving s)"

lemma start_operation_outline: "start_operation i s = Ret s' \<Longrightarrow> outline s' = outline s"
  by (auto simp: start_operation_def outline_def state_of_def split: option.splits if_splits)

lemma stream_updates_outline: "stream_updates special us s = Ret s' \<Longrightarrow> outline s' = outline s"
proof -
  have "cfold (stream_update special us) is s = Ret s' \<Longrightarrow> outline s' = outline s" for "is" s s'
  proof (induction "is" arbitrary: s)
    case (Cons i "is")
    then obtain s1 where s1: "stream_update special us i s = Ret s1" "outline s' = outline s1"
      by (auto simp: cbind_eq_Ret)
    then have "outline s1 = outline s"
      by (auto simp: stream_update_def cbind_eq_Ret outline_def dest!: start_operation_outline)
    with s1(2) show ?case by simp
  qed simp
  then show "stream_updates special us s = Ret s' \<Longrightarrow> outline s' = outline s"
    by (simp add: stream_updates_def)
qed

text \<open>
  One invocation waits for a client, those that stream are the subscribers, and addresses are
  given out in order and never given up.
\<close>

definition books :: "(nat \<Rightarrow> invocation_state option) \<Rightarrow> nat \<Rightarrow> nat list \<Rightarrow> bool" where
  "books f n subs \<longleftrightarrow>
     (\<exists>i. \<forall>j. f j = Some Ready \<longleftrightarrow> j = i) \<and>
     (\<forall>j. j \<in> set subs \<longleftrightarrow> f j = Some Streaming) \<and> (\<forall>j. f j = None \<longleftrightarrow> n \<le> j)"

text \<open>Until the first failure is dispatched no invocation has finished.\<close>

definition undisturbed :: "(nat \<Rightarrow> invocation_state option) \<Rightarrow> nat \<Rightarrow> (nat \<times> bool) list \<Rightarrow> bool \<Rightarrow> bool" where
  "undisturbed f n ts serving \<longleftrightarrow>
     (\<forall>e \<in> set ts. fst e < n) \<and> (serving \<or> ts \<noteq> [] \<longrightarrow> (\<forall>j. f j \<noteq> Some Finished)) \<and>
     (serving \<longrightarrow> list_all snd ts) \<and> list_all snd (butlast ts)"

definition monitor_inv :: "monitor_service \<Rightarrow> bool" where
  "monitor_inv s \<longleftrightarrow>
     books (state_of s) (ms_next s) (ms_subscribers s) \<and>
     undisturbed (state_of s) (ms_next s) (ms_tasks s) (ms_serving s)"

lemma monitor_inv_outline: "outline s' = outline s \<Longrightarrow> monitor_inv s' = monitor_inv s"
  by (simp add: monitor_inv_def outline_def)

lemma monitor_inv_start: "monitor_inv start_service"
  by (auto simp: monitor_inv_def books_def undisturbed_def start_service_def state_of_def start_listening_def)

lemma set_fan_subscribe: "set (fan_subscribe k subs) = insert k (set subs)"
  by (auto simp: fan_subscribe_def set_insort_key)

lemma books_leave_ready:
  assumes "books f n subs" "f i = Some Ready" "st \<noteq> Ready" "set subs' = (if st = Streaming then insert i (set subs) else set subs)"
  shows "books (f(n \<mapsto> Ready, i \<mapsto> st)) (Suc n) subs'"
proof -
  have i: "i < n" "f n = None" using assms(1,2) unfolding books_def by (metis le_refl not_le option.distinct(1))+
  have ready: "f j = Some Ready \<longleftrightarrow> j = i" for j using assms(1,2) unfolding books_def by metis
  have "\<forall>j. (f(n \<mapsto> Ready, i \<mapsto> st)) j = Some Ready \<longleftrightarrow> j = n" using ready i assms(3) by auto
  moreover have member: "j \<in> set subs \<longleftrightarrow> f j = Some Streaming" for j using assms(1) by (simp add: books_def)
  have "j \<in> set subs' \<longleftrightarrow> (f(n \<mapsto> Ready, i \<mapsto> st)) j = Some Streaming" for j
    using member [of j] assms(2-4) i by auto
  moreover have "f j = None \<longleftrightarrow> n \<le> j" for j using assms(1) by (simp add: books_def)
  then have "(f(n \<mapsto> Ready, i \<mapsto> st)) j = None \<longleftrightarrow> Suc n \<le> j" for j
    using i(1) by (simp add: Suc_le_eq) linarith
  ultimately show ?thesis unfolding books_def by blast
qed

lemma books_leave_streaming:
  assumes "books f n subs" "f i = Some Streaming"
  shows "books (f(i \<mapsto> Finished)) n (fan_unsubscribe i subs)"
proof -
  have "(f(i \<mapsto> Finished)) j = Some Ready \<longleftrightarrow> f j = Some Ready" for j using assms(2) by auto
  moreover have "j \<in> set (fan_unsubscribe i subs) \<longleftrightarrow> (f(i \<mapsto> Finished)) j = Some Streaming" for j
    using assms(1) by (auto simp: books_def fan_unsubscribe_def)
  moreover have "(f(i \<mapsto> Finished)) j = None \<longleftrightarrow> f j = None" for j using assms(2) by auto
  ultimately show ?thesis using assms(1) unfolding books_def by simp
qed

lemma proceed_cases:
  assumes "monitor_inv s" "ms_tasks s = (i, ok) # ts" "proceed i ok (s\<lparr>ms_tasks := ts\<rparr>) = Ret s'"
  obtains
    (accepted) "ok" "state_of s i = Some Ready" "ms_subscribers s' = fan_subscribe i (ms_subscribers s)"
      "state_of s' = (state_of s)(ms_next s \<mapsto> Ready, i \<mapsto> Streaming)" "ms_next s' = Suc (ms_next s)"
  | (refused) "\<not> ok" "state_of s i = Some Ready" "ms_subscribers s' = ms_subscribers s"
      "state_of s' = (state_of s)(ms_next s \<mapsto> Ready, i \<mapsto> Finished)" "ms_next s' = Suc (ms_next s)"
  | (written) "ok" "state_of s i = Some Streaming" "ms_subscribers s' = ms_subscribers s"
      "state_of s' = state_of s" "ms_next s' = ms_next s"
  | (broken) "\<not> ok" "state_of s i = Some Streaming" "ms_subscribers s' = fan_unsubscribe i (ms_subscribers s)"
      "state_of s' = (state_of s)(i \<mapsto> Finished)" "ms_next s' = ms_next s"
proof -
  from assms(1,2) have "i < ms_next s" and unfinished: "state_of s i \<noteq> Some Finished"
    by (auto simp: monitor_inv_def undisturbed_def)
  with assms(1) have "state_of s i \<noteq> None" by (auto simp: monitor_inv_def books_def)
  then obtain v where v: "ms_invocations s i = Some v" "state_of s i = Some (iv_state v)"
    by (auto simp: state_of_def)
  have i: "i \<noteq> ms_next s" using \<open>i < ms_next s\<close> by simp
  show thesis
  proof (cases "iv_state v")
    case Ready
    show thesis
    proof (cases ok)
      case True
      with assms(3) v Ready i show thesis
        by (intro accepted) (auto simp: proceed_def Let_def)
    next
      case False
      then have "start_operation i (set_invocation_state i Finished (start_listening (s\<lparr>ms_tasks := ts\<rparr>))) = Ret s'"
        using assms(3) v Ready by (simp add: proceed_def Let_def)
      from start_operation_outline [OF this] False v Ready i show thesis
        by (intro refused) (auto simp: outline_def)
    qed
  next
    case Streaming
    show thesis
    proof (cases ok)
      case True
      with assms(3) v Streaming show thesis by (intro written) (auto simp: proceed_def)
    next
      case False
      then have "start_operation i (set_invocation_state i Finished
          (s\<lparr>ms_tasks := ts, ms_subscribers := fan_unsubscribe i (ms_subscribers s)\<rparr>)) = Ret s'"
        using assms(3) v Streaming by (simp add: proceed_def)
      from start_operation_outline [OF this] False v Streaming show thesis
        by (intro broken) (auto simp: outline_def)
    qed
  next
    case Finished
    with unfinished v show thesis by simp
  qed
qed

lemma proceed_queue:
  assumes "monitor_inv s" "ms_tasks s = (i, ok) # ts" "proceed i ok (s\<lparr>ms_tasks := ts\<rparr>) = Ret s'"
  shows "ms_tasks s' = ts \<and> ms_serving s' = ms_serving s"
proof -
  have same: "start_operation i t = Ret t' \<Longrightarrow> ms_tasks t' = ms_tasks t \<and> ms_serving t' = ms_serving t" for t t'
    by (drule start_operation_outline) (simp add: outline_def)
  show ?thesis
    using assms(3) by (auto simp: proceed_def Let_def split: option.splits invocation_state.splits if_splits dest!: same)
qed

lemma monitor_inv_proceed:
  assumes "monitor_inv s" "ms_tasks s = (i, ok) # ts" "proceed i ok (s\<lparr>ms_tasks := ts\<rparr>) = Ret s'"
  shows "monitor_inv s'"
proof -
  have books: "books (state_of s) (ms_next s) (ms_subscribers s)" using assms(1) by (simp add: monitor_inv_def)
  have before: "\<forall>e \<in> set ts. fst e < ms_next s" "\<forall>j. state_of s j \<noteq> Some Finished"
    "ms_serving s \<longrightarrow> ok \<and> list_all snd ts" "list_all snd (butlast ts)" "\<not> ok \<longrightarrow> ts = []"
    using assms(1,2) by (auto simp: monitor_inv_def undisturbed_def split: if_splits)
  note queue = proceed_queue [OF assms]
  from assms show ?thesis
  proof (cases rule: proceed_cases)
    case accepted
    with books_leave_ready [OF books accepted(2), of Streaming "ms_subscribers s'"] before queue show ?thesis
      by (auto simp: monitor_inv_def undisturbed_def set_fan_subscribe)
  next
    case refused
    with books_leave_ready [OF books refused(2), of Finished "ms_subscribers s'"] before queue show ?thesis
      by (auto simp: monitor_inv_def undisturbed_def)
  next
    case written
    with books before queue show ?thesis by (auto simp: monitor_inv_def undisturbed_def)
  next
    case broken
    with books_leave_streaming [OF books broken(2)] before queue show ?thesis
      by (auto simp: monitor_inv_def undisturbed_def)
  qed
qed

lemma monitor_inv_completion:
  assumes "monitor_inv s" "ms_serving s" "ms_invocations s i = Some v"
  shows "monitor_inv (run_completion i ok s)"
proof -
  have "state_of s i \<noteq> None" by (simp add: state_of_def assms(3))
  with assms(1) have "i < ms_next s" by (simp add: monitor_inv_def books_def)
  moreover have "ms_subscribers (run_completion i ok s) = ms_subscribers s" "ms_next (run_completion i ok s) = ms_next s"
    "ms_tasks (run_completion i ok s) = ms_tasks s @ [(i, ok)]" "ms_serving (run_completion i ok s) = ok"
    by (simp_all add: run_completion_def)
  moreover have "undisturbed (state_of s) (ms_next s) (ms_tasks s @ [(i, ok)]) ok"
    using assms(1,2) calculation(1) by (simp add: monitor_inv_def undisturbed_def)
  ultimately show ?thesis using assms(1) by (simp add: monitor_inv_def)
qed

lemma monitor_inv_step: "monitor_step special s ev (Ret s') \<Longrightarrow> monitor_inv s \<Longrightarrow> monitor_inv s'"
  by (erule monitor_stepE)
    (auto intro: monitor_inv_completion monitor_inv_proceed
      dest: stream_updates_outline [OF sym] monitor_inv_outline sym)

lemma monitor_inv_runs: "monitor_runs special s evs s' \<Longrightarrow> monitor_inv s \<Longrightarrow> monitor_inv s'"
  by (induction rule: monitor_runs.induct) (auto intro: monitor_inv_step)

lemma monitor_runs_append:
  "monitor_runs special s evs s1 \<Longrightarrow> monitor_runs special s1 evs' s2 \<Longrightarrow> monitor_runs special s (evs @ evs') s2"
  by (induction rule: monitor_runs.induct) (auto intro: runs_step)

text \<open>A first client connects and is written an update.\<close>

definition first_stream :: monitor_service where
  "first_stream =
     \<lparr>ms_invocations = [0 \<mapsto> \<lparr>iv_state = Streaming, iv_operation = True\<rparr>, 1 \<mapsto> \<lparr>iv_state = Ready, iv_operation = True\<rparr>],
      ms_next = 2, ms_subscribers = [0], ms_written = [(0, [])], ms_tasks = [], ms_serving = True\<rparr>"

lemma first_stream_runs: "monitor_runs 0 start_service [Completed 0 True, Dispatched, Updates []] first_stream"
proof -
  let ?s1 = "run_completion 0 True start_service"
  have "monitor_step 0 start_service (Completed 0 True) (Ret ?s1)"
    by (rule completed [where v = "\<lparr>iv_state = Ready, iv_operation = True\<rparr>"])
      (simp_all add: start_service_def start_listening_def)
  moreover have "ms_tasks ?s1 = [(0, True)]" by (simp add: run_completion_def start_service_def start_listening_def)
  then have d: "monitor_step 0 ?s1 Dispatched (proceed 0 True (?s1\<lparr>ms_tasks := []\<rparr>))" by (rule dispatched)
  obtain s2 where s2: "proceed 0 True (?s1\<lparr>ms_tasks := []\<rparr>) = Ret s2" "stream_updates 0 [] s2 = Ret first_stream"
    by (simp add: proceed_def run_completion_def start_service_def start_listening_def set_invocation_state_def
        fan_subscribe_def stream_updates_def stream_update_def start_operation_def first_stream_def fun_upd_twist)
  moreover have "monitor_step 0 s2 (Updates []) (stream_updates 0 [] s2)" by (rule updated)
  ultimately show ?thesis using d by (metis runs_step runs_nothing)
qed

text \<open>
  C38. Whatever clients, the runtime and the traffic monitor do, and in whatever order, exactly one
  invocation of the monitor waits for the next client, the streams that updates are written to are
  exactly those that are streaming, and no invocation that was created is ever deleted.
\<close>

theorem monitor_keeps_listening:
  assumes "monitor_runs special start_service evs s"
  shows "(\<exists>!i. state_of s i = Some Ready) \<and>
    set (ms_subscribers s) = {i. state_of s i = Some Streaming} \<and>
    (\<forall>i. state_of s i = None \<longleftrightarrow> ms_next s \<le> i)"
proof -
  have "books (state_of s) (ms_next s) (ms_subscribers s)"
    using monitor_inv_runs [OF assms monitor_inv_start] by (simp add: monitor_inv_def)
  then show ?thesis unfolding books_def by auto
qed

theorem monitor_keeps_listening_witness:
  "(\<exists>!i. state_of first_stream i = Some Ready) \<and>
   set (ms_subscribers first_stream) = {i. state_of first_stream i = Some Streaming} \<and>
   (\<forall>i. state_of first_stream i = None \<longleftrightarrow> ms_next first_stream \<le> i)"
  by (rule monitor_keeps_listening [OF first_stream_runs])

subsection \<open>Failures\<close>

text \<open>Once the executor has returned and the tasks are done, nothing of the outline changes.\<close>

lemma deaf_step:
  assumes "monitor_step special s ev (Ret s')" "\<not> ms_serving s" "ms_tasks s = []"
  shows "outline s' = outline s"
  using assms by (cases rule: monitor_stepE) (auto dest: stream_updates_outline [OF sym])

lemma deaf_runs:
  assumes "monitor_runs special s evs s'" "\<not> ms_serving s" "ms_tasks s = []"
  shows "outline s' = outline s"
  using assms
proof (induction rule: monitor_runs.induct)
  case (runs_step s ev s1 evs s2)
  have "outline s1 = outline s" by (rule deaf_step [OF runs_step(1,4,5)])
  moreover from this have "\<not> ms_serving s1" "ms_tasks s1 = []" using runs_step(4,5) by (simp_all add: outline_def)
  ultimately show ?case using runs_step.IH by simp
qed simp

text \<open>
  C39. The first operation that fails, such as a write to one client that is gone, ends the executor
  of the monitor: whatever happens after it and its task, no further client is accepted, no broken stream
  is given up, and the one that failed is never deleted.
\<close>

theorem one_failure_deafens_monitor:
  assumes "monitor_runs special start_service evs s" "ms_tasks s = []" "ms_invocations s i = Some v"
    and "monitor_runs special s (Completed i False # Dispatched # evs') s'"
  shows "ms_next s' = (if iv_state v = Ready then Suc (ms_next s) else ms_next s) \<and>
    state_of s' i = Some Finished \<and> ms_subscribers s' = fan_unsubscribe i (ms_subscribers s)"
proof -
  have inv: "monitor_inv s" by (rule monitor_inv_runs [OF assms(1) monitor_inv_start])
  let ?t = "run_completion i False s"
  obtain s1 t' where s1: "monitor_step special s (Completed i False) (Ret s1)"
    and t1: "monitor_step special s1 Dispatched (Ret t')" and rest: "monitor_runs special t' evs' s'"
    using assms(4) by (auto elim!: monitor_runs_stepE)
  from s1 have serving: "ms_serving s" and "s1 = ?t" by (auto elim!: monitor_stepE)
  with t1 have t': "monitor_step special ?t Dispatched (Ret t')" by simp
  have t: "monitor_inv ?t" "ms_tasks ?t = [(i, False)]"
    using monitor_inv_completion [OF inv serving assms(3)] assms(2) by (simp_all add: run_completion_def)
  then have p: "proceed i False (?t\<lparr>ms_tasks := []\<rparr>) = Ret t'"
    using t' by (auto elim!: monitor_stepE dest: sym)
  have after: "ms_tasks t' = []" "\<not> ms_serving t'"
    using proceed_queue [OF t p] by (simp_all add: run_completion_def)
  have same: "outline s' = outline t'" by (rule deaf_runs [OF rest after(2,1)])
  have state: "state_of s i = Some (iv_state v)" by (simp add: state_of_def assms(3))
  have fields: "ms_next ?t = ms_next s" "ms_subscribers ?t = ms_subscribers s" by (simp_all add: run_completion_def)
  from t p show ?thesis
  proof (cases rule: proceed_cases)
    case refused
    moreover have "i \<notin> set (ms_subscribers s)"
      using inv refused(2) by (auto simp: monitor_inv_def books_def)
    then have "fan_unsubscribe i (ms_subscribers s) = ms_subscribers s"
      by (auto simp: fan_unsubscribe_def intro: filter_True)
    ultimately show ?thesis using same state fields by (auto simp: outline_def)
  next
    case broken
    then show ?thesis using same state fields by (auto simp: outline_def)
  qed simp_all
qed

theorem one_failure_deafens_monitor_witness:
  "\<exists>s'. monitor_runs 0 first_stream [Completed 0 False, Dispatched] s' \<and> ms_next s' = 2 \<and>
     state_of s' 0 = Some Finished \<and> ms_subscribers s' = []"
proof -
  let ?t = "run_completion 0 False first_stream"
  have v: "ms_invocations first_stream 0 = Some \<lparr>iv_state = Streaming, iv_operation = True\<rparr>"
    "ms_tasks first_stream = []" "ms_next first_stream = 2" "ms_serving first_stream"
    "fan_unsubscribe 0 (ms_subscribers first_stream) = []"
    by (simp_all add: first_stream_def fan_unsubscribe_def)
  have "monitor_step 0 first_stream (Completed 0 False) (Ret ?t)" by (rule completed [OF v(4,1)]) simp
  moreover have "monitor_step 0 ?t Dispatched (proceed 0 False (?t\<lparr>ms_tasks := []\<rparr>))"
    by (rule dispatched) (simp add: run_completion_def first_stream_def)
  moreover obtain s' where "proceed 0 False (?t\<lparr>ms_tasks := []\<rparr>) = Ret s'"
    by (simp add: proceed_def run_completion_def first_stream_def set_invocation_state_def start_operation_def)
  ultimately have "monitor_runs 0 first_stream [Completed 0 False, Dispatched] s'"
    by (metis runs_step runs_nothing)
  with one_failure_deafens_monitor [OF first_stream_runs v(2,1) this] v show ?thesis by auto
qed

text \<open>Two updates before the first has been written: the second write is one too many.\<close>

lemma fast_updates_undefined:
  assumes "ms_subscribers s = [i]" "stream_updates special us s = Ret s1"
  shows "stream_updates special us' s1 = UB"
proof -
  obtain s2 where s2: "start_operation i s = Ret s2" "s1 = s2\<lparr>ms_written := ms_written s2 @ [(i, map (encode_update special) us)]\<rparr>"
    using assms by (auto simp: stream_updates_def stream_update_def cbind_eq_Ret)
  have "start_operation i s1 = UB"
    using s2 by (auto simp: start_operation_def split: option.splits if_splits)
  moreover have "ms_subscribers s1 = [i]"
    using stream_updates_outline [OF assms(2)] assms(1) by (simp add: outline_def)
  ultimately show ?thesis by (simp add: stream_updates_def stream_update_def)
qed

end
