(* ===== verification/Logging.thy ===== *)
theory Logging
  imports Json_Text Token_Json
begin

text \<open>
  Loggers (src/airmap/logger.cpp) and the formatting in front of them
  (src/airmap/util/formatting_logger.h). The core of Boost.Log is the list of the sinks that were
  added to it; each has the stream it writes to. A record goes to every sink, in the format
  of \<open>bunyan\<close>, one document on a line.
\<close>

subsection \<open>Severities\<close>

datatype severity = Severity_debug | Severity_info | Severity_error

fun severity_value :: "severity \<Rightarrow> nat" where
  "severity_value Severity_debug = 0"
| "severity_value Severity_info = 1"
| "severity_value Severity_error = 2"

instantiation severity :: linorder
begin

definition less_severity :: "severity \<Rightarrow> severity \<Rightarrow> bool" where
  "less_severity a b \<longleftrightarrow> severity_value a < severity_value b"

definition less_eq_severity :: "severity \<Rightarrow> severity \<Rightarrow> bool" where
  "less_eq_severity a b \<longleftrightarrow> severity_value a \<le> severity_value b"

instance
proof
  show "a = b" if "a \<le> b" "b \<le> a" for a b :: severity
    using that by (cases a; cases b) (simp_all add: less_eq_severity_def)
qed (auto simp: less_severity_def less_eq_severity_def)

end

definition severity_select :: "string \<Rightarrow> severity \<Rightarrow> severity" where
  "severity_select s x =
     (if s = ''debug'' then Severity_debug else if s = ''info'' then Severity_info
      else if s = ''error'' then Severity_error else x)"

datatype trivial_level = L_trace | L_debug | L_info | L_warning | L_error | L_fatal

fun severity_lut :: "trivial_level \<Rightarrow> 64 word" where
  "severity_lut L_trace = 10"
| "severity_lut L_debug = 20"
| "severity_lut L_info = 30"
| "severity_lut L_warning = 40"
| "severity_lut L_error = 50"
| "severity_lut L_fatal = 60"

fun trivial_of :: "severity \<Rightarrow> trivial_level" where
  "trivial_of Severity_debug = L_debug"
| "trivial_of Severity_info = L_info"
| "trivial_of Severity_error = L_error"

subsection \<open>Records\<close>

text \<open>The host, if it can be found out, the process, and the text of the local time.\<close>

record log_env =
  le_host :: "string option"
  le_pid :: "32 word"
  le_time :: string

record log_record =
  lr_severity :: "trivial_level option"
  lr_component :: "string option"
  lr_message :: "string option"

definition hostname :: "log_env \<Rightarrow> string" where
  "hostname e = (case le_host e of Some h \<Rightarrow> h | None \<Rightarrow> ''unknown'')"

text \<open>\<open>BunyanFormatter::format\<close>; an attribute that is missing is no value to get.\<close>

definition bunyan_line :: "log_env \<Rightarrow> log_record \<Rightarrow> string cpp" where
  "bunyan_line e r =
     cbind (deref (lr_severity r)) (\<lambda>l. cbind (deref (lr_component r)) (\<lambda>c. cbind (deref (lr_message r)) (\<lambda>m.
     cbind (json_object
       [(''v'', J_unsigned 0), (''level'', J_unsigned (severity_lut l)), (''name'', J_string c),
        (''hostname'', J_string (hostname e)), (''pid'', J_integer (scast (le_pid e))),
        (''time'', J_string (le_time e)), (''msg'', J_string m)]) (\<lambda>j.
       Ret (json_dump None 0 j)))))"

subsection \<open>Loggers\<close>

datatype logger =
    Null_logger
  | Default_logger
  | Filtering_logger severity logger

record log_core =
  lc_sinks :: "nat list"
  lc_lines :: "(nat \<times> string) list"

definition create_default_logger :: "nat \<Rightarrow> log_core \<Rightarrow> logger \<times> log_core" where
  "create_default_logger out c = (Default_logger, c\<lparr>lc_sinks := lc_sinks c @ [out]\<rparr>)"

definition push_record :: "log_env \<Rightarrow> log_record \<Rightarrow> log_core \<Rightarrow> log_core cpp" where
  "push_record e r c =
     cfold (\<lambda>out c. cbind (bunyan_line e r) (\<lambda>l. Ret (c\<lparr>lc_lines := lc_lines c @ [(out, l)]\<rparr>))) (lc_sinks c) c"

fun should_log :: "logger \<Rightarrow> severity \<Rightarrow> bool" where
  "should_log Null_logger s = False"
| "should_log Default_logger s = True"
| "should_log (Filtering_logger least next) s = (least \<le> s)"

fun logger_log ::
  "log_env \<Rightarrow> logger \<Rightarrow> severity \<Rightarrow> string option \<Rightarrow> string option \<Rightarrow> log_core \<Rightarrow> log_core cpp" where
  "logger_log e Null_logger s message component c = Ret c"
| "logger_log e Default_logger s message component c =
     push_record e \<lparr>lr_severity = Some (trivial_of s), lr_component = component, lr_message = message\<rparr> c"
| "logger_log e (Filtering_logger least next) s message component c =
     (if should_log (Filtering_logger least next) s then logger_log e next s message component c else Ret c)"

text \<open>A text handed over as a pointer ends at the first zero.\<close>

definition c_text :: "string \<Rightarrow> string" where
  "c_text s = takeWhile (\<lambda>c. c \<noteq> CHR 0x00) s"

text \<open>\<open>debugf\<close>, \<open>infof\<close> and \<open>errorf\<close> of a formatted text, and the end of a streamed record.\<close>

definition logf :: "log_env \<Rightarrow> logger \<Rightarrow> severity \<Rightarrow> string option \<Rightarrow> string \<Rightarrow> log_core \<Rightarrow> log_core cpp" where
  "logf e l s component text c =
     (if should_log l s then logger_log e l s (Some (c_text text)) component c else Ret c)"

definition end_record :: "log_env \<Rightarrow> logger \<Rightarrow> severity \<Rightarrow> string option \<Rightarrow> string \<Rightarrow> log_core \<Rightarrow> log_core cpp" where
  "end_record e l s component text c = logger_log e l s (Some (c_text text)) component c"

subsection \<open>What is logged\<close>

text \<open>Filters add up, and the streamed and the formatted way write the same.\<close>

lemma filters_combine:
  "logger_log e (Filtering_logger a (Filtering_logger b l)) s m cn c =
   logger_log e (Filtering_logger (max a b) l) s m cn c"
  by simp

lemma streamed_as_formatted:
  "logf e (Filtering_logger a l) s cn text c = end_record e (Filtering_logger a l) s cn text c"
  by (simp add: logf_def end_record_def)

definition bunyan_document :: "log_env \<Rightarrow> trivial_level \<Rightarrow> string \<Rightarrow> string \<Rightarrow> json" where
  "bunyan_document e l component message = J_object
     [(''hostname'', J_string (hostname e)), (''level'', J_unsigned (severity_lut l)), (''msg'', J_string message),
      (''name'', J_string component), (''pid'', J_integer (scast (le_pid e))), (''time'', J_string (le_time e)),
      (''v'', J_unsigned 0)]"

lemma bunyan_line_document:
  "bunyan_line e \<lparr>lr_severity = Some l, lr_component = Some cn, lr_message = Some m\<rparr> =
     Ret (json_dump None 0 (bunyan_document e l cn m))"
  by (simp add: bunyan_line_def bunyan_document_def json_object_def json_set_def char_less_def)

text \<open>
  A line is read back as a document with the component, the message and the number of the
  severity.
\<close>

lemma bunyan_line_read:
  assumes "utf8_ok (hostname e)" "utf8_ok cn" "utf8_ok m" "utf8_ok (le_time e)"
  shows "\<exists>line j. bunyan_line e \<lparr>lr_severity = Some l, lr_component = Some cn, lr_message = Some m\<rparr> = Ret line \<and>
    json_parse line = Ret j \<and> json_find ''name'' j = Some (J_string cn) \<and>
    json_find ''msg'' j = Some (J_string m) \<and> json_find ''level'' j = Some (J_unsigned (severity_lut l))"
proof -
  have "utf8_ok ''hostname''" "utf8_ok ''level''" "utf8_ok ''msg''" "utf8_ok ''name''" "utf8_ok ''pid''"
    "utf8_ok ''time''" "utf8_ok ''v''"
    by (simp_all add: utf8_ok.simps code_of_def)
  then have "json_writable (bunyan_document e l cn m)" using assms by (simp add: bunyan_document_def char_less_def)
  from json_parse_dump [OF this] have
    "json_parse (json_dump None 0 (bunyan_document e l cn m)) = Ret (json_norm (bunyan_document e l cn m))" .
  moreover have "json_find ''name'' (json_norm (bunyan_document e l cn m)) = Some (J_string cn)"
    "json_find ''msg'' (json_norm (bunyan_document e l cn m)) = Some (J_string m)"
    "json_find ''level'' (json_norm (bunyan_document e l cn m)) = Some (J_unsigned (severity_lut l))"
    by (simp_all add: bunyan_document_def json_find_def char_less_def)
  ultimately show ?thesis using bunyan_line_document [of e l cn m] by blast
qed

lemma push_record_lines:
  assumes "bunyan_line e r = Ret line"
  shows "push_record e r c = Ret (c\<lparr>lc_lines := lc_lines c @ map (\<lambda>out. (out, line)) (lc_sinks c)\<rparr>)"
proof -
  have "cfold (\<lambda>out c. cbind (bunyan_line e r) (\<lambda>l. Ret (c\<lparr>lc_lines := lc_lines c @ [(out, l)]\<rparr>))) outs c =
      Ret (c\<lparr>lc_lines := lc_lines c @ map (\<lambda>out. (out, line)) outs\<rparr>)" for outs c
    using assms by (induction outs arbitrary: c) simp_all
  then show ?thesis by (simp add: push_record_def)
qed

text \<open>A second logger for a stream doubles every line on it, also those of the first.\<close>

lemma second_logger_doubles:
  assumes "create_default_logger out c = (l1, c1)" "create_default_logger out c1 = (l2, c2)"
    and "lc_sinks c = []" "lc_lines c = []"
  shows "\<exists>c3 line. logger_log e l1 s (Some m) (Some cn) c2 = Ret c3 \<and> lc_lines c3 = [(out, line), (out, line)]"
  using assms
  by (auto simp: create_default_logger_def push_record_lines [OF bunyan_line_document])

text \<open>Without a component the record has no value to print.\<close>

lemma no_component_undefined: "lc_sinks c \<noteq> [] \<Longrightarrow> logger_log e Default_logger s (Some m) None c = UB"
  by (cases "lc_sinks c") (simp_all add: push_record_def bunyan_line_def)

end
