(* ===== verification/Udp.thy ===== *)
theory Udp
  imports Stream_Output
begin

text \<open>
  One datagram through the UDP sender (src/airmap/net/udp/boost/sender.cpp): the host is resolved,
  a session sends the message to the first endpoint, and the callback is told of the outcome. What
  the resolver and the socket answer is given by \<open>Inl\<close>, the text of their error, or \<open>Inr\<close>.
\<close>

text \<open>\<open>Sender::send\<close>: what is asked of the resolver, and what happens with its answer.\<close>

definition resolver_query :: "string \<Rightarrow> 16 word \<Rightarrow> string \<times> string" where
  "resolver_query host port = (host, show_nat (unat port))"

datatype 'e udp_progress = Sending 'e string | Reported "exn + unit"

definition udp_resolved :: "string \<Rightarrow> string + 'e list \<Rightarrow> 'e udp_progress cpp" where
  "udp_resolved message r =
     (case r of
        Inl ec \<Rightarrow> Ret (Reported (Inl (Runtime_error (''failed to resolve host: '' @ ec))))
      | Inr [] \<Rightarrow> UB
      | Inr (e # _) \<Rightarrow> Ret (Sending e message))"

text \<open>\<open>Session::handle_write\<close>.\<close>

definition handle_write :: "string \<Rightarrow> string + nat \<Rightarrow> exn + unit" where
  "handle_write message w =
     (case w of
        Inl ec \<Rightarrow> Inl (Runtime_error (''failed to send udp packet: '' @ ec))
      | Inr n \<Rightarrow> if n \<noteq> length message then Inl (Runtime_error ''failed to send udp packet'') else Inr ())"

definition udp_written :: "string + nat \<Rightarrow> 'e udp_progress \<Rightarrow> 'e udp_progress" where
  "udp_written w p = (case p of Sending e m \<Rightarrow> Reported (handle_write m w) | Reported r \<Rightarrow> Reported r)"

definition udp_send :: "string \<Rightarrow> string + 'e list \<Rightarrow> string + nat \<Rightarrow> 'e udp_progress cpp" where
  "udp_send message r w = cmap (udp_written w) (udp_resolved message r)"

text \<open>Success is reported exactly when an endpoint was found and the whole message was sent to it.\<close>

lemma udp_success:
  "udp_send message r w = Ret (Reported (Inr ())) \<longleftrightarrow>
     (\<exists>e es. r = Inr (e # es)) \<and> w = Inr (length message)"
  by (auto simp: udp_send_def udp_resolved_def udp_written_def handle_write_def cmap_def
      split: sum.splits list.splits)

lemma udp_reports:
  assumes "r \<noteq> Inr []"
  shows "\<exists>o1. udp_send message r w = Ret (Reported o1)"
  using assms by (auto simp: udp_send_def udp_resolved_def udp_written_def cmap_def split: sum.split list.split)

end
