(* ===== verification/Transports.thy ===== *)
theory Transports
  imports Channel
begin

text \<open>
  How MAVLink bytes come in and messages go out. The serial and the TCP channel
  (src/airmap/mavlink/boost/serial_channel.cpp and tcp_channel.cpp) read into a buffer, process what
  was read and read again until a read fails; the channel for UDP is the same but for the endpoint it
  receives into. A \<open>TcpRoute\<close> (tcp_route.cpp) accepts sessions and writes every message to each of
  them, one write at a time. Errors of sockets are texts.
\<close>

subsection \<open>Reading\<close>

record ('p, 'm) reader =
  rd_channel :: "'p channel"
  rd_reading :: bool
  rd_delivered :: "(nat \<times> 'm) list"

definition start_reading :: "'p channel \<Rightarrow> ('p, 'm) reader" where
  "start_reading c = \<lparr>rd_channel = channel_start c, rd_reading = True, rd_delivered = []\<rparr>"

text \<open>\<open>handle_read\<close>: after an error nothing is read any more.\<close>

definition handle_read ::
  "('p \<Rightarrow> 8 word \<Rightarrow> framing \<times> 'p \<times> 'm) \<Rightarrow> string + 8 word list \<Rightarrow> ('p, 'm) reader \<Rightarrow> ('p, 'm) reader" where
  "handle_read frame r s =
     (case r of
        Inl _ \<Rightarrow> s\<lparr>rd_reading := False\<rparr>
      | Inr bytes \<Rightarrow>
          (let (result, c) = process_mavlink_data frame bytes (rd_channel s)
           in s\<lparr>rd_channel := c, rd_reading := True,
                rd_delivered := rd_delivered s @ (case result of None \<Rightarrow> [] | Some ms \<Rightarrow> invoke_subscribers ms c)\<rparr>))"

fun run_reads ::
  "('p \<Rightarrow> 8 word \<Rightarrow> framing \<times> 'p \<times> 'm) \<Rightarrow> (string + 8 word list) list \<Rightarrow> ('p, 'm) reader \<Rightarrow> ('p, 'm) reader" where
  "run_reads frame [] s = s"
| "run_reads frame (r # rs) s = (if rd_reading s then run_reads frame rs (handle_read frame r s) else s)"

text \<open>\<open>UdpChannel::start_impl\<close> receives the sender into a variable that is gone when a datagram comes.\<close>

definition udp_handle_read ::
  "('p \<Rightarrow> 8 word \<Rightarrow> framing \<times> 'p \<times> 'm) \<Rightarrow> string + 8 word list \<Rightarrow> ('p, 'm) reader \<Rightarrow> ('p, 'm) reader cpp" where
  "udp_handle_read frame r s = (case r of Inl _ \<Rightarrow> Ret (handle_read frame r s) | Inr _ \<Rightarrow> UB)"

lemma process_byte_subscribers:
  "ch_subscribers (snd (process_byte frame b x)) = ch_subscribers (snd x)"
  by (simp add: process_byte_def split_beta Let_def split: framing.split)

lemma process_data_subscribers [simp]:
  "process_mavlink_data frame bs c = (r, c') \<Longrightarrow> ch_subscribers c' = ch_subscribers c"
proof -
  have "ch_subscribers (snd (fold (process_byte frame) bs x)) = ch_subscribers (snd x)" for x
    by (induction bs arbitrary: x) (simp_all add: process_byte_subscribers)
  from this [of "(None, c)"] show "process_mavlink_data frame bs c = (r, c') \<Longrightarrow> ch_subscribers c' = ch_subscribers c"
    by (simp add: process_mavlink_data_def)
qed

definition messages_of :: "'m list option \<Rightarrow> 'm list" where
  "messages_of r = (case r of None \<Rightarrow> [] | Some ms \<Rightarrow> ms)"

lemma messages_join [simp]: "messages_of (join_results a b) = messages_of a @ messages_of b"
  by (simp add: messages_of_def join_results_def split: option.split)

lemma process_data_append:
  assumes "process_mavlink_data frame bs c = (r, c1)" "process_mavlink_data frame bs' c1 = (r', c2)"
  shows "process_mavlink_data frame (bs @ bs') c = (join_results r r', c2)"
proof -
  have "r = join_results r None" by (simp add: join_results_def split: option.split)
  with assms process_bytes_join [of frame bs' r None c1] show ?thesis
    by (simp add: process_mavlink_data_def)
qed

lemma handle_read_bytes:
  assumes "process_mavlink_data frame bs (rd_channel s) = (r, c)"
  shows "handle_read frame (Inr bs) s = s\<lparr>rd_channel := c, rd_reading := True,
    rd_delivered := rd_delivered s @ invoke_subscribers (messages_of r) (rd_channel s)\<rparr>"
  using assms by (auto simp: handle_read_def messages_of_def invoke_subscribers_def split: option.split)

lemma invoke_append: "invoke_subscribers (ms @ ms') c = invoke_subscribers ms c @ invoke_subscribers ms' c"
  by (simp add: invoke_subscribers_def)

lemma invoke_same: "ch_subscribers c = ch_subscribers c' \<Longrightarrow> invoke_subscribers ms c = invoke_subscribers ms c'"
  by (simp add: invoke_subscribers_def)

lemma reads_join:
  assumes "rd_reading s" "process_mavlink_data frame (concat bss) (rd_channel s) = (r, c)"
  shows "run_reads frame (map Inr bss) s =
    s\<lparr>rd_channel := c, rd_delivered := rd_delivered s @ invoke_subscribers (messages_of r) (rd_channel s)\<rparr>"
  using assms
proof (induction bss arbitrary: s r c)
  case Nil
  then show ?case by (simp add: process_mavlink_data_def messages_of_def invoke_subscribers_def)
next
  case (Cons bs bss)
  obtain r1 c1 where one: "process_mavlink_data frame bs (rd_channel s) = (r1, c1)" by fastforce
  obtain r2 c2 where two: "process_mavlink_data frame (concat bss) c1 = (r2, c2)" by fastforce
  have joined: "r = join_results r1 r2" "c = c2" using process_data_append [OF one two] Cons.prems(2) by simp_all
  let ?s = "handle_read frame (Inr bs) s"
  have s: "?s = s\<lparr>rd_channel := c1, rd_reading := True,
      rd_delivered := rd_delivered s @ invoke_subscribers (messages_of r1) (rd_channel s)\<rparr>"
    by (rule handle_read_bytes [OF one])
  have "run_reads frame (map Inr bss) ?s =
      ?s\<lparr>rd_channel := c2, rd_delivered := rd_delivered ?s @ invoke_subscribers (messages_of r2) (rd_channel ?s)\<rparr>"
    by (rule Cons.IH) (simp_all add: s two)
  with Cons.prems(1) show ?case
    by (simp add: s joined invoke_append invoke_same [OF process_data_subscribers [OF one]])
qed

text \<open>
  C13. However the transport cuts the bytes of a connection into reads, the subscribers are
  given, each message to each of them and in order, what the channel makes of all bytes up to the
  first failed read; nothing is read after it.
\<close>

theorem reads_deliver_stream:
  "let s = run_reads frame (map Inr bss @ Inl e # rest) (start_reading c)
   in rd_delivered s =
        invoke_subscribers (messages_of (fst (process_mavlink_data frame (concat bss) (channel_start c)))) c \<and>
      \<not> rd_reading s"
proof -
  have split: "run_reads frame (rs @ rs') s = run_reads frame rs' (run_reads frame rs s)" for rs rs' and s :: "('a, 'b) reader"
  proof (induction rs arbitrary: s)
    case (Cons r rs)
    have "\<not> rd_reading s \<Longrightarrow> run_reads frame rs' s = s" by (cases rs') simp_all
    with Cons.IH show ?case by simp
  qed simp
  have ended: "\<not> rd_reading s \<Longrightarrow> run_reads frame rs s = s" for rs and s :: "('a, 'b) reader"
    by (cases rs) simp_all
  obtain r c' where p: "process_mavlink_data frame (concat bss) (channel_start c) = (r, c')" by fastforce
  have same: "invoke_subscribers ms (channel_start c) = invoke_subscribers ms c" for ms :: "'b list"
    by (simp add: invoke_subscribers_def channel_start_def)
  have "run_reads frame (map Inr bss) (start_reading c) = (start_reading c)
      \<lparr>rd_channel := c', rd_delivered := invoke_subscribers (messages_of r) c\<rparr>"
    using reads_join [of "start_reading c" frame bss r c'] p same by (simp add: start_reading_def)
  then show ?thesis
    by (simp add: split p Let_def start_reading_def handle_read_def ended)
qed

subsection \<open>Sessions of a route\<close>

text \<open>The queue of a session, whether a write is under way, what arrived, and whether the peer is there.\<close>

record 'm session =
  sn_buffers :: "'m list"
  sn_writing :: bool
  sn_sent :: "'m list"
  sn_connected :: bool

definition new_session :: "'m session" where
  "new_session = \<lparr>sn_buffers = [], sn_writing = False, sn_sent = [], sn_connected = True\<rparr>"

text \<open>\<open>Session::process()\<close> writes the front of the queue; two writes at once would mix their bytes.\<close>

definition write_front :: "'m session \<Rightarrow> 'm session cpp" where
  "write_front s = (if sn_buffers s = [] \<or> sn_writing s then UB else Ret (s\<lparr>sn_writing := True\<rparr>))"

definition emplace :: "'m \<Rightarrow> 'm session \<Rightarrow> 'm session cpp" where
  "emplace m s =
     (let s1 = s\<lparr>sn_buffers := sn_buffers s @ [m]\<rparr>
      in if length (sn_buffers s1) = 1 then write_front s1 else Ret s1)"

text \<open>The end of a write.\<close>

definition write_done :: "bool \<Rightarrow> 'm session \<Rightarrow> 'm session cpp" where
  "write_done ok s =
     (case sn_buffers s of
        [] \<Rightarrow> UB
      | m # rest \<Rightarrow>
          (let s1 = s\<lparr>sn_buffers := rest, sn_writing := False\<rparr>
           in if \<not> ok then Ret s1
              else let s2 = s1\<lparr>sn_sent := sn_sent s1 @ [m]\<rparr>
                   in if rest \<noteq> [] then write_front s2 else Ret s2))"

text \<open>\<open>Session::process(message)\<close> asks for the remote endpoint first, which throws without a peer.\<close>

definition session_process :: "'m \<Rightarrow> 'm session \<Rightarrow> 'm session cpp" where
  "session_process m s =
     (if sn_connected s then emplace m s else Throw (Runtime_error ''remote_endpoint''))"

text \<open>The sessions of a route are a set, traversed in some order; an exception ends the traversal.\<close>

fun route_process :: "'m \<Rightarrow> 'm session list \<Rightarrow> 'm session list \<times> exn option" where
  "route_process m [] = ([], None)"
| "route_process m (s # ss) =
     (case session_process m s of
        Ret s' \<Rightarrow> (let (ss', x) = route_process m ss in (s' # ss', x))
      | Throw e \<Rightarrow> (s # ss, Some e)
      | UB \<Rightarrow> (s # ss, None))"

datatype 'm session_event = Emplace 'm | Write_done bool

inductive session_step :: "'m session \<Rightarrow> 'm session_event \<Rightarrow> 'm session cpp \<Rightarrow> bool" where
  emplaced: "session_step s (Emplace m) (emplace m s)"
| finished: "sn_writing s \<Longrightarrow> session_step s (Write_done ok) (write_done ok s)"

inductive session_runs :: "'m session \<Rightarrow> 'm session_event list \<Rightarrow> 'm session \<Rightarrow> bool" where
  session_rests: "session_runs s [] s"
| session_moves: "session_step s ev (Ret s1) \<Longrightarrow> session_runs s1 evs s2 \<Longrightarrow> session_runs s (ev # evs) s2"

inductive_cases session_stepE: "session_step s ev r"

lemma session_append: "session_runs s evs s1 \<Longrightarrow> session_runs s1 evs' s2 \<Longrightarrow> session_runs s (evs @ evs') s2"
  by (induction rule: session_runs.induct) (auto intro: session_moves)

fun emplaced_messages :: "'m session_event list \<Rightarrow> 'm list" where
  "emplaced_messages [] = []"
| "emplaced_messages (Emplace m # evs) = m # emplaced_messages evs"
| "emplaced_messages (Write_done ok # evs) = emplaced_messages evs"

fun failed_write :: "'m session_event \<Rightarrow> bool" where
  "failed_write (Write_done ok) = (\<not> ok)"
| "failed_write (Emplace m) = False"

text \<open>A session writes exactly while something is queued.\<close>

definition session_inv :: "'m session \<Rightarrow> bool" where
  "session_inv s \<longleftrightarrow> (sn_writing s \<longleftrightarrow> sn_buffers s \<noteq> [])"

lemma session_step_good:
  assumes "session_step s ev r" "session_inv s" "\<not> failed_write ev"
  shows "\<exists>s'. r = Ret s' \<and> session_inv s' \<and>
    sn_sent s' @ sn_buffers s' = sn_sent s @ sn_buffers s @ emplaced_messages [ev]"
  using assms
  by (cases rule: session_stepE)
    (auto simp: emplace_def write_front_def write_done_def session_inv_def Let_def split: list.split)

text \<open>
  As long as no write fails, a session never has two writes under way and sends the messages in
  the order in which they came: what was sent and what waits is what was handed to it.
\<close>

lemma session_in_order:
  assumes "session_runs s evs s'" "session_inv s" "\<not> list_ex failed_write evs"
  shows "session_inv s' \<and> sn_sent s' @ sn_buffers s' = sn_sent s @ sn_buffers s @ emplaced_messages evs"
  using assms
proof (induction rule: session_runs.induct)
  case (session_moves s ev s1 evs s2)
  then have "session_inv s1 \<and> sn_sent s1 @ sn_buffers s1 = sn_sent s @ sn_buffers s @ emplaced_messages [ev]"
    using session_step_good [OF session_moves(1)] by auto
  moreover have "emplaced_messages (ev # evs) = emplaced_messages [ev] @ emplaced_messages evs"
    by (cases ev) simp_all
  ultimately show ?case using session_moves by auto
qed simp

text \<open>
  After a failed write the rest of the queue stays, and with it every later message: the
  session, which no one removes, never writes again.
\<close>

lemma failed_session_stalls:
  assumes "session_runs s evs s'" "sn_buffers s \<noteq> []" "\<not> sn_writing s"
  shows "sn_sent s' = sn_sent s \<and> \<not> sn_writing s' \<and> length (sn_buffers s) \<le> length (sn_buffers s')"
  using assms
proof (induction rule: session_runs.induct)
  case (session_moves s ev s1 evs s2)
  from session_moves(1,4,5) obtain m where "s1 = s\<lparr>sn_buffers := sn_buffers s @ [m]\<rparr>"
    by (cases rule: session_stepE) (auto simp: emplace_def Let_def)
  with session_moves show ?case by simp
qed simp

text \<open>One session without its peer keeps a message from all that come after it.\<close>

lemma lost_peer_silences_others:
  assumes "\<not> sn_connected d"
  shows "route_process m (d # ss) = (d # ss, Some (Runtime_error ''remote_endpoint''))"
  using assms by (simp add: session_process_def)

end
