(* ===== verification/Command_Output.thy ===== *)
theory Command_Output
  imports Cli Rest Evaluation
begin

text \<open>
  What the commands of the tool print (the functions \<open>print_...\<close> of
  src/airmap/cmds/airmap/cmd/*.cpp): tables of the records that the services answer with. Each is
  the sequence of cells and lines it writes, run through the table writer of the library (Cli).
  The texts Boost and the streams make of instants and floating point numbers are the
  record \<open>texts\<close> (Rest_Codecs); \<open>ptime\<close> is what Boost streams for an instant.
\<close>

definition print_table :: "tab_op list \<Rightarrow> string cpp" where
  "print_table ops = cbind (tab_run ops new_tab_writer) tab_flush"

abbreviation cells :: "string list \<Rightarrow> tab_op list" where
  "cells \<equiv> map Tab_cell"

abbreviation next_line :: "tab_op list" where
  "next_line \<equiv> [Tab_new_line]"

text \<open>Streamed integers, and an \<open>Optional\<close> (include/airmap/optional.h).\<close>

definition count_text :: "'a list \<Rightarrow> string" where
  "count_text xs = show_nat (length xs)"

definition unsigned_text :: "'a::len word \<Rightarrow> string" where
  "unsigned_text w = show_nat (unat w)"

definition signed_text :: "'a::len word \<Rightarrow> string" where
  "signed_text w = show_int (sint w)"

definition optional_text :: "('a \<Rightarrow> string) \<Rightarrow> 'a option \<Rightarrow> string" where
  "optional_text f x = (case x of Some v \<Rightarrow> f v | None \<Rightarrow> ''not set'')"

subsection \<open>Flights and plans\<close>

definition print_flight :: "texts \<Rightarrow> flight \<Rightarrow> string cpp" where
  "print_flight tx f = print_table
     (cells [''id'', ''pilot'', ''aircraft'', ''latitude'', ''longitude'', ''created-at'', ''start-time'', ''end-time''] @
      next_line @
      cells [fl_id f, pi_id (fl_pilot f), ac_id (fl_aircraft f), tx_streamed_float tx (fl_latitude f),
             tx_streamed_float tx (fl_longitude f), tx_iso tx (fl_created_at f), tx_iso tx (fl_start_time f),
             tx_iso tx (fl_end_time f)])"

definition print_flight_ended :: "texts \<Rightarrow> date_time \<Rightarrow> string cpp" where
  "print_flight_ended tx t = print_table (cells [''flight-ended''] @ next_line @ cells [tx_iso tx t])"

definition print_key :: "string \<Rightarrow> string cpp" where
  "print_key key = print_table (cells [''encryption-key''] @ next_line @ cells [key])"

definition print_flight_plan :: "texts \<Rightarrow> flight_plan \<Rightarrow> string cpp" where
  "print_flight_plan tx p = print_table
     (cells [''id'', ''pilot-id'', ''aircraft-id'', ''takeoff-latitude'', ''takeoff-longitude'', ''max-altitude'',
             ''min-altitude'', ''buffer'', ''start-time'', ''end-time''] @
      next_line @
      cells [fp_id p, pi_id (fp_pilot p), ac_id (fp_aircraft p), tx_streamed_float tx (fp_takeoff_latitude p),
             tx_streamed_float tx (fp_takeoff_longitude p), tx_streamed_float tx (fp_altitude_max p),
             tx_streamed_float tx (fp_altitude_min p), tx_streamed_float tx (fp_buffer p),
             tx_iso tx (fp_start_time p), tx_iso tx (fp_end_time p)])"

text \<open>Four headings, five values.\<close>

definition print_briefing :: "(date_time \<Rightarrow> string) \<Rightarrow> briefing \<Rightarrow> string cpp" where
  "print_briefing ptime b = print_table
     (cells [''created-at'', ''validations-count'', ''authorizations-count'', ''advisory-status-color''] @
      next_line @
      cells [ptime (bf_created_at b), count_text (ev_rulesets (bf_evaluation b)),
             count_text (ev_validations (bf_evaluation b)), count_text (ev_authorizations (bf_evaluation b)),
             color_text (ad_color (bf_airspace b))])"

definition print_evaluation :: "evaluation \<Rightarrow> string cpp" where
  "print_evaluation e = print_table
     (cells [''# rulesets'', ''# validations'', ''# authorizations'', ''# failures''] @ next_line @
      cells [count_text (ev_rulesets e), count_text (ev_validations e), count_text (ev_authorizations e),
             count_text (ev_failures e)])"

subsection \<open>Pilots and aircraft\<close>

definition print_pilot_and_aircrafts :: "texts \<Rightarrow> pilot \<Rightarrow> aircraft list \<Rightarrow> string cpp" where
  "print_pilot_and_aircrafts tx p acs = print_table
     (cells [''id'', ''first-name'', ''last-name'', ''user-name'', ''picture-url'', ''email-verified'',
             ''phone-verified'', ''flights-count'', ''last-flight'', ''aircrafts-count'', ''created-at''] @
      next_line @
      cells [pi_id p, pi_first_name p, pi_last_name p, pi_user_name p, optional_text id (pi_picture_url p),
             bool_text (pi_verified_email p), bool_text (pi_verified_phone p), unsigned_text (pi_flights_total p),
             tx_iso tx (pi_last_flight_time p), unsigned_text (pi_aircraft_total p), tx_iso tx (pi_created_at p)] @
      (if acs = [] then []
       else next_line @
            cells [''id'', ''nick-name'', ''model-id'', ''model-name'', ''manufacturer-id'', ''manufacturer-name''] @
            concat (map (\<lambda>a. next_line @
              cells [ac_id a, ac_nick_name a, am_id (ac_model a), am_name (ac_model a),
                     am_manufacturer_id (ac_model a), am_manufacturer_name (ac_model a)]) acs)))"

definition print_aircraft :: "texts \<Rightarrow> aircraft \<Rightarrow> string cpp" where
  "print_aircraft tx a = print_table
     (cells [''id'', ''nick-name'', ''model-id'', ''created-at''] @ next_line @
      cells [ac_id a, ac_nick_name a, am_id (ac_model a), tx_iso tx (ac_created_at a)])"

definition print_models :: "aircraft_model list \<Rightarrow> string cpp" where
  "print_models ms = print_table
     (cells [''model-id'', ''model-name'', ''manufacturer-id'', ''manufacturer-name''] @
      concat (map (\<lambda>m. next_line @
        cells [am_id m, am_name m, am_manufacturer_id m, am_manufacturer_name m]) ms))"

subsection \<open>Rules, airspaces, advisories and status\<close>

definition ruleset_headings :: "string list" where
  "ruleset_headings =
     [''id'', ''name'', ''short-name'', ''selection-type'', ''description'', ''default'', ''jurisdiction-id'',
      ''jurisdiction-name'', ''jurisdiction-region'']"

definition ruleset_cells :: "ruleset \<Rightarrow> string list" where
  "ruleset_cells r =
     [rs_id r, rs_name r, rs_short_name r, selection_type_text (rs_selection_type r), rs_description r,
      bool_text (rs_is_default r), unsigned_text (jur_id (rs_jurisdiction r)), jur_name (rs_jurisdiction r),
      region_text (jur_region (rs_jurisdiction r))]"

definition print_ruleset :: "ruleset \<Rightarrow> string cpp" where
  "print_ruleset r = print_table (cells ruleset_headings @ next_line @ cells (ruleset_cells r))"

definition print_rulesets :: "ruleset list \<Rightarrow> string cpp" where
  "print_rulesets rs =
     print_table (cells ruleset_headings @ concat (map (\<lambda>r. next_line @ cells (ruleset_cells r)) rs))"

definition print_fetched_rules :: "ruleset list \<Rightarrow> string cpp" where
  "print_fetched_rules rs = print_table
     (cells [''id'', ''# rules''] @ next_line @
      concat (map (\<lambda>r. cells [rs_id r, count_text (rs_rules r)] @ next_line) rs))"

definition airspace_cells :: "airspace \<Rightarrow> string list" where
  "airspace_cells a = [as_id a, as_name a, airspace_types_text (utag (as_details a))]"

definition print_airspace :: "airspace \<Rightarrow> string cpp" where
  "print_airspace a = print_table
     (cells [''id'', ''name'', ''type''] @ next_line @ cells (airspace_cells a) @ next_line)"

definition print_airspaces :: "airspace list \<Rightarrow> string cpp" where
  "print_airspaces ars = print_table
     (cells [''id'', ''name'', ''type''] @ concat (map (\<lambda>a. next_line @ cells (airspace_cells a)) ars) @ next_line)"

definition print_advisories :: "airspace_advisory list \<Rightarrow> string cpp" where
  "print_advisories avs = print_table
     (cells [''id'', ''name'', ''type'', ''color''] @
      concat (map (\<lambda>a. next_line @
        cells (airspace_cells (sa_airspace (aa_advisory a)) @ [color_text (sa_color (aa_advisory a))])) avs) @
      next_line)"

definition print_status :: "status_report \<Rightarrow> string cpp" where
  "print_status r = print_table
     (cells [''max-safe-distance'', ''advisory-color''] @ next_line @
      cells [unsigned_text (sr_max_safe_distance r), color_text (sr_advisory_color r)] @
      (if sr_advisories r = [] then []
       else next_line @ cells [''name'', ''color''] @
            concat (map (\<lambda>a. next_line @ cells [as_name (sa_airspace a), color_text (sa_color a)]) (sr_advisories r))) @
      (if we_condition (sr_weather r) = [] then []
       else next_line @ cells [''condition'', ''temperature'', ''wind-speed''] @ next_line @
            cells [we_condition (sr_weather r), signed_text (we_temperature (sr_weather r)),
                   unsigned_text (sw_speed (we_wind (sr_weather r)))]))"

definition print_weather :: "texts \<Rightarrow> advisory_weather \<Rightarrow> string cpp" where
  "print_weather tx w = print_table
     (if ae_condition w = [] then []
      else next_line @ cells [''condition'', ''temperature'', ''wind-speed''] @ next_line @
           cells [ae_condition w, tx_streamed_float tx (ae_temperature w),
                  tx_streamed_float tx (aw_speed (ae_wind w))] @ next_line @ next_line)"

subsection \<open>Tokens\<close>

definition print_token :: "token option \<Rightarrow> string cpp" where
  "print_token t = print_table
     (cells [''type'', ''id'', ''access'', ''refresh'', ''expires-in-seconds''] @ next_line @
      cells (case t of
         Some (Tok_anonymous a) \<Rightarrow> [token_type_text TT_anonymous, anon_id a, ''n/a'', ''n/a'', ''n/a'']
       | Some (Tok_oauth a) \<Rightarrow>
           [token_type_text TT_oauth, oauth_id a, oauth_access a, oauth_refresh a, ''n/a'']
       | Some (Tok_refreshed a) \<Rightarrow>
           [token_type_text TT_refreshed, refreshed_id a, ''n/a'', ''n/a'', signed_text (expires_in a)]
       | None \<Rightarrow> [''n/a'', ''n/a'', ''n/a'', ''n/a'', ''n/a'']))"

subsection \<open>Printing never fails\<close>

lemma print_table_text: "print_table ops = Ret (table_text CHR '' '' CHR '' '' (rows_of ops [[]]))"
proof -
  obtain w where w: "tab_run ops new_tab_writer = Ret w" "tab_ok w" "tw_table w = rows_of ops [[]]"
    "tw_fill w = CHR '' ''" "tw_separator w = CHR '' ''"
    using tab_run_ok [OF tab_ok_initial, of ops] by (auto simp: new_tab_writer_def)
  then show ?thesis by (simp add: print_table_def tab_flush_ok)
qed

lemmas print_defs =
  print_flight_def print_flight_ended_def print_key_def print_flight_plan_def print_briefing_def
  print_evaluation_def print_pilot_and_aircrafts_def print_aircraft_def print_models_def
  print_ruleset_def print_rulesets_def print_fetched_rules_def print_airspace_def print_airspaces_def
  print_advisories_def print_status_def print_weather_def print_token_def

text \<open>The headings of a briefing stand one column off their values.\<close>

lemma briefing_headings_shifted:
  "rows_of (cells [''created-at'', ''validations-count'', ''authorizations-count'', ''advisory-status-color''] @
      next_line @ cells [t, n1, n2, n3, c]) [[]] ! 1 ! 1 = n1"
  by simp

end
