(* ===== verification/Command_Run.thy ===== *)
theory Command_Run
  imports Command_Output Paths Client_Context Record_Json Airspace_Json Json_Parser
begin

text \<open>
  How a command of the tool runs (the actions in src/airmap/cmds/airmap/cmd/*.cpp over
  src/airmap/boost/context.cpp). An action checks its flags and files and may return 1 at once.
  Otherwise it creates a client, whose callback runs before \<open>exec\<close>, and then lives in \<open>exec\<close>
  until the context is stopped. What callbacks do is a tree (\<open>script\<close>): printing, writing a file,
  a call on the client that waits for its answer, and the stop of the context. Log lines are not
  modelled.
\<close>

subsection \<open>Scripts\<close>

datatype reply =
    is_flight: Flight_reply (the_flight: flight)
  | is_ended: Ended_reply (the_end: date_time)
  | is_key: Key_reply (the_key: string)
  | is_done: Done_reply
  | is_plan: Plan_reply (the_plan: flight_plan)
  | is_briefing: Briefing_reply (the_briefing: briefing)
  | is_evaluation: Evaluation_reply (the_evaluation: evaluation)
  | is_pilot: Pilot_reply (the_pilot: pilot)
  | is_aircrafts: Aircrafts_reply (the_aircrafts: "aircraft list")
  | is_aircraft: Aircraft_reply (the_aircraft: aircraft)
  | is_models: Models_reply (the_models: "aircraft_model list")
  | is_ruleset: Ruleset_reply (the_ruleset: ruleset)
  | is_rulesets: Rulesets_reply (the_rulesets: "ruleset list")
  | is_airspace: Airspace_reply (the_airspace: airspace)
  | is_airspaces: Airspaces_reply (the_airspaces: "airspace list")
  | is_advisories: Advisories_reply (the_advisories: "airspace_advisory list")
  | is_weather: Weather_reply (the_weather: advisory_weather)
  | is_status: Status_reply (the_status: status_report)
  | is_oauth: OAuth_reply (the_oauth: oauth_token)
  | is_anonymous: Anonymous_reply (the_anonymous: anonymous_token)
  | is_refreshed: Refreshed_reply (the_refreshed: refreshed_token)
  | is_monitor: Monitor_reply (the_monitor: nat)

text \<open>A call on a service, or for a monitor of the traffic around a flight, or a timer of the context.\<close>

datatype client_call =
    Rest_call rest_call
  | Traffic_call string string
  | Timer_call duration

text \<open>The type of the result of a call.\<close>

definition fits :: "client_call \<Rightarrow> reply \<Rightarrow> bool" where
  "fits c = (case c of
     Traffic_call _ _ \<Rightarrow> is_monitor
   | Timer_call _ \<Rightarrow> is_done
   | Rest_call rc \<Rightarrow> (case rc of
       On_flights fc \<Rightarrow> (case fc of
           Flight_by_point_call _ \<Rightarrow> is_flight | Flight_by_polygon_call _ \<Rightarrow> is_flight
         | End_flight_call _ _ \<Rightarrow> is_ended | Start_comms_call _ _ \<Rightarrow> is_key | End_comms_call _ _ \<Rightarrow> is_done
         | Delete_flight_call _ _ \<Rightarrow> is_done
         | _ \<Rightarrow> (\<lambda>_. False))
     | On_plans pc \<Rightarrow> (case pc of
           Create_plan_call _ \<Rightarrow> is_plan | Update_plan_call _ _ \<Rightarrow> is_plan | Submit_plan_call _ _ \<Rightarrow> is_plan
         | Render_briefing_call _ _ \<Rightarrow> is_briefing
         | Delete_plan_call _ _ \<Rightarrow> is_done | _ \<Rightarrow> (\<lambda>_. False))
     | On_pilots pc \<Rightarrow> (case pc of
           Authenticated_pilot_call _ _ _ \<Rightarrow> is_pilot | Pilot_for_id_call _ _ _ _ \<Rightarrow> is_pilot
         | Aircrafts_call _ _ \<Rightarrow> is_aircrafts | Add_aircraft_call _ _ _ _ \<Rightarrow> is_aircraft
         | _ \<Rightarrow> (\<lambda>_. False))
     | On_aircrafts ac \<Rightarrow> (case ac of Models_call _ _ \<Rightarrow> is_models | _ \<Rightarrow> (\<lambda>_. False))
     | On_airspaces ac \<Rightarrow> (case ac of
           Airspaces_search_call _ \<Rightarrow> is_airspaces | Airspace_for_id_call _ \<Rightarrow> is_airspace)
     | On_advisory ac \<Rightarrow> (case ac of
           Report_weather_call _ \<Rightarrow> is_weather | _ \<Rightarrow> is_advisories)
     | On_rulesets qc \<Rightarrow> (case qc of
           Ruleset_for_id_call _ \<Rightarrow> is_ruleset | Rulesets_search_call _ \<Rightarrow> is_rulesets
         | Fetch_rules_call _ \<Rightarrow> is_rulesets | _ \<Rightarrow> is_evaluation)
     | On_status _ \<Rightarrow> is_status
     | On_auth ac \<Rightarrow> (case ac of
           Password_call _ \<Rightarrow> is_oauth | Anonymous_call _ \<Rightarrow> is_anonymous | Renew_call _ \<Rightarrow> is_refreshed)))"

text \<open>
  \<open>Idle\<close>: the callback returns; \<open>Halt b\<close>: it stops the context, with success or an error, and
  returns.
\<close>

datatype script =
    Idle
  | Raise exn
  | Break
  | Halt bool
  | Print string script
  | Persist string string script
  | Call client_call "err + reply \<Rightarrow> script"

definition script_of :: "'a cpp \<Rightarrow> ('a \<Rightarrow> script) \<Rightarrow> script" where
  "script_of m k = (case m of Ret x \<Rightarrow> k x | Throw e \<Rightarrow> Raise e | UB \<Rightarrow> Break)"

definition show_then :: "string cpp \<Rightarrow> script \<Rightarrow> script" where
  "show_then t k = script_of t (\<lambda>t. Print t k)"

text \<open>The shape of most callbacks: an error stops the context with one.\<close>

definition on_success :: "(reply \<Rightarrow> script) \<Rightarrow> err + reply \<Rightarrow> script" where
  "on_success ok r = (case r of Inl _ \<Rightarrow> Halt False | Inr x \<Rightarrow> ok x)"

definition call_rest :: "rest_call \<Rightarrow> (reply \<Rightarrow> script) \<Rightarrow> script" where
  "call_rest c ok = Call (Rest_call c) (on_success ok)"

subsection \<open>Execution\<close>

record console =
  co_printed :: "string list"
  co_files :: "(string \<times> string) list"

definition blank_console :: console where
  "blank_console = \<lparr>co_printed = [], co_files = []\<rparr>"

definition print_on :: "string \<Rightarrow> console \<Rightarrow> console" where
  "print_on t c = c\<lparr>co_printed := co_printed c @ [t]\<rparr>"

definition persist_on :: "string \<Rightarrow> string \<Rightarrow> console \<Rightarrow> console" where
  "persist_on p t c = c\<lparr>co_files := co_files c @ [(p, t)]\<rparr>"

text \<open>
  \<open>Exited b\<close>: the code is 0 if \<open>b\<close> and 1 otherwise; \<open>Terminated\<close>: an exception leaves \<open>main\<close>;
  \<open>Serving\<close>: \<open>exec\<close> has not returned when the events are over.
\<close>

datatype outcome = Exited bool | Terminated exn | Undefined | Serving

datatype event = Answer "err + reply" | Interrupt

text \<open>Without a call that is under way only a signal ends the command.\<close>

definition await_signal :: "event list \<Rightarrow> console \<Rightarrow> console \<times> outcome" where
  "await_signal evs c = (c, if Interrupt \<in> set evs then Exited True else Serving)"

text \<open>Inside \<open>exec\<close>, which logs what a callback throws and goes on.\<close>

primrec serve :: "script \<Rightarrow> event list \<Rightarrow> console \<Rightarrow> console \<times> outcome" where
  "serve Idle = await_signal"
| "serve (Raise e) = await_signal"
| "serve Break = (\<lambda>evs c. (c, Undefined))"
| "serve (Halt b) = (\<lambda>evs c. (c, Exited b))"
| "serve (Print t k) = (\<lambda>evs c. serve k evs (print_on t c))"
| "serve (Persist p t k) = (\<lambda>evs c. serve k evs (persist_on p t c))"
| "serve (Call r k) = (\<lambda>evs c.
     case evs of
       [] \<Rightarrow> (c, Serving)
     | Interrupt # _ \<Rightarrow> (c, Exited True)
     | Answer a # evs \<Rightarrow> serve (k a) evs c)"

text \<open>
  Before \<open>exec\<close> an exception leaves the action, and a stop does nothing: the context is not
  running (theory Client_Context, \<open>stop_ignored\<close>), and is run afterwards.
\<close>

primrec launch :: "script \<Rightarrow> event list \<Rightarrow> console \<Rightarrow> console \<times> outcome" where
  "launch Idle = await_signal"
| "launch (Raise e) = (\<lambda>evs c. (c, Terminated e))"
| "launch Break = (\<lambda>evs c. (c, Undefined))"
| "launch (Halt b) = await_signal"
| "launch (Print t k) = (\<lambda>evs c. launch k evs (print_on t c))"
| "launch (Persist p t k) = (\<lambda>evs c. launch k evs (persist_on p t c))"
| "launch (Call r k) = serve (Call r k)"

text \<open>An action: \<open>None\<close> when it returns 1 before there is a client.\<close>

type_synonym 'a action = "'a option cpp"

definition run_command :: "script action \<Rightarrow> event list \<Rightarrow> console \<times> outcome" where
  "run_command a evs =
     (case a of
        Ret None \<Rightarrow> (blank_console, Exited False)
      | Ret (Some s) \<Rightarrow> launch s evs blank_console
      | Throw e \<Rightarrow> (blank_console, Terminated e)
      | UB \<Rightarrow> (blank_console, Undefined))"

definition action_bind :: "'a action \<Rightarrow> ('a \<Rightarrow> 'b action) \<Rightarrow> 'b action" where
  "action_bind m k = cbind m (\<lambda>x. case x of None \<Rightarrow> Ret None | Some v \<Rightarrow> k v)"

definition demand :: "bool \<Rightarrow> 'b action \<Rightarrow> 'b action" where
  "demand b k = (if b then k else Ret None)"

lemma action_bind_simps [simp]:
  "action_bind (Ret (Some x)) k = k x" "action_bind (Ret None) k = Ret None"
  "action_bind (Throw e) k = Throw e" "action_bind UB k = UB"
  by (simp_all add: action_bind_def)

lemma action_bind_Some:
  "action_bind m k = Ret (Some y) \<longleftrightarrow> (\<exists>x. m = Ret (Some x) \<and> k x = Ret (Some y))"
  by (cases m) (auto simp: action_bind_def split: option.splits)

lemma demand_Some [simp]: "demand b k = Ret (Some y) \<longleftrightarrow> b \<and> k = Ret (Some y)"
  by (simp add: demand_def)

subsection \<open>Files, tokens and the client\<close>

text \<open>
  What an action reads. \<open>ce_configuration\<close>, \<open>ce_plan\<close> and \<open>ce_create_plan\<close> are the objects a
  document is decoded into, with whatever their members without initialiser hold.
\<close>

record command_env =
  ce_platform :: platform_env
  ce_file :: "string \<Rightarrow> string option"
  ce_writable :: "string \<Rightarrow> bool"
  ce_texts :: texts
  ce_ptime :: "date_time \<Rightarrow> string"
  ce_parse_iso :: "string \<Rightarrow> date_time cpp"
  ce_now :: date_time
  ce_port_of :: "string \<Rightarrow> 16 word cpp"
  ce_configuration :: configuration
  ce_plan :: flight_plan
  ce_create_plan :: create_plan_params

record common_flags =
  cm_version :: client_version
  cm_config_file :: "string option"
  cm_token_file :: "string option"

definition config_path :: "command_env \<Rightarrow> common_flags \<Rightarrow> string cpp" where
  "config_path e f =
     (case cm_config_file f of Some p \<Rightarrow> Ret p | None \<Rightarrow> config_file (ce_platform e) (cm_version f))"

definition token_path :: "command_env \<Rightarrow> common_flags \<Rightarrow> string cpp" where
  "token_path e f =
     (case cm_token_file f of Some p \<Rightarrow> Ret p | None \<Rightarrow> token_file (ce_platform e) (cm_version f))"

text \<open>\<open>std::ifstream in{path}; if (!in) return 1;\<close>\<close>

definition reading :: "command_env \<Rightarrow> string \<Rightarrow> (string \<Rightarrow> 'b action) \<Rightarrow> 'b action" where
  "reading e p k = (case ce_file e p of None \<Rightarrow> Ret None | Some t \<Rightarrow> k t)"

definition load_token :: "string \<Rightarrow> token option cpp" where
  "load_token text = cbind (json_parse text) decode_token"

definition id_of_token :: "token option \<Rightarrow> string cpp" where
  "id_of_token t =
     (case t of None \<Rightarrow> Throw (Logic_error ''should not reach here'') | Some x \<Rightarrow> Ret (token_value_id x))"

definition load_configuration :: "command_env \<Rightarrow> string \<Rightarrow> configuration cpp" where
  "load_configuration e text = cbind (json_parse text) (\<lambda>j. decode_configuration j (ce_configuration e))"

text \<open>\<open>Context::create\<close> and \<open>create_client_with_configuration\<close>: a value, unless a requester throws.\<close>

definition context_created :: "err + unit" where
  "context_created = Inr ()"

definition client_created :: "command_env \<Rightarrow> configuration \<Rightarrow> (err + unit) cpp" where
  "client_created e c =
     cmap (\<lambda>_. Inr ()) (cmapM (service_requester (ce_port_of e) (pe_variable (ce_platform e)) c)
       [S_advisory, S_aircrafts, S_airspaces, S_authenticator, S_flight_plans, S_flights, S_pilots,
        S_rulesets, S_status, S_sso])"

definition with_client :: "command_env \<Rightarrow> configuration \<Rightarrow> script \<Rightarrow> script" where
  "with_client e c s =
     script_of (client_created e c) (\<lambda>r. case r of Inl _ \<Rightarrow> Halt False | Inr _ \<Rightarrow> s)"

text \<open>The two orders of creating the context and reading the configuration.\<close>

definition context_then_client :: "command_env \<Rightarrow> string \<Rightarrow> (configuration \<Rightarrow> script) \<Rightarrow> script action" where
  "context_then_client e text k =
     demand (\<not> isl context_created) (cbind (load_configuration e text) (\<lambda>c. Ret (Some (with_client e c (k c)))))"

definition context_and_client :: "command_env \<Rightarrow> configuration \<Rightarrow> script \<Rightarrow> script action" where
  "context_and_client e c s = demand (\<not> isl context_created) (Ret (Some (with_client e c s)))"

text \<open>\<open>MustNotBeEmpty::validate\<close> of a flag that may be missing.\<close>

definition given :: "string option \<Rightarrow> bool" where
  "given x \<longleftrightarrow> (case x of None \<Rightarrow> False | Some s \<Rightarrow> s \<noteq> [])"

end
