(* ===== verification/Commands.thy ===== *)
theory Commands
  imports Command_Run
begin

text \<open>
  The actions of the commands (src/airmap/cmds/airmap/cmd/*.cpp), in their order of checks, one
  record of flags per group of commands that share it. A geometry is read with \<open>json::parse\<close>.
\<close>

definition read_geometry :: "string \<Rightarrow> geometry cpp" where
  "read_geometry text = cbind (json_parse text) decode_geometry"

subsection \<open>Flights\<close>

record flight_flags = common_flags +
  fg_flight_id :: "string option"

definition flight_command :: "command_env \<Rightarrow> flight_flags \<Rightarrow> (string \<Rightarrow> string \<Rightarrow> script) \<Rightarrow> script action" where
  "flight_command e f k =
     cbind (config_path e (common_flags.truncate f)) (\<lambda>cp. cbind (token_path e (common_flags.truncate f)) (\<lambda>tp.
       reading e cp (\<lambda>config. reading e tp (\<lambda>tok.
         cbind (load_token tok) (\<lambda>t.
           demand (fg_flight_id f \<noteq> None) (demand (given (fg_flight_id f))
             (context_then_client e config (\<lambda>_.
                script_of (id_of_token t) (\<lambda>i. k i (the (fg_flight_id f))))))))))) "

definition end_flight :: "command_env \<Rightarrow> flight_flags \<Rightarrow> script action" where
  "end_flight e f = flight_command e f (\<lambda>i fid.
     call_rest (On_flights (End_flight_call i fid)) (\<lambda>r.
       show_then (print_flight_ended (ce_texts e) (the_end r)) (Halt True)))"

definition start_flight_comms :: "command_env \<Rightarrow> flight_flags \<Rightarrow> script action" where
  "start_flight_comms e f = flight_command e f (\<lambda>i fid.
     call_rest (On_flights (Start_comms_call i fid)) (\<lambda>r. show_then (print_key (the_key r)) (Halt True)))"

definition end_flight_comms :: "command_env \<Rightarrow> flight_flags \<Rightarrow> script action" where
  "end_flight_comms e f = flight_command e f (\<lambda>i fid.
     call_rest (On_flights (End_comms_call i fid)) (\<lambda>r. Halt True))"

text \<open>The monitor only logs what it is told; the command goes on until it is interrupted.\<close>

definition monitor_traffic :: "command_env \<Rightarrow> flight_flags \<Rightarrow> script action" where
  "monitor_traffic e f = flight_command e (f\<lparr>cm_version := Version_production\<rparr>) (\<lambda>i fid.
     Call (Traffic_call fid i) (on_success (\<lambda>r. Idle)))"

record create_flight_flags = common_flags +
  cg_geometry_file :: "string option"
  cg_params :: create_flight_params

definition create_flight :: "command_env \<Rightarrow> create_flight_flags \<Rightarrow> script action" where
  "create_flight e f =
     cbind (config_path e (common_flags.truncate f)) (\<lambda>cp. cbind (token_path e (common_flags.truncate f)) (\<lambda>tp.
       reading e cp (\<lambda>config. cbind (load_configuration e config) (\<lambda>c.
       reading e tp (\<lambda>tok. cbind (cbind (load_token tok) id_of_token) (\<lambda>i.
       action_bind (case cg_geometry_file f of
                      None \<Rightarrow> Ret (Some (cf_geometry (cg_params f)))
                    | Some p \<Rightarrow> reading e p (\<lambda>t. cmap (\<lambda>g. Some (Some g)) (read_geometry t))) (\<lambda>g.
         let p = (cg_params f)\<lparr>cf_authorization := i, cf_geometry := g\<rparr>
         in demand (cf_latitude p \<noteq> None) (demand (cf_longitude p \<noteq> None)
              (context_and_client e c
                (call_rest (On_flights (if g = None then Flight_by_point_call p else Flight_by_polygon_call p))
                   (\<lambda>r. show_then (print_flight (ce_texts e) (the_flight r)) (Halt True)))))))))))) "

subsection \<open>Flight plans\<close>

record plan_flags = common_flags +
  pg_id :: "string option"

definition plan_command ::
  "command_env \<Rightarrow> plan_flags \<Rightarrow> (string option \<Rightarrow> string \<Rightarrow> plans_call) \<Rightarrow> (reply \<Rightarrow> string cpp) \<Rightarrow> script action" where
  "plan_command e f call text =
     cbind (config_path e (common_flags.truncate f)) (\<lambda>cp. cbind (token_path e (common_flags.truncate f)) (\<lambda>tp.
       reading e cp (\<lambda>config. cbind (load_configuration e config) (\<lambda>c.
       reading e tp (\<lambda>tok. demand (given (pg_id f))
         (cbind (cbind (load_token tok) id_of_token) (\<lambda>i.
           context_and_client e c
             (call_rest (On_plans (call (Some i) (the (pg_id f)))) (\<lambda>r. show_then (text r) (Halt True))))))))))"

definition submit_flight :: "command_env \<Rightarrow> plan_flags \<Rightarrow> script action" where
  "submit_flight e f = plan_command e f Submit_plan_call (\<lambda>r. print_flight_plan (ce_texts e) (the_plan r))"

definition render_briefing :: "command_env \<Rightarrow> plan_flags \<Rightarrow> script action" where
  "render_briefing e f = plan_command e f Render_briefing_call (\<lambda>r. print_briefing (ce_ptime e) (the_briefing r))"

text \<open>
  \<open>decode(FlightPlans::Create::Parameters)\<close> (src/airmap/codec/json/flight_plans.cpp) into \<open>p\<close>;
  an absent minimal altitude stays as it is.
\<close>

definition decode_create_plan ::
  "(string \<Rightarrow> date_time cpp) \<Rightarrow> json \<Rightarrow> create_plan_params \<Rightarrow> create_plan_params cpp" where
  "decode_create_plan parse_iso j p =
     cbind (json_member ''takeoff_latitude'' json_get_float (cp_latitude p) j) (\<lambda>lat.
     cbind (json_member ''takeoff_longitude'' json_get_float (cp_longitude p) j) (\<lambda>lon.
     cbind (json_member ''max_altitude_agl'' json_get_float (cp_max_altitude p) j) (\<lambda>amax.
     cbind (json_member ''min_altitude_agl'' (\<lambda>v. cmap Some (json_get_float v)) (cp_min_altitude p) j) (\<lambda>amin.
     cbind (json_member ''geometry'' decode_geometry (cp_geometry p) j) (\<lambda>g.
     cbind (json_member ''start_time'' (json_get_time parse_iso) (cp_start_time p) j) (\<lambda>t1.
     cbind (json_member ''end_time'' (json_get_time parse_iso) (cp_end_time p) j) (\<lambda>t2.
     cbind (json_member ''pilot_id'' json_get_string (pi_id (cp_pilot p)) j) (\<lambda>pid.
     cbind (if 0 < json_count ''aircraft_id'' j
            then cmap (\<lambda>i. Some (aircraft_of_id i)) (cbind (json_subscript ''aircraft_id'' j) json_get_string)
            else Ret (cp_aircraft p)) (\<lambda>a.
     cbind (json_member ''buffer'' json_get_float (cp_buffer p) j) (\<lambda>b.
     cbind (json_member ''rulesets'' json_get_text_list (cp_rulesets p) j) (\<lambda>rs.
     cbind (decode_member_features j (cp_features p)) (\<lambda>fs.
       Ret (p\<lparr>cp_latitude := lat, cp_longitude := lon, cp_max_altitude := amax, cp_min_altitude := amin,
              cp_geometry := g, cp_start_time := t1, cp_end_time := t2,
              cp_pilot := (cp_pilot p)\<lparr>pi_id := pid\<rparr>, cp_aircraft := a, cp_buffer := b,
              cp_rulesets := rs, cp_features := fs\<rparr>)))))))))))))"

record plan_flight_flags = common_flags +
  pf_plan_file :: "string option"
  pf_update :: bool

text \<open>The callback returns when a file cannot be read, and the context is left running.\<close>

definition read_or_idle :: "command_env \<Rightarrow> string \<Rightarrow> (string \<Rightarrow> script) \<Rightarrow> script" where
  "read_or_idle e p k = (case ce_file e p of None \<Rightarrow> Idle | Some t \<Rightarrow> k t)"

definition update_plan_script :: "command_env \<Rightarrow> string \<Rightarrow> string \<Rightarrow> script" where
  "update_plan_script e plan tok =
     script_of (cbind (json_parse plan) (\<lambda>j. decode_flight_plan (ce_parse_iso e) j (ce_plan e))) (\<lambda>p.
     script_of (cbind (load_token tok) id_of_token) (\<lambda>i.
       call_rest (On_plans (Update_plan_call (Some i) p)) (\<lambda>r.
         show_then (print_flight_plan (ce_texts e) (the_plan r)) (Halt True))))"

definition create_plan_script :: "command_env \<Rightarrow> string \<Rightarrow> string \<Rightarrow> script" where
  "create_plan_script e plan tok =
     script_of (cbind (json_parse plan) (\<lambda>j. decode_create_plan (ce_parse_iso e) j (ce_create_plan e))) (\<lambda>p.
     script_of (cbind (load_token tok) id_of_token) (\<lambda>i.
       call_rest (On_plans (Create_plan_call
           (p\<lparr>cp_authorization := i, cp_start_time := ce_now e, cp_end_time := dt_plus (ce_now e) (minutes 5)\<rparr>)))
         (\<lambda>r. show_then (print_flight_plan (ce_texts e) (the_plan r)) (Halt True))))"

definition plan_flight :: "command_env \<Rightarrow> plan_flight_flags \<Rightarrow> script action" where
  "plan_flight e f =
     cbind (config_path e (common_flags.truncate f)) (\<lambda>cp. cbind (token_path e (common_flags.truncate f)) (\<lambda>tp.
       reading e cp (\<lambda>config. cbind (load_configuration e config) (\<lambda>c.
         demand (given (pf_plan_file f)) (context_and_client e c
           (read_or_idle e tp (\<lambda>tok. read_or_idle e (the (pf_plan_file f)) (\<lambda>plan.
              if pf_update f then update_plan_script e plan tok else create_plan_script e plan tok))))))))"

end
