(* ===== verification/Query_Commands.thy ===== *)
theory Query_Commands
  imports Commands
begin

text \<open>
  The commands that query the services: pilots and aircraft, rules, airspaces, advisories, status
  and weather.
\<close>

subsection \<open>Pilots and aircraft\<close>

record pilot_flags = common_flags +
  lg_pilot_id :: "string option"

definition aircrafts_script :: "command_env \<Rightarrow> string \<Rightarrow> reply \<Rightarrow> script" where
  "aircrafts_script e i r =
     call_rest (On_pilots (Aircrafts_call i (pi_id (the_pilot r)))) (\<lambda>a.
       show_then (print_pilot_and_aircrafts (ce_texts e) (the_pilot r) (the_aircrafts a)) (Halt True))"

text \<open>
  An empty \<open>pilot-id\<close> is only logged. The id of the parameters of \<open>for_id\<close> is never set.
\<close>

definition pilot_command :: "command_env \<Rightarrow> pilot_flags \<Rightarrow> script action" where
  "pilot_command e f =
     cbind (config_path e (common_flags.truncate f)) (\<lambda>cp. cbind (token_path e (common_flags.truncate f)) (\<lambda>tp.
       reading e cp (\<lambda>config. reading e tp (\<lambda>tok. cbind (load_token tok) (\<lambda>t.
         context_then_client e config (\<lambda>_. script_of (id_of_token t) (\<lambda>i.
           if lg_pilot_id f \<noteq> None
           then call_rest (On_pilots (Pilot_for_id_call i [] None True)) (aircrafts_script e i)
           else call_rest (On_pilots (Authenticated_pilot_call i None True)) (aircrafts_script e i))))))))"

record aircraft_flags = common_flags +
  ag_model_id :: "string option"
  ag_nick_name :: "string option"

definition add_aircraft :: "command_env \<Rightarrow> aircraft_flags \<Rightarrow> script action" where
  "add_aircraft e f =
     cbind (config_path e (common_flags.truncate f)) (\<lambda>cp. cbind (token_path e (common_flags.truncate f)) (\<lambda>tp.
       reading e cp (\<lambda>config. reading e tp (\<lambda>tok. cbind (load_token tok) (\<lambda>t.
         demand (given (ag_model_id f)) (demand (given (ag_nick_name f))
           (context_then_client e config (\<lambda>_. script_of (id_of_token t) (\<lambda>i.
              call_rest (On_pilots (Authenticated_pilot_call i None False)) (\<lambda>r.
                call_rest (On_pilots (Add_aircraft_call i (pi_id (the_pilot r)) (the (ag_model_id f)) (the (ag_nick_name f))))
                  (\<lambda>a. show_then (print_aircraft (ce_texts e) (the_aircraft a)) (Halt True))))))))))))"

definition aircraft_models :: "command_env \<Rightarrow> common_flags \<Rightarrow> script action" where
  "aircraft_models e f =
     cbind (config_path e f) (\<lambda>cp. cbind (token_path e f) (\<lambda>tp.
       reading e cp (\<lambda>config. reading e tp (\<lambda>tok. cbind (load_token tok) (\<lambda>t.
         context_then_client e config (\<lambda>_.
           call_rest (On_aircrafts (Models_call None None)) (\<lambda>r.
             show_then (print_models (the_models r)) (Halt True))))))))"

subsection \<open>Rules\<close>

record rules_flags = common_flags +
  rg_rulesets :: "string option"

definition fetch_rules :: "command_env \<Rightarrow> rules_flags \<Rightarrow> script action" where
  "fetch_rules e f =
     cbind (config_path e (common_flags.truncate f)) (\<lambda>cp. reading e cp (\<lambda>config.
       demand (rg_rulesets f \<noteq> None) (context_then_client e config (\<lambda>_.
         call_rest (On_rulesets (Fetch_rules_call (rg_rulesets f))) (\<lambda>r.
           show_then (print_fetched_rules (the_rulesets r)) (Halt True))))))"

record query_flags = common_flags +
  qg_geometry_file :: "string option"
  qg_id :: "string option"

text \<open>
  The commands that take an id or a file: the id wins, and a file that cannot be read is only
  noticed when the client is there.
\<close>

definition query_command ::
  "command_env \<Rightarrow> query_flags \<Rightarrow> (string \<Rightarrow> script) \<Rightarrow> (string \<Rightarrow> script) \<Rightarrow> script action" where
  "query_command e f for_id for_file =
     cbind (config_path e (common_flags.truncate f)) (\<lambda>cp. reading e cp (\<lambda>config.
       demand (qg_id f \<noteq> None \<or> qg_geometry_file f \<noteq> None) (context_then_client e config (\<lambda>_.
         case qg_id f of
           Some i \<Rightarrow> for_id i
         | None \<Rightarrow> (case qg_geometry_file f of
             Some p \<Rightarrow> read_or_idle e p for_file
           | None \<Rightarrow> Idle)))))"

definition query_rulesets :: "command_env \<Rightarrow> query_flags \<Rightarrow> script action" where
  "query_rulesets e f = query_command e f
     (\<lambda>i. call_rest (On_rulesets (Ruleset_for_id_call i)) (\<lambda>r.
        show_then (print_ruleset (the_ruleset r)) (Halt True)))
     (\<lambda>t. script_of (read_geometry t) (\<lambda>g. call_rest (On_rulesets (Rulesets_search_call (Some g))) (\<lambda>r.
        show_then (print_rulesets (the_rulesets r)) (Halt True))))"

record evaluate_flags = common_flags +
  eg_evaluation_file :: "string option"
  eg_flight_plan_id :: "string option"

definition evaluated :: "reply \<Rightarrow> script" where
  "evaluated r = show_then (print_evaluation (the_evaluation r)) (Halt True)"

definition evaluate_command :: "command_env \<Rightarrow> evaluate_flags \<Rightarrow> script action" where
  "evaluate_command e f =
     cbind (config_path e (common_flags.truncate f)) (\<lambda>cp. reading e cp (\<lambda>config.
       demand (eg_flight_plan_id f \<noteq> None \<or> given (eg_evaluation_file f)) (context_then_client e config (\<lambda>_.
         case eg_flight_plan_id f of
           Some i \<Rightarrow> call_rest (On_rulesets (Evaluate_plan_call i)) evaluated
         | None \<Rightarrow> (case eg_evaluation_file f of
             Some p \<Rightarrow> read_or_idle e p (\<lambda>t.
               script_of (cbind (json_parse t) decode_evaluate_rules) (\<lambda>p.
                 call_rest (On_rulesets (Evaluate_rules_call p)) evaluated))
           | None \<Rightarrow> Idle)))))"

subsection \<open>Airspaces and advisories\<close>

record airspace_flags = query_flags +
  xg_full :: "bool option"
  xg_date_time :: "string option"

definition day_or :: "command_env \<Rightarrow> string option \<Rightarrow> date_time cpp" where
  "day_or e t = (case t of Some t \<Rightarrow> ce_parse_iso e t | None \<Rightarrow> Ret (dt_date (ce_now e)))"

definition search_airspace :: "command_env \<Rightarrow> airspace_flags \<Rightarrow> script action" where
  "search_airspace e f = query_command e (query_flags.truncate f)
     (\<lambda>i. call_rest (On_airspaces (Airspace_for_id_call i)) (\<lambda>r.
        show_then (print_airspace (the_airspace r)) (Halt True)))
     (\<lambda>t. script_of (read_geometry t) (\<lambda>g. script_of (day_or e (xg_date_time f)) (\<lambda>d.
        call_rest (On_airspaces (Airspaces_search_call
           \<lparr>ss_types = None, ss_ignored_types = None, ss_full = xg_full f, ss_geometry = g, ss_buffer = None,
            ss_limit = None, ss_offset = None, ss_date_time = Some d\<rparr>)) (\<lambda>r.
          show_then (print_airspaces (the_airspaces r)) (Halt True)))))"

record advisory_flags = common_flags +
  dg_geometry_file :: "string option"
  dg_flight_plan_id :: "string option"
  dg_rulesets :: "string option"
  dg_start :: "string option"
  dg_end :: "string option"

text \<open>Both times if both are given, and otherwise today twice.\<close>

definition advisory_times :: "command_env \<Rightarrow> advisory_flags \<Rightarrow> (date_time \<times> date_time) cpp" where
  "advisory_times e f =
     (case (dg_start f, dg_end f) of
        (Some s, Some t) \<Rightarrow> cbind (ce_parse_iso e s) (\<lambda>s. cbind (ce_parse_iso e t) (\<lambda>t. Ret (s, t)))
      | _ \<Rightarrow> Ret (dt_date (ce_now e), dt_date (ce_now e)))"

definition advised :: "reply \<Rightarrow> script" where
  "advised r = show_then (print_advisories (the_advisories r)) (Halt True)"

definition get_advisories :: "command_env \<Rightarrow> advisory_flags \<Rightarrow> script action" where
  "get_advisories e f =
     cbind (config_path e (common_flags.truncate f)) (\<lambda>cp. reading e cp (\<lambda>config.
       demand (dg_flight_plan_id f \<noteq> None \<or> dg_geometry_file f \<noteq> None \<and> dg_rulesets f \<noteq> None)
         (context_then_client e config (\<lambda>_.
            case dg_flight_plan_id f of
              Some i \<Rightarrow> script_of (advisory_times e f) (\<lambda>(s, t).
                call_rest (On_advisory (Advisory_for_id_call i (Some s) (Some t))) advised)
            | None \<Rightarrow> (case dg_geometry_file f of
                Some p \<Rightarrow> read_or_idle e p (\<lambda>text. script_of (read_geometry text) (\<lambda>g.
                  script_of (advisory_times e f) (\<lambda>(s, t).
                    call_rest (On_advisory (Advisory_search_call
                      \<lparr>av_geometry = Some g, av_rulesets = dg_rulesets f, av_start = Some s, av_end = Some t\<rparr>))
                      advised)))
              | None \<Rightarrow> Idle)))))"

subsection \<open>Status and weather\<close>

record status_flags = common_flags +
  tg_geometry_file :: "string option"
  tg_params :: status_params

definition get_status :: "command_env \<Rightarrow> status_flags \<Rightarrow> script action" where
  "get_status e f =
     cbind (config_path e (common_flags.truncate f)) (\<lambda>cp. reading e cp (\<lambda>config.
       action_bind (case tg_geometry_file f of
                      None \<Rightarrow> Ret (Some (sp_geometry (tg_params f)))
                    | Some p \<Rightarrow> reading e p (\<lambda>t. cmap (\<lambda>g. Some (Some g)) (read_geometry t))) (\<lambda>g.
         let p = (tg_params f)\<lparr>sp_geometry := g\<rparr>
         in demand (sp_latitude p \<noteq> None) (demand (sp_longitude p \<noteq> None)
              (context_then_client e config (\<lambda>_.
                call_rest (On_status (if g = None then Status_by_point_call p else Status_by_polygon_call p)) (\<lambda>r.
                  show_then (print_status (the_status r)) (Halt True))))))))"

text \<open>The coordinates have no initialiser, and zero counts as missing.\<close>

record weather_flags = common_flags +
  wg_latitude :: "float32 option"
  wg_longitude :: "float32 option"
  wg_start :: "date_time option"
  wg_end :: "date_time option"

definition report_weather :: "command_env \<Rightarrow> weather_flags \<Rightarrow> script action" where
  "report_weather e f =
     cbind (config_path e (common_flags.truncate f)) (\<lambda>cp. reading e cp (\<lambda>config.
       cbind (deref (wg_latitude f)) (\<lambda>lat. demand (\<not> flt_eq lat 0)
         (cbind (deref (wg_longitude f)) (\<lambda>lon. demand (\<not> flt_eq lon 0)
           (context_then_client e config (\<lambda>_.
             call_rest (On_advisory (Report_weather_call
                 \<lparr>wp_latitude = lat, wp_longitude = lon, wp_start = wg_start f, wp_end = wg_end f\<rparr>)) (\<lambda>r.
               show_then (print_weather (ce_texts e) (the_weather r)) (Halt True)))))))))"

end
