(* ===== verification/Login_Commands.thy ===== *)
theory Login_Commands
  imports Query_Commands
begin

text \<open>
  The commands that write files: \<open>login\<close> with its token (src/airmap/cmds/airmap/cmd/login.cpp) and
  \<open>init\<close> with a configuration (init.cpp); and the choice of a channel by \<open>daemon\<close> (daemon.cpp).
  The editor that \<open>init\<close> starts and the creation of its directory are not modelled.
\<close>

subsection \<open>Login\<close>

record login_flags = common_flags +
  og_renew :: bool

text \<open>What the handlers of the three authentications have in common.\<close>

definition keep_token :: "command_env \<Rightarrow> string \<Rightarrow> token \<Rightarrow> script" where
  "keep_token e path t =
     show_then (print_token (Some t))
       (if ce_writable e path
        then script_of (encode_token (Some t)) (\<lambda>j. Persist path (json_dump (Some 2) 0 j) (Halt True))
        else Halt False)"

definition handle_result_for_renewed_authentication ::
  "command_env \<Rightarrow> string \<Rightarrow> token \<Rightarrow> refreshed_token \<Rightarrow> script" where
  "handle_result_for_renewed_authentication e path previous t =
     (case previous of
        Tok_oauth o1 \<Rightarrow> keep_token e path (Tok_refreshed (t\<lparr>original_token := Some o1\<rparr>))
      | Tok_refreshed r1 \<Rightarrow>
          script_of (deref (original_token r1)) (\<lambda>o1.
            keep_token e path (Tok_refreshed (t\<lparr>original_token := Some o1\<rparr>)))
      | Tok_anonymous _ \<Rightarrow> keep_token e path (Tok_refreshed t))"

definition renew_authentication :: "command_env \<Rightarrow> string \<Rightarrow> credentials \<Rightarrow> token \<Rightarrow> script" where
  "renew_authentication e path c t =
     script_of (deref (cr_oauth c)) (\<lambda>oc.
     script_of (case t of
         Tok_oauth o1 \<Rightarrow> Ret (oauth_refresh o1)
       | Tok_refreshed r1 \<Rightarrow> cbind (deref (original_token r1)) (\<lambda>o1. Ret (oauth_refresh o1))
       | Tok_anonymous _ \<Rightarrow> Ret []) (\<lambda>refresh.
       call_rest (On_auth (Renew_call
           \<lparr>rn_client_id = oc_client_id oc, rn_refresh_token = refresh, rn_grant_type = Grant_bearer,
            rn_scope = Scope_open_id\<rparr>))
         (\<lambda>r. handle_result_for_renewed_authentication e path t (the_refreshed r))))"

text \<open>Without credentials of either kind nothing is asked for.\<close>

definition request_authentication :: "command_env \<Rightarrow> string \<Rightarrow> credentials \<Rightarrow> script" where
  "request_authentication e path c =
     (case cr_oauth c of
        Some oc \<Rightarrow> call_rest (On_auth (Password_call
            \<lparr>au_oauth = oc, au_grant_type = Grant_password, au_scope = Scope_open_id_offline_access,
             au_connection = Username_password_authentication\<rparr>))
          (\<lambda>r. keep_token e path (Tok_oauth (the_oauth r)))
      | None \<Rightarrow> (case cr_anonymous c of
          Some i \<Rightarrow> call_rest (On_auth (Anonymous_call i)) (\<lambda>r. keep_token e path (Tok_anonymous (the_anonymous r)))
        | None \<Rightarrow> Idle))"

text \<open>
  The test after opening the token file is one of the flag, which is set; a file that cannot be
  read is an empty text.
\<close>

definition renew_script :: "command_env \<Rightarrow> string \<Rightarrow> credentials \<Rightarrow> script" where
  "renew_script e path c =
     script_of (load_token (case ce_file e path of Some t \<Rightarrow> t | None \<Rightarrow> [])) (\<lambda>t.
       case t of
         Some (Tok_oauth o1) \<Rightarrow>
           if oauth_refresh o1 = [] then Halt False else renew_authentication e path c (Tok_oauth o1)
       | Some (Tok_refreshed r1) \<Rightarrow>
           if original_token r1 = None then Halt False else renew_authentication e path c (Tok_refreshed r1)
       | _ \<Rightarrow> Halt False)"

definition login :: "command_env \<Rightarrow> login_flags \<Rightarrow> script action" where
  "login e f =
     cbind (config_path e (common_flags.truncate f)) (\<lambda>cp. cbind (token_path e (common_flags.truncate f)) (\<lambda>tp.
       demand (\<not> isl context_created) (reading e cp (\<lambda>config. cbind (load_configuration e config) (\<lambda>c.
         Ret (Some (with_client e c
           (if og_renew f then renew_script e tp (cc_credentials c)
            else request_authentication e tp (cc_credentials c)))))))))"

subsection \<open>Init\<close>

datatype credentials_type = Credentials_anonymous | Credentials_oauth

fun credentials_type_text :: "credentials_type \<Rightarrow> string" where
  "credentials_type_text Credentials_anonymous = ''anonymous''"
| "credentials_type_text Credentials_oauth = ''oauth''"

definition replace_marker :: string where
  "replace_marker = ''REPLACE_ME''"

definition placeholder_credentials :: "credentials_type \<Rightarrow> credentials" where
  "placeholder_credentials t =
     (let c = \<lparr>cr_api_key = replace_marker, cr_oauth = None, cr_anonymous = None\<rparr>
      in case t of
           Credentials_anonymous \<Rightarrow> c\<lparr>cr_anonymous := Some replace_marker\<rparr>
         | Credentials_oauth \<Rightarrow> c\<lparr>cr_oauth := Some
             \<lparr>oc_username = replace_marker, oc_password = replace_marker, oc_client_id = replace_marker,
              oc_device_id = replace_marker\<rparr>\<rparr>)"

text \<open>The file and what is written into it; \<open>None\<close> when it cannot be opened.\<close>

definition init_command :: "command_env \<Rightarrow> common_flags \<Rightarrow> credentials_type \<Rightarrow> (string \<times> string) action" where
  "init_command e f t =
     cbind (config_path e f) (\<lambda>cp. cbind (config_dir (ce_platform e) (cm_version f)) (\<lambda>_.
       demand (ce_writable e cp)
         (cbind (encode_configuration (default_configuration (cm_version f) (placeholder_credentials t))) (\<lambda>j.
           Ret (Some (cp, json_dump (Some 2) 0 j))))))"

subsection \<open>The daemon\<close>

datatype channel_choice =
    Serial_channel string
  | Tcp_channel string "16 word"
  | Udp_channel "16 word"

record daemon_flags = common_flags +
  ng_telemetry_host :: "string option"
  ng_telemetry_port :: "16 word option"
  ng_aircraft_id :: "string option"
  ng_serial_device :: "string option"
  ng_tcp_ip :: "string option"
  ng_tcp_port :: "16 word option"
  ng_udp_port :: "16 word option"
  ng_system_id :: "8 word option"

text \<open>The last of the channels that are given is the one that is used.\<close>

definition choose_channel :: "daemon_flags \<Rightarrow> channel_choice action" where
  "choose_channel f =
     (let serial = given (ng_serial_device f);
          tcp = given (ng_tcp_ip f) \<and> ng_tcp_port f \<noteq> None;
          udp = ng_udp_port f \<noteq> None
      in demand (serial \<or> tcp \<or> udp) (demand (\<not> (serial \<and> tcp \<and> udp))
           (Ret (Some (if udp then Udp_channel (the (ng_udp_port f))
                       else if tcp then Tcp_channel (the (ng_tcp_ip f)) (the (ng_tcp_port f))
                       else Serial_channel (the (ng_serial_device f)))))))"

text \<open>The channel, the system it is filtered for, and the configuration of the client.\<close>

definition daemon_command :: "command_env \<Rightarrow> daemon_flags \<Rightarrow> (channel_choice \<times> 8 word option \<times> configuration) action" where
  "daemon_command e f =
     cbind (config_path e (common_flags.truncate f)) (\<lambda>cp. reading e cp (\<lambda>config.
       demand (ng_telemetry_host f \<noteq> Some []) (action_bind (choose_channel f) (\<lambda>ch.
         cbind (load_configuration e config) (\<lambda>c.
           let tel = cc_telemetry c;
               tel = (case ng_telemetry_host f of Some h \<Rightarrow> tel\<lparr>ne_host := h\<rparr> | None \<Rightarrow> tel);
               tel = (case ng_telemetry_port f of Some p \<Rightarrow> tel\<lparr>ne_port := p\<rparr> | None \<Rightarrow> tel)
           in Ret (Some (ch, ng_system_id f, c\<lparr>cc_telemetry := tel\<rparr>)))))))"

text \<open>Two channels at once are accepted, and all but the last are ignored.\<close>

lemma two_channels_accepted:
  assumes "given (ng_serial_device f)" "ng_udp_port f = Some p" "ng_tcp_port f = None"
  shows "choose_channel f = Ret (Some (Udp_channel p))"
  using assms by (simp add: choose_channel_def demand_def)

end
