(* ===== verification/Command_Properties.thy ===== *)
theory Command_Properties
  imports Login_Commands Json_Text
begin

text \<open>
  What holds of the commands of the tool: those that ask a service end with the answers, and ask
  it in the name of the token that was read; the token that \<open>login\<close> keeps is the one that the
  other commands read; and a renewal that is refused leaves the command running.
\<close>

subsection \<open>The token file\<close>

fun oauth_texts :: "oauth_token \<Rightarrow> string list" where
  "oauth_texts a = [oauth_id a, oauth_access a, oauth_refresh a]"

fun token_texts :: "token \<Rightarrow> string list" where
  "token_texts (Tok_anonymous a) = [anon_id a]"
| "token_texts (Tok_oauth a) = oauth_texts a"
| "token_texts (Tok_refreshed r) =
     refreshed_id r # (case original_token r of None \<Rightarrow> [] | Some a \<Rightarrow> oauth_texts a)"

definition oauth_document :: "oauth_token \<Rightarrow> json" where
  "oauth_document t = J_object
     [(''access_token'', J_string (oauth_access t)), (''id_token'', J_string (oauth_id t)),
      (''refresh_token'', J_string (oauth_refresh t)), (''token_type'', J_string ''bearer'')]"

lemmas building = json_object_def json_set_def char_less_def
lemmas finding = json_member_def json_member_uninit_def json_count_def json_at_def json_subscript_def
  char_less_def cmap_def

lemma plain_utf8 [simp]:
  "utf8_ok ''access_token''" "utf8_ok ''id_token''" "utf8_ok ''refresh_token''" "utf8_ok ''token_type''"
  "utf8_ok ''bearer''" "utf8_ok ''type''" "utf8_ok ''anonymous''" "utf8_ok ''oauth''" "utf8_ok ''refreshed''"
  "utf8_ok ''expires_in''" "utf8_ok ''original_token''"
  by (simp_all add: utf8_ok.simps code_of_def)

lemma encode_oauth_document: "encode_oauth t = Ret (oauth_document t)"
  by (cases "oauth_kind t") (simp add: encode_oauth_def building oauth_document_def encode_oauth_type_def)

lemma oauth_document_norm [simp]: "json_norm (oauth_document t) = oauth_document t"
  by (simp add: oauth_document_def)

lemma oauth_document_writable: "list_all utf8_ok (oauth_texts t) \<Longrightarrow> json_writable (oauth_document t)"
  by (simp add: oauth_document_def char_less_def)

lemma oauth_document_not_null [simp]: "oauth_document t \<noteq> J_null"
  by (simp add: oauth_document_def)

lemma decode_oauth_document: "decode_oauth (oauth_document t) = Ret t"
  by (cases t, cases "oauth_kind t")
    (simp add: decode_oauth_def oauth_document_def finding decode_oauth_type_def)

fun token_document_of :: "token \<Rightarrow> json" where
  "token_document_of (Tok_anonymous a) =
     J_object [(''anonymous'', J_object [(''id_token'', J_string (anon_id a))]), (''type'', J_string ''anonymous'')]"
| "token_document_of (Tok_oauth a) =
     J_object [(''oauth'', oauth_document a), (''type'', J_string ''oauth'')]"
| "token_document_of (Tok_refreshed r) =
     J_object [(''refreshed'', J_object
       ([(''expires_in'', J_integer (expires_in r)), (''id_token'', J_string (refreshed_id r))] @
        (case original_token r of None \<Rightarrow> [] | Some a \<Rightarrow> [(''original_token'', oauth_document a)]) @
        [(''token_type'', J_string ''bearer'')])), (''type'', J_string ''refreshed'')]"

lemma encode_token_document: "encode_token (Some t) = Ret (token_document_of t)"
proof (cases t)
  case (Tok_refreshed r)
  then show ?thesis
    by (cases "refreshed_kind r"; cases "original_token r")
      (simp_all add: encode_token_def encode_refreshed_def building encode_oauth_type_def encode_oauth_document)
qed (simp_all add: encode_token_def encode_anonymous_def encode_oauth_document building)

lemma token_document_writable: "list_all utf8_ok (token_texts t) \<Longrightarrow> json_writable (token_document_of t)"
  by (cases t) (auto simp: char_less_def oauth_document_writable split: option.split)

lemma decode_token_document: "decode_token (json_norm (token_document_of t)) = Ret (Some t)"
proof (cases t)
  case (Tok_anonymous a)
  then show ?thesis
    by (cases a) (simp add: decode_token_def decode_anonymous_def finding token_type_names [simplified])
next
  case (Tok_oauth a)
  then show ?thesis
    by (simp add: decode_token_def decode_oauth_document finding token_type_names [simplified])
next
  case (Tok_refreshed r)
  then show ?thesis
    by (cases "refreshed_kind r"; cases r; cases "original_token r")
      (simp_all add: decode_token_def decode_refreshed_def decode_oauth_document decode_optional_def
        decode_seconds_def json_get_uint64_def decode_oauth_type_def finding token_type_names [simplified])
qed

lemma token_read_back:
  assumes "list_all utf8_ok (token_texts t)"
  shows "load_token (json_dump step 0 (token_document_of t)) = Ret (Some t)"
  by (simp add: load_token_def json_parse_dump [OF token_document_writable [OF assms]] decode_token_document)

subsection \<open>Scripts that end with their answers\<close>

text \<open>Every answer of the type of the call leads to a stop with success, every error to one with an error.\<close>

primrec settles :: "script \<Rightarrow> bool" where
  "settles Idle = False"
| "settles (Raise e) = False"
| "settles Break = False"
| "settles (Halt b) = b"
| "settles (Print t k) = settles k"
| "settles (Persist p t k) = settles k"
| "settles (Call c k) = ((\<forall>e. k (Inl e) = Halt False) \<and> (\<forall>r. fits c r \<longrightarrow> settles (k (Inr r))))"

primrec answered :: "script \<Rightarrow> (err + reply) list \<Rightarrow> bool" where
  "answered Idle = (\<lambda>as. as = [])"
| "answered (Raise e) = (\<lambda>as. as = [])"
| "answered Break = (\<lambda>as. as = [])"
| "answered (Halt b) = (\<lambda>as. as = [])"
| "answered (Print t k) = answered k"
| "answered (Persist p t k) = answered k"
| "answered (Call c k) = (\<lambda>as.
     case as of
       [] \<Rightarrow> False
     | Inl e # as \<Rightarrow> as = []
     | Inr r # as \<Rightarrow> fits c r \<and> answered (k (Inr r)) as)"

lemma settled_serve:
  assumes "settles s" "answered s as"
  shows "\<exists>co'. serve s (map Answer as @ evs) co = (co', Exited (list_all (\<lambda>a. \<not> isl a) as))"
  using assms
proof (induction s arbitrary: as co)
  case (Call c k)
  show ?case
  proof (cases as)
    case Nil
    with Call.prems show ?thesis by simp
  next
    case (Cons a as')
    show ?thesis
    proof (cases a)
      case (Inl e)
      with Call.prems Cons show ?thesis by simp
    next
      case (Inr r)
      with Call.prems Cons have "settles (k a)" "answered (k a) as'" by simp_all
      with Call.IH [OF rangeI] Cons Inr show ?thesis by simp
    qed
  qed
qed simp_all

definition orderly :: "script \<Rightarrow> bool" where
  "orderly s \<longleftrightarrow> (case s of Call _ _ \<Rightarrow> settles s | _ \<Rightarrow> True)"

lemma orderly_simps [simp]:
  "orderly Idle" "orderly (Raise e)" "orderly Break" "orderly (Halt b)" "orderly (Print t s)"
  "orderly (Call c k) \<longleftrightarrow> settles (Call c k)"
  by (simp_all add: orderly_def)

lemma orderly_script_of: "(\<And>x. m = Ret x \<Longrightarrow> orderly (k x)) \<Longrightarrow> orderly (script_of m k)"
  by (cases m) (simp_all add: script_of_def)

lemma client_created_value: "client_created e c = Ret r \<Longrightarrow> r = Inr ()"
  unfolding client_created_def cmap_def cbind_eq_Ret by blast

lemma orderly_with_client: "orderly s \<Longrightarrow> orderly (with_client e c s)"
  unfolding with_client_def by (rule orderly_script_of) (auto dest: client_created_value)

lemma settles_call_rest: "settles (call_rest c ok) \<longleftrightarrow> (\<forall>r. fits (Rest_call c) r \<longrightarrow> settles (ok r))"
  by (simp add: call_rest_def on_success_def)

lemma orderly_call_rest: "(\<And>r. fits (Rest_call c) r \<Longrightarrow> settles (ok r)) \<Longrightarrow> orderly (call_rest c ok)"
  using settles_call_rest [of c ok] by (simp add: call_rest_def)

lemma settles_show_then [simp]: "settles (show_then (print_table ops) s) = settles s"
  by (simp add: show_then_def script_of_def print_table_text)

lemma orderly_cases:
  "(b \<Longrightarrow> orderly s) \<Longrightarrow> (\<not> b \<Longrightarrow> orderly t) \<Longrightarrow> orderly (if b then s else t)"
  "(x = None \<Longrightarrow> orderly s) \<Longrightarrow> (\<And>y. x = Some y \<Longrightarrow> orderly (f y)) \<Longrightarrow>
     orderly (case x of None \<Rightarrow> s | Some y \<Rightarrow> f y)"
  "(\<And>y z. p = (y, z) \<Longrightarrow> orderly (g y z)) \<Longrightarrow> orderly (case p of (y, z) \<Rightarrow> g y z)"
  by (auto split: option.split prod.split)

lemma orderly_read_or_idle: "(\<And>t. orderly (k t)) \<Longrightarrow> orderly (read_or_idle e p k)"
  by (simp add: read_or_idle_def split: option.split)

lemmas orderly_intros =
  orderly_script_of orderly_with_client orderly_call_rest orderly_cases orderly_read_or_idle

text \<open>The commands that ask a service, all but \<open>monitor-traffic\<close> and \<open>login\<close>.\<close>

definition service_commands :: "command_env \<Rightarrow> script action set" where
  "service_commands e =
     range (end_flight e) \<union> range (start_flight_comms e) \<union> range (end_flight_comms e) \<union>
     range (create_flight e) \<union> range (submit_flight e) \<union> range (render_briefing e) \<union>
     range (plan_flight e) \<union> range (pilot_command e) \<union> range (add_aircraft e) \<union>
     range (aircraft_models e) \<union> range (fetch_rules e) \<union> range (query_rulesets e) \<union>
     range (evaluate_command e) \<union> range (search_airspace e) \<union> range (get_advisories e) \<union>
     range (get_status e) \<union> range (report_weather e)"

lemma reading_Some: "reading e p k = Ret (Some s) \<longleftrightarrow> (\<exists>t. ce_file e p = Some t \<and> k t = Ret (Some s))"
  by (auto simp: reading_def split: option.splits)

lemmas command_started =
  cbind_eq_Ret reading_Some demand_Some action_bind_Some context_then_client_def context_and_client_def

lemma orderly_flight_command:
  assumes "flight_command e f k = Ret (Some s)" "\<And>i j. orderly (k i j)"
  shows "orderly s"
  using assms(1) by (auto simp: flight_command_def command_started intro!: orderly_intros assms(2))

lemma orderly_plan_command:
  assumes "plan_command e f call text = Ret (Some s)"
    and "\<And>i j r. fits (Rest_call (On_plans (call i j))) r \<Longrightarrow> settles (show_then (text r) (Halt True))"
  shows "orderly s"
  using assms(1) by (auto simp: plan_command_def command_started intro!: orderly_intros assms(2))

lemma orderly_query_command:
  assumes "query_command e f for_id for_file = Ret (Some s)" "\<And>i. orderly (for_id i)" "\<And>t. orderly (for_file t)"
  shows "orderly s"
  using assms(1) by (auto simp: query_command_def command_started intro!: orderly_intros assms(2,3))

lemma orderly_plan_scripts: "orderly (update_plan_script e p t)" "orderly (create_plan_script e p t)"
  by (simp_all add: update_plan_script_def create_plan_script_def print_flight_plan_def orderly_intros)

lemma orderly_aircrafts: "settles (aircrafts_script e i r)"
  by (simp add: aircrafts_script_def settles_call_rest print_pilot_and_aircrafts_def)

lemma orderly_flight_commands:
  "end_flight e f1 = Ret (Some s) \<Longrightarrow> orderly s"
  "start_flight_comms e f1 = Ret (Some s) \<Longrightarrow> orderly s"
  "end_flight_comms e f1 = Ret (Some s) \<Longrightarrow> orderly s"
  "create_flight e f2 = Ret (Some s) \<Longrightarrow> orderly s"
  "submit_flight e f3 = Ret (Some s) \<Longrightarrow> orderly s"
  "render_briefing e f3 = Ret (Some s) \<Longrightarrow> orderly s"
  "plan_flight e f4 = Ret (Some s) \<Longrightarrow> orderly s"
  subgoal unfolding end_flight_def by (erule orderly_flight_command) (simp add: orderly_call_rest print_defs)
  subgoal unfolding start_flight_comms_def by (erule orderly_flight_command) (simp add: orderly_call_rest print_defs)
  subgoal unfolding end_flight_comms_def by (erule orderly_flight_command) (simp add: orderly_call_rest)
  subgoal by (auto simp: create_flight_def command_started Let_def print_flight_def intro!: orderly_intros)
  subgoal unfolding submit_flight_def by (erule orderly_plan_command) (simp add: print_defs)
  subgoal unfolding render_briefing_def by (erule orderly_plan_command) (simp add: print_defs)
  subgoal by (auto simp: plan_flight_def command_started intro!: orderly_intros orderly_plan_scripts)
  done

lemma orderly_query_commands:
  "pilot_command e f1 = Ret (Some s) \<Longrightarrow> orderly s"
  "add_aircraft e f2 = Ret (Some s) \<Longrightarrow> orderly s"
  "aircraft_models e f3 = Ret (Some s) \<Longrightarrow> orderly s"
  "fetch_rules e f4 = Ret (Some s) \<Longrightarrow> orderly s"
  "query_rulesets e f5 = Ret (Some s) \<Longrightarrow> orderly s"
  "evaluate_command e f6 = Ret (Some s) \<Longrightarrow> orderly s"
  "search_airspace e f7 = Ret (Some s) \<Longrightarrow> orderly s"
  "get_advisories e f8 = Ret (Some s) \<Longrightarrow> orderly s"
  "get_status e f9 = Ret (Some s) \<Longrightarrow> orderly s"
  "report_weather e f10 = Ret (Some s) \<Longrightarrow> orderly s"
  subgoal by (auto simp: pilot_command_def command_started intro!: orderly_intros orderly_aircrafts)
  subgoal by (auto simp: add_aircraft_def command_started settles_call_rest print_aircraft_def intro!: orderly_intros)
  subgoal by (auto simp: aircraft_models_def command_started print_models_def intro!: orderly_intros)
  subgoal by (auto simp: fetch_rules_def command_started print_fetched_rules_def intro!: orderly_intros)
  subgoal unfolding query_rulesets_def by (erule orderly_query_command) (simp_all add: orderly_intros print_defs)
  subgoal by (auto simp: evaluate_command_def command_started evaluated_def print_evaluation_def intro!: orderly_intros)
  subgoal unfolding search_airspace_def by (erule orderly_query_command) (simp_all add: orderly_intros print_defs)
  subgoal by (auto simp: get_advisories_def command_started advised_def print_advisories_def intro!: orderly_intros)
  subgoal by (auto simp: get_status_def command_started Let_def print_status_def intro!: orderly_intros)
  subgoal by (auto simp: report_weather_def command_started print_weather_def intro!: orderly_intros)
  done

lemma service_command_orderly: "a \<in> service_commands e \<Longrightarrow> a = Ret (Some s) \<Longrightarrow> orderly s"
  unfolding service_commands_def
  by (elim UnE imageE; metis orderly_flight_commands [of e] orderly_query_commands [of e])

subsection \<open>A sample environment\<close>

definition sample_config :: json where
  "sample_config = J_object [(''sso'', J_object []), (''telemetry'', J_object []), (''traffic'', J_object [])]"

definition sample_env :: "command_env \<Rightarrow> string \<Rightarrow> command_env" where
  "sample_env e tok = e
     \<lparr>ce_platform := (ce_platform e)\<lparr>pe_variable := \<lambda>_. None\<rparr>,
      ce_file := [''c'' \<mapsto> json_dump None 0 sample_config, ''t'' \<mapsto> tok],
      ce_writable := \<lambda>_. True, ce_port_of := \<lambda>_. Ret 443,
      ce_configuration := default_configuration Version_production
        \<lparr>cr_api_key = [], cr_oauth = None, cr_anonymous = Some ''u''\<rparr>\<rparr>"

definition sample_flags :: common_flags where
  "sample_flags = \<lparr>cm_version = Version_production, cm_config_file = Some ''c'', cm_token_file = Some ''t''\<rparr>"

lemma sample_config_loaded: "load_configuration e (json_dump None 0 sample_config) = Ret (ce_configuration e)"
proof -
  have "utf8_ok ''sso''" "utf8_ok ''telemetry''" "utf8_ok ''traffic''" by (simp_all add: utf8_ok.simps code_of_def)
  then have "json_writable sample_config" by (simp add: sample_config_def char_less_def)
  from json_parse_dump [OF this] have "json_parse (json_dump None 0 sample_config) = Ret (json_norm sample_config)" .
  also have "json_norm sample_config = sample_config" by (simp add: sample_config_def)
  finally have "json_parse (json_dump None 0 sample_config) = Ret sample_config" .
  moreover have "decode_configuration sample_config c = Ret c" for c
    by (simp add: decode_configuration_def decode_endpoint_def sample_config_def
        json_member_def json_count_def json_subscript_def char_less_def)
  ultimately show ?thesis by (simp add: load_configuration_def)
qed

definition sample_token :: string where
  "sample_token = json_dump None 0 (token_document_of (Tok_anonymous \<lparr>anon_id = ''i''\<rparr>))"

lemma sample_token_read: "load_token sample_token = Ret (Some (Tok_anonymous \<lparr>anon_id = ''i''\<rparr>))"
proof -
  have "list_all utf8_ok (token_texts (Tok_anonymous \<lparr>anon_id = ''i''\<rparr>))" by (simp add: utf8_ok.simps code_of_def)
  then show ?thesis unfolding sample_token_def by (rule token_read_back)
qed

lemma sample_client: "client_created (sample_env e tok) c = Ret (Inr ())"
proof -
  have "\<exists>x. service_requester (\<lambda>_. Ret 443) (\<lambda>_. None) c s = Ret x" for s
    using service_route_total [of s "cc_version c"]
    by (cases s) (auto simp: service_requester_def requester_for_def sso_requester_def env_get_def
        request_factory_for_protocol_def returns_iff)
  then show ?thesis
    by (auto simp: client_created_def sample_env_def cmap_def cbind_eq_Ret)
qed

lemma sample_simps [simp]:
  "ce_file (sample_env e tok) ''c'' = Some (json_dump None 0 sample_config)"
  "ce_file (sample_env e tok) ''t'' = Some tok" "ce_writable (sample_env e tok) p"
  "cr_anonymous (cc_credentials (ce_configuration (sample_env e tok))) = Some ''u''"
  "cr_oauth (cc_credentials (ce_configuration (sample_env e tok))) = None"
  by (simp_all add: sample_env_def default_configuration_def default_production_configuration_def)

lemmas running_sample =
  config_path_def token_path_def reading_def demand_def context_created_def context_then_client_def
  with_client_def script_of_def sample_client sample_config_loaded

text \<open>
  C34. A command that asks a service ends when it is answered: with success if every answer is
  one, with an error at the first that is not. This is any of the seventeen commands that reach their
  call, whatever their flags and files; a command of two calls makes the second only
  after the first has succeeded.
\<close>

theorem answered_command_exits:
  assumes "a \<in> service_commands e" "a = Ret (Some (Call c k))" "answered (Call c k) as"
  shows "\<exists>co. run_command a (map Answer as @ evs) = (co, Exited (list_all (\<lambda>x. \<not> isl x) as))"
proof -
  have "settles (Call c k)" using service_command_orderly [OF assms(1,2)] by simp
  from settled_serve [OF this assms(3)] assms(2) show ?thesis by (simp add: run_command_def)
qed

theorem answered_command_exits_witness:
  "\<forall>e. \<exists>co. run_command (fetch_rules (sample_env e []) (common_flags.extend sample_flags \<lparr>rg_rulesets = Some ''r''\<rparr>))
     [Answer (Inr (Rulesets_reply []))] = (co, Exited True)"
proof
  fix e
  let ?e = "sample_env e []" and ?f = "common_flags.extend sample_flags \<lparr>rg_rulesets = Some ''r''\<rparr>"
  let ?c = "Rest_call (On_rulesets (Fetch_rules_call (Some ''r'')))"
  let ?k = "on_success (\<lambda>r. show_then (print_fetched_rules (the_rulesets r)) (Halt True))"
  have started: "fetch_rules ?e ?f = Ret (Some (Call ?c ?k))"
    by (simp add: fetch_rules_def running_sample common_flags.defs sample_flags_def call_rest_def)
  have "answered (Call ?c ?k) [Inr (Rulesets_reply [])]"
    by (simp add: fits_def on_success_def show_then_def script_of_def print_fetched_rules_def print_table_text)
  from answered_command_exits [OF _ started this, of ?e "[]"]
  show "\<exists>co. run_command (fetch_rules ?e ?f) [Answer (Inr (Rulesets_reply []))] = (co, Exited True)"
    by (simp add: service_commands_def)
qed

text \<open>
  A file that a query cannot read leaves nothing to wait for: only a signal ends the command.
\<close>

lemma unreadable_query_goes_on:
  assumes "query_command e f a b = Ret (Some s)" "qg_id f = None" "qg_geometry_file f = Some p" "ce_file e p = None"
    and "client_created e = (\<lambda>_. Ret (Inr ()))"
  shows "run_command (query_command e f a b) evs =
    (blank_console, if Interrupt \<in> set evs then Exited True else Serving)"
proof -
  have "s = Idle"
    using assms by (auto simp: query_command_def command_started with_client_def script_of_def read_or_idle_def)
  with assms(1) show ?thesis by (simp add: run_command_def await_signal_def)
qed

subsection \<open>In whose name\<close>

text \<open>The calls a script makes, whatever it is answered.\<close>

inductive performs :: "script \<Rightarrow> client_call \<Rightarrow> bool" where
  asked: "performs (Call c k) c"
| after_value: "fits c r \<Longrightarrow> performs (k (Inr r)) d \<Longrightarrow> performs (Call c k) d"
| after_error: "performs (k (Inl x)) d \<Longrightarrow> performs (Call c k) d"
| printed: "performs s d \<Longrightarrow> performs (Print t s) d"
| persisted: "performs s d \<Longrightarrow> performs (Persist p t s) d"

inductive_simps performs_simps [simp]:
  "performs Idle d" "performs (Raise e) d" "performs Break d" "performs (Halt b) d"
  "performs (Print t s) d" "performs (Persist p t s) d"

inductive_simps performs_Call: "performs (Call c k) d"

fun call_authorization :: "client_call \<Rightarrow> string option" where
  "call_authorization (Rest_call c) = call_token c"
| "call_authorization (Traffic_call flight token) = Some token"
| "call_authorization (Timer_call wait) = None"

definition speaks_for :: "string \<Rightarrow> script \<Rightarrow> bool" where
  "speaks_for i s \<longleftrightarrow> (\<forall>c. performs s c \<longrightarrow> call_authorization c = Some i)"

lemma speaks_for_simps [simp]:
  "speaks_for i Idle" "speaks_for i (Raise e)" "speaks_for i Break" "speaks_for i (Halt b)"
  "speaks_for i (Print t s) = speaks_for i s"
  by (simp_all add: speaks_for_def)

lemma speaks_for_script_of: "(\<And>x. m = Ret x \<Longrightarrow> speaks_for i (k x)) \<Longrightarrow> speaks_for i (script_of m k)"
  by (cases m) (simp_all add: script_of_def)

lemma speaks_for_with_client: "speaks_for i s \<Longrightarrow> speaks_for i (with_client e c s)"
  unfolding with_client_def by (rule speaks_for_script_of) (auto split: sum.splits)

lemma speaks_for_show_then: "speaks_for i s \<Longrightarrow> speaks_for i (show_then t s)"
  unfolding show_then_def by (rule speaks_for_script_of) simp

lemma speaks_for_call:
  "call_authorization c = Some i \<Longrightarrow> (\<And>r. fits c r \<Longrightarrow> speaks_for i (ok r)) \<Longrightarrow>
     speaks_for i (Call c (on_success ok))"
  by (auto simp: speaks_for_def performs_Call on_success_def)

lemma speaks_for_call_rest:
  "call_token c = Some i \<Longrightarrow> (\<And>r. fits (Rest_call c) r \<Longrightarrow> speaks_for i (ok r)) \<Longrightarrow> speaks_for i (call_rest c ok)"
  unfolding call_rest_def by (rule speaks_for_call) simp_all

lemma speaks_for_read_or_idle:
  "(\<And>t. ce_file e p = Some t \<Longrightarrow> speaks_for i (k t)) \<Longrightarrow> speaks_for i (read_or_idle e p k)"
  by (simp add: read_or_idle_def split: option.split)

lemma speaks_for_if:
  "(b \<Longrightarrow> speaks_for i s) \<Longrightarrow> (\<not> b \<Longrightarrow> speaks_for i t) \<Longrightarrow> speaks_for i (if b then s else t)"
  by simp

lemmas speaks_for_intros =
  speaks_for_script_of speaks_for_with_client speaks_for_show_then speaks_for_call speaks_for_call_rest
  speaks_for_read_or_idle speaks_for_if

definition read_token_id :: "string \<Rightarrow> string cpp" where
  "read_token_id text = cbind (load_token text) id_of_token"

text \<open>The commands that act for a pilot, with the token file at \<open>path\<close>.\<close>

definition token_commands :: "command_env \<Rightarrow> string \<Rightarrow> script action set" where
  "token_commands e path =
     {end_flight e f |f. token_path e (common_flags.truncate f) = Ret path} \<union>
     {start_flight_comms e f |f. token_path e (common_flags.truncate f) = Ret path} \<union>
     {end_flight_comms e f |f. token_path e (common_flags.truncate f) = Ret path} \<union>
     {monitor_traffic e f |f.
        token_path e (common_flags.truncate (f\<lparr>cm_version := Version_production\<rparr>)) = Ret path} \<union>
     {create_flight e f |f. token_path e (common_flags.truncate f) = Ret path} \<union>
     {submit_flight e f |f. token_path e (common_flags.truncate f) = Ret path} \<union>
     {render_briefing e f |f. token_path e (common_flags.truncate f) = Ret path} \<union>
     {plan_flight e f |f. token_path e (common_flags.truncate f) = Ret path} \<union>
     {pilot_command e f |f. token_path e (common_flags.truncate f) = Ret path} \<union>
     {add_aircraft e f |f. token_path e (common_flags.truncate f) = Ret path}"

lemma flight_command_speaks:
  assumes "flight_command e f k = Ret (Some s)" "token_path e (common_flags.truncate f) = Ret path"
    and "ce_file e path = Some text" "read_token_id text = Ret i" "\<And>fid. speaks_for i (k i fid)"
  shows "speaks_for i s"
  using assms(1-4)
  by (auto simp: flight_command_def command_started read_token_id_def intro!: speaks_for_intros assms(5))

lemma plan_command_speaks:
  assumes "plan_command e f call out = Ret (Some s)" "token_path e (common_flags.truncate f) = Ret path"
    and "ce_file e path = Some text" "read_token_id text = Ret i" "\<And>fid. token_for_plans (call (Some i) fid) = Some i"
  shows "speaks_for i s"
  using assms(1-4)
  by (auto simp: plan_command_def command_started read_token_id_def intro!: speaks_for_intros assms(5))

lemma plan_scripts_speak:
  assumes "read_token_id text = Ret i"
  shows "speaks_for i (update_plan_script e p text)" "speaks_for i (create_plan_script e p text)"
  using assms
  by (auto simp: update_plan_script_def create_plan_script_def read_token_id_def intro!: speaks_for_intros)

lemma aircrafts_script_speaks: "speaks_for i (aircrafts_script e i r)"
  by (auto simp: aircrafts_script_def intro!: speaks_for_intros)

lemma flight_commands_speak:
  assumes "ce_file e path = Some text" "read_token_id text = Ret i"
  shows
   "end_flight e f = Ret (Some s) \<Longrightarrow> token_path e (common_flags.truncate f) = Ret path \<Longrightarrow> speaks_for i s"
   "start_flight_comms e f = Ret (Some s) \<Longrightarrow> token_path e (common_flags.truncate f) = Ret path \<Longrightarrow> speaks_for i s"
   "end_flight_comms e f = Ret (Some s) \<Longrightarrow> token_path e (common_flags.truncate f) = Ret path \<Longrightarrow> speaks_for i s"
   "monitor_traffic e f = Ret (Some s) \<Longrightarrow>
      token_path e (common_flags.truncate (f\<lparr>cm_version := Version_production\<rparr>)) = Ret path \<Longrightarrow> speaks_for i s"
  unfolding end_flight_def start_flight_comms_def end_flight_comms_def monitor_traffic_def
  by (erule flight_command_speaks [OF _ _ assms]; assumption?; (rule speaks_for_intros | simp)+)+

lemma other_commands_speak:
  assumes "ce_file e path = Some text" "read_token_id text = Ret i"
  shows
   "create_flight e f2 = Ret (Some s) \<Longrightarrow> token_path e (common_flags.truncate f2) = Ret path \<Longrightarrow> speaks_for i s"
   "submit_flight e f3 = Ret (Some s) \<Longrightarrow> token_path e (common_flags.truncate f3) = Ret path \<Longrightarrow> speaks_for i s"
   "render_briefing e f3 = Ret (Some s) \<Longrightarrow> token_path e (common_flags.truncate f3) = Ret path \<Longrightarrow> speaks_for i s"
   "plan_flight e f4 = Ret (Some s) \<Longrightarrow> token_path e (common_flags.truncate f4) = Ret path \<Longrightarrow> speaks_for i s"
   "pilot_command e f5 = Ret (Some s) \<Longrightarrow> token_path e (common_flags.truncate f5) = Ret path \<Longrightarrow> speaks_for i s"
   "add_aircraft e f6 = Ret (Some s) \<Longrightarrow> token_path e (common_flags.truncate f6) = Ret path \<Longrightarrow> speaks_for i s"
  subgoal using assms
    by (auto simp: create_flight_def command_started Let_def read_token_id_def intro!: speaks_for_intros)
  subgoal unfolding submit_flight_def by (erule plan_command_speaks [OF _ _ assms]) simp_all
  subgoal unfolding render_briefing_def by (erule plan_command_speaks [OF _ _ assms]) simp_all
  subgoal using assms
    by (auto simp: plan_flight_def command_started intro!: speaks_for_intros plan_scripts_speak)
  subgoal using assms
    by (auto simp: pilot_command_def command_started read_token_id_def
        intro!: speaks_for_intros aircrafts_script_speaks)
  subgoal using assms
    by (auto simp: add_aircraft_def command_started read_token_id_def intro!: speaks_for_intros)
  done

lemma token_commands_speak:
  assumes "a \<in> token_commands e path" "a = Ret (Some s)" "ce_file e path = Some text" "read_token_id text = Ret i"
  shows "speaks_for i s"
  using assms(1,2) unfolding token_commands_def
  by (elim UnE CollectE exE conjE)
    (metis flight_commands_speak [OF assms(3,4)] other_commands_speak [OF assms(3,4)])+

text \<open>
  C35. Whatever it is answered, a command that acts for a pilot makes every call, the second of
  two as well, with the id of the token in its token file.
\<close>

theorem commands_use_their_token:
  assumes "a \<in> token_commands e path" "a = Ret (Some s)"
    and "ce_file e path = Some text" "read_token_id text = Ret i" "performs s c"
  shows "call_authorization c = Some i"
  using token_commands_speak [OF assms(1-4)] assms(5) by (simp add: speaks_for_def)

theorem commands_use_their_token_witness:
  "\<forall>e. \<exists>s c. end_flight (sample_env e sample_token)
       (common_flags.extend sample_flags \<lparr>fg_flight_id = Some ''F''\<rparr>) = Ret (Some s) \<and>
     performs s c \<and> call_authorization c = Some ''i''"
proof
  fix e
  let ?t = "Tok_anonymous \<lparr>anon_id = ''i''\<rparr>"
  let ?e = "sample_env e sample_token"
  let ?f = "common_flags.extend sample_flags \<lparr>fg_flight_id = Some ''F''\<rparr>"
  let ?c = "Rest_call (On_flights (End_flight_call ''i'' ''F''))"
  let ?k = "on_success (\<lambda>r. show_then (print_flight_ended (ce_texts ?e) (the_end r)) (Halt True))"
  have started: "end_flight ?e ?f = Ret (Some (Call ?c ?k))"
    by (simp add: end_flight_def flight_command_def running_sample common_flags.defs sample_flags_def
        call_rest_def given_def id_of_token_def sample_token_read)
  have id: "read_token_id sample_token = Ret ''i''"
    by (simp add: read_token_id_def id_of_token_def sample_token_read)
  have path: "token_path ?e (common_flags.truncate ?f) = Ret ''t''"
    by (simp add: token_path_def sample_flags_def common_flags.defs)
  then have "end_flight ?e ?f \<in> token_commands ?e ''t''" unfolding token_commands_def by blast
  from commands_use_their_token [OF this started sample_simps(2) id asked]
  have "call_authorization ?c = Some ''i''" .
  with started show "\<exists>s c. end_flight ?e ?f = Ret (Some s) \<and> performs s c \<and> call_authorization c = Some ''i''"
    using asked by blast
qed

subsection \<open>Login\<close>

text \<open>What \<open>login\<close> keeps of an answer, after the token \<open>previous\<close>: the token that was first granted goes along.\<close>

fun kept_token :: "token option \<Rightarrow> reply \<Rightarrow> token option" where
  "kept_token previous (OAuth_reply t) = Some (Tok_oauth t)"
| "kept_token previous (Anonymous_reply t) = Some (Tok_anonymous t)"
| "kept_token (Some (Tok_oauth a)) (Refreshed_reply t) = Some (Tok_refreshed (t\<lparr>original_token := Some a\<rparr>))"
| "kept_token (Some (Tok_refreshed r)) (Refreshed_reply t) = Some (Tok_refreshed (t\<lparr>original_token := original_token r\<rparr>))"
| "kept_token _ _ = None"

fun renewable :: "token option \<Rightarrow> bool" where
  "renewable (Some (Tok_oauth a)) = (oauth_refresh a \<noteq> [])"
| "renewable (Some (Tok_refreshed r)) = (original_token r \<noteq> None)"
| "renewable _ = False"

definition text_or_empty :: "command_env \<Rightarrow> string \<Rightarrow> string" where
  "text_or_empty e path = (case ce_file e path of Some t \<Rightarrow> t | None \<Rightarrow> [])"

lemma keep_token_served:
  "\<exists>co'. serve (keep_token e path t) evs co = (co', Exited (ce_writable e path)) \<and>
     co_files co' = co_files co @
       (if ce_writable e path then [(path, json_dump (Some 2) 0 (token_document_of t))] else [])"
  by (simp add: keep_token_def show_then_def script_of_def print_token_def print_table_text encode_token_document
      print_on_def persist_on_def)

lemma login_started:
  assumes "login e f = Ret (Some s)" "token_path e (common_flags.truncate f) = Ret path"
  obtains c where "s = with_client e c (if og_renew f then renew_script e path (cc_credentials c)
                                        else request_authentication e path (cc_credentials c))"
  using assms by (auto simp: login_def command_started)

lemma with_client_Call: "with_client e c s = Call d k \<Longrightarrow> s = Call d k"
  by (auto simp: with_client_def script_of_def split: cpp.splits sum.splits)

lemma request_answered:
  assumes "request_authentication e path cr = Call c k" "fits c r"
  shows "\<exists>t. kept_token previous r = Some t \<and> k (Inr r) = keep_token e path t"
  using assms
  by (cases r) (auto simp: request_authentication_def call_rest_def on_success_def fits_def split: option.splits)

lemma script_of_Call: "script_of m f = Call c k \<longleftrightarrow> (\<exists>x. m = Ret x \<and> f x = Call c k)"
  by (cases m) (simp_all add: script_of_def)

lemma renew_authentication_Call:
  assumes "renew_authentication e path cr t = Call c k" "fits c r"
  shows "\<exists>x. r = Refreshed_reply x \<and> k (Inr r) = handle_result_for_renewed_authentication e path t x"
  using assms
  by (cases r) (auto simp: renew_authentication_def script_of_Call call_rest_def on_success_def fits_def)

lemma renewal_kept:
  assumes "renewable (Some t)"
  shows "\<exists>u. kept_token (Some t) (Refreshed_reply x) = Some u \<and>
           handle_result_for_renewed_authentication e path t x = keep_token e path u"
  using assms
  by (cases t) (auto simp: handle_result_for_renewed_authentication_def script_of_def)

lemma renew_script_Call:
  assumes "renew_script e path cr = Call c k" "load_token (text_or_empty e path) = Ret previous"
  shows "\<exists>t. previous = Some t \<and> renewable previous \<and> renew_authentication e path cr t = Call c k"
  using assms
  by (auto simp: renew_script_def text_or_empty_def script_of_Call split: option.splits token.splits if_splits)

lemma renewal_answered:
  assumes "renew_script e path cr = Call c k" "load_token (text_or_empty e path) = Ret previous" "fits c r"
  shows "\<exists>t. kept_token previous r = Some t \<and> k (Inr r) = keep_token e path t"
  using renew_script_Call [OF assms(1,2)] renew_authentication_Call [OF _ assms(3)] renewal_kept by metis

text \<open>
  C36. An answered login or renewal writes one file, the token file, and ends with success, or with
  an error when the file cannot be written; and what it wrote is read by every other command as
  the token that was granted, a renewed one with the token it was first granted from.
\<close>

theorem login_is_remembered:
  assumes "login e f = Ret (Some (Call c k))" "token_path e (common_flags.truncate f) = Ret path" "fits c r"
    and "og_renew f \<Longrightarrow> load_token (text_or_empty e path) = Ret previous"
  shows "\<exists>t co. kept_token previous r = Some t \<and>
    run_command (login e f) [Answer (Inr r)] = (co, Exited (ce_writable e path)) \<and>
    (if ce_writable e path
     then \<exists>text. co_files co = [(path, text)] \<and>
       (list_all utf8_ok (token_texts t) \<longrightarrow> load_token text = Ret (Some t))
     else co_files co = [])"
proof -
  obtain ca where "Call c k = with_client e ca
      (if og_renew f then renew_script e path (cc_credentials ca)
       else request_authentication e path (cc_credentials ca))"
    by (rule login_started [OF assms(1,2)])
  from with_client_Call [OF this [symmetric]] obtain cr where
    s: "(if og_renew f then renew_script e path cr else request_authentication e path cr) = Call c k"
    by blast
  have "\<exists>t. kept_token previous r = Some t \<and> k (Inr r) = keep_token e path t"
  proof (cases "og_renew f")
    case True
    with s have "renew_script e path cr = Call c k" by simp
    then show ?thesis using assms(4) [OF True] assms(3) by (rule renewal_answered)
  next
    case False
    with s have "request_authentication e path cr = Call c k" by simp
    then show ?thesis using assms(3) by (rule request_answered)
  qed
  then obtain t where t: "kept_token previous r = Some t" "k (Inr r) = keep_token e path t" by blast
  obtain co where co: "serve (keep_token e path t) [] blank_console = (co, Exited (ce_writable e path))"
    "co_files co = (if ce_writable e path then [(path, json_dump (Some 2) 0 (token_document_of t))] else [])"
    using keep_token_served [of e path t "[]" blank_console] by (auto simp: blank_console_def)
  have "run_command (login e f) [Answer (Inr r)] = (co, Exited (ce_writable e path))"
    by (simp add: run_command_def assms(1) t(2) co(1))
  with t(1) co(2) token_read_back [of t] show ?thesis by auto
qed

theorem login_is_remembered_witness:
  "\<forall>e. \<exists>co text. run_command (login (sample_env e []) (common_flags.extend sample_flags \<lparr>og_renew = False\<rparr>))
       [Answer (Inr (Anonymous_reply \<lparr>anon_id = ''i''\<rparr>))] = (co, Exited True) \<and>
     co_files co = [(''t'', text)] \<and> load_token text = Ret (Some (Tok_anonymous \<lparr>anon_id = ''i''\<rparr>))"
proof
  fix e
  let ?e = "sample_env e []" and ?f = "common_flags.extend sample_flags \<lparr>og_renew = False\<rparr>"
  let ?r = "Anonymous_reply \<lparr>anon_id = ''i''\<rparr>" and ?c = "Rest_call (On_auth (Anonymous_call ''u''))"
  let ?k = "on_success (\<lambda>r. keep_token ?e ''t'' (Tok_anonymous (the_anonymous r)))"
  have "login ?e ?f = Ret (Some (Call ?c ?k))"
    by (simp add: login_def running_sample common_flags.defs sample_flags_def request_authentication_def call_rest_def)
  moreover have "token_path ?e (common_flags.truncate ?f) = Ret ''t''"
    by (simp add: token_path_def sample_flags_def common_flags.defs)
  moreover have "fits ?c ?r" "\<not> og_renew ?f" "utf8_ok ''i''"
    by (simp_all add: fits_def common_flags.defs utf8_ok.simps code_of_def)
  ultimately show "\<exists>co text. run_command (login ?e ?f) [Answer (Inr ?r)] = (co, Exited True) \<and>
     co_files co = [(''t'', text)] \<and> load_token text = Ret (Some (Tok_anonymous \<lparr>anon_id = ''i''\<rparr>))"
    using login_is_remembered [of ?e ?f ?c ?k "''t''" ?r None] by auto
qed

subsection \<open>Refused renewals\<close>

text \<open>
  C37. A renewal of a token that cannot be renewed stops the context with an error before it runs,
  which does nothing: the command prints nothing, goes on until it is interrupted, and then ends with
  success.
\<close>

theorem refused_renewal_goes_on:
  assumes "og_renew f" "token_path e (common_flags.truncate f) = Ret path"
    and "config_path e (common_flags.truncate f) = Ret cp" "ce_file e cp = Some config"
    and "load_configuration e config = Ret c" "client_created e c = Ret client"
    and "load_token (text_or_empty e path) = Ret previous" "\<not> renewable previous"
  shows "run_command (login e f) evs =
    (blank_console, if Interrupt \<in> set evs then Exited True else Serving)"
proof -
  have "renew_script e path (cc_credentials c) = Halt False"
    using assms(7,8) by (auto simp: renew_script_def text_or_empty_def script_of_def
        split: option.splits token.splits)
  moreover have "client = Inr ()" by (rule client_created_value [OF assms(6)])
  ultimately have "login e f = Ret (Some (Halt False))"
    using assms(1-6)
    by (simp add: login_def demand_def context_created_def reading_def with_client_def script_of_def)
  then show ?thesis by (simp add: run_command_def await_signal_def)
qed

theorem refused_renewal_goes_on_witness:
  "\<forall>e. run_command (login (sample_env e sample_token)
       (common_flags.extend sample_flags \<lparr>og_renew = True\<rparr>)) [Interrupt] = (blank_console, Exited True)"
proof
  fix e
  let ?t = "Tok_anonymous \<lparr>anon_id = ''i''\<rparr>"
  let ?e = "sample_env e sample_token"
  let ?f = "common_flags.extend sample_flags \<lparr>og_renew = True\<rparr>"
  have "load_token (text_or_empty ?e ''t'') = Ret (Some ?t)" by (simp add: text_or_empty_def sample_token_read)
  moreover have "token_path ?e (common_flags.truncate ?f) = Ret ''t''" "config_path ?e (common_flags.truncate ?f) = Ret ''c''"
    by (simp_all add: token_path_def config_path_def sample_flags_def common_flags.defs)
  ultimately show "run_command (login ?e ?f) [Interrupt] = (blank_console, Exited True)"
    using refused_renewal_goes_on [of ?f ?e "''t''" "''c''" "json_dump None 0 sample_config"
        "ce_configuration ?e" "Inr ()" "Some ?t" "[Interrupt]"]
    by (simp add: sample_config_loaded sample_client common_flags.defs)
qed

end
