(* ===== verification/Test_Suite.thy ===== *)
theory Test_Suite
  imports Command_Properties
begin

text \<open>
  The command \<open>test\<close> (src/airmap/cmds/airmap/cmd/test.cpp) and the test suites it runs
  (test/laanc.phoenix.cpp): each plans a flight that needs an authorization, submits it, waits, looks
  for the answer of the authority, and takes everything back. The documents of the flight plans
  are the parameter \<open>documents\<close>.
\<close>

subsection \<open>The suites\<close>

datatype suite =
    Phoenix_zoo | Phoenix_manual | Phoenix_schwegg | Phoenix_university | Kentucky_florence
  | Nevada_reno | Arkansas_pine_bluff | Wyoming_teton_village

fun suite_name :: "suite \<Rightarrow> string" where
  "suite_name Phoenix_zoo = ''laanc.phoenix.zoo''"
| "suite_name Phoenix_manual = ''laanc.phoenix.manual''"
| "suite_name Phoenix_schwegg = ''laanc.phoenix.schwegg''"
| "suite_name Phoenix_university = ''laanc.phoenix.university''"
| "suite_name Kentucky_florence = ''laanc.kentucky.florence''"
| "suite_name Nevada_reno = ''laanc.nevada.reno''"
| "suite_name Arkansas_pine_bluff = ''laanc.arkansas.pinebluff''"
| "suite_name Wyoming_teton_village = ''laanc.wyoming.tetonvillage''"

definition suites :: "suite list" where
  "suites = [Phoenix_zoo, Phoenix_manual, Phoenix_schwegg, Phoenix_university, Kentucky_florence,
             Nevada_reno, Arkansas_pine_bluff, Wyoming_teton_village]"

definition find_suite :: "string \<Rightarrow> suite option" where
  "find_suite n = find (\<lambda>s. suite_name s = n) suites"

text \<open>When the flight starts: an hour of the current day, or the next time it is that hour.\<close>

fun suite_start :: "suite \<Rightarrow> date_time \<Rightarrow> date_time cpp" where
  "suite_start Phoenix_manual now = Ret (dt_plus (dt_date now) (hours 40))"
| "suite_start Phoenix_zoo now = deref (move_to_hour now 16)"
| "suite_start Phoenix_schwegg now = deref (move_to_hour now 16)"
| "suite_start Wyoming_teton_village now = deref (move_to_hour now 16)"
| "suite_start Phoenix_university now = Ret (dt_plus (dt_date now) (hours 16))"
| "suite_start Kentucky_florence now = Ret (dt_plus (dt_date now) (hours 16))"
| "suite_start Nevada_reno now = Ret (dt_plus (dt_date now) (hours 16))"
| "suite_start Arkansas_pine_bluff now = Ret (dt_plus (dt_date now) (hours 16))"

definition suite_parameters ::
  "command_env \<Rightarrow> suite \<Rightarrow> string \<Rightarrow> string \<Rightarrow> pilot \<Rightarrow> aircraft \<Rightarrow> create_plan_params cpp" where
  "suite_parameters e s document i p a =
     cbind (json_parse document) (\<lambda>j. cbind (decode_create_plan (ce_parse_iso e) j (ce_create_plan e)) (\<lambda>c.
     cbind (suite_start s (ce_now e)) (\<lambda>t.
       Ret (c\<lparr>cp_authorization := i, cp_pilot := p, cp_aircraft := Some a, cp_start_time := t,
              cp_end_time := dt_plus t (minutes 5)\<rparr>))))"

subsection \<open>What a suite expects\<close>

definition conflicting_feature :: "feature \<Rightarrow> bool" where
  "conflicting_feature f \<longleftrightarrow>
     feat_name f = ''flight_authorized'' \<and> feat_code f = Some ''laanc_authorization_required'' \<and>
     feat_status f = RS_conflicting"

definition evaluate_initial_briefing :: "briefing \<Rightarrow> bool" where
  "evaluate_initial_briefing b \<longleftrightarrow>
     length (filter conflicting_feature
       (concat (map rule_features (concat (map rs_rules (ev_rulesets (bf_evaluation b))))))) \<noteq> 0"

text \<open>The first authorization; the suite for Reno expects it to be rejected.\<close>

definition evaluate_final_briefing :: "suite \<Rightarrow> briefing \<Rightarrow> bool" where
  "evaluate_final_briefing s b =
     (case ev_authorizations (bf_evaluation b) of
        [] \<Rightarrow> False
      | a # _ \<Rightarrow> az_status a = (if s = Nevada_reno then Auth_rejected else Auth_accepted) \<and>
                 au_id (az_authority a) = ''faa-laanc'')"

definition expect :: "bool \<Rightarrow> script \<Rightarrow> script" where
  "expect b k = (if b then k else Halt False)"

subsection \<open>A run\<close>

definition take_back :: "string \<Rightarrow> string \<Rightarrow> string \<Rightarrow> script" where
  "take_back i plan flight =
     call_rest (On_plans (Delete_plan_call (Some i) plan)) (\<lambda>_.
     call_rest (On_flights (End_flight_call i flight)) (\<lambda>_.
     call_rest (On_flights (Delete_flight_call i flight)) (\<lambda>_. Halt True)))"

definition render_final_briefing :: "suite \<Rightarrow> string \<Rightarrow> string \<Rightarrow> string \<Rightarrow> script" where
  "render_final_briefing s i plan flight =
     call_rest (On_plans (Render_briefing_call (Some i) plan)) (\<lambda>b.
       expect (evaluate_final_briefing s (the_briefing b)) (take_back i plan flight))"

definition rerender_briefing :: "suite \<Rightarrow> string \<Rightarrow> string \<Rightarrow> string \<Rightarrow> script" where
  "rerender_briefing s i plan flight =
     call_rest (On_plans (Render_briefing_call (Some i) plan)) (\<lambda>_.
       Call (Timer_call (microseconds 5000000)) (on_success (\<lambda>_. render_final_briefing s i plan flight)))"

definition submit_plan :: "suite \<Rightarrow> string \<Rightarrow> string \<Rightarrow> script" where
  "submit_plan s i plan =
     call_rest (On_plans (Submit_plan_call (Some i) plan)) (\<lambda>p.
       case fp_flight_id (the_plan p) of
         None \<Rightarrow> Halt False
       | Some flight \<Rightarrow> rerender_briefing s i plan flight)"

definition planned :: "suite \<Rightarrow> string \<Rightarrow> string \<Rightarrow> script" where
  "planned s i plan =
     call_rest (On_plans (Render_briefing_call (Some i) plan)) (\<lambda>b.
       expect (evaluate_initial_briefing (the_briefing b)) (submit_plan s i plan))"

definition run_suite :: "command_env \<Rightarrow> suite \<Rightarrow> string \<Rightarrow> token option \<Rightarrow> script" where
  "run_suite e s document t =
     script_of (id_of_token t) (\<lambda>i.
     call_rest (On_pilots (Authenticated_pilot_call i None False)) (\<lambda>p.
     call_rest (On_pilots (Aircrafts_call i (pi_id (the_pilot p)))) (\<lambda>as.
       case the_aircrafts as of
         [] \<Rightarrow> Halt False
       | a # _ \<Rightarrow> script_of (suite_parameters e s document i (the_pilot p) a) (\<lambda>params.
           call_rest (On_plans (Create_plan_call params)) (\<lambda>fp. planned s i (fp_id (the_plan fp)))))))"

record test_flags = common_flags +
  sg_test_suite :: "string option"

definition test_command :: "command_env \<Rightarrow> (suite \<Rightarrow> string) \<Rightarrow> test_flags \<Rightarrow> script action" where
  "test_command e documents f =
     demand (given (sg_test_suite f)) (case find_suite (the (sg_test_suite f)) of
       None \<Rightarrow> Ret None
     | Some s \<Rightarrow>
         cbind (config_path e (common_flags.truncate f)) (\<lambda>cp. cbind (token_path e (common_flags.truncate f)) (\<lambda>tp.
           reading e cp (\<lambda>config. cbind (load_configuration e config) (\<lambda>c.
           reading e tp (\<lambda>tok. demand (\<not> isl context_created) (cbind (load_token tok) (\<lambda>t.
             Ret (Some (with_client e c (run_suite e s (documents s) t)))))))))))"

lemma find_suite_name: "find_suite (suite_name s) = Some s"
  by (cases s) (simp_all add: find_suite_def suites_def)

subsection \<open>What a run leaves behind\<close>

text \<open>The calls that were made when the answers are \<open>as\<close>.\<close>

primrec calls_made :: "script \<Rightarrow> (err + reply) list \<Rightarrow> client_call list" where
  "calls_made Idle = (\<lambda>as. [])"
| "calls_made (Raise e) = (\<lambda>as. [])"
| "calls_made Break = (\<lambda>as. [])"
| "calls_made (Halt b) = (\<lambda>as. [])"
| "calls_made (Print t k) = calls_made k"
| "calls_made (Persist p t k) = calls_made k"
| "calls_made (Call c k) = (\<lambda>as. c # (case as of [] \<Rightarrow> [] | a # as \<Rightarrow> calls_made (k a) as))"

lemma answers_only [simp]: "Interrupt \<notin> Answer ` A"
  by auto

lemma success_of_call:
  assumes "serve (Call c (on_success ok)) (map Answer as) co = (co', Exited True)"
  obtains r as' where "as = Inr r # as'" "serve (ok r) (map Answer as') co = (co', Exited True)"
    "calls_made (Call c (on_success ok)) as = c # calls_made (ok r) as'"
  using assms by (cases as) (auto simp: on_success_def split: sum.splits)

lemma take_back_success:
  assumes "serve (take_back i plan flight) (map Answer as) co = (co', Exited True)"
  shows "calls_made (take_back i plan flight) as =
    [Rest_call (On_plans (Delete_plan_call (Some i) plan)), Rest_call (On_flights (End_flight_call i flight)),
     Rest_call (On_flights (Delete_flight_call i flight))]"
  using assms unfolding take_back_def call_rest_def by (elim success_of_call) simp

definition taken_back :: "string \<Rightarrow> string \<Rightarrow> client_call list \<Rightarrow> bool" where
  "taken_back i plan cs \<longleftrightarrow> (\<exists>flight before. cs = before @
     [Rest_call (On_plans (Delete_plan_call (Some i) plan)), Rest_call (On_flights (End_flight_call i flight)),
      Rest_call (On_flights (Delete_flight_call i flight))])"

lemma taken_back_Cons: "taken_back i plan cs \<Longrightarrow> taken_back i plan (c # cs)"
  unfolding taken_back_def by (metis append_Cons)

lemma final_success:
  assumes "serve (render_final_briefing s i plan flight) (map Answer as) co = (co', Exited True)"
  shows "taken_back i plan (calls_made (render_final_briefing s i plan flight) as)"
proof -
  from assms obtain r as' where
    r: "serve (expect (evaluate_final_briefing s (the_briefing r)) (take_back i plan flight)) (map Answer as') co =
      (co', Exited True)"
    "calls_made (render_final_briefing s i plan flight) as = Rest_call (On_plans (Render_briefing_call (Some i) plan)) #
      calls_made (expect (evaluate_final_briefing s (the_briefing r)) (take_back i plan flight)) as'"
    unfolding render_final_briefing_def call_rest_def by (elim success_of_call)
  then show ?thesis
    by (auto simp: expect_def taken_back_def take_back_success split: if_splits)
qed

lemma rerender_success:
  assumes "serve (rerender_briefing s i plan flight) (map Answer as) co = (co', Exited True)"
  shows "taken_back i plan (calls_made (rerender_briefing s i plan flight) as)"
  using assms unfolding rerender_briefing_def call_rest_def
  by (elim success_of_call) (simp add: taken_back_Cons final_success)

lemma submit_success:
  assumes "serve (submit_plan s i plan) (map Answer as) co = (co', Exited True)"
  shows "taken_back i plan (calls_made (submit_plan s i plan) as)"
  using assms unfolding submit_plan_def call_rest_def
  by (elim success_of_call) (auto simp: taken_back_Cons rerender_success split: option.splits)

lemma planned_success:
  assumes "serve (planned s i plan) (map Answer as) co = (co', Exited True)"
  shows "taken_back i plan (calls_made (planned s i plan) as)"
  using assms unfolding planned_def call_rest_def
  by (elim success_of_call) (auto simp: expect_def taken_back_Cons submit_success split: if_splits)

text \<open>
  A suite that ends with success has deleted its plan and has ended and deleted the flight that came of
  it, as its last three calls.
\<close>

lemma suite_takes_everything_back:
  assumes "serve (run_suite e s document t) (map Answer as) co = (co', Exited True)"
  shows "\<exists>i plan. id_of_token t = Ret i \<and> taken_back i plan (calls_made (run_suite e s document t) as)"
proof -
  obtain i where i: "id_of_token t = Ret i"
    using assms by (cases "id_of_token t") (auto simp: run_suite_def script_of_def await_signal_def)
  let ?planned = "\<lambda>params. call_rest (On_plans (Create_plan_call params)) (\<lambda>fp. planned s i (fp_id (the_plan fp)))"
  have plan: "\<exists>plan. taken_back i plan (calls_made (?planned params) as)"
    if "serve (?planned params) (map Answer as) co = (co', Exited True)" for params as
    using that unfolding call_rest_def by (elim success_of_call) (auto intro: taken_back_Cons planned_success)
  define g where "g = (\<lambda>p as. case the_aircrafts as of
         [] \<Rightarrow> Halt False
       | a # _ \<Rightarrow> script_of (suite_parameters e s document i (the_pilot p) a) ?planned)"
  have last: "\<exists>plan. taken_back i plan (calls_made (g p r) as)"
    if "serve (g p r) (map Answer as) co = (co', Exited True)" for p r as
    using that plan unfolding g_def
    by (cases "the_aircrafts r"; cases "suite_parameters e s document i (the_pilot p) (hd (the_aircrafts r))")
      (auto simp: script_of_def await_signal_def)
  define c where "c = (\<lambda>p. Rest_call (On_pilots (Aircrafts_call i (pi_id (the_pilot p)))))"
  have run: "run_suite e s document t = Call (Rest_call (On_pilots (Authenticated_pilot_call i None False)))
      (on_success (\<lambda>p. Call (c p) (on_success (g p))))"
    by (simp add: run_suite_def i script_of_def [of "Ret i"] call_rest_def g_def c_def)
  obtain p as1 where 1: "serve (Call (c p) (on_success (g p))) (map Answer as1) co = (co', Exited True)"
    "calls_made (run_suite e s document t) as = Rest_call (On_pilots (Authenticated_pilot_call i None False)) #
      calls_made (Call (c p) (on_success (g p))) as1"
    using assms unfolding run by (rule success_of_call)
  from 1(1) obtain r as2 where 2: "serve (g p r) (map Answer as2) co = (co', Exited True)"
    "calls_made (Call (c p) (on_success (g p))) as1 = c p # calls_made (g p r) as2"
    by (rule success_of_call)
  from last [OF 2(1)] obtain plan where "taken_back i plan (calls_made (g p r) as2)" by blast
  with 1(2) 2(2) have "taken_back i plan (calls_made (run_suite e s document t) as)"
    by (simp only: taken_back_Cons)
  with i show ?thesis by blast
qed

text \<open>A briefing that is not what the suite expects stops it with the flight still there.\<close>

lemma unexpected_briefing_leaves_flight:
  assumes "\<not> evaluate_final_briefing s b"
  shows "serve (render_final_briefing s i plan flight) [Answer (Inr (Briefing_reply b))] co = (co, Exited False) \<and>
    calls_made (render_final_briefing s i plan flight) [Inr (Briefing_reply b)] =
      [Rest_call (On_plans (Render_briefing_call (Some i) plan))]"
  using assms by (simp add: render_final_briefing_def call_rest_def on_success_def expect_def)

text \<open>A flight that is planned for an hour of the current day lies in the past after it.\<close>

lemma start_in_the_past:
  "suite_start Phoenix_university (At (20 * 3600000000)) = Ret (At (16 * 3600000000))"
  by (simp add: hours_def)

end
