(* ===== verification/Other_Commands.thy ===== *)
theory Other_Commands
  imports Login_Commands Simulation Mqtt
begin

text \<open>
  The commands \<open>simulate-telemetry\<close> and \<open>monitor-mids\<close>
  (src/airmap/cmds/airmap/cmd/simulate_telemetry.cpp and monitor_mids.cpp) up to what they start: a
  thread that submits positions along a polygon, and subscriptions at a broker whose messages are only
  logged.
\<close>

subsection \<open>Telemetry\<close>

record telemetry_flags = common_flags +
  vg_host :: "string option"
  vg_port :: "16 word option"
  vg_frequency :: "16 word"
  vg_flight_id :: "string option"
  vg_encryption_key :: "string option"
  vg_geometry_file :: "string option"

definition demo_coordinate :: "string \<Rightarrow> string \<Rightarrow> coordinate" where
  "demo_coordinate lat lon =
     \<lparr>latitude = strtod lat, longitude = strtod lon, altitude = None, elevation = None\<rparr>"

definition demo_polygon :: geometry where
  "demo_polygon = G_polygon
     \<lparr>outer_ring =
       [demo_coordinate ''47.37708083985247'' ''8.546290397644043'',
        demo_coordinate ''47.37629618703235'' ''8.545989990234375'',
        demo_coordinate ''47.37667398429217'' ''8.548049926757812'',
        demo_coordinate ''47.37708083985247'' ''8.546290397644043''], inner_rings = []\<rparr>"

text \<open>The configuration of the client, the polygon, the key, the flight and the frequency.\<close>

definition simulate_telemetry ::
  "command_env \<Rightarrow> telemetry_flags \<Rightarrow> (configuration \<times> geometry \<times> string \<times> string \<times> 16 word) action" where
  "simulate_telemetry e f =
     cbind (config_path e (common_flags.truncate f)) (\<lambda>cp. reading e cp (\<lambda>config.
       demand (vg_host f \<noteq> Some []) (demand (given (vg_encryption_key f)) (demand (given (vg_flight_id f))
         (demand (\<not> isl context_created) (cbind (load_configuration e config) (\<lambda>c.
           let tel = cc_telemetry c;
               tel = (case vg_host f of Some h \<Rightarrow> tel\<lparr>ne_host := h\<rparr> | None \<Rightarrow> tel);
               tel = (case vg_port f of Some p \<Rightarrow> tel\<lparr>ne_port := p\<rparr> | None \<Rightarrow> tel)
           in action_bind (case vg_geometry_file f of
                             None \<Rightarrow> Ret (Some demo_polygon)
                           | Some p \<Rightarrow> reading e p (\<lambda>t. cmap Some (read_geometry t))) (\<lambda>g.
                Ret (Some (c\<lparr>cc_telemetry := tel\<rparr>, g, the (vg_encryption_key f), the (vg_flight_id f),
                           vg_frequency f))))))))))"

definition start_submitter :: "libm \<Rightarrow> date_time \<Rightarrow> date_time \<Rightarrow> geometry \<Rightarrow> telemetry_simulator cpp" where
  "start_submitter lm t1 t2 g = cbind (polygon_of g) (simulator_create lm t1 t2)"

text \<open>
  One round of the thread: the update it submits and the milliseconds it sleeps. A quotient by
  zero is undefined.
\<close>

definition submit_round ::
  "libm \<Rightarrow> date_time \<Rightarrow> date_time \<Rightarrow> date_time \<Rightarrow> 16 word \<Rightarrow> telemetry_simulator \<Rightarrow>
   (telemetry_update \<times> nat \<times> telemetry_simulator) cpp" where
  "submit_round lm clock now1 now2 frequency s =
     cbind (simulator_update lm clock now1 s) (\<lambda>(c, s1). cbind (deref (milliseconds_since_epoch now2)) (\<lambda>ms.
       if frequency = 0 then UB
       else Ret (Update_position \<lparr>tp_timestamp = ms, tp_latitude = latitude c, tp_longitude = longitude c,
                   tp_altitude_msl = dbl_of_int 100, tp_altitude_gl = dbl_of_int 100,
                   tp_horizontal_accuracy = dbl_of_int 2\<rparr>,
                 1000 div unat frequency, s1)))"

text \<open>Every round of a thread that has started is defined, unless the frequency is zero.\<close>

lemma submitter_started:
  "start_submitter lm t1 t2 g = Ret s \<Longrightarrow> on_ring s \<and> tm_time s = t2"
  by (auto simp: start_submitter_def cbind_eq_Ret dest: simulator_create_on_ring)

lemma submit_round_defined:
  assumes "on_ring s" "tm_time s = At t0" "frequency \<noteq> 0"
  shows "\<exists>u wait s'. submit_round lm clock (At now1) (At now2) frequency s = Ret (u, wait, s') \<and>
    on_ring s' \<and> tm_time s' = At now1"
proof -
  obtain c s' where "simulator_update lm clock (At now1) s = Ret (c, s')" "on_ring s'" "tm_time s' = At now1"
    using simulator_update_on_ring [OF assms(1,2)] by blast
  with assms(3) show ?thesis
    by (simp add: submit_round_def milliseconds_since_epoch_def epoch_def)
qed

subsection \<open>Missions of others\<close>

record mids_flags =
  hg_mids :: "string option"
  hg_host :: "string option"
  hg_port :: "16 word option"
  hg_username :: "string option"
  hg_password :: "string option"

text \<open>\<open>boost::algorithm::split\<close> at every comma.\<close>

fun split_commas :: "string \<Rightarrow> string list" where
  "split_commas [] = [[]]"
| "split_commas (c # s) =
     (if c = CHR '','' then [] # split_commas s
      else case split_commas s of [] \<Rightarrow> [[c]] | t # ts \<Rightarrow> (c # t) # ts)"

definition mids_topics :: "string \<Rightarrow> string list" where
  "mids_topics mids =
     concat (map (\<lambda>m. [''mav/telemetry/position/'' @ m, ''uav/telemetry/position/'' @ m]) (split_commas mids))"

text \<open>The broker, the credentials, and the topics once it is connected; the mids are not asked for.\<close>

definition monitor_mids :: "mids_flags \<Rightarrow> (string \<times> 16 word \<times> mqtt_credentials \<times> string list) action" where
  "monitor_mids f =
     demand (given (hg_host f)) (demand (hg_port f \<noteq> None) (demand (given (hg_username f))
       (demand (given (hg_password f)) (cbind (deref (hg_mids f)) (\<lambda>mids.
         Ret (Some (the (hg_host f), the (hg_port f),
           \<lparr>mq_username = the (hg_username f), mq_password = the (hg_password f)\<rparr>, mids_topics mids)))))))"

definition topic_scope :: "string \<Rightarrow> string" where
  "topic_scope t = takeWhile (\<lambda>c. c \<noteq> CHR ''/'') t"

lemma mids_scopes: "set (map topic_scope (mids_topics mids)) \<subseteq> {''mav'', ''uav''}"
  by (auto simp: mids_topics_def topic_scope_def)

lemma mids_missing_undefined:
  "hg_mids f = None \<Longrightarrow> given (hg_host f) \<Longrightarrow> hg_port f \<noteq> None \<Longrightarrow> given (hg_username f) \<Longrightarrow>
     given (hg_password f) \<Longrightarrow> monitor_mids f = UB"
  by (simp add: monitor_mids_def demand_def)

end
