(* ===== verification/Spec2Isabelle.thy ===== *)
theory Spec2Isabelle
  imports Geometry Token Ruleset Error Submitter_Properties Daemon Channel Http Jsend Geometry_Json Token_Json Rest_Telemetry Plan_Json Airspace Client_Context Traffic Json_Text Cli Airspace_Json Scenario_Properties Paths Monitor_Service Logging Udp Transports Test_Suite Other_Commands
begin

text \<open>
  The AirMap Platform SDK: the values and errors of its API, the services it calls, the monitor
  that turns MAVLink messages of vehicles into flights and telemetry, the simulator, and the
  command-line tool. Paths are relative to src/ of the repository; a path without a further prefix
  lies in src/airmap.

  \<^bold>\<open>How the parts interact.\<close> The tool (cmds/airmap) reads a configuration and a token, creates a
  context and a client, and calls services. A call becomes a request (rest/, codec/http, codec/json),
  passes layers that add the key and the route (net/http), is exchanged over Boost.Beast, and
  its response is analysed as a JSEND document (jsend.h) and decoded (codec/json). Telemetry leaves
  as encrypted datagrams (rest/telemetry.cpp), traffic comes in over MQTT (rest/traffic.cpp).
  The monitor (monitor/) subscribes to a MAVLink channel, tracks vehicles, submits the telemetry
  of each through a client, and streams traffic to its own clients over gRPC.

  \<^bold>\<open>Conventions.\<close> A C++ computation that may throw or be undefined has the type \<open>'a cpp\<close>
  (Prelude): \<open>Ret\<close>, \<open>Throw\<close>, \<open>UB\<close>. Reading what was never set, a second destruction, an index out
  of range, a signed overflow and a null pointer are \<open>UB\<close>; an object without initialisers is a
  parameter or \<open>UB\<close> when it is copied. Integers with a width are words; \<open>double\<close> and \<open>float\<close> are
  their bits (Float64, Float_Exact), with conversions that round as IEEE 754 does. Callbacks that
  are under way are values in the state, answered in any order. Log lines are left out.

  \<^bold>\<open>Values.\<close>
  \<^item> Optional_Outcome: include/airmap/optional.h and outcome.h, raw storage with a flag or tag.
  \<^item> Variant: the placement construction and destruction shared by every tagged union, as a
    locale \<open>tagged_union\<close> that Geometry, Token and Ruleset interpret.
  \<^item> Geometry, Token, Ruleset, Error, Airspace, Evaluation: include/airmap/{geometry,token,ruleset,
    error,airspace,evaluation,status,advisory}.h with their .cpp; copies, assignments (to itself
    too), comparisons, texts of enumerations (locale \<open>text_enum\<close>: what is written is read back).
  \<^item> Domain: the records of pilots, aircraft, flights, plans, telemetry; dates as microseconds.
  \<^item> Text_Enum, Stream_Output: words read from and numbers written to streams.
    Std_Map: \<open>std::map\<close> as a sorted list over any strict weak order (locale \<open>map_order\<close>).

  \<^bold>\<open>JSON.\<close>
  \<^item> Json (src/nlohmann/json.hpp): access, change and conversion of values.
    Json_Lexer and Json_Parser: the scanner, the parser and the serializer. The parser is a
    \<open>partial_function\<close> that is proved to end on every input. Json_Text: what is
    printed is read back.
  \<^item> Geometry_Json, Token_Json, Plan_Json, Record_Json, Airspace_Json, Rest_Codecs (codec/json,
    codec/http): encoders, decoders and queries. Jsend (jsend.h, net/http/middleware.h): from a
    response to a value or an error. Jsend, Traffic and the services take the parser and the printer
    as arguments, which \<open>json_parse\<close> and \<open>json_dump\<close> are.

  \<^bold>\<open>Services.\<close>
  \<^item> Http (net/http): classes of responses, API key and route, the encoding of the query, the
    message, and the progress of one exchange. Rest, Rest_Calls (rest/): every operation as the
    request it builds and the layers it passes.
  \<^item> Client_Context (client.cpp, boost/context.cpp): configurations, the requester of every
    service, and \<open>run\<close> and \<open>stop\<close> of a context as a step relation over threads.
  \<^item> Byte_Strings, Telemetry_Messages (pregenerated/telemetry.pb.cc), Rest_Telemetry
    (rest/telemetry.cpp): updates to messages to the encrypted datagram; Udp (net/udp) sends it.
  \<^item> Mqtt (net/mqtt/boost): subscriptions over the locale \<open>publish_client\<close>, a refinement of a set of
    live subscriptions. Traffic (rest/traffic.cpp): monitors and what they hand out.

  \<^bold>\<open>Vehicles and the monitor.\<close>
  \<^item> Channel (mavlink/channel.cpp): bytes to messages to subscribers; Transports
    (mavlink/boost): the read loops in front of it and the sessions behind a route.
  \<^item> Mavlink (mavlink/{state,mission,vehicle,vehicle_tracker}.cpp): the state of each vehicle.
  \<^item> Telemetry_Submitter (monitor/telemetry_submitter.cpp): every request and every callback.
    Submitter_System runs it with its pending requests as a step relation and proves the
    invariant once per stage; Submitter_Properties draws the conclusions.
  \<^item> Daemon (monitor/{daemon,submitting_vehicle_monitor,fan_out_traffic_monitor}.cpp): one
    submitter per vehicle. Updates_Stream and Monitor_Service (monitor/grpc, grpc/, codec/grpc):
    the two sides of the stream of traffic updates, with their executors.

  \<^bold>\<open>The tool.\<close>
  \<^item> Simulation (util/{cheap_ruler,telemetry_simulator,scenario_simulator}.cpp), Scenario_Run
    (cmd/simulate_scenario.cpp) and Scenario_Properties: scenarios and the collection of what
    their participants need.
  \<^item> Cli (util/cli.{h,cpp}), Command_Output (the tables of cmd/*.cpp), Paths (paths.cpp, platform/),
    Logging (logger.cpp, util/formatting_logger.h).
  \<^item> Command_Run: an action is its checks, then a script of calls, prints and stops, run
    before \<open>exec\<close> (\<open>launch\<close>) and inside it (\<open>serve\<close>). Commands, Query_Commands, Login_Commands,
    Other_Commands, Test_Suite: the commands themselves. Command_Properties: what they share.

  \<^bold>\<open>What the lemmas show.\<close> Tagged unions never leak or read a dead member unless the code's own
  assignments do; codecs, the JSON text, the token file, the datagram and the stream of updates
  are inverse up to the precision the code keeps; the submitter has at most one flight and never
  reads an unset value unless it is deactivated while a call is under way; vehicles do not
  interfere; chunking does not change the messages; every exchange reports once; one thread runs
  a context; every call reaches its service and carries its token; the commands end with their answers
  and ask in the name of the token that was read; the monitor always waits for the next client, until
  the first failed operation ends it. Where the code fails, the failure is stated as the code has it.

  \<^bold>\<open>Termination and bounds.\<close> No definition takes fuel. The readers of a message, of a datagram, of a
  geometry and of a number recurse on the length or size of their input (\<open>termination\<close> proofs).
  A length byte bounds flight ids to 255 characters and a two-byte length every message;
  \<open>update_message\<close> stays below 45 bytes, so only the flight id can exceed its field.

  \<^bold>\<open>Not modelled.\<close> Sockets, TLS, serial ports, threads beyond the step relations, the Qt bindings,
  the generated reflection of protobuf and the messages of flight updates, the encoding
  of MAVLink, iterators, patches and binary formats of the JSON library, the names and
  descriptions of flags. Boost's ISO texts and option parser, Boost.Filesystem, the mathematical
  library, OpenSSL, Base64, MQTT, gRPC and MAVLink's framing are parameters or give their answers
  as events.
\<close>

end
